(* ===== verification/Gateway_Prelude.thy ===== *)
theory Gateway_Prelude
  imports Complex_Main "HOL-Library.AList" "HOL-Library.Char_ord" "HOL-Library.List_Lexorder"
begin

text \<open>
  What every component of the gateway model shares: byte strings, Go maps as association
  lists with distinct keys, error results as sums, and the lemma collections the component
  theories extend.

  A Go string is a sequence of bytes, so it is a HOL \<open>string\<close> (a list of 8-bit
  characters).  A Go map whose iteration order can matter is an association list: its order
  is the order in which a \<open>range\<close> loop happens to visit the entries, and every operation
  below keeps the keys distinct.
\<close>

named_theorems gw_defs \<open>definitions that unfold safely in component proofs\<close>
named_theorems gw_results \<open>when an operation that can fail succeeds, and with what\<close>
named_theorems gw_keys \<open>how an operation on a Go map changes its keys\<close>

section \<open>Error results\<close>

fun bind_result :: "'e + 'a \<Rightarrow> ('a \<Rightarrow> 'e + 'b) \<Rightarrow> 'e + 'b" where
  "bind_result (Inl e) f = Inl e"
| "bind_result (Inr x) f = f x"

definition guard_result :: "bool \<Rightarrow> 'e \<Rightarrow> 'e + unit" where
  "guard_result b e = (if b then Inl e else Inr ())"

lemma bind_result_Inr [gw_results]:
  "bind_result m f = Inr y \<longleftrightarrow> (\<exists>x. m = Inr x \<and> f x = Inr y)"
  by (cases m) auto

lemma bind_result_Inl:
  "bind_result m f = Inl e \<longleftrightarrow> m = Inl e \<or> (\<exists>x. m = Inr x \<and> f x = Inl e)"
  by (cases m) auto

lemma guard_result_Inr [gw_results]: "guard_result b e = Inr u \<longleftrightarrow> \<not> b"
  by (simp add: guard_result_def)

lemma guard_result_Inl: "guard_result b e = Inl e' \<longleftrightarrow> b \<and> e' = e"
  by (auto simp: guard_result_def)

lemma guard_result_simps [simp]:
  "guard_result True e = Inl e" "guard_result False e = Inr ()"
  by (simp_all add: guard_result_def)

text \<open>The zero value of a Go type, for a pointer that is nil or a key that is absent.\<close>

definition or_zero :: "'a option \<Rightarrow> 'a \<Rightarrow> 'a" where
  "or_zero x z = (case x of None \<Rightarrow> z | Some y \<Rightarrow> y)"

section \<open>Go maps\<close>

type_synonym ('k, 'v) gomap = "('k \<times> 'v) list"

abbreviation keys :: "('k, 'v) gomap \<Rightarrow> 'k list" where
  "keys m \<equiv> map fst m"

abbreviation wf_map :: "('k, 'v) gomap \<Rightarrow> bool" where
  "wf_map m \<equiv> distinct (keys m)"

abbreviation map_put :: "'k \<Rightarrow> 'v \<Rightarrow> ('k, 'v) gomap \<Rightarrow> ('k, 'v) gomap" where
  "map_put \<equiv> AList.update"

abbreviation map_del :: "'k \<Rightarrow> ('k, 'v) gomap \<Rightarrow> ('k, 'v) gomap" where
  "map_del \<equiv> AList.delete"

lemma map_of_put: "map_of (map_put k v m) = (map_of m)(k \<mapsto> v)"
  by (rule update_conv')

lemma map_of_del: "map_of (map_del k m) = (map_of m)(k := None)"
  by (rule delete_conv')

lemma wf_map_put [gw_keys]: "wf_map m \<Longrightarrow> wf_map (map_put k v m)"
  by (rule distinct_update)

lemma wf_map_del [gw_keys]: "wf_map m \<Longrightarrow> wf_map (map_del k m)"
  by (rule distinct_delete)

lemma wf_map_filter [gw_keys]: "wf_map m \<Longrightarrow> wf_map (filter P m)"
  by (induction m) auto

lemma set_keys_put: "set (keys (map_put k v m)) = insert k (set (keys m))"
  by (induction m) auto

lemma set_keys_del: "set (keys (map_del k m)) = set (keys m) - {k}"
  by (simp add: AList.delete_keys)

lemma set_map_put: "set (map_put k v m) \<subseteq> insert (k, v) (set m)"
  by (induction m) auto

lemma set_map_del: "set (map_del k m) \<subseteq> set m"
  by (auto simp: AList.delete_eq)

lemma length_map_put:
  "length (map_put k v m) = (if k \<in> set (keys m) then length m else Suc (length m))"
  by (induction m) auto

lemma length_map_del_le: "length (map_del k m) \<le> length m"
  by (rule AList.length_delete_le)

lemma length_map_del:
  "wf_map m \<Longrightarrow> length (map_del k m) = (if k \<in> set (keys m) then length m - 1 else length m)"
proof -
  assume "wf_map m"
  have "length (map_del k m) = length (removeAll k (keys m))"
    by (metis AList.delete_keys length_map)
  with \<open>wf_map m\<close> show ?thesis
    by (simp add: distinct_remove1_removeAll [symmetric] length_remove1)
qed

lemma map_of_filter_fst:
  "map_of (filter (\<lambda>(k, v). P k) m) k = (if P k then map_of m k else None)"
  by (induction m) auto

lemma map_of_filter:
  "wf_map m \<Longrightarrow>
   map_of (filter (\<lambda>(k, v). P v) m) k = (case map_of m k of Some v \<Rightarrow> (if P v then Some v else None) | None \<Rightarrow> None)"
  by (induction m) (auto simp: map_of_eq_None_iff image_iff split: option.splits)

text \<open>
  A \<open>range\<close> loop over a map followed by \<open>sort.Strings\<close>: the keys in byte order.  The
  result depends on the map only, not on the order in which its entries were visited.
\<close>

definition sorted_keys :: "('k::linorder, 'v) gomap \<Rightarrow> 'k list" where
  "sorted_keys m = sort (keys m)"

lemma set_sorted_keys [simp]: "set (sorted_keys m) = set (keys m)"
  by (simp add: sorted_keys_def)

lemma sorted_keys_order_independent:
  assumes "wf_map m" "wf_map m'" "map_of m = map_of m'"
  shows "sorted_keys m = sorted_keys m'"
proof -
  have "set (keys m) = set (keys m')"
    using assms(3) by (metis dom_map_of_conv_image_fst list.set_map)
  then show ?thesis
    using assms(1,2) unfolding sorted_keys_def
    by (intro sorted_distinct_set_unique) auto
qed

lemma map_of_nonempty_iff: "m = [] \<longleftrightarrow> map_of m = Map.empty"
  by (cases m) auto

end
