(* ===== verification/Go_Bytes.thy ===== *)
theory Go_Bytes
  imports Gateway_Prelude
begin

text \<open>
  The part of Go's \<open>strings\<close>, \<open>unicode\<close> and \<open>unicode/utf8\<close> packages that the gateway
  calls, on byte strings: prefixes, splitting, rune counting and trimming of Unicode white
  space.
\<close>

section \<open>Bytes\<close>

definition code :: "char \<Rightarrow> nat" where
  "code c = of_char c"

definition byte :: "nat \<Rightarrow> char" where
  "byte n = char_of n"

lemma code_less [simp]: "code c < 256"
  by (simp add: code_def)

lemma code_byte [simp]: "n < 256 \<Longrightarrow> code (byte n) = n"
  by (simp add: code_def byte_def)

lemma byte_code [simp]: "byte (code c) = c"
  by (simp add: code_def byte_def)

lemma code_inject [simp]: "code c = code d \<longleftrightarrow> c = d"
  by (metis byte_code)

definition is_digit :: "char \<Rightarrow> bool" where
  "is_digit c \<longleftrightarrow> 48 \<le> code c \<and> code c \<le> 57"

definition is_lower :: "char \<Rightarrow> bool" where
  "is_lower c \<longleftrightarrow> 97 \<le> code c \<and> code c \<le> 122"

definition is_upper :: "char \<Rightarrow> bool" where
  "is_upper c \<longleftrightarrow> 65 \<le> code c \<and> code c \<le> 90"

definition to_lower :: "string \<Rightarrow> string" where
  "to_lower s = map (\<lambda>c. if is_upper c then byte (code c + 32) else c) s"

section \<open>Prefixes and splitting\<close>

definition has_prefix :: "string \<Rightarrow> string \<Rightarrow> bool" where
  "has_prefix s p \<longleftrightarrow> take (length p) s = p"

definition trim_prefix :: "string \<Rightarrow> string \<Rightarrow> string" where
  "trim_prefix s p = (if has_prefix s p then drop (length p) s else s)"

definition has_suffix :: "string \<Rightarrow> string \<Rightarrow> bool" where
  "has_suffix s p \<longleftrightarrow> has_prefix (rev s) (rev p)"

definition trim_suffix :: "string \<Rightarrow> string \<Rightarrow> string" where
  "trim_suffix s p = (if has_suffix s p then take (length s - length p) s else s)"

lemma has_prefix_append [simp]: "has_prefix (p @ s) p"
  by (simp add: has_prefix_def)

lemma trim_prefix_append [simp]: "trim_prefix (p @ s) p = s"
  by (simp add: trim_prefix_def)

text \<open>\<open>strings.Split\<close> with a one-byte separator: never empty, one piece per separator plus one.\<close>

fun split_on :: "char \<Rightarrow> string \<Rightarrow> string list" where
  "split_on sep [] = [[]]"
| "split_on sep (c # cs) =
     (if c = sep then [] # split_on sep cs
      else (case split_on sep cs of [] \<Rightarrow> [[c]] | p # ps \<Rightarrow> (c # p) # ps))"

lemma split_on_nonempty [simp]: "split_on sep s \<noteq> []"
  by (induction s) (auto split: list.splits)

lemma length_split_on: "length (split_on sep s) = Suc (count_list s sep)"
  by (induction s) (auto split: list.splits)

section \<open>UTF-8\<close>

definition is_cont :: "char \<Rightarrow> bool" where
  "is_cont c \<longleftrightarrow> 128 \<le> code c \<and> code c \<le> 191"

text \<open>
  The width of the rune at the front of a byte string, 0 when the bytes are not valid UTF-8
  there.  Ranges of the second byte exclude overlong forms, surrogates and values beyond
  U+10FFFF, as \<open>utf8.DecodeRune\<close> does.
\<close>

definition second_ok :: "nat \<Rightarrow> char \<Rightarrow> bool" where
  "second_ok b c \<longleftrightarrow>
     (if b = 224 then 160 else if b = 240 then 144 else 128) \<le> code c \<and>
     code c \<le> (if b = 237 then 159 else if b = 244 then 143 else 191)"

definition rune_width :: "string \<Rightarrow> nat" where
  "rune_width s =
     (case s of
        [] \<Rightarrow> 0
      | c # r \<Rightarrow>
          (let b = code c in
           if b < 128 then 1
           else if 194 \<le> b \<and> b \<le> 223 then
             (case r of c1 # _ \<Rightarrow> if is_cont c1 then 2 else 0 | _ \<Rightarrow> 0)
           else if 224 \<le> b \<and> b \<le> 239 then
             (case r of c1 # c2 # _ \<Rightarrow> if second_ok b c1 \<and> is_cont c2 then 3 else 0 | _ \<Rightarrow> 0)
           else if 240 \<le> b \<and> b \<le> 244 then
             (case r of c1 # c2 # c3 # _ \<Rightarrow>
                if second_ok b c1 \<and> is_cont c2 \<and> is_cont c3 then 4 else 0 | _ \<Rightarrow> 0)
           else 0))"

lemma rune_width_le: "rune_width s \<le> length s"
  by (auto simp: rune_width_def Let_def split: list.splits)

text \<open>\<open>len([]rune(s))\<close>: an invalid byte counts as one replacement rune.\<close>

function rune_count :: "string \<Rightarrow> nat" where
  "rune_count s = (if s = [] then 0 else Suc (rune_count (drop (max 1 (rune_width s)) s)))"
  by pat_completeness auto
termination
  by (relation "measure length") auto

declare rune_count.simps [simp del]

lemma rune_count_Nil [simp]: "rune_count [] = 0"
  by (simp add: rune_count.simps)

lemma rune_count_le: "rune_count s \<le> length s"
proof (induction s rule: rune_count.induct)
  case (1 s)
  show ?case
  proof (cases "s = []")
    case True
    then show ?thesis by simp
  next
    case False
    with 1 have "rune_count (drop (max 1 (rune_width s)) s) \<le> length s - max 1 (rune_width s)"
      by simp
    moreover have "0 < length s" using False by simp
    ultimately have "Suc (rune_count (drop (max 1 (rune_width s)) s)) \<le> length s"
      by linarith
    with False show ?thesis by (subst rune_count.simps) simp
  qed
qed

section \<open>White space\<close>

text \<open>The width of a white-space rune at the front, 0 when there is none (\<open>unicode.IsSpace\<close>).\<close>

definition space_width :: "string \<Rightarrow> nat" where
  "space_width s =
     (case map code s of
        b # r \<Rightarrow>
          (if (9 \<le> b \<and> b \<le> 13) \<or> b = 32 then 1
           else (case r of
                   b1 # r1 \<Rightarrow>
                     (if b = 194 \<and> (b1 = 133 \<or> b1 = 160) then 2
                      else (case r1 of
                              b2 # _ \<Rightarrow>
                                (if (b, b1, b2) = (225, 154, 128) \<or> (b, b1, b2) = (227, 128, 128) \<or>
                                    (b = 226 \<and> b1 = 128 \<and> (b2 \<le> 138 \<and> 128 \<le> b2 \<or> b2 = 168 \<or> b2 = 169 \<or> b2 = 175)) \<or>
                                    (b, b1, b2) = (226, 129, 159) then 3 else 0)
                            | [] \<Rightarrow> 0))
                 | [] \<Rightarrow> 0))
      | [] \<Rightarrow> 0)"

definition space_width_end :: "string \<Rightarrow> nat" where
  "space_width_end r =
     (if space_width (rev (take 1 r)) = 1 then 1
      else if space_width (rev (take 2 r)) = 2 then 2
      else if space_width (rev (take 3 r)) = 3 then 3 else 0)"

lemma space_width_le: "space_width s \<le> length s"
  by (cases s; cases "tl s"; cases "tl (tl s)") (auto simp: space_width_def)

function trim_left :: "string \<Rightarrow> string" where
  "trim_left s = (if space_width s = 0 then s else trim_left (drop (space_width s) s))"
  by pat_completeness auto
termination
proof (relation "measure length")
  fix s :: string
  assume "space_width s \<noteq> 0"
  then show "(drop (space_width s) s, s) \<in> measure length"
    using space_width_le [of s] by simp
qed simp

function trim_end_rev :: "string \<Rightarrow> string" where
  "trim_end_rev r =
     (if space_width_end r = 0 \<or> r = [] then r else trim_end_rev (drop (space_width_end r) r))"
  by pat_completeness auto
termination
  by (relation "measure length") auto

declare trim_left.simps [simp del] trim_end_rev.simps [simp del]

definition trim_space :: "string \<Rightarrow> string" where
  "trim_space s = rev (trim_end_rev (rev (trim_left s)))"

lemma trim_left_suffix: "\<exists>n. trim_left s = drop n s"
proof (induction s rule: trim_left.induct)
  case (1 s)
  show ?case
  proof (cases "space_width s = 0")
    case True
    then show ?thesis by (metis trim_left.simps drop0)
  next
    case False
    with 1 obtain n where "trim_left (drop (space_width s) s) = drop n (drop (space_width s) s)"
      by blast
    with False show ?thesis by (metis trim_left.simps drop_drop)
  qed
qed

lemma space_width_trim_left: "space_width (trim_left s) = 0"
  by (induction s rule: trim_left.induct) (metis trim_left.simps)

lemma trim_space_Nil [simp]: "trim_space [] = []"
  by (simp add: trim_space_def trim_left.simps trim_end_rev.simps space_width_def space_width_end_def)

end
