(* ===== verification/Go_Strconv.thy ===== *)
theory Go_Strconv
  imports Go_Bytes
begin

text \<open>
  The part of Go's \<open>strconv\<close>, \<open>encoding/hex\<close> and \<open>encoding/base64\<close> that the gateway
  calls: 64-bit signed integers with their wrap-around, decimal printing and parsing,
  lower-case hex and unpadded URL-safe base64, with the round trips and lengths the
  components rely on.
\<close>

section \<open>64-bit signed integers\<close>

definition int64_ok :: "int \<Rightarrow> bool" where
  "int64_ok i \<longleftrightarrow> - (2 ^ 63) \<le> i \<and> i < 2 ^ 63"

definition wrap64 :: "int \<Rightarrow> int" where
  "wrap64 i = (i + 2 ^ 63) mod 2 ^ 64 - 2 ^ 63"

lemma wrap64_id [simp]: "int64_ok i \<Longrightarrow> wrap64 i = i"
  by (simp add: int64_ok_def wrap64_def)

lemma int64_ok_wrap64 [simp]: "int64_ok (wrap64 i)"
  unfolding int64_ok_def wrap64_def
  using pos_mod_bound [of "2 ^ 64" "i + 2 ^ 63"] pos_mod_sign [of "2 ^ 64" "i + 2 ^ 63"] by simp

section \<open>Decimal integers\<close>

fun show_nat :: "nat \<Rightarrow> string" where
  "show_nat n = (if n < 10 then [byte (48 + n)] else show_nat (n div 10) @ [byte (48 + n mod 10)])"

declare show_nat.simps [simp del]

text \<open>\<open>strconv.Itoa\<close>.\<close>

definition itoa :: "int \<Rightarrow> string" where
  "itoa i = (if i < 0 then CHR ''-'' # show_nat (nat (- i)) else show_nat (nat i))"

fun read_digits :: "nat \<Rightarrow> string \<Rightarrow> nat option" where
  "read_digits n [] = Some n"
| "read_digits n (c # cs) = (if is_digit c then read_digits (10 * n + (code c - 48)) cs else None)"

definition read_nat :: "string \<Rightarrow> nat option" where
  "read_nat s = (if s = [] then None else read_digits 0 s)"

text \<open>\<open>strconv.Atoi\<close> and \<open>strconv.ParseInt(s, 10, 64)\<close>: an optional sign, digits, 64-bit range.\<close>

definition atoi :: "string \<Rightarrow> int option" where
  "atoi s =
     (case s of
        [] \<Rightarrow> None
      | c # r \<Rightarrow>
          (case (if c = CHR ''-'' \<or> c = CHR ''+'' then read_nat r else read_nat s) of
             None \<Rightarrow> None
           | Some n \<Rightarrow>
               (let i = (if c = CHR ''-'' then - int n else int n)
                in if int64_ok i then Some i else None)))"

lemma atoi_int64: "atoi s = Some i \<Longrightarrow> int64_ok i"
  by (auto simp: atoi_def Let_def split: list.splits option.splits if_splits)

lemma is_digit_byte [simp]: "d < 10 \<Longrightarrow> is_digit (byte (48 + d))"
  by (simp add: is_digit_def)

lemma read_digits_append:
  "read_digits n (xs @ ys) = (case read_digits n xs of None \<Rightarrow> None | Some m \<Rightarrow> read_digits m ys)"
  by (induction n xs rule: read_digits.induct) auto

lemma read_digits_show: "read_digits 0 (show_nat n) = Some n"
proof (induction n rule: show_nat.induct)
  case (1 n)
  show ?case
  proof (cases "n < 10")
    case True
    then show ?thesis by (subst show_nat.simps) simp
  next
    case False
    with 1 have "read_digits 0 (show_nat (n div 10)) = Some (n div 10)" by simp
    with False show ?thesis by (subst show_nat.simps) (simp add: read_digits_append)
  qed
qed

lemma show_nat_nonempty [simp]: "show_nat n \<noteq> []"
  by (subst show_nat.simps) simp

lemma show_nat_digits: "list_all is_digit (show_nat n)"
proof (induction n rule: show_nat.induct)
  case (1 n)
  then show ?case by (subst show_nat.simps) auto
qed

lemma read_nat_show [simp]: "read_nat (show_nat n) = Some n"
  by (simp add: read_nat_def read_digits_show)

lemma is_digit_not_sign: "is_digit c \<Longrightarrow> c \<noteq> CHR ''-'' \<and> c \<noteq> CHR ''+''"
  by (auto simp: is_digit_def code_def)

theorem atoi_itoa: "int64_ok i \<Longrightarrow> atoi (itoa i) = Some i"
proof (cases "i < 0")
  case True
  assume "int64_ok i"
  with True show ?thesis by (simp add: itoa_def atoi_def)
next
  case False
  assume ok: "int64_ok i"
  obtain c r where s: "show_nat (nat i) = c # r" by (cases "show_nat (nat i)") auto
  with show_nat_digits [of "nat i"] have "c \<noteq> CHR ''-'' \<and> c \<noteq> CHR ''+''"
    by (simp add: is_digit_not_sign)
  with False ok s read_nat_show [of "nat i"] show ?thesis by (simp add: itoa_def atoi_def)
qed

section \<open>Hex\<close>

definition hex_digit :: "nat \<Rightarrow> char" where
  "hex_digit n = ''0123456789abcdef'' ! n"

definition is_hex :: "char \<Rightarrow> bool" where
  "is_hex c \<longleftrightarrow> is_digit c \<or> (97 \<le> code c \<and> code c \<le> 102)"

definition hex_byte :: "char \<Rightarrow> string" where
  "hex_byte c = [hex_digit (code c div 16), hex_digit (code c mod 16)]"

text \<open>\<open>hex.EncodeToString\<close>.\<close>

definition hex_encode :: "string \<Rightarrow> string" where
  "hex_encode s = concat (map hex_byte s)"

lemma length_hex_encode [simp]: "length (hex_encode s) = 2 * length s"
  by (induction s) (simp_all add: hex_encode_def hex_byte_def)

lemma is_hex_digits: "list_all (\<lambda>n. is_hex (hex_digit n)) [0..<16]"
  by code_simp

lemma is_hex_digit: "n < 16 \<Longrightarrow> is_hex (hex_digit n)"
  using is_hex_digits by (simp add: list_all_iff)

lemma hex_encode_is_hex: "list_all is_hex (hex_encode s)"
  by (induction s) (simp_all add: hex_encode_def hex_byte_def is_hex_digit less_mult_imp_div_less)

section \<open>Unpadded URL-safe base64\<close>

definition b64_char :: "nat \<Rightarrow> char" where
  "b64_char n =
     byte (if n < 26 then 65 + n else if n < 52 then 97 + (n - 26)
           else if n < 62 then 48 + (n - 52) else if n = 62 then 45 else 95)"

text \<open>\<open>base64.RawURLEncoding.EncodeToString\<close>: three bytes to four characters, no padding.\<close>

fun b64url :: "string \<Rightarrow> string" where
  "b64url [] = []"
| "b64url [a] = [b64_char (code a div 4), b64_char (code a mod 4 * 16)]"
| "b64url [a, b] =
     [b64_char (code a div 4), b64_char (code a mod 4 * 16 + code b div 16),
      b64_char (code b mod 16 * 4)]"
| "b64url (a # b # c # r) =
     [b64_char (code a div 4), b64_char (code a mod 4 * 16 + code b div 16),
      b64_char (code b mod 16 * 4 + code c div 64), b64_char (code c mod 64)] @ b64url r"

lemma length_b64url: "length (b64url s) = (4 * length s + 2) div 3"
proof (induction s rule: b64url.induct)
  case (4 a b c r)
  have "(4 * length (a # b # c # r) + 2) div 3 = (4 * length r + 2 + 4 * 3) div 3" by simp
  also have "\<dots> = (4 * length r + 2) div 3 + 4" by (subst div_mult_self1) simp_all
  finally show ?case using 4 by simp
qed simp_all

text \<open>Characters that are safe in a URL path segment and in a header value.\<close>

definition url_safe :: "char \<Rightarrow> bool" where
  "url_safe c \<longleftrightarrow> is_digit c \<or> is_lower c \<or> is_upper c \<or> c = CHR ''-'' \<or> c = CHR ''_''"

lemma url_safe_b64_char: "n < 64 \<Longrightarrow> url_safe (b64_char n)"
  by (auto simp: b64_char_def url_safe_def is_digit_def is_lower_def is_upper_def
      simp flip: code_inject) (auto simp: code_def)

lemma sextet_bounds:
  "code a mod 4 * 16 + code b div 16 < 64" "code b mod 16 * 4 + code c div 64 < 64"
  "code a div 4 < 64" "code a mod 4 * 16 < 64" "code b mod 16 * 4 < 64"
proof -
  have "code a mod 4 < 4" "code b div 16 < 16" "code b mod 16 < 16" "code c div 64 < 4"
    by (simp_all add: less_mult_imp_div_less)
  then show "code a mod 4 * 16 + code b div 16 < 64" "code b mod 16 * 4 + code c div 64 < 64"
    "code a mod 4 * 16 < 64" "code b mod 16 * 4 < 64" by linarith+
  show "code a div 4 < 64" by (simp add: less_mult_imp_div_less)
qed

lemma b64url_safe: "list_all url_safe (b64url s)"
  by (induction s rule: b64url.induct) (simp_all add: url_safe_b64_char sextet_bounds)

end
