(* ===== verification/Go_Float.thy ===== *)
theory Go_Float
  imports Gateway_Prelude "HOL-Library.Log_Nat"
begin

text \<open>
  Go's \<open>float64\<close>: the finite binary64 values as rationals, the two infinities and NaN, with
  every arithmetic result rounded to the nearest representable value, ties to even.  The two
  zeros are one value here: no comparison or division of the gateway tells them apart.
  The main lemma is that rounding is monotone, so scaling a measurement keeps its order.
\<close>

datatype float64 = Fin rat | PosInf | NegInf | NaN

section \<open>Rounding to 53 bits\<close>

text \<open>\<open>2 powi rlog2 q \<le> q < 2 powi (rlog2 q + 1)\<close> for positive \<open>q\<close>.\<close>

definition rlog2 :: "rat \<Rightarrow> int" where
  "rlog2 q =
     (case quotient_of q of (n, d) \<Rightarrow>
        (let k = bitlen n - bitlen d in if 2 powi k \<le> q then k else k - 1))"

definition round_even :: "rat \<Rightarrow> int" where
  "round_even q =
     (let f = \<lfloor>q\<rfloor>; r = q - of_int f
      in if r < 1 / 2 then f else if 1 / 2 < r then f + 1 else if even f then f else f + 1)"

text \<open>The exponent of the unit in the last place, bounded below by the subnormal range.\<close>

definition ulp_exp :: "rat \<Rightarrow> int" where
  "ulp_exp q = max (rlog2 q - 52) (- 1074)"

definition round_pos :: "rat \<Rightarrow> rat" where
  "round_pos q = of_int (round_even (q / 2 powi ulp_exp q)) * 2 powi ulp_exp q"

definition to_float :: "rat \<Rightarrow> float64" where
  "to_float q =
     (if q = 0 then Fin 0
      else if 0 < q then (let r = round_pos q in if 2 ^ 1024 \<le> r then PosInf else Fin r)
      else (let r = round_pos (- q) in if 2 ^ 1024 \<le> r then NegInf else Fin (- r)))"

section \<open>Operations\<close>

fun float_finite :: "float64 \<Rightarrow> bool" where
  "float_finite (Fin _) = True"
| "float_finite _ = False"

definition float_of_int :: "int \<Rightarrow> float64" where
  "float_of_int i = to_float (of_int i)"

fun float_lt :: "float64 \<Rightarrow> float64 \<Rightarrow> bool" where
  "float_lt (Fin a) (Fin b) = (a < b)"
| "float_lt NaN _ = False"
| "float_lt _ NaN = False"
| "float_lt NegInf y = (y \<noteq> NegInf)"
| "float_lt (Fin _) PosInf = True"
| "float_lt _ _ = False"

fun float_le :: "float64 \<Rightarrow> float64 \<Rightarrow> bool" where
  "float_le (Fin a) (Fin b) = (a \<le> b)"
| "float_le NaN _ = False"
| "float_le _ NaN = False"
| "float_le NegInf _ = True"
| "float_le _ PosInf = True"
| "float_le _ _ = False"

fun float_sub :: "float64 \<Rightarrow> float64 \<Rightarrow> float64" where
  "float_sub (Fin a) (Fin b) = to_float (a - b)"
| "float_sub NaN _ = NaN"
| "float_sub _ NaN = NaN"
| "float_sub PosInf PosInf = NaN"
| "float_sub NegInf NegInf = NaN"
| "float_sub PosInf _ = PosInf"
| "float_sub NegInf _ = NegInf"
| "float_sub (Fin _) PosInf = NegInf"
| "float_sub (Fin _) NegInf = PosInf"

text \<open>Division; the gateway's divisors are positive, so a zero divisor counts as positive.\<close>

fun float_div :: "float64 \<Rightarrow> float64 \<Rightarrow> float64" where
  "float_div (Fin a) (Fin b) =
     (if b = 0 then (if a = 0 then NaN else if 0 < a then PosInf else NegInf) else to_float (a / b))"
| "float_div NaN _ = NaN"
| "float_div _ NaN = NaN"
| "float_div (Fin _) _ = Fin 0"
| "float_div PosInf (Fin b) = (if b < 0 then NegInf else PosInf)"
| "float_div NegInf (Fin b) = (if b < 0 then PosInf else NegInf)"
| "float_div _ _ = NaN"

fun float_abs :: "float64 \<Rightarrow> float64" where
  "float_abs (Fin a) = Fin \<bar>a\<bar>"
| "float_abs NegInf = PosInf"
| "float_abs x = x"

lemma float_finite_iff: "float_finite x \<longleftrightarrow> (\<exists>q. x = Fin q)"
  by (cases x) auto

lemma float_lt_iff_not_le:
  "float_finite x \<Longrightarrow> float_finite y \<Longrightarrow> float_lt x y \<longleftrightarrow> \<not> float_le y x"
  by (auto simp: float_finite_iff)

section \<open>Rounding is monotone\<close>

lemma powi_add_1: "(2::rat) powi (k + 1) = 2 * 2 powi k"
  by (simp add: power_int_add)

lemma rlog2_bounds:
  assumes "0 < q"
  shows "2 powi rlog2 q \<le> q \<and> q < 2 powi (rlog2 q + 1)"
proof -
  obtain n d where q: "quotient_of q = (n, d)" by (cases "quotient_of q")
  then have d: "0 < d" and div: "q = of_int n / of_int d"
    by (auto simp: quotient_of_denom_pos quotient_of_div)
  with assms have n: "0 < n" by (simp add: zero_less_divide_iff)
  define a b where "a = bitlen n" and "b = bitlen d"
  have ab: "1 \<le> a" "1 \<le> b"
    using n d bitlen_eq_zero_iff [of n] bitlen_nonneg [of n] bitlen_eq_zero_iff [of d]
      bitlen_nonneg [of d] by (auto simp: a_def b_def)
  have ints: "2 ^ nat (a - 1) \<le> n" "n < 2 ^ nat a" "2 ^ nat (b - 1) \<le> d" "d < 2 ^ nat b"
    using bitlen_bounds [OF n] bitlen_bounds [OF d] by (simp_all add: a_def b_def)
  have "(2::rat) powi (a - 1) = of_int (2 ^ nat (a - 1))" "(2::rat) powi a = of_int (2 ^ nat a)"
    "(2::rat) powi (b - 1) = of_int (2 ^ nat (b - 1))" "(2::rat) powi b = of_int (2 ^ nat b)"
    using ab by (simp_all add: power_int_nonneg_exp)
  then have rats: "2 powi (a - 1) \<le> rat_of_int n" "rat_of_int n < 2 powi a"
    "2 powi (b - 1) \<le> rat_of_int d" "rat_of_int d < 2 powi b"
    using ints by (metis of_int_le_iff, metis of_int_less_iff, metis of_int_le_iff, metis of_int_less_iff)
  have dpos: "0 < rat_of_int d" using d by simp
  have upper: "q < 2 powi (a - b + 1)"
  proof -
    have "rat_of_int n < 2 powi (a - b + 1) * 2 powi (b - 1)"
      using rats(2) by (simp flip: power_int_add)
    also have "\<dots> \<le> 2 powi (a - b + 1) * rat_of_int d"
      using rats(3) by (intro mult_left_mono) simp_all
    finally show ?thesis using dpos by (simp add: div divide_less_eq)
  qed
  have lower: "2 powi (a - b - 1) \<le> q"
  proof -
    have "2 powi (a - b - 1) * rat_of_int d \<le> 2 powi (a - b - 1) * 2 powi b"
      using rats(4) by (intro mult_left_mono) simp_all
    also have "\<dots> \<le> rat_of_int n"
      using rats(1) by (simp flip: power_int_add)
    finally show ?thesis using dpos by (simp add: div le_divide_eq)
  qed
  show ?thesis
    using upper lower by (auto simp: rlog2_def q Let_def a_def [symmetric] b_def [symmetric])
qed

lemma rlog2_mono:
  assumes "0 < a" "a \<le> b"
  shows "rlog2 a \<le> rlog2 b"
proof -
  have "(2::rat) powi rlog2 a < 2 powi (rlog2 b + 1)"
    using rlog2_bounds [of a] rlog2_bounds [of b] assms by linarith
  then have "rlog2 a < rlog2 b + 1"
    by (rule contrapos_pp) (simp add: power_int_increasing not_less)
  then show ?thesis by simp
qed

lemma round_even_mono: "p \<le> q \<Longrightarrow> round_even p \<le> round_even q"
proof -
  assume le: "p \<le> q"
  then have "\<lfloor>p\<rfloor> \<le> \<lfloor>q\<rfloor>" by (rule floor_mono)
  then consider "\<lfloor>p\<rfloor> = \<lfloor>q\<rfloor>" | "\<lfloor>p\<rfloor> + 1 \<le> \<lfloor>q\<rfloor>" by linarith
  then show ?thesis
  proof cases
    case 1
    with le show ?thesis by (auto simp: round_even_def Let_def)
  next
    case 2
    then show ?thesis by (auto simp: round_even_def Let_def)
  qed
qed

lemma round_even_of_int [simp]: "round_even (of_int i) = i"
  by (simp add: round_even_def)

lemma round_pos_le_pow:
  assumes "0 < q" "q \<le> 2 powi k" "ulp_exp q \<le> k"
  shows "round_pos q \<le> 2 powi k"
proof -
  define e where "e = ulp_exp q"
  have "q / 2 powi e \<le> 2 powi (k - e)"
    using assms(2) by (simp add: divide_le_eq flip: power_int_add)
  also have "(2::rat) powi (k - e) = of_int (2 ^ nat (k - e))"
    using assms(3) by (simp add: e_def power_int_nonneg_exp)
  finally have "round_even (q / 2 powi e) \<le> 2 ^ nat (k - e)"
    using round_even_mono round_even_of_int by metis
  then have "rat_of_int (round_even (q / 2 powi e)) \<le> rat_of_int (2 ^ nat (k - e))"
    by (rule iffD2 [OF of_int_le_iff])
  also have "rat_of_int (2 ^ nat (k - e)) = 2 powi (k - e)"
    using assms(3) by (simp add: e_def power_int_nonneg_exp)
  finally have "rat_of_int (round_even (q / 2 powi e)) * 2 powi e \<le> 2 powi (k - e) * 2 powi e"
    by (intro mult_right_mono) simp_all
  then show ?thesis by (simp add: round_pos_def e_def flip: power_int_add)
qed

lemma round_pos_ge_pow:
  assumes "0 < q" "2 powi k \<le> q" "ulp_exp q \<le> k"
  shows "2 powi k \<le> round_pos q"
proof -
  define e where "e = ulp_exp q"
  have p: "(2::rat) powi (k - e) = of_int (2 ^ nat (k - e))"
    using assms(3) by (simp add: e_def power_int_nonneg_exp)
  have "(2::rat) powi (k - e) \<le> q / 2 powi e"
    using assms(2) by (simp add: le_divide_eq flip: power_int_add)
  then have "2 ^ nat (k - e) \<le> round_even (q / 2 powi e)"
    unfolding p using round_even_mono round_even_of_int by metis
  then have "rat_of_int (2 ^ nat (k - e)) \<le> rat_of_int (round_even (q / 2 powi e))"
    by (rule iffD2 [OF of_int_le_iff])
  then have "2 powi (k - e) * 2 powi e \<le> rat_of_int (round_even (q / 2 powi e)) * 2 powi e"
    unfolding p [symmetric] by (intro mult_right_mono) simp_all
  then show ?thesis by (simp add: round_pos_def e_def flip: power_int_add)
qed

lemma round_pos_mono:
  assumes "0 < a" "a \<le> b"
  shows "round_pos a \<le> round_pos b"
proof (cases "ulp_exp a = ulp_exp b")
  case True
  have "a / 2 powi ulp_exp b \<le> b / 2 powi ulp_exp b"
    using assms(2) by (intro divide_right_mono) simp_all
  then have "rat_of_int (round_even (a / 2 powi ulp_exp b)) \<le> of_int (round_even (b / 2 powi ulp_exp b))"
    by (intro iffD2 [OF of_int_le_iff] round_even_mono)
  then show ?thesis
    unfolding round_pos_def True by (intro mult_right_mono) simp_all
next
  case False
  with rlog2_mono [OF assms] have less: "ulp_exp a < ulp_exp b" and eb: "ulp_exp b = rlog2 b - 52"
    by (auto simp: ulp_exp_def)
  have "a < 2 powi (rlog2 a + 1)" using rlog2_bounds assms(1) by blast
  also have "(2::rat) powi (rlog2 a + 1) \<le> 2 powi rlog2 b"
    using less eb by (intro power_int_increasing) (auto simp: ulp_exp_def)
  finally have "round_pos a \<le> 2 powi rlog2 b"
    using less eb assms(1) by (intro round_pos_le_pow) simp_all
  also have "\<dots> \<le> round_pos b"
    using assms eb rlog2_bounds [of b] by (intro round_pos_ge_pow) simp_all
  finally show ?thesis .
qed

lemma round_pos_nonneg: "0 < q \<Longrightarrow> 0 \<le> round_pos q"
proof -
  assume "0 < q"
  then have "0 \<le> q / 2 powi ulp_exp q" by simp
  then have "round_even 0 \<le> round_even (q / 2 powi ulp_exp q)" by (rule round_even_mono)
  then show ?thesis using round_even_of_int [of 0] by (simp add: round_pos_def)
qed

theorem to_float_mono: "p \<le> q \<Longrightarrow> float_le (to_float p) (to_float q)"
proof -
  assume le: "p \<le> q"
  consider "0 < p" | "p = 0" | "p < 0" "0 \<le> q" | "p < 0" "q < 0" by linarith
  then show ?thesis
  proof cases
    case 1
    with le round_pos_mono [of p q] show ?thesis by (auto simp: to_float_def Let_def)
  next
    case 2
    with le round_pos_nonneg [of q] show ?thesis by (auto simp: to_float_def Let_def)
  next
    case 3
    with round_pos_nonneg [of "- p"] round_pos_nonneg [of q] show ?thesis
      by (auto simp: to_float_def Let_def)
  next
    case 4
    with le round_pos_mono [of "- q" "- p"] show ?thesis by (auto simp: to_float_def Let_def)
  qed
qed

lemma to_float_nonneg: "0 \<le> q \<Longrightarrow> float_le (Fin 0) (to_float q)"
  using to_float_mono [of 0 q] by (simp add: to_float_def)

end
