(* ===== verification/Go_JSON.thy ===== *)
theory Go_JSON
  imports Go_Strconv Go_Float
begin

text \<open>
  The part of Go's \<open>encoding/json\<close> the gateway calls: the scanner as a state machine over
  bytes (one byte per step, an explicit stack of open arrays and objects, the nesting limit),
  string unquoting, the rules that store a value in a pointer field, a map or a number, and
  the compact printer.
\<close>

datatype json =
    JNull
  | JBool bool
  | JNum string
  | JStr string
  | JArr "json list"
  | JObj "(string \<times> json) list"

section \<open>Characters of the grammar\<close>

definition is_json_space :: "char \<Rightarrow> bool" where
  "is_json_space c \<longleftrightarrow> code c \<in> {32, 9, 10, 13}"

definition hex_val :: "char \<Rightarrow> nat option" where
  "hex_val c =
     (if is_digit c then Some (code c - 48)
      else if 97 \<le> code c \<and> code c \<le> 102 then Some (code c - 87)
      else if 65 \<le> code c \<and> code c \<le> 70 then Some (code c - 55) else None)"

abbreviation backslash :: char where "backslash \<equiv> CHR 0x5C"
abbreviation dquote :: char where "dquote \<equiv> CHR 0x22"

section \<open>Unquoting a string body\<close>

definition utf8_encode :: "nat \<Rightarrow> string" where
  "utf8_encode r =
     (if r < 128 then [byte r]
      else if r < 2048 then [byte (192 + r div 64), byte (128 + r mod 64)]
      else if r < 65536 then [byte (224 + r div 4096), byte (128 + r div 64 mod 64), byte (128 + r mod 64)]
      else [byte (240 + r div 262144), byte (128 + r div 4096 mod 64), byte (128 + r div 64 mod 64),
            byte (128 + r mod 64)])"

definition replacement :: string where
  "replacement = [byte 239, byte 191, byte 189]"

definition hex4 :: "string \<Rightarrow> nat option" where
  "hex4 s =
     (case map hex_val (take 4 s) of
        [Some a, Some b, Some c, Some d] \<Rightarrow> Some (((a * 16 + b) * 16 + c) * 16 + d)
      | _ \<Rightarrow> None)"

definition unescape :: "char \<Rightarrow> char" where
  "unescape e =
     (if e = CHR ''b'' then byte 8 else if e = CHR ''f'' then byte 12
      else if e = CHR ''n'' then byte 10 else if e = CHR ''r'' then byte 13
      else if e = CHR ''t'' then byte 9 else e)"

function unquote :: "string \<Rightarrow> string" where
  "unquote [] = []"
| "unquote (c # r) =
     (if c = backslash then
        (case r of
           [] \<Rightarrow> []
         | e # r1 \<Rightarrow>
             (if e = CHR ''u'' then
                (case hex4 r1 of
                   None \<Rightarrow> []
                 | Some v \<Rightarrow>
                     (if 55296 \<le> v \<and> v < 57344 then
                        (case (if take 2 (drop 4 r1) = [backslash, CHR ''u''] then hex4 (drop 6 r1) else None) of
                           Some w \<Rightarrow>
                             (if v < 56320 \<and> 56320 \<le> w \<and> w < 57344
                              then utf8_encode (65536 + (v - 55296) * 1024 + (w - 56320)) @ unquote (drop 10 r1)
                              else replacement @ unquote (drop 4 r1))
                         | None \<Rightarrow> replacement @ unquote (drop 4 r1))
                      else utf8_encode v @ unquote (drop 4 r1)))
              else unescape e # unquote r1))
      else if rune_width (c # r) = 0 then replacement @ unquote r
      else take (rune_width (c # r)) (c # r) @ unquote (drop (rune_width (c # r)) (c # r)))"
  by pat_completeness auto
termination
  by (relation "measure length") auto

declare unquote.simps(2) [simp del]

section \<open>The scanner\<close>

text \<open>
  \<open>NZero\<close> follows a leading zero, \<open>NInt\<close> digits, \<open>NDot\<close> a decimal point, \<open>NFrac\<close>
  fraction digits, \<open>NExp\<close> the exponent letter, \<open>NSign\<close> its sign, \<open>NExpDigits\<close> its digits.
\<close>

datatype num_state = NMinus | NZero | NInt | NDot | NFrac | NExp | NSign | NExpDigits

fun num_accepts :: "num_state \<Rightarrow> bool" where
  "num_accepts NZero = True"
| "num_accepts NInt = True"
| "num_accepts NFrac = True"
| "num_accepts NExpDigits = True"
| "num_accepts _ = False"

fun num_step :: "num_state \<Rightarrow> char \<Rightarrow> num_state option" where
  "num_step NMinus c = (if c = CHR ''0'' then Some NZero else if is_digit c then Some NInt else None)"
| "num_step NZero c =
     (if c = CHR ''.'' then Some NDot else if c = CHR ''e'' \<or> c = CHR ''E'' then Some NExp else None)"
| "num_step NInt c =
     (if is_digit c then Some NInt else if c = CHR ''.'' then Some NDot
      else if c = CHR ''e'' \<or> c = CHR ''E'' then Some NExp else None)"
| "num_step NDot c = (if is_digit c then Some NFrac else None)"
| "num_step NFrac c =
     (if is_digit c then Some NFrac else if c = CHR ''e'' \<or> c = CHR ''E'' then Some NExp else None)"
| "num_step NExp c =
     (if c = CHR ''+'' \<or> c = CHR ''-'' then Some NSign else if is_digit c then Some NExpDigits else None)"
| "num_step NSign c = (if is_digit c then Some NExpDigits else None)"
| "num_step NExpDigits c = (if is_digit c then Some NExpDigits else None)"

datatype frame = FArr "json list" | FObj "(string \<times> json) list" | FKey "(string \<times> json) list" string

datatype jmode =
    MValue
  | MValueOrEnd
  | MKeyOrEnd
  | MKey
  | MColon
  | MAfter
  | MStr bool string
  | MEsc bool string
  | MHex bool nat string
  | MNum num_state string
  | MLit string json

text \<open>
  The outcome of one byte: a syntax error, a complete top-level value that ends with this
  byte, a complete top-level number that ends before it, or the next state.
\<close>

datatype jstep = SFail | SDone json | SDoneBefore json | SCont "frame list" jmode

definition max_nesting :: nat where
  "max_nesting = 10000"

definition open_frame :: "frame \<Rightarrow> frame list \<Rightarrow> jmode \<Rightarrow> jstep" where
  "open_frame f stk m = (if length (f # stk) \<le> max_nesting then SCont (f # stk) m else SFail)"

fun close_value :: "json \<Rightarrow> frame list \<Rightarrow> jstep" where
  "close_value v [] = SDone v"
| "close_value v (FArr vs # stk) = SCont (FArr (v # vs) # stk) MAfter"
| "close_value v (FKey kvs k # stk) = SCont (FObj ((k, v) # kvs) # stk) MAfter"
| "close_value v (FObj kvs # stk) = SFail"

definition begin_value :: "frame list \<Rightarrow> char \<Rightarrow> jstep" where
  "begin_value stk c =
     (if c = CHR ''{'' then open_frame (FObj []) stk MKeyOrEnd
      else if c = CHR ''['' then open_frame (FArr []) stk MValueOrEnd
      else if c = dquote then SCont stk (MStr False [])
      else if c = CHR ''-'' then SCont stk (MNum NMinus [c])
      else if c = CHR ''0'' then SCont stk (MNum NZero [c])
      else if is_digit c then SCont stk (MNum NInt [c])
      else if c = CHR ''t'' then SCont stk (MLit ''rue'' (JBool True))
      else if c = CHR ''f'' then SCont stk (MLit ''alse'' (JBool False))
      else if c = CHR ''n'' then SCont stk (MLit ''ull'' JNull)
      else SFail)"

fun after_value :: "frame list \<Rightarrow> char \<Rightarrow> jstep" where
  "after_value (FArr vs # stk) c =
     (if is_json_space c then SCont (FArr vs # stk) MAfter
      else if c = CHR '','' then SCont (FArr vs # stk) MValue
      else if c = CHR '']'' then close_value (JArr (rev vs)) stk
      else SFail)"
| "after_value (FObj kvs # stk) c =
     (if is_json_space c then SCont (FObj kvs # stk) MAfter
      else if c = CHR '','' then SCont (FObj kvs # stk) MKey
      else if c = CHR ''}'' then close_value (JObj (rev kvs)) stk
      else SFail)"
| "after_value _ _ = SFail"

definition end_string :: "bool \<Rightarrow> string \<Rightarrow> frame list \<Rightarrow> jstep" where
  "end_string is_key acc stk =
     (let s = unquote (rev acc) in
      if is_key then (case stk of FObj kvs # r \<Rightarrow> SCont (FKey kvs s # r) MColon | _ \<Rightarrow> SFail)
      else close_value (JStr s) stk)"

fun json_step :: "frame list \<Rightarrow> jmode \<Rightarrow> char \<Rightarrow> jstep" where
  "json_step stk MValue c = (if is_json_space c then SCont stk MValue else begin_value stk c)"
| "json_step stk MValueOrEnd c =
     (if is_json_space c then SCont stk MValueOrEnd
      else if c = CHR '']'' then after_value stk c else begin_value stk c)"
| "json_step stk MKeyOrEnd c =
     (if is_json_space c then SCont stk MKeyOrEnd
      else if c = CHR ''}'' then after_value stk c
      else if c = dquote then SCont stk (MStr True []) else SFail)"
| "json_step stk MKey c =
     (if is_json_space c then SCont stk MKey
      else if c = dquote then SCont stk (MStr True []) else SFail)"
| "json_step stk MColon c =
     (if is_json_space c then SCont stk MColon
      else if c = CHR '':'' then SCont stk MValue else SFail)"
| "json_step stk MAfter c = after_value stk c"
| "json_step stk (MStr b acc) c =
     (if c = dquote then end_string b acc stk
      else if c = backslash then SCont stk (MEsc b (c # acc))
      else if code c < 32 then SFail
      else SCont stk (MStr b (c # acc)))"
| "json_step stk (MEsc b acc) c =
     (if c = CHR ''u'' then SCont stk (MHex b 4 (c # acc))
      else if c \<in> set ''bfnrt/'' \<or> c = backslash \<or> c = dquote then SCont stk (MStr b (c # acc))
      else SFail)"
| "json_step stk (MHex b n acc) c =
     (if hex_val c = None then SFail
      else if n \<le> 1 then SCont stk (MStr b (c # acc))
      else SCont stk (MHex b (n - 1) (c # acc)))"
| "json_step stk (MNum st acc) c =
     (case num_step st c of
        Some st' \<Rightarrow> SCont stk (MNum st' (c # acc))
      | None \<Rightarrow>
          (if num_accepts st then
             (case close_value (JNum (rev acc)) stk of
                SCont stk' m \<Rightarrow> after_value stk' c
              | SDone v \<Rightarrow> SDoneBefore v
              | r \<Rightarrow> r)
           else SFail))"
| "json_step stk (MLit w v) c =
     (case w of
        [] \<Rightarrow> SFail
      | x # xs \<Rightarrow>
          (if c = x then (if xs = [] then close_value v stk else SCont stk (MLit xs v)) else SFail))"

text \<open>At the end of input only a complete top-level number is a value.\<close>

fun json_eof :: "frame list \<Rightarrow> jmode \<Rightarrow> json option" where
  "json_eof [] (MNum st acc) = (if num_accepts st then Some (JNum (rev acc)) else None)"
| "json_eof _ _ = None"

fun json_run :: "frame list \<Rightarrow> jmode \<Rightarrow> string \<Rightarrow> (json \<times> string) option" where
  "json_run stk m [] = (case json_eof stk m of Some v \<Rightarrow> Some (v, []) | None \<Rightarrow> None)"
| "json_run stk m (c # cs) =
     (case json_step stk m c of
        SFail \<Rightarrow> None
      | SDone v \<Rightarrow> Some (v, cs)
      | SDoneBefore v \<Rightarrow> Some (v, c # cs)
      | SCont stk' m' \<Rightarrow> json_run stk' m' cs)"

text \<open>
  \<open>(*json.Decoder).Decode\<close>: the first value of the input and what follows it.
  \<open>json.Unmarshal\<close>: the whole input is one value and white space.
\<close>

definition json_next :: "string \<Rightarrow> (json \<times> string) option" where
  "json_next s = json_run [] MValue s"

definition json_parse :: "string \<Rightarrow> json option" where
  "json_parse s =
     (case json_next s of
        Some (v, rest) \<Rightarrow> if list_all is_json_space rest then Some v else None
      | None \<Rightarrow> None)"

end
