(* ===== verification/Go_JSON_Values.thy ===== *)
theory Go_JSON_Values
  imports Go_JSON
begin

text \<open>
  How \<open>encoding/json\<close> stores a scanned value in a Go variable (field names matched without
  case, pointer fields cleared by \<open>null\<close>, numbers parsed at their width), how it prints one,
  and the round trip between the printer and the scanner.
\<close>

section \<open>Storing values\<close>

text \<open>
  Field names match after case folding.  Of the runes beyond ASCII only the long s and the
  Kelvin sign fold to an ASCII letter, so these are the ones that matter for the gateway's
  ASCII field names.
\<close>

fun fold_name :: "string \<Rightarrow> string" where
  "fold_name [] = []"
| "fold_name [c] = [if is_lower c then byte (code c - 32) else c]"
| "fold_name [c, d] =
     (if code c = 197 \<and> code d = 191 then ''S''
      else (if is_lower c then byte (code c - 32) else c) # fold_name [d])"
| "fold_name (c # d # e # r) =
     (if code c = 197 \<and> code d = 191 then CHR ''S'' # fold_name (e # r)
      else if code c = 226 \<and> code d = 132 \<and> code e = 170 then CHR ''K'' # fold_name r
      else (if is_lower c then byte (code c - 32) else c) # fold_name (d # e # r))"

definition field_matches :: "string \<Rightarrow> string \<Rightarrow> bool" where
  "field_matches key name \<longleftrightarrow> fold_name key = fold_name name"

text \<open>
  A pointer field of a struct: every member with its name is stored in turn, \<open>null\<close> clears
  the pointer, a value of the wrong type makes the whole decoding fail.
\<close>

fun ptr_field :: "(json \<Rightarrow> 'a option) \<Rightarrow> string \<Rightarrow> (string \<times> json) list \<Rightarrow> 'a option \<Rightarrow> 'a option option" where
  "ptr_field dec name [] cur = Some cur"
| "ptr_field dec name ((k, v) # ms) cur =
     (if field_matches k name then
        (if v = JNull then ptr_field dec name ms None
         else (case dec v of None \<Rightarrow> None | Some x \<Rightarrow> ptr_field dec name ms (Some x)))
      else ptr_field dec name ms cur)"

text \<open>A plain field keeps its value on \<open>null\<close>; a nested struct is stored into, not replaced.\<close>

fun plain_field :: "(json \<Rightarrow> 'a \<Rightarrow> 'a option) \<Rightarrow> string \<Rightarrow> (string \<times> json) list \<Rightarrow> 'a \<Rightarrow> 'a option" where
  "plain_field dec name [] cur = Some cur"
| "plain_field dec name ((k, v) # ms) cur =
     (if field_matches k name \<and> v \<noteq> JNull
      then (case dec v cur of None \<Rightarrow> None | Some x \<Rightarrow> plain_field dec name ms x)
      else plain_field dec name ms cur)"

fun as_bool :: "json \<Rightarrow> bool option" where
  "as_bool (JBool b) = Some b"
| "as_bool _ = None"

fun as_string :: "json \<Rightarrow> string option" where
  "as_string (JStr s) = Some s"
| "as_string _ = None"

fun as_int64 :: "json \<Rightarrow> int option" where
  "as_int64 (JNum lit) = atoi lit"
| "as_int64 _ = None"

text \<open>
  The value of a number literal.  Like \<open>strconv\<close>, the exponent stops growing once it
  has reached 10000.
\<close>

fun read_exp :: "nat \<Rightarrow> string \<Rightarrow> nat" where
  "read_exp n [] = n"
| "read_exp n (c # cs) = read_exp (if n < 10000 then 10 * n + (code c - 48) else n) cs"

definition num_value :: "string \<Rightarrow> rat" where
  "num_value lit =
     (let neg = (take 1 lit = ''-'');
          s = (if neg then drop 1 lit else lit);
          mant = takeWhile (\<lambda>c. c \<noteq> CHR ''e'' \<and> c \<noteq> CHR ''E'') s;
          ex = drop (Suc (length mant)) s;
          ip = takeWhile (\<lambda>c. c \<noteq> CHR ''.'') mant;
          fp = drop (Suc (length ip)) mant;
          m = (case read_digits 0 (ip @ fp) of Some n \<Rightarrow> n | None \<Rightarrow> 0);
          e = (if take 1 ex = ''-'' then - int (read_exp 0 (drop 1 ex))
               else if take 1 ex = ''+'' then int (read_exp 0 (drop 1 ex))
               else int (read_exp 0 ex))
      in (if neg then - 1 else 1) * of_nat m * 10 powi (e - int (length fp)))"

text \<open>\<open>strconv.ParseFloat\<close> as the decoder uses it: a value that rounds to an infinity is a range error.\<close>

fun as_float64 :: "json \<Rightarrow> float64 option" where
  "as_float64 (JNum lit) = (case to_float (num_value lit) of Fin q \<Rightarrow> Some (Fin q) | _ \<Rightarrow> None)"
| "as_float64 _ = None"

lemma as_float64_finite: "as_float64 j = Some x \<Longrightarrow> float_finite x"
  by (cases j; cases "to_float (num_value (case j of JNum lit \<Rightarrow> lit | _ \<Rightarrow> []))") auto

lemma as_int64_ok: "as_int64 j = Some i \<Longrightarrow> int64_ok i"
  by (cases j) (auto dest: atoi_int64)

lemma ptr_field_all:
  assumes "ptr_field dec name ms cur = Some r" "\<And>v x. dec v = Some x \<Longrightarrow> P x"
    "\<And>x. cur = Some x \<Longrightarrow> P x" "r = Some y"
  shows "P y"
  using assms(1,3)
proof (induction ms arbitrary: cur)
  case Nil
  with assms(4) show ?case by simp
next
  case (Cons m ms)
  obtain k v where m: "m = (k, v)" by (cases m)
  consider "\<not> field_matches k name" | "field_matches k name" "v = JNull"
    | "field_matches k name" "v \<noteq> JNull" by blast
  then show ?case
  proof cases
    case 1
    with Cons m show ?thesis by simp
  next
    case 2
    with Cons m show ?thesis by (metis ptr_field.simps(2) option.distinct(1))
  next
    case 3
    with Cons.prems(1) m obtain x where "dec v = Some x" "ptr_field dec name ms (Some x) = Some r"
      by (auto split: option.splits)
    with Cons.IH [of "Some x"] assms(2) show ?thesis by auto
  qed
qed

section \<open>Printing\<close>

definition json_escape :: "string \<Rightarrow> string" where
  "json_escape u = [backslash, CHR ''u''] @ u"

definition hex4_of :: "nat \<Rightarrow> string" where
  "hex4_of n = [hex_digit (n div 4096 mod 16), hex_digit (n div 256 mod 16), hex_digit (n div 16 mod 16),
     hex_digit (n mod 16)]"

text \<open>The body of a printed string: quotes, control bytes, HTML bytes and invalid UTF-8 escaped.\<close>

function quote_body :: "string \<Rightarrow> string" where
  "quote_body [] = []"
| "quote_body (c # r) =
     (if code c < 128 then
        (if c = dquote \<or> c = backslash then [backslash, c]
         else if code c = 8 then [backslash, CHR ''b''] else if code c = 12 then [backslash, CHR ''f'']
         else if code c = 10 then [backslash, CHR ''n''] else if code c = 13 then [backslash, CHR ''r'']
         else if code c = 9 then [backslash, CHR ''t'']
         else if code c < 32 \<or> c \<in> set ''<>&'' then json_escape (hex4_of (code c))
         else [c]) @ quote_body r
      else
        (let w = rune_width (c # r) in
         if w = 0 then json_escape ''fffd'' @ quote_body r
         else if map code (take 3 (c # r)) = [226, 128, 168] then json_escape ''2028'' @ quote_body (drop 2 r)
         else if map code (take 3 (c # r)) = [226, 128, 169] then json_escape ''2029'' @ quote_body (drop 2 r)
         else take w (c # r) @ quote_body (drop w (c # r))))"
  by pat_completeness auto
termination
  by (relation "measure length") auto

declare quote_body.simps(2) [simp del]

definition quote :: "string \<Rightarrow> string" where
  "quote s = [dquote] @ quote_body s @ [dquote]"

fun join_comma :: "string list \<Rightarrow> string" where
  "join_comma [] = []"
| "join_comma [s] = s"
| "join_comma (s # t # ss) = s @ '','' @ join_comma (t # ss)"

fun json_print :: "json \<Rightarrow> string" where
  "json_print JNull = ''null''"
| "json_print (JBool b) = (if b then ''true'' else ''false'')"
| "json_print (JNum lit) = lit"
| "json_print (JStr s) = quote s"
| "json_print (JArr vs) = ''['' @ join_comma (map json_print vs) @ '']''"
| "json_print (JObj kvs) = ''{'' @ join_comma (map (\<lambda>(k, v). quote k @ '':'' @ json_print v) kvs) @ ''}''"

definition json_int :: "int \<Rightarrow> json" where
  "json_int i = JNum (itoa i)"

lemma as_int64_json_int [simp]: "int64_ok i \<Longrightarrow> as_int64 (json_int i) = Some i"
  by (simp add: json_int_def atoi_itoa)

section \<open>Printed values scan back\<close>

text \<open>Printable ASCII that needs no escape, the only strings a measurement config holds.\<close>

definition plain_char :: "char \<Rightarrow> bool" where
  "plain_char c \<longleftrightarrow> 32 \<le> code c \<and> code c < 127 \<and> c \<notin> {dquote, backslash, CHR ''<'', CHR ''>'', CHR ''&''}"

lemma quote_body_plain: "list_all plain_char s \<Longrightarrow> quote_body s = s"
  by (induction s) (auto simp: quote_body.simps plain_char_def)

lemma unquote_plain: "list_all plain_char s \<Longrightarrow> unquote s = s"
  by (induction s) (auto simp: unquote.simps(2) plain_char_def rune_width_def)

lemma json_run_string:
  assumes "list_all plain_char s"
  shows "json_run stk (MStr b acc) (s @ dquote # r) =
         (case end_string b (rev s @ acc) stk of
            SFail \<Rightarrow> None | SDone v \<Rightarrow> Some (v, r) | SDoneBefore v \<Rightarrow> Some (v, dquote # r)
          | SCont stk' m' \<Rightarrow> json_run stk' m' r)"
  using assms
proof (induction s arbitrary: acc)
  case Nil
  then show ?case by simp
next
  case (Cons c s)
  then have "c \<noteq> dquote" "c \<noteq> backslash" "\<not> code c < 32"
    by (auto simp: plain_char_def)
  with Cons show ?case by simp
qed

lemma num_step_digit: "is_digit c \<Longrightarrow> num_step NInt c = Some NInt"
  by simp

lemma json_run_digits:
  "list_all is_digit s \<Longrightarrow> json_run stk (MNum NInt acc) (s @ r) = json_run stk (MNum NInt (rev s @ acc)) r"
  by (induction s arbitrary: acc) simp_all

end
