(* ===== verification/Protocol_Types.thy ===== *)
theory Protocol_Types
  imports Go_JSON_Values
begin

text \<open>
  \<open>internal/protocol/errors.go\<close> and \<open>internal/protocol/types.go\<close>: the error codes, the
  push request and its measurements, and the decoding of a request body.
\<close>

section \<open>Errors (errors.go)\<close>

definition CodeInvalidRequest :: string where "CodeInvalidRequest = ''invalid_request''"
definition CodeInvalidJSON :: string where "CodeInvalidJSON = ''invalid_json''"
definition CodeInvalidPayload :: string where "CodeInvalidPayload = ''invalid_payload''"
definition CodeUnsupportedVersion :: string where "CodeUnsupportedVersion = ''unsupported_version''"
definition CodeInvalidTarget :: string where "CodeInvalidTarget = ''invalid_target''"
definition CodeInvalidProbeType :: string where "CodeInvalidProbeType = ''invalid_probe_type''"
definition CodeUnauthorized :: string where "CodeUnauthorized = ''unauthorized''"
definition CodeProbeDisabled :: string where "CodeProbeDisabled = ''probe_disabled''"
definition CodeRateLimited :: string where "CodeRateLimited = ''rate_limited''"
definition CodeConfigStale :: string where "CodeConfigStale = ''config_stale''"
definition CodeInternalError :: string where "CodeInternalError = ''internal_error''"
definition CodeServiceUnavailable :: string where "CodeServiceUnavailable = ''service_unavailable''"

lemmas code_defs =
  CodeInvalidRequest_def CodeInvalidJSON_def CodeInvalidPayload_def CodeUnsupportedVersion_def
  CodeInvalidTarget_def CodeInvalidProbeType_def CodeUnauthorized_def CodeProbeDisabled_def
  CodeRateLimited_def CodeConfigStale_def CodeInternalError_def CodeServiceUnavailable_def

record perror =
  Code :: string
  Message :: string

definition newError :: "string \<Rightarrow> string \<Rightarrow> perror" where
  "newError c m = \<lparr>Code = c, Message = m\<rparr>"

lemma Code_newError [simp]: "Code (newError c m) = c"
  by (simp add: newError_def)

section \<open>Requests (types.go)\<close>

definition Version :: int where "Version = 1"
definition MaxProbeVersionLen :: nat where "MaxProbeVersionLen = 32"

text \<open>\<open>ProbeType\<close> is an open string type: a request can name any type.\<close>

type_synonym probe_type = string

definition ProbeICMP :: probe_type where "ProbeICMP = ''icmp''"
definition ProbeDNS :: probe_type where "ProbeDNS = ''dns''"
definition ProbeHTTP :: probe_type where "ProbeHTTP = ''http''"

lemmas probe_type_defs = ProbeICMP_def ProbeDNS_def ProbeHTTP_def

lemma probe_types_distinct [simp]:
  "ProbeICMP \<noteq> ProbeDNS" "ProbeDNS \<noteq> ProbeICMP" "ProbeICMP \<noteq> ProbeHTTP" "ProbeHTTP \<noteq> ProbeICMP"
  "ProbeDNS \<noteq> ProbeHTTP" "ProbeHTTP \<noteq> ProbeDNS"
  by (simp_all add: probe_type_defs)

type_synonym allowlist = "(string, (probe_type, bool) gomap) gomap"

record icmp_result =
  icmp_Success :: bool
  icmp_Sent :: int
  icmp_Received :: int
  icmp_LossRatio :: float64
  icmp_MinRTTMS :: "float64 option"
  icmp_AvgRTTMS :: "float64 option"
  icmp_MaxRTTMS :: "float64 option"
  icmp_JitterMS :: "float64 option"

record dns_result =
  dns_Success :: bool
  dns_DurationMS :: "float64 option"

record http_result =
  http_Success :: bool
  http_StatusCode :: "int option"
  http_DurationMS :: "float64 option"

record measurement =
  m_ICMP :: "icmp_result option"
  m_DNS :: "dns_result option"
  m_HTTP :: "http_result option"

definition no_measurement :: measurement where
  "no_measurement = \<lparr>m_ICMP = None, m_DNS = None, m_HTTP = None\<rparr>"

type_synonym results = "(string, (probe_type, measurement) gomap) gomap"

record push_request =
  req_Version :: int
  req_Timestamp :: int
  req_ProbeVersion :: string
  req_ConfigID :: string
  req_Results :: results

text \<open>Every map of a request has distinct keys, as a Go map has.\<close>

definition wf_results :: "results \<Rightarrow> bool" where
  "wf_results r \<longleftrightarrow> wf_map r \<and> list_all (\<lambda>(t, byType). wf_map byType) r"

section \<open>Decoding\<close>

text \<open>
  \<open>rawRequest\<close>: a measurement stays an undecoded JSON value (\<open>json.RawMessage\<close>), so an
  unknown probe type survives decoding.
\<close>

type_synonym raw_results = "(string, (string, json) gomap) gomap"

record raw_request =
  raw_Version :: "int option"
  raw_Timestamp :: "int option"
  raw_ProbeVersion :: "string option"
  raw_ConfigID :: "string option"
  raw_Results :: raw_results

text \<open>
  Storing into \<open>map[string]map[string]json.RawMessage\<close>.  A \<open>null\<close> clears a map (the inner
  one stays as an empty entry); a member replaces the entry of its key; a second
  \<open>results\<close> member adds to the map the first one made.
\<close>

definition raw_inner :: "(string \<times> json) list \<Rightarrow> (string, json) gomap" where
  "raw_inner ms = fold (\<lambda>(k, v) m. map_put k v m) ms []"

fun raw_outer :: "(string \<times> json) list \<Rightarrow> raw_results \<Rightarrow> raw_results option" where
  "raw_outer [] m = Some m"
| "raw_outer ((t, v) # ms) m =
     (case v of
        JNull \<Rightarrow> raw_outer ms (map_put t [] m)
      | JObj inner \<Rightarrow> raw_outer ms (map_put t (raw_inner inner) m)
      | _ \<Rightarrow> None)"

fun results_field :: "(string \<times> json) list \<Rightarrow> raw_results \<Rightarrow> raw_results option" where
  "results_field [] m = Some m"
| "results_field ((k, v) # ms) m =
     (if field_matches k ''results'' then
        (case v of
           JNull \<Rightarrow> results_field ms []
         | JObj outer \<Rightarrow> (case raw_outer outer m of None \<Rightarrow> None | Some m' \<Rightarrow> results_field ms m')
         | _ \<Rightarrow> None)
      else results_field ms m)"

definition zero_raw :: raw_request where
  "zero_raw = \<lparr>raw_Version = None, raw_Timestamp = None, raw_ProbeVersion = None,
     raw_ConfigID = None, raw_Results = []\<rparr>"

fun decode_raw :: "json \<Rightarrow> raw_request option" where
  "decode_raw JNull = Some zero_raw"
| "decode_raw (JObj ms) =
     (case (ptr_field as_int64 ''version'' ms None, ptr_field as_int64 ''timestamp'' ms None,
            ptr_field as_string ''probe_version'' ms None, ptr_field as_string ''config_id'' ms None,
            results_field ms []) of
        (Some v, Some ts, Some pv, Some cid, Some rs) \<Rightarrow>
          Some \<lparr>raw_Version = v, raw_Timestamp = ts, raw_ProbeVersion = pv, raw_ConfigID = cid,
                raw_Results = rs\<rparr>
      | _ \<Rightarrow> None)"
| "decode_raw _ = None"

text \<open>\<open>jsonFields\<close> accepts an object or \<open>null\<close>, which \<open>json.Unmarshal\<close> takes as a nil map.\<close>

fun jsonFields :: "json \<Rightarrow> perror + (string \<times> json) list" where
  "jsonFields JNull = Inr []"
| "jsonFields (JObj ms) = Inr ms"
| "jsonFields _ = Inl (newError CodeInvalidJSON ''measurement is not a JSON object'')"

definition wrong_type :: perror where
  "wrong_type = newError CodeInvalidJSON ''measurement contains a value of the wrong type''"

definition unmarshalStrict :: "'a option \<Rightarrow> perror + 'a" where
  "unmarshalStrict r = (case r of None \<Rightarrow> Inl wrong_type | Some x \<Rightarrow> Inr x)"

definition decodeICMP :: "json \<Rightarrow> perror + icmp_result" where
  "decodeICMP body =
     bind_result (jsonFields body) (\<lambda>ms.
     bind_result (unmarshalStrict (ptr_field as_bool ''success'' ms None)) (\<lambda>success.
     bind_result (unmarshalStrict (ptr_field as_int64 ''sent'' ms None)) (\<lambda>sent.
     bind_result (unmarshalStrict (ptr_field as_int64 ''received'' ms None)) (\<lambda>received.
     bind_result (unmarshalStrict (ptr_field as_float64 ''loss_ratio'' ms None)) (\<lambda>loss.
     bind_result (unmarshalStrict (ptr_field as_float64 ''min_rtt_ms'' ms None)) (\<lambda>mn.
     bind_result (unmarshalStrict (ptr_field as_float64 ''avg_rtt_ms'' ms None)) (\<lambda>avg.
     bind_result (unmarshalStrict (ptr_field as_float64 ''max_rtt_ms'' ms None)) (\<lambda>mx.
     bind_result (unmarshalStrict (ptr_field as_float64 ''jitter_ms'' ms None)) (\<lambda>jit.
       Inr \<lparr>icmp_Success = or_zero success False, icmp_Sent = or_zero sent 0,
            icmp_Received = or_zero received 0, icmp_LossRatio = or_zero loss (Fin 0),
            icmp_MinRTTMS = mn, icmp_AvgRTTMS = avg, icmp_MaxRTTMS = mx, icmp_JitterMS = jit\<rparr>)))))))))"

definition decodeDNS :: "json \<Rightarrow> perror + dns_result" where
  "decodeDNS body =
     bind_result (jsonFields body) (\<lambda>ms.
     bind_result (unmarshalStrict (ptr_field as_bool ''success'' ms None)) (\<lambda>success.
     bind_result (unmarshalStrict (ptr_field as_float64 ''duration_ms'' ms None)) (\<lambda>dur.
       Inr \<lparr>dns_Success = or_zero success False, dns_DurationMS = dur\<rparr>)))"

definition decodeHTTP :: "json \<Rightarrow> perror + http_result" where
  "decodeHTTP body =
     bind_result (jsonFields body) (\<lambda>ms.
     bind_result (unmarshalStrict (ptr_field as_bool ''success'' ms None)) (\<lambda>success.
     bind_result (unmarshalStrict (ptr_field as_int64 ''status_code'' ms None)) (\<lambda>status.
     bind_result (unmarshalStrict (ptr_field as_float64 ''duration_ms'' ms None)) (\<lambda>dur.
       Inr \<lparr>http_Success = or_zero success False, http_StatusCode = status, http_DurationMS = dur\<rparr>))))"

definition decodeMeasurement :: "probe_type \<Rightarrow> json \<Rightarrow> perror + measurement" where
  "decodeMeasurement pt body =
     (if pt = ProbeICMP then bind_result (decodeICMP body) (\<lambda>r. Inr (no_measurement\<lparr>m_ICMP := Some r\<rparr>))
      else if pt = ProbeDNS then bind_result (decodeDNS body) (\<lambda>r. Inr (no_measurement\<lparr>m_DNS := Some r\<rparr>))
      else if pt = ProbeHTTP then bind_result (decodeHTTP body) (\<lambda>r. Inr (no_measurement\<lparr>m_HTTP := Some r\<rparr>))
      else Inr no_measurement)"

text \<open>The two nested \<open>range\<close> loops of \<open>Decode\<close>, each stopping at its first error.\<close>

fun decode_types :: "(string, json) gomap \<Rightarrow> (probe_type, measurement) gomap \<Rightarrow>
    perror + (probe_type, measurement) gomap" where
  "decode_types [] acc = Inr acc"
| "decode_types ((pt, body) # ms) acc =
     bind_result (decodeMeasurement pt body) (\<lambda>m. decode_types ms (map_put pt m acc))"

fun decode_targets :: "raw_results \<Rightarrow> results \<Rightarrow> perror + results" where
  "decode_targets [] acc = Inr acc"
| "decode_targets ((t, byType) # ts) acc =
     bind_result (decode_types byType []) (\<lambda>m. decode_targets ts (map_put t m acc))"

definition request_of_raw :: "raw_request \<Rightarrow> results \<Rightarrow> push_request" where
  "request_of_raw raw rs =
     \<lparr>req_Version = or_zero (raw_Version raw) 0, req_Timestamp = or_zero (raw_Timestamp raw) 0,
      req_ProbeVersion = or_zero (raw_ProbeVersion raw) [], req_ConfigID = or_zero (raw_ConfigID raw) [],
      req_Results = rs\<rparr>"

definition Decode :: "string \<Rightarrow> perror + push_request" where
  "Decode body =
     (case json_next body of
        None \<Rightarrow> Inl (newError CodeInvalidJSON ''request body is not valid JSON'')
      | Some (v, rest) \<Rightarrow>
          (case decode_raw v of
             None \<Rightarrow> Inl (newError CodeInvalidJSON ''request body is not valid JSON'')
           | Some raw \<Rightarrow>
               (if \<not> list_all is_json_space rest
                then Inl (newError CodeInvalidJSON ''request body contains trailing data'')
                else bind_result (decode_targets (raw_Results raw) []) (\<lambda>rs. Inr (request_of_raw raw rs)))))"

end
