(* ===== verification/Protocol_Validate.thy ===== *)
theory Protocol_Validate
  imports Protocol_Types
begin

text \<open>
  \<open>internal/protocol/validate.go\<close>: the request-level checks in their order, the three
  measurement validators, and for each a declarative statement of what it accepts with the
  proof that the code accepts exactly that.
\<close>

section \<open>Measurements\<close>

definition lossRatioTolerance :: float64 where
  "lossRatioTolerance = to_float (1 / 1000)"

definition one_millionth :: float64 where
  "one_millionth = to_float (1 / 1000000)"

definition finite_float :: "float64 \<Rightarrow> bool" where
  "finite_float v \<longleftrightarrow> v \<noteq> NaN \<and> v \<noteq> PosInf \<and> v \<noteq> NegInf"

definition bad_payload :: "string \<Rightarrow> perror + unit" where
  "bad_payload msg = Inl (newError CodeInvalidPayload msg)"

definition expected_loss :: "icmp_result \<Rightarrow> float64" where
  "expected_loss m =
     float_div (float_of_int (wrap64 (icmp_Sent m - icmp_Received m))) (float_of_int (icmp_Sent m))"

definition validate_jitter :: "float64 option \<Rightarrow> perror + unit" where
  "validate_jitter j =
     (case j of
        None \<Rightarrow> Inr ()
      | Some j \<Rightarrow>
          (if \<not> finite_float j then bad_payload ''icmp jitter must be a finite number''
           else if float_lt j (Fin 0) then bad_payload ''icmp jitter must not be negative''
           else Inr ()))"

definition validate_rtt :: "icmp_result \<Rightarrow> perror + unit" where
  "validate_rtt m =
     (case (icmp_MinRTTMS m, icmp_AvgRTTMS m, icmp_MaxRTTMS m) of
        (Some mn, Some avg, Some mx) \<Rightarrow>
          (if \<not> finite_float mn \<or> \<not> finite_float avg \<or> \<not> finite_float mx
           then bad_payload ''icmp rtt must be a finite number''
           else if float_lt mn (Fin 0) \<or> float_lt avg (Fin 0) \<or> float_lt mx (Fin 0)
           then bad_payload ''icmp rtt must not be negative''
           else if float_lt avg mn \<or> float_lt mx avg
           then bad_payload ''icmp rtt must satisfy min <= avg <= max''
           else validate_jitter (icmp_JitterMS m))
      | _ \<Rightarrow> bad_payload ''icmp rtt fields are required when a reply was received'')"

definition validateICMP :: "icmp_result \<Rightarrow> perror + unit" where
  "validateICMP m =
     (if icmp_Sent m \<le> 0 then bad_payload ''icmp sent must be greater than zero''
      else if icmp_Received m < 0 \<or> icmp_Received m > icmp_Sent m
      then bad_payload ''icmp received must be between zero and sent''
      else if \<not> finite_float (icmp_LossRatio m) \<or> float_lt (icmp_LossRatio m) (Fin 0)
              \<or> float_lt (Fin 1) (icmp_LossRatio m)
      then bad_payload ''icmp loss_ratio must be between zero and one''
      else if float_lt lossRatioTolerance (float_abs (float_sub (icmp_LossRatio m) (expected_loss m)))
      then bad_payload ''icmp loss_ratio does not match sent and received''
      else if float_le (float_abs (float_sub (icmp_LossRatio m) (Fin 1))) one_millionth
              \<and> icmp_Received m \<noteq> 0
      then bad_payload ''icmp loss_ratio of 1 requires no replies received''
      else if icmp_Received m = 0 then
        (if icmp_Success m then bad_payload ''icmp success must be false when no reply was received''
         else if icmp_MinRTTMS m \<noteq> None \<or> icmp_AvgRTTMS m \<noteq> None \<or> icmp_MaxRTTMS m \<noteq> None
                 \<or> icmp_JitterMS m \<noteq> None
         then bad_payload ''icmp rtt fields must be null when no reply was received''
         else Inr ())
      else if \<not> icmp_Success m then bad_payload ''icmp success must be true when a reply was received''
      else validate_rtt m)"

definition validateDNS :: "dns_result \<Rightarrow> perror + unit" where
  "validateDNS m =
     (if dns_Success m then
        (case dns_DurationMS m of
           None \<Rightarrow> bad_payload ''dns duration is required on success''
         | Some d \<Rightarrow>
             (if \<not> finite_float d then bad_payload ''dns duration must be a finite number''
              else if float_lt d (Fin 0) then bad_payload ''dns duration must not be negative''
              else Inr ()))
      else if dns_DurationMS m \<noteq> None then bad_payload ''dns duration must be null on failure''
      else Inr ())"

definition validateHTTP :: "http_result \<Rightarrow> perror + unit" where
  "validateHTTP m =
     (case (http_StatusCode m, http_DurationMS m) of
        (None, None) \<Rightarrow>
          (if http_Success m then bad_payload ''http success cannot be true without a response''
           else Inr ())
      | (Some sc, Some d) \<Rightarrow>
          (if sc < 100 \<or> sc > 599 then bad_payload ''http status_code must be between 100 and 599''
           else if \<not> finite_float d then bad_payload ''http duration must be a finite number''
           else if float_lt d (Fin 0) then bad_payload ''http duration must not be negative''
           else if http_Success m \<noteq> (sc \<ge> 200 \<and> sc < 400)
           then bad_payload ''http success does not match status_code''
           else Inr ())
      | _ \<Rightarrow> bad_payload ''http status_code and duration_ms must both be set or both be null'')"

definition unsupported_type :: "perror + unit" where
  "unsupported_type = Inl (newError CodeInvalidProbeType ''unsupported probe type'')"

definition validateMeasurement :: "probe_type \<Rightarrow> measurement \<Rightarrow> perror + unit" where
  "validateMeasurement pt m =
     (if pt = ProbeICMP then
        (case m_ICMP m of None \<Rightarrow> bad_payload ''icmp measurement is missing or malformed''
         | Some r \<Rightarrow> validateICMP r)
      else if pt = ProbeDNS then
        (case m_DNS m of None \<Rightarrow> bad_payload ''dns measurement is missing or malformed''
         | Some r \<Rightarrow> validateDNS r)
      else if pt = ProbeHTTP then
        (case m_HTTP m of None \<Rightarrow> bad_payload ''http measurement is missing or malformed''
         | Some r \<Rightarrow> validateHTTP r)
      else unsupported_type)"

section \<open>Requests\<close>

definition MaxConfigIDLen :: nat where "MaxConfigIDLen = 64"

definition known_type :: "probe_type \<Rightarrow> bool" where
  "known_type pt \<longleftrightarrow> pt = ProbeICMP \<or> pt = ProbeDNS \<or> pt = ProbeHTTP"

definition type_allowed :: "(probe_type, bool) gomap \<Rightarrow> probe_type \<Rightarrow> bool" where
  "type_allowed allowed pt = (map_of allowed pt = Some True)"

text \<open>The inner loop over one target's types and the outer loop over the targets, counting.\<close>

fun validate_types :: "(probe_type, bool) gomap \<Rightarrow> (probe_type, measurement) gomap \<Rightarrow> string list \<Rightarrow>
    nat \<Rightarrow> perror + nat" where
  "validate_types allowed byType [] cnt = Inr cnt"
| "validate_types allowed byType (pt # pts) cnt =
     (if \<not> known_type pt then Inl (newError CodeInvalidProbeType ''unsupported probe type'')
      else if \<not> type_allowed allowed pt
      then Inl (newError CodeInvalidProbeType ''probe type is not allowed for this target'')
      else bind_result (validateMeasurement pt (or_zero (map_of byType pt) no_measurement))
             (\<lambda>_. validate_types allowed byType pts (Suc cnt)))"

fun validate_targets :: "allowlist \<Rightarrow> results \<Rightarrow> string list \<Rightarrow> nat \<Rightarrow> perror + nat" where
  "validate_targets al rs [] cnt = Inr cnt"
| "validate_targets al rs (t # ts) cnt =
     (case map_of al t of
        None \<Rightarrow> Inl (newError CodeInvalidTarget ''unknown target'')
      | Some allowed \<Rightarrow>
          (let byType = or_zero (map_of rs t) [] in
           if byType = [] then Inl (newError CodeInvalidPayload ''target has no measurements'')
           else bind_result (validate_types allowed byType (sorted_keys byType) cnt)
                  (\<lambda>cnt'. validate_targets al rs ts cnt')))"

definition Validate :: "push_request \<Rightarrow> allowlist \<Rightarrow> string \<Rightarrow> perror + unit" where
  "Validate r al currentConfigID =
     (if req_Version r \<noteq> Version
      then Inl (newError CodeUnsupportedVersion ''unsupported protocol version'')
      else if length (req_ConfigID r) > MaxConfigIDLen then bad_payload ''config_id is too long''
      else if req_ConfigID r \<noteq> [] \<and> req_ConfigID r \<noteq> currentConfigID
      then Inl (newError CodeConfigStale ''measurement config is out of date'')
      else if req_Timestamp r < 0 then bad_payload ''timestamp must not be negative''
      else if length (req_ProbeVersion r) > MaxProbeVersionLen then bad_payload ''probe_version is too long''
      else if req_Results r = [] then bad_payload ''results must contain at least one measurement''
      else bind_result (validate_targets al (req_Results r) (sorted_keys (req_Results r)) 0)
             (\<lambda>cnt. if cnt = 0 then bad_payload ''results must contain at least one measurement''
                       else Inr ()))"

section \<open>What a valid measurement is\<close>

definition nonneg :: "float64 \<Rightarrow> bool" where
  "nonneg v \<longleftrightarrow> (\<exists>q. v = Fin q \<and> 0 \<le> q)"

definition loss_ok :: "icmp_result \<Rightarrow> bool" where
  "loss_ok m \<longleftrightarrow>
     (\<exists>q. icmp_LossRatio m = Fin q \<and> 0 \<le> q \<and> q \<le> 1 \<and>
        \<not> float_lt lossRatioTolerance (float_abs (float_sub (Fin q) (expected_loss m))) \<and>
        (float_le (float_abs (float_sub (Fin q) (Fin 1))) one_millionth \<longrightarrow> icmp_Received m = 0))"

definition rtt_ok :: "icmp_result \<Rightarrow> bool" where
  "rtt_ok m \<longleftrightarrow>
     (\<exists>a b c. icmp_MinRTTMS m = Some (Fin a) \<and> icmp_AvgRTTMS m = Some (Fin b) \<and>
        icmp_MaxRTTMS m = Some (Fin c) \<and> 0 \<le> a \<and> a \<le> b \<and> b \<le> c) \<and>
     (\<forall>j. icmp_JitterMS m = Some j \<longrightarrow> nonneg j)"

definition icmp_ok :: "icmp_result \<Rightarrow> bool" where
  "icmp_ok m \<longleftrightarrow>
     0 < icmp_Sent m \<and> 0 \<le> icmp_Received m \<and> icmp_Received m \<le> icmp_Sent m \<and> loss_ok m \<and>
     (icmp_Success m \<longleftrightarrow> icmp_Received m \<noteq> 0) \<and>
     (if icmp_Received m = 0
      then icmp_MinRTTMS m = None \<and> icmp_AvgRTTMS m = None \<and> icmp_MaxRTTMS m = None \<and> icmp_JitterMS m = None
      else rtt_ok m)"

definition dns_ok :: "dns_result \<Rightarrow> bool" where
  "dns_ok m \<longleftrightarrow>
     (if dns_Success m then \<exists>d. dns_DurationMS m = Some d \<and> nonneg d else dns_DurationMS m = None)"

definition http_ok :: "http_result \<Rightarrow> bool" where
  "http_ok m \<longleftrightarrow>
     (http_StatusCode m = None \<and> http_DurationMS m = None \<and> \<not> http_Success m) \<or>
     (\<exists>c d. http_StatusCode m = Some c \<and> http_DurationMS m = Some d \<and> 100 \<le> c \<and> c \<le> 599 \<and>
        nonneg d \<and> (http_Success m \<longleftrightarrow> 200 \<le> c \<and> c < 400))"

definition measurement_ok :: "probe_type \<Rightarrow> measurement \<Rightarrow> bool" where
  "measurement_ok pt m \<longleftrightarrow>
     (pt = ProbeICMP \<and> (\<exists>r. m_ICMP m = Some r \<and> icmp_ok r)) \<or>
     (pt = ProbeDNS \<and> (\<exists>r. m_DNS m = Some r \<and> dns_ok r)) \<or>
     (pt = ProbeHTTP \<and> (\<exists>r. m_HTTP m = Some r \<and> http_ok r))"

lemma finite_float_iff [simp]: "finite_float v \<longleftrightarrow> (\<exists>q. v = Fin q)"
  by (cases v) (auto simp: finite_float_def)

lemma nonneg_iff: "nonneg v \<longleftrightarrow> finite_float v \<and> \<not> float_lt v (Fin 0)"
  by (cases v) (auto simp: nonneg_def)

lemma nonneg_Fin [simp]: "nonneg (Fin q) \<longleftrightarrow> 0 \<le> q"
  by (simp add: nonneg_def)

lemma bad_payload_neq [simp]: "bad_payload msg \<noteq> Inr u"
  by (simp add: bad_payload_def)

lemma validate_jitter_iff:
  "validate_jitter j = Inr () \<longleftrightarrow> (\<forall>x. j = Some x \<longrightarrow> nonneg x)"
  by (auto simp: validate_jitter_def nonneg_iff split: option.splits)

lemma validate_rtt_iff: "validate_rtt m = Inr () \<longleftrightarrow> rtt_ok m"
  by (auto simp: validate_rtt_def rtt_ok_def validate_jitter_iff not_less split: option.splits)

lemma loss_checks_iff:
  "loss_ok m \<longleftrightarrow>
     finite_float (icmp_LossRatio m) \<and> \<not> float_lt (icmp_LossRatio m) (Fin 0) \<and>
     \<not> float_lt (Fin 1) (icmp_LossRatio m) \<and>
     \<not> float_lt lossRatioTolerance (float_abs (float_sub (icmp_LossRatio m) (expected_loss m))) \<and>
     \<not> (float_le (float_abs (float_sub (icmp_LossRatio m) (Fin 1))) one_millionth \<and> icmp_Received m \<noteq> 0)"
  by (cases "icmp_LossRatio m") (auto simp: loss_ok_def)

lemma validateICMP_iff: "validateICMP m = Inr () \<longleftrightarrow> icmp_ok m"
  unfolding icmp_ok_def loss_checks_iff validateICMP_def
  by (auto simp: validate_rtt_iff)

lemma validateDNS_iff: "validateDNS m = Inr () \<longleftrightarrow> dns_ok m"
  by (auto simp: validateDNS_def dns_ok_def nonneg_iff split: option.splits)

lemma validateHTTP_iff: "validateHTTP m = Inr () \<longleftrightarrow> http_ok m"
  by (auto simp: validateHTTP_def http_ok_def nonneg_iff split: option.splits)

lemma validateMeasurement_iff [gw_results]:
  "validateMeasurement pt m = Inr () \<longleftrightarrow> measurement_ok pt m"
  by (auto simp: validateMeasurement_def measurement_ok_def unsupported_type_def validateICMP_iff
      validateDNS_iff validateHTTP_iff split: option.splits)

section \<open>What a valid request is\<close>

definition target_ok :: "allowlist \<Rightarrow> string \<Rightarrow> (probe_type, measurement) gomap \<Rightarrow> bool" where
  "target_ok al t byType \<longleftrightarrow>
     (\<exists>allowed. map_of al t = Some allowed \<and> byType \<noteq> [] \<and>
        (\<forall>(pt, m) \<in> set byType. type_allowed allowed pt \<and> measurement_ok pt m))"

definition request_ok :: "push_request \<Rightarrow> allowlist \<Rightarrow> string \<Rightarrow> bool" where
  "request_ok r al cid \<longleftrightarrow>
     req_Version r = Version \<and> length (req_ConfigID r) \<le> MaxConfigIDLen \<and>
     (req_ConfigID r = [] \<or> req_ConfigID r = cid) \<and> 0 \<le> req_Timestamp r \<and>
     length (req_ProbeVersion r) \<le> MaxProbeVersionLen \<and> req_Results r \<noteq> [] \<and>
     (\<forall>(t, byType) \<in> set (req_Results r). target_ok al t byType)"

lemma measurement_ok_known: "measurement_ok pt m \<Longrightarrow> known_type pt"
  by (auto simp: measurement_ok_def known_type_def)

lemma validate_types_iff:
  "validate_types allowed byType pts cnt = Inr n \<longleftrightarrow>
     (\<forall>pt \<in> set pts. type_allowed allowed pt \<and>
        measurement_ok pt (or_zero (map_of byType pt) no_measurement)) \<and> n = cnt + length pts"
  by (induction pts arbitrary: cnt) (auto simp: gw_results dest: measurement_ok_known)

lemma or_zero_map_of:
  "wf_map m \<Longrightarrow> (\<forall>k \<in> set (keys m). P k (or_zero (map_of m k) z)) \<longleftrightarrow> (\<forall>(k, v) \<in> set m. P k v)"
proof -
  assume wf: "wf_map m"
  have "\<exists>v. map_of m k = Some v \<and> (k, v) \<in> set m" if "k \<in> set (keys m)" for k
    using that wf by force
  then show ?thesis
    using wf by (fastforce simp: or_zero_def)
qed

lemma wf_or_zero:
  "wf_map rs \<Longrightarrow> (\<And>t bt. (t, bt) \<in> set rs \<Longrightarrow> wf_map bt) \<Longrightarrow> wf_map (or_zero (map_of rs t) [])"
  by (cases "map_of rs t") (auto simp: or_zero_def dest: map_of_SomeD)

lemma validate_targets_iff:
  assumes "\<And>t byType. (t, byType) \<in> set rs \<Longrightarrow> wf_map byType"
    "wf_map rs" "set ts \<subseteq> set (keys rs)"
  shows "(\<exists>n. validate_targets al rs ts cnt = Inr n) \<longleftrightarrow>
     (\<forall>t \<in> set ts. target_ok al t (or_zero (map_of rs t) []))"
  using assms(3)
proof (induction ts arbitrary: cnt)
  case Nil
  then show ?case by simp
next
  case (Cons t ts)
  let ?bt = "or_zero (map_of rs t) []"
  have wf: "wf_map ?bt"
    by (rule wf_or_zero [OF assms(2,1)])
  have types: "(\<exists>n. validate_types al' ?bt (sorted_keys ?bt) cnt = Inr n) \<longleftrightarrow>
      (\<forall>(pt, m) \<in> set ?bt. type_allowed al' pt \<and> measurement_ok pt m)" for al'
    using or_zero_map_of [OF wf, of "\<lambda>pt m. type_allowed al' pt \<and> measurement_ok pt m"]
    by (simp add: validate_types_iff)
  show ?case
  proof (cases "map_of al t")
    case None
    then show ?thesis by (simp add: target_ok_def)
  next
    case (Some al')
    have "(\<exists>n. validate_targets al rs (t # ts) cnt = Inr n) \<longleftrightarrow>
        ?bt \<noteq> [] \<and> (\<exists>n. validate_types al' ?bt (sorted_keys ?bt) cnt = Inr n \<and>
          (\<exists>n'. validate_targets al rs ts n = Inr n'))"
      using Some by (auto simp: Let_def gw_results)
    also have "\<dots> \<longleftrightarrow> ?bt \<noteq> [] \<and> (\<exists>n. validate_types al' ?bt (sorted_keys ?bt) cnt = Inr n) \<and>
        (\<forall>t \<in> set ts. target_ok al t (or_zero (map_of rs t) []))"
      using Cons by auto
    also have "\<dots> \<longleftrightarrow> (\<forall>t \<in> set (t # ts). target_ok al t (or_zero (map_of rs t) []))"
      using Some by (auto simp: types target_ok_def)
    finally show ?thesis .
  qed
qed

lemma validate_types_count: "validate_types al' bt pts cnt = Inr n \<Longrightarrow> n = cnt + length pts"
  by (simp add: validate_types_iff)

lemma validate_targets_count:
  "validate_targets al rs ts cnt = Inr n \<Longrightarrow> cnt + length ts \<le> n"
proof (induction ts arbitrary: cnt)
  case (Cons t ts)
  let ?bt = "or_zero (map_of rs t) []"
  from Cons.prems obtain al' n' where "?bt \<noteq> []"
    "validate_types al' ?bt (sorted_keys ?bt) cnt = Inr n'" "validate_targets al rs ts n' = Inr n"
    by (auto simp: Let_def gw_results split: option.splits if_splits)
  with Cons.IH [of n'] validate_types_count show ?case
    by (fastforce simp: sorted_keys_def neq_Nil_conv)
qed simp

lemma Validate_iff:
  assumes "wf_results (req_Results r)"
  shows "Validate r al cid = Inr () \<longleftrightarrow> request_ok r al cid"
proof -
  let ?rs = "req_Results r"
  have wf: "wf_map ?rs" and inner: "\<And>t byType. (t, byType) \<in> set ?rs \<Longrightarrow> wf_map byType"
    using assms by (auto simp: wf_results_def list_all_iff)
  have "(\<exists>n. validate_targets al ?rs (sorted_keys ?rs) 0 = Inr n) \<longleftrightarrow>
      (\<forall>(t, byType) \<in> set ?rs. target_ok al t byType)"
    using validate_targets_iff [OF inner wf, where ts = "sorted_keys ?rs" and al = al and cnt = 0]
      or_zero_map_of [OF wf, of "target_ok al" "[]"] by simp
  moreover have "validate_targets al ?rs (sorted_keys ?rs) 0 = Inr n \<Longrightarrow> ?rs \<noteq> [] \<Longrightarrow> n \<noteq> 0" for n
    using validate_targets_count [of al ?rs "sorted_keys ?rs" 0 n]
    by (auto simp: sorted_keys_def neq_Nil_conv)
  ultimately show ?thesis
    unfolding Validate_def request_ok_def
    by (cases "validate_targets al ?rs (sorted_keys ?rs) 0") (auto simp: bad_payload_def)
qed

section \<open>The first error does not depend on the iteration order\<close>

text \<open>The same two-level map, its entries visited in another order.\<close>

definition same_map2 :: "('a, ('b, 'c) gomap) gomap \<Rightarrow> ('a, ('b, 'c) gomap) gomap \<Rightarrow> bool" where
  "same_map2 m m' \<longleftrightarrow> (\<forall>k. rel_option (\<lambda>a b. map_of a = map_of b) (map_of m k) (map_of m' k))"

lemma same_map2_keys: "same_map2 m m' \<Longrightarrow> set (keys m) = set (keys m')"
proof -
  assume "same_map2 m m'"
  then have "rel_option (\<lambda>a b. map_of a = map_of b) (map_of m k) (map_of m' k)" for k
    by (simp add: same_map2_def)
  then have "(map_of m k \<noteq> None) = (map_of m' k \<noteq> None)" for k
    by (cases "map_of m k"; cases "map_of m' k") (metis option.rel_distinct option.distinct(1))+
  then have "dom (map_of m) = dom (map_of m')"
    by (simp add: dom_def)
  then show ?thesis
    by (simp add: dom_map_of_conv_image_fst)
qed

lemma same_map2_sorted:
  assumes "same_map2 m m'" "wf_map m" "wf_map m'"
  shows "sorted_keys m = sorted_keys m'"
  unfolding sorted_keys_def
  using same_map2_keys [OF assms(1)] assms(2,3)
  by (intro sorted_distinct_set_unique) auto

lemma same_map2_lookup:
  "same_map2 m m' \<Longrightarrow> map_of (or_zero (map_of m k) []) = map_of (or_zero (map_of m' k) [])"
  unfolding same_map2_def
  by (cases "map_of m k"; cases "map_of m' k") (auto simp: or_zero_def dest: spec [of _ k])

lemma validate_types_cong:
  "map_of al = map_of al' \<Longrightarrow> map_of bt = map_of bt' \<Longrightarrow>
   validate_types al bt pts cnt = validate_types al' bt' pts cnt"
  by (induction pts arbitrary: cnt) (simp_all add: type_allowed_def)

lemma validate_targets_cong:
  assumes "same_map2 al al'" "same_map2 rs rs'"
    "\<And>t bt. (t, bt) \<in> set rs \<Longrightarrow> wf_map bt" "\<And>t bt. (t, bt) \<in> set rs' \<Longrightarrow> wf_map bt"
    "wf_map rs" "wf_map rs'"
  shows "validate_targets al rs ts cnt = validate_targets al' rs' ts cnt"
proof (induction ts arbitrary: cnt)
  case (Cons t ts)
  let ?b = "or_zero (map_of rs t) []" and ?b' = "or_zero (map_of rs' t) []"
  have same: "map_of ?b = map_of ?b'" by (rule same_map2_lookup [OF assms(2)])
  then have empty: "?b = [] \<longleftrightarrow> ?b' = []" by (metis map_of_nonempty_iff)
  have sorted: "sorted_keys ?b = sorted_keys ?b'"
  proof (rule sorted_keys_order_independent [OF _ _ same])
    show "wf_map ?b" by (rule wf_or_zero [OF assms(5) assms(3)])
    show "wf_map ?b'" by (rule wf_or_zero [OF assms(6) assms(4)])
  qed
  have al: "rel_option (\<lambda>a b. map_of a = map_of b) (map_of al t) (map_of al' t)"
    using assms(1) by (simp add: same_map2_def)
  show ?case
  proof (cases "map_of al t")
    case None
    with al show ?thesis by simp
  next
    case (Some a)
    with al obtain a' where a': "map_of al' t = Some a'" "map_of a = map_of a'"
      by (cases "map_of al' t") auto
    have "validate_targets al rs ts = validate_targets al' rs' ts"
      by (rule ext) (rule Cons.IH)
    with Some a' empty show ?thesis
      by (simp add: Let_def sorted validate_types_cong [OF a'(2) same])
  qed
qed simp

lemma Validate_order_independent:
  assumes "wf_results (req_Results r)" "wf_results rs'" "same_map2 (req_Results r) rs'"
    "same_map2 al al'"
  shows "Validate r al cid = Validate (r\<lparr>req_Results := rs'\<rparr>) al' cid"
proof -
  let ?rs = "req_Results r"
  have wf: "wf_map ?rs" "wf_map rs'" and inner: "\<And>t bt. (t, bt) \<in> set ?rs \<Longrightarrow> wf_map bt"
    "\<And>t bt. (t, bt) \<in> set rs' \<Longrightarrow> wf_map bt"
    using assms(1,2) by (auto simp: wf_results_def list_all_iff)
  have sorted: "sorted_keys ?rs = sorted_keys rs'"
    by (rule same_map2_sorted [OF assms(3) wf])
  have empty: "?rs = [] \<longleftrightarrow> rs' = []"
    using same_map2_keys [OF assms(3)] by (metis Nil_is_map_conv set_empty)
  have run: "validate_targets al ?rs ts cnt = validate_targets al' rs' ts cnt" for ts cnt
    by (rule validate_targets_cong [OF assms(4,3) inner wf])
  show ?thesis
    using empty by (simp add: Validate_def run sorted)
qed

section \<open>Staleness is judged before the payload\<close>

lemma Validate_stale:
  assumes "req_Version r = Version" "length (req_ConfigID r) \<le> MaxConfigIDLen" "req_ConfigID r \<noteq> []"
    "req_ConfigID r \<noteq> cid"
  shows "Validate r al cid = Inl (newError CodeConfigStale ''measurement config is out of date'')"
  using assms by (simp add: Validate_def)

text \<open>An error code of \<open>Validate\<close> is one of five.\<close>

lemma bad_payload_Inl [simp]: "bad_payload msg = Inl e \<longleftrightarrow> e = newError CodeInvalidPayload msg"
  by (auto simp: bad_payload_def)

lemma validate_rtt_code: "validate_rtt m = Inl e \<Longrightarrow> Code e = CodeInvalidPayload"
  by (auto simp: validate_rtt_def validate_jitter_def split: option.splits if_splits)

lemma validateICMP_code: "validateICMP m = Inl e \<Longrightarrow> Code e = CodeInvalidPayload"
  by (auto simp: validateICMP_def dest: validate_rtt_code split: if_splits)

lemma validateDNS_code: "validateDNS m = Inl e \<Longrightarrow> Code e = CodeInvalidPayload"
  by (auto simp: validateDNS_def split: option.splits if_splits)

lemma validateHTTP_code: "validateHTTP m = Inl e \<Longrightarrow> Code e = CodeInvalidPayload"
  by (auto simp: validateHTTP_def split: option.splits if_splits)

lemma validateMeasurement_code:
  "validateMeasurement pt m = Inl e \<Longrightarrow> known_type pt \<Longrightarrow> Code e = CodeInvalidPayload"
  by (auto simp: validateMeasurement_def known_type_def split: option.splits if_splits
      dest: validateICMP_code validateDNS_code validateHTTP_code)

lemma validate_types_code:
  "validate_types al' bt pts cnt = Inl e \<Longrightarrow> Code e \<in> {CodeInvalidProbeType, CodeInvalidPayload}"
  by (induction pts arbitrary: cnt)
    (auto simp: bind_result_Inl split: if_splits dest: validateMeasurement_code)

lemma validate_targets_code:
  "validate_targets al rs ts cnt = Inl e \<Longrightarrow>
   Code e \<in> {CodeInvalidTarget, CodeInvalidProbeType, CodeInvalidPayload}"
  by (induction ts arbitrary: cnt)
    (auto simp: bind_result_Inl Let_def split: if_splits option.splits dest: validate_types_code)

lemma Validate_code:
  "Validate r al cid = Inl e \<Longrightarrow>
   Code e \<in> {CodeUnsupportedVersion, CodeInvalidPayload, CodeConfigStale, CodeInvalidTarget,
             CodeInvalidProbeType}"
  by (auto simp: Validate_def bind_result_Inl split: if_splits dest: validate_targets_code)

end
