(* ===== verification/Protocol_Decode.thy ===== *)
theory Protocol_Decode
  imports Protocol_Validate
begin

text \<open>
  What \<open>Decode\<close> (\<open>internal/protocol/types.go\<close>) guarantees: every rejection is
  \<open>invalid_json\<close>, and a decoded request is well formed: distinct keys, 64-bit integers,
  finite numbers, and exactly the payload its probe type names.
\<close>

section \<open>Rejections\<close>

lemma unmarshalStrict_results [gw_results]:
  "unmarshalStrict r = Inr x \<longleftrightarrow> r = Some x"
  "unmarshalStrict r = Inl e \<longleftrightarrow> r = None \<and> e = wrong_type"
  by (auto simp: unmarshalStrict_def split: option.splits)

lemma jsonFields_Inl: "jsonFields j = Inl e \<Longrightarrow> Code e = CodeInvalidJSON"
  by (cases j) auto

lemma wrong_type_code [simp]: "Code wrong_type = CodeInvalidJSON"
  by (simp add: wrong_type_def)

lemma decodeMeasurement_code:
  "decodeMeasurement pt body = Inl e \<Longrightarrow> Code e = CodeInvalidJSON"
  by (auto simp: decodeMeasurement_def decodeICMP_def decodeDNS_def decodeHTTP_def bind_result_Inl
      gw_results dest: jsonFields_Inl split: if_splits)

lemma decode_types_code: "decode_types ms acc = Inl e \<Longrightarrow> Code e = CodeInvalidJSON"
  by (induction ms acc rule: decode_types.induct)
    (auto simp: bind_result_Inl dest: decodeMeasurement_code)

lemma decode_targets_code: "decode_targets ts acc = Inl e \<Longrightarrow> Code e = CodeInvalidJSON"
  by (induction ts acc rule: decode_targets.induct)
    (auto simp: bind_result_Inl dest: decode_types_code)

lemma Decode_code: "Decode body = Inl e \<Longrightarrow> Code e = CodeInvalidJSON"
  by (auto simp: Decode_def bind_result_Inl split: option.splits if_splits dest: decode_targets_code)

section \<open>Well-formed requests\<close>

text \<open>What a measurement of each type holds once it has been decoded.\<close>

definition all_finite :: "float64 option list \<Rightarrow> bool" where
  "all_finite xs \<longleftrightarrow> (\<forall>x. Some x \<in> set xs \<longrightarrow> float_finite x)"

definition icmp_typed :: "icmp_result \<Rightarrow> bool" where
  "icmp_typed r \<longleftrightarrow>
     int64_ok (icmp_Sent r) \<and> int64_ok (icmp_Received r) \<and> float_finite (icmp_LossRatio r) \<and>
     all_finite [icmp_MinRTTMS r, icmp_AvgRTTMS r, icmp_MaxRTTMS r, icmp_JitterMS r]"

definition measurement_typed :: "probe_type \<Rightarrow> measurement \<Rightarrow> bool" where
  "measurement_typed pt m \<longleftrightarrow>
     (m_ICMP m \<noteq> None \<longleftrightarrow> pt = ProbeICMP) \<and> (m_DNS m \<noteq> None \<longleftrightarrow> pt = ProbeDNS) \<and>
     (m_HTTP m \<noteq> None \<longleftrightarrow> pt = ProbeHTTP) \<and>
     (\<forall>r. m_ICMP m = Some r \<longrightarrow> icmp_typed r) \<and>
     (\<forall>r. m_DNS m = Some r \<longrightarrow> all_finite [dns_DurationMS r]) \<and>
     (\<forall>r. m_HTTP m = Some r \<longrightarrow> all_finite [http_DurationMS r] \<and>
        (\<forall>c. http_StatusCode r = Some c \<longrightarrow> int64_ok c))"

definition results_typed :: "results \<Rightarrow> bool" where
  "results_typed rs \<longleftrightarrow>
     wf_results rs \<and> (\<forall>(t, byType) \<in> set rs. \<forall>(pt, m) \<in> set byType. measurement_typed pt m)"

lemma ptr_float_finite:
  "ptr_field as_float64 name ms None = Some r \<Longrightarrow> r = Some x \<Longrightarrow> float_finite x"
  by (rule ptr_field_all [where P = float_finite]) (auto dest: as_float64_finite)

lemma ptr_int64_ok:
  "ptr_field as_int64 name ms None = Some r \<Longrightarrow> r = Some x \<Longrightarrow> int64_ok x"
  by (rule ptr_field_all [where P = int64_ok]) (auto dest: as_int64_ok)

lemma or_zero_int64: "ptr_field as_int64 name ms None = Some r \<Longrightarrow> int64_ok (or_zero r 0)"
  by (cases r) (auto simp: or_zero_def int64_ok_def dest: ptr_int64_ok)

lemma or_zero_finite: "ptr_field as_float64 name ms None = Some r \<Longrightarrow> float_finite (or_zero r (Fin 0))"
  by (cases r) (auto simp: or_zero_def dest: ptr_float_finite)

lemma decodeICMP_typed: "decodeICMP body = Inr r \<Longrightarrow> icmp_typed r"
  by (auto simp: decodeICMP_def gw_results icmp_typed_def all_finite_def or_zero_int64 or_zero_finite
      dest: ptr_float_finite)

lemma decodeDNS_typed: "decodeDNS body = Inr r \<Longrightarrow> all_finite [dns_DurationMS r]"
  by (auto simp: decodeDNS_def gw_results all_finite_def dest: ptr_float_finite)

lemma decodeHTTP_typed:
  "decodeHTTP body = Inr r \<Longrightarrow>
   all_finite [http_DurationMS r] \<and> (\<forall>c. http_StatusCode r = Some c \<longrightarrow> int64_ok c)"
  by (auto simp: decodeHTTP_def gw_results all_finite_def dest: ptr_float_finite ptr_int64_ok)

lemma decodeMeasurement_typed:
  "decodeMeasurement pt body = Inr m \<Longrightarrow> measurement_typed pt m"
  by (auto simp: decodeMeasurement_def gw_results measurement_typed_def no_measurement_def
      dest: decodeICMP_typed decodeDNS_typed decodeHTTP_typed split: if_splits)

lemma set_map_put_subset: "set (map_put k v m) \<subseteq> insert (k, v) (set m)"
  by (induction m) auto

lemma decode_types_typed:
  assumes "decode_types ms acc = Inr m" "wf_map acc" "\<forall>(pt, x) \<in> set acc. measurement_typed pt x"
  shows "wf_map m \<and> (\<forall>(pt, x) \<in> set m. measurement_typed pt x)"
  using assms
proof (induction ms acc rule: decode_types.induct)
  case (1 acc)
  then show ?case by simp
next
  case (2 pt body ms acc)
  from "2.prems"(1) obtain x where x: "decodeMeasurement pt body = Inr x"
    and rest: "decode_types ms (map_put pt x acc) = Inr m"
    by (auto simp: gw_results)
  have "\<forall>(pt', y) \<in> set (map_put pt x acc). measurement_typed pt' y"
    using "2.prems"(3) set_map_put_subset [of pt x acc] decodeMeasurement_typed [OF x] by blast
  with "2.IH" [OF rest] "2.prems"(2) show ?case by (simp add: gw_keys)
qed

lemma decode_targets_typed:
  assumes "decode_targets ts acc = Inr m" "results_typed acc"
  shows "results_typed m"
  using assms
proof (induction ts acc rule: decode_targets.induct)
  case (1 acc)
  then show ?case by simp
next
  case (2 t byType ts acc)
  from "2.prems"(1) obtain x where x: "decode_types byType [] = Inr x"
    and rest: "decode_targets ts (map_put t x acc) = Inr m"
    by (auto simp: gw_results)
  have typed: "wf_map x \<and> (\<forall>(pt, y) \<in> set x. measurement_typed pt y)"
    using decode_types_typed [OF x] by simp
  have "results_typed (map_put t x acc)"
    using "2.prems"(2) typed set_map_put_subset [of t x acc]
    unfolding results_typed_def wf_results_def list_all_iff
    by (auto simp: gw_keys) blast+
  with "2.IH" [OF rest] show ?case by simp
qed

lemma Decode_typed: "Decode body = Inr r \<Longrightarrow> results_typed (req_Results r)"
proof -
  assume "Decode body = Inr r"
  then obtain raws where "decode_targets raws [] = Inr (req_Results r)"
    by (auto simp: Decode_def gw_results request_of_raw_def split: option.splits if_splits)
  then show ?thesis
    by (rule decode_targets_typed) (simp add: results_typed_def wf_results_def)
qed

lemma Decode_wf: "Decode body = Inr r \<Longrightarrow> wf_results (req_Results r)"
  using Decode_typed by (simp add: results_typed_def)

lemma Decode_int64:
  assumes "Decode body = Inr r"
  shows "int64_ok (req_Version r) \<and> int64_ok (req_Timestamp r)"
proof -
  from assms obtain v rest raw where "decode_raw v = Some raw"
    "req_Version r = or_zero (raw_Version raw) 0" "req_Timestamp r = or_zero (raw_Timestamp raw) 0"
    by (auto simp: Decode_def gw_results request_of_raw_def split: option.splits if_splits)
  then show ?thesis
    by (cases v) (auto simp: zero_raw_def or_zero_int64 or_zero_def [of None] int64_ok_def [of 0]
        split: option.splits prod.splits)
qed

section \<open>A null measurement decodes to the zero measurement\<close>

lemma decode_null:
  "decodeMeasurement ProbeDNS JNull = Inr (no_measurement\<lparr>m_DNS := Some \<lparr>dns_Success = False, dns_DurationMS = None\<rparr>\<rparr>)"
  "decodeMeasurement ProbeHTTP JNull =
     Inr (no_measurement\<lparr>m_HTTP := Some \<lparr>http_Success = False, http_StatusCode = None, http_DurationMS = None\<rparr>\<rparr>)"
  by (simp_all add: decodeMeasurement_def decodeDNS_def decodeHTTP_def unmarshalStrict_def or_zero_def)

lemma null_measurement_ok:
  "pt \<in> {ProbeDNS, ProbeHTTP} \<Longrightarrow> \<exists>m. decodeMeasurement pt JNull = Inr m \<and> validateMeasurement pt m = Inr ()"
  by (auto simp: decode_null validateMeasurement_def validateDNS_def validateHTTP_def)

end
