(* ===== verification/Protocol_Dispatch.thy ===== *)
theory Protocol_Dispatch
  imports Go_JSON_Values Go_Hash "HOL-Library.Multiset"
begin

text \<open>
  \<open>internal/protocol/dispatch.go\<close>: the measurement parameters handed to every probe, their
  validation, their JSON form and the UUID derived from them and the target list.  Go
  \<open>int\<close> is 64 bits wide, so every product and digest is written with its wrap-around.
\<close>

section \<open>Parameters\<close>

definition IntervalMS :: int where "IntervalMS = 10000"
definition ICMPCount :: int where "ICMPCount = 5"
definition ICMPIntervalMS :: int where "ICMPIntervalMS = 200"
definition ICMPTimeoutMS :: int where "ICMPTimeoutMS = 1000"
definition HTTPMethod :: string where "HTTPMethod = ''GET''"
definition HTTPFollowRedirects :: bool where "HTTPFollowRedirects = True"
definition HTTPVerifyTLS :: bool where "HTTPVerifyTLS = True"
definition HTTPTimeoutMS :: int where "HTTPTimeoutMS = 5000"
definition DNSTransport :: string where "DNSTransport = ''udp''"
definition DNSTimeoutMS :: int where "DNSTimeoutMS = 3000"
definition MinIntervalMS :: int where "MinIntervalMS = 1000"

lemmas dispatch_constants =
  IntervalMS_def ICMPCount_def ICMPIntervalMS_def ICMPTimeoutMS_def HTTPMethod_def
  HTTPFollowRedirects_def HTTPVerifyTLS_def HTTPTimeoutMS_def DNSTransport_def DNSTimeoutMS_def
  MinIntervalMS_def

record icmp_config =
  ic_Count :: int
  ic_IntervalMS :: int
  ic_TimeoutMS :: int

record http_config =
  hc_Method :: string
  hc_FollowRedirects :: bool
  hc_VerifyTLS :: bool
  hc_TimeoutMS :: int

record dns_config =
  dc_Transport :: string
  dc_TimeoutMS :: int

record measurement_config =
  mc_IntervalMS :: int
  mc_ICMP :: icmp_config
  mc_HTTP :: http_config
  mc_DNS :: dns_config

text \<open>Every integer of a config is a Go \<open>int\<close>.\<close>

definition config_typed :: "measurement_config \<Rightarrow> bool" where
  "config_typed c \<longleftrightarrow>
     int64_ok (mc_IntervalMS c) \<and> int64_ok (ic_Count (mc_ICMP c)) \<and> int64_ok (ic_IntervalMS (mc_ICMP c)) \<and>
     int64_ok (ic_TimeoutMS (mc_ICMP c)) \<and> int64_ok (hc_TimeoutMS (mc_HTTP c)) \<and>
     int64_ok (dc_TimeoutMS (mc_DNS c))"

definition DefaultMeasurementConfig :: measurement_config where
  "DefaultMeasurementConfig =
     \<lparr>mc_IntervalMS = IntervalMS,
      mc_ICMP = \<lparr>ic_Count = ICMPCount, ic_IntervalMS = ICMPIntervalMS, ic_TimeoutMS = ICMPTimeoutMS\<rparr>,
      mc_HTTP = \<lparr>hc_Method = HTTPMethod, hc_FollowRedirects = HTTPFollowRedirects,
                 hc_VerifyTLS = HTTPVerifyTLS, hc_TimeoutMS = HTTPTimeoutMS\<rparr>,
      mc_DNS = \<lparr>dc_Transport = DNSTransport, dc_TimeoutMS = DNSTimeoutMS\<rparr>\<rparr>"

section \<open>Validation\<close>

definition ICMPRoundMS :: "measurement_config \<Rightarrow> int" where
  "ICMPRoundMS c =
     (if ic_Count (mc_ICMP c) \<le> 0 then 0
      else wrap64 (wrap64 (wrap64 (ic_Count (mc_ICMP c) - 1) * ic_IntervalMS (mc_ICMP c))
                   + ic_TimeoutMS (mc_ICMP c)))"

text \<open>The rejections of \<open>Validate\<close>; each stands for one message of the source.\<close>

datatype config_error =
    IntervalTooShort int
  | CountNotPositive
  | IcmpIntervalNotPositive
  | IcmpTimeoutNotPositive
  | RoundTooLong int int int int int
  | MethodFixed
  | TransportFixed
  | HttpTimeoutNotPositive
  | HttpTimeoutTooLong int int
  | DnsTimeoutNotPositive
  | DnsTimeoutTooLong int int

definition config_Validate :: "measurement_config \<Rightarrow> config_error + unit" where
  "config_Validate c =
     (if mc_IntervalMS c < MinIntervalMS then Inl (IntervalTooShort MinIntervalMS)
      else if ic_Count (mc_ICMP c) \<le> 0 then Inl CountNotPositive
      else if ic_IntervalMS (mc_ICMP c) \<le> 0 then Inl IcmpIntervalNotPositive
      else if ic_TimeoutMS (mc_ICMP c) \<le> 0 then Inl IcmpTimeoutNotPositive
      else if ICMPRoundMS c \<ge> mc_IntervalMS c
      then Inl (RoundTooLong (ICMPRoundMS c) (ic_Count (mc_ICMP c)) (ic_IntervalMS (mc_ICMP c))
                  (ic_TimeoutMS (mc_ICMP c)) (mc_IntervalMS c))
      else if hc_Method (mc_HTTP c) \<noteq> HTTPMethod then Inl MethodFixed
      else if dc_Transport (mc_DNS c) \<noteq> DNSTransport then Inl TransportFixed
      else if hc_TimeoutMS (mc_HTTP c) \<le> 0 then Inl HttpTimeoutNotPositive
      else if hc_TimeoutMS (mc_HTTP c) \<ge> mc_IntervalMS c
      then Inl (HttpTimeoutTooLong (hc_TimeoutMS (mc_HTTP c)) (mc_IntervalMS c))
      else if dc_TimeoutMS (mc_DNS c) \<le> 0 then Inl DnsTimeoutNotPositive
      else if dc_TimeoutMS (mc_DNS c) \<ge> mc_IntervalMS c
      then Inl (DnsTimeoutTooLong (dc_TimeoutMS (mc_DNS c)) (mc_IntervalMS c))
      else Inr ())"

text \<open>The round as the comment on \<open>ICMPRoundMS\<close> states it, in unbounded integers.\<close>

definition exact_round :: "measurement_config \<Rightarrow> int" where
  "exact_round c =
     (ic_Count (mc_ICMP c) - 1) * ic_IntervalMS (mc_ICMP c) + ic_TimeoutMS (mc_ICMP c)"

definition config_ok :: "measurement_config \<Rightarrow> bool" where
  "config_ok c \<longleftrightarrow>
     MinIntervalMS \<le> mc_IntervalMS c \<and> 0 < ic_Count (mc_ICMP c) \<and> 0 < ic_IntervalMS (mc_ICMP c) \<and>
     0 < ic_TimeoutMS (mc_ICMP c) \<and> ICMPRoundMS c < mc_IntervalMS c \<and>
     hc_Method (mc_HTTP c) = HTTPMethod \<and> dc_Transport (mc_DNS c) = DNSTransport \<and>
     0 < hc_TimeoutMS (mc_HTTP c) \<and> hc_TimeoutMS (mc_HTTP c) < mc_IntervalMS c \<and>
     0 < dc_TimeoutMS (mc_DNS c) \<and> dc_TimeoutMS (mc_DNS c) < mc_IntervalMS c"

lemma config_Validate_iff [gw_results]: "config_Validate c = Inr () \<longleftrightarrow> config_ok c"
  by (auto simp: config_Validate_def config_ok_def)

lemma config_Validate_cases: "config_Validate c = Inr () \<or> (\<exists>e. config_Validate c = Inl e)"
  by (cases "config_Validate c") auto

lemma default_config_ok: "config_ok DefaultMeasurementConfig"
  by (simp add: config_ok_def DefaultMeasurementConfig_def dispatch_constants ICMPRoundMS_def wrap64_def)

lemma default_config_typed: "config_typed DefaultMeasurementConfig"
  by (simp add: config_typed_def DefaultMeasurementConfig_def dispatch_constants int64_ok_def)

lemma ICMPRoundMS_exact:
  assumes "config_typed c" "0 < ic_Count (mc_ICMP c)" "0 \<le> ic_IntervalMS (mc_ICMP c)"
    "0 \<le> ic_TimeoutMS (mc_ICMP c)" "exact_round c < 2 ^ 63"
  shows "ICMPRoundMS c = exact_round c"
proof -
  let ?i = "mc_ICMP c"
  have "int64_ok (ic_Count ?i - 1)"
    using assms(1,2) by (simp add: config_typed_def int64_ok_def)
  moreover have prod: "0 \<le> (ic_Count ?i - 1) * ic_IntervalMS ?i"
    using assms(2,3) by simp
  moreover have "int64_ok ((ic_Count ?i - 1) * ic_IntervalMS ?i)"
    using assms(4,5) prod by (simp add: exact_round_def int64_ok_def)
  moreover have "int64_ok (exact_round c)"
    using assms(4,5) prod by (simp add: exact_round_def int64_ok_def)
  ultimately show ?thesis
    using assms(2) by (simp add: ICMPRoundMS_def exact_round_def)
qed

text \<open>Within the range where the round does not overflow, the check means what it says.\<close>

lemma round_fits_cycle:
  "config_typed c \<Longrightarrow> config_ok c \<Longrightarrow> exact_round c < 2 ^ 63 \<Longrightarrow> exact_round c < mc_IntervalMS c"
  using ICMPRoundMS_exact [of c] by (simp add: config_ok_def)

section \<open>JSON form\<close>

definition icmp_json :: "icmp_config \<Rightarrow> json" where
  "icmp_json c = JObj [(''count'', json_int (ic_Count c)), (''interval_ms'', json_int (ic_IntervalMS c)),
     (''timeout_ms'', json_int (ic_TimeoutMS c))]"

definition http_json :: "http_config \<Rightarrow> json" where
  "http_json c = JObj [(''method'', JStr (hc_Method c)), (''follow_redirects'', JBool (hc_FollowRedirects c)),
     (''verify_tls'', JBool (hc_VerifyTLS c)), (''timeout_ms'', json_int (hc_TimeoutMS c))]"

definition dns_json :: "dns_config \<Rightarrow> json" where
  "dns_json c = JObj [(''transport'', JStr (dc_Transport c)), (''timeout_ms'', json_int (dc_TimeoutMS c))]"

definition config_json :: "measurement_config \<Rightarrow> json" where
  "config_json c = JObj [(''interval_ms'', json_int (mc_IntervalMS c)), (''icmp'', icmp_json (mc_ICMP c)),
     (''http'', http_json (mc_HTTP c)), (''dns'', dns_json (mc_DNS c))]"

text \<open>\<open>json.Unmarshal\<close> into a \<open>MeasurementConfig\<close> that starts as the zero value.\<close>

fun as_object :: "((string \<times> json) list \<Rightarrow> 'a \<Rightarrow> 'a option) \<Rightarrow> json \<Rightarrow> 'a \<Rightarrow> 'a option" where
  "as_object f (JObj ms) cur = f ms cur"
| "as_object f JNull cur = Some cur"
| "as_object f _ cur = None"

definition int_field :: "string \<Rightarrow> (string \<times> json) list \<Rightarrow> int \<Rightarrow> int option" where
  "int_field = plain_field (\<lambda>v _. as_int64 v)"

definition bool_field :: "string \<Rightarrow> (string \<times> json) list \<Rightarrow> bool \<Rightarrow> bool option" where
  "bool_field = plain_field (\<lambda>v _. as_bool v)"

definition string_field :: "string \<Rightarrow> (string \<times> json) list \<Rightarrow> string \<Rightarrow> string option" where
  "string_field = plain_field (\<lambda>v _. as_string v)"

definition read_icmp :: "(string \<times> json) list \<Rightarrow> icmp_config \<Rightarrow> icmp_config option" where
  "read_icmp ms c =
     (case (int_field ''count'' ms (ic_Count c), int_field ''interval_ms'' ms (ic_IntervalMS c),
            int_field ''timeout_ms'' ms (ic_TimeoutMS c)) of
        (Some n, Some i, Some t) \<Rightarrow> Some \<lparr>ic_Count = n, ic_IntervalMS = i, ic_TimeoutMS = t\<rparr>
      | _ \<Rightarrow> None)"

definition read_http :: "(string \<times> json) list \<Rightarrow> http_config \<Rightarrow> http_config option" where
  "read_http ms c =
     (case (string_field ''method'' ms (hc_Method c), bool_field ''follow_redirects'' ms (hc_FollowRedirects c),
            bool_field ''verify_tls'' ms (hc_VerifyTLS c), int_field ''timeout_ms'' ms (hc_TimeoutMS c)) of
        (Some m, Some f, Some v, Some t) \<Rightarrow>
          Some \<lparr>hc_Method = m, hc_FollowRedirects = f, hc_VerifyTLS = v, hc_TimeoutMS = t\<rparr>
      | _ \<Rightarrow> None)"

definition read_dns :: "(string \<times> json) list \<Rightarrow> dns_config \<Rightarrow> dns_config option" where
  "read_dns ms c =
     (case (string_field ''transport'' ms (dc_Transport c), int_field ''timeout_ms'' ms (dc_TimeoutMS c)) of
        (Some tr, Some t) \<Rightarrow> Some \<lparr>dc_Transport = tr, dc_TimeoutMS = t\<rparr>
      | _ \<Rightarrow> None)"

definition zero_config :: measurement_config where
  "zero_config =
     \<lparr>mc_IntervalMS = 0, mc_ICMP = \<lparr>ic_Count = 0, ic_IntervalMS = 0, ic_TimeoutMS = 0\<rparr>,
      mc_HTTP = \<lparr>hc_Method = [], hc_FollowRedirects = False, hc_VerifyTLS = False, hc_TimeoutMS = 0\<rparr>,
      mc_DNS = \<lparr>dc_Transport = [], dc_TimeoutMS = 0\<rparr>\<rparr>"

definition read_config :: "(string \<times> json) list \<Rightarrow> measurement_config \<Rightarrow> measurement_config option" where
  "read_config ms c =
     (case (int_field ''interval_ms'' ms (mc_IntervalMS c), plain_field (as_object read_icmp) ''icmp'' ms (mc_ICMP c),
            plain_field (as_object read_http) ''http'' ms (mc_HTTP c),
            plain_field (as_object read_dns) ''dns'' ms (mc_DNS c)) of
        (Some i, Some ic, Some hc, Some dc) \<Rightarrow>
          Some \<lparr>mc_IntervalMS = i, mc_ICMP = ic, mc_HTTP = hc, mc_DNS = dc\<rparr>
      | _ \<Rightarrow> None)"

definition config_unmarshal :: "string \<Rightarrow> measurement_config option" where
  "config_unmarshal raw =
     (case json_parse raw of None \<Rightarrow> None | Some v \<Rightarrow> as_object read_config v zero_config)"

definition config_marshal :: "measurement_config \<Rightarrow> string" where
  "config_marshal c = json_print (config_json c)"

section \<open>Identity\<close>

record dispatch_target =
  dt_TargetID :: string
  dt_Address :: string
  dt_ProbeTypes :: "string list"

definition configIDNamespace :: string where
  "configIDNamespace =
     map byte [0x6f, 0x1d, 0x3d, 0x2e, 0x8a, 0x14, 0x4b, 0x77, 0x9c, 0x31, 0x2f, 0x0b, 0x5e, 0x88, 0x41, 0xd2]"

definition target_json :: "dispatch_target \<Rightarrow> json" where
  "target_json t = JObj [(''target_id'', JStr (dt_TargetID t)), (''address'', JStr (dt_Address t)),
     (''probe_types'', JArr (map JStr (dt_ProbeTypes t)))]"

text \<open>\<open>sort.Slice\<close> by target ID; the IDs are unique, so every sorting algorithm gives this list.\<close>

definition canonical_targets :: "dispatch_target list \<Rightarrow> dispatch_target list" where
  "canonical_targets ts = sort_key dt_TargetID (map (\<lambda>t. t\<lparr>dt_ProbeTypes := sort (dt_ProbeTypes t)\<rparr>) ts)"

definition config_payload :: "measurement_config \<Rightarrow> dispatch_target list \<Rightarrow> string" where
  "config_payload cfg ts =
     json_print (JObj [(''config'', config_json cfg), (''targets'', JArr (map target_json (canonical_targets ts)))])"

fun uuid_dashes :: "nat \<Rightarrow> string \<Rightarrow> string" where
  "uuid_dashes i [] = []"
| "uuid_dashes i (b # bs) =
     (if i \<in> {4, 6, 8, 10} then ''-'' else []) @ hex_byte b @ uuid_dashes (Suc i) bs"

definition formatUUID :: "string \<Rightarrow> string" where
  "formatUUID bytes = uuid_dashes 0 bytes"

text \<open>\<open>id[6] = (id[6] & 0x0f) | 0x50\<close> and \<open>id[8] = (id[8] & 0x3f) | 0x80\<close>.\<close>

definition uuid_v5_bytes :: "string \<Rightarrow> string" where
  "uuid_v5_bytes digest =
     (let idb = take 16 digest;
          idb = idb[6 := byte ((code (idb ! 6) AND 0x0f) OR 0x50)]
      in idb[8 := byte ((code (idb ! 8) AND 0x3f) OR 0x80)])"

definition ConfigID :: "measurement_config \<Rightarrow> dispatch_target list \<Rightarrow> string" where
  "ConfigID cfg targets = formatUUID (uuid_v5_bytes (sha1 (configIDNamespace @ config_payload cfg targets)))"

lemma length_uuid_dashes:
  "length (uuid_dashes i bs) = 2 * length bs + card ({4, 6, 8, 10} \<inter> {i..<i + length bs})"
proof (induction bs arbitrary: i)
  case (Cons b bs)
  have "{i..<i + length (b # bs)} = insert i {Suc i..<Suc i + length bs}" by auto
  then show ?case
    using Cons.IH [of "Suc i"] by (simp add: hex_byte_def Int_insert_right)
qed simp

lemma length_uuid_v5 [simp]: "length (uuid_v5_bytes digest) = min 16 (length digest)"
  by (simp add: uuid_v5_bytes_def Let_def)

lemma length_ConfigID: "length (ConfigID cfg ts) = 36"
proof -
  have "{4, 6, 8, 10} \<inter> {0..<16} = {4, 6, 8, 10 :: nat}" by auto
  then show ?thesis
    by (simp add: ConfigID_def formatUUID_def length_uuid_dashes)
qed

lemma canonical_targets_mset:
  assumes "distinct (map dt_TargetID ts)"
    "mset (map (\<lambda>t. (dt_TargetID t, dt_Address t, mset (dt_ProbeTypes t))) ts) =
     mset (map (\<lambda>t. (dt_TargetID t, dt_Address t, mset (dt_ProbeTypes t))) ts')"
  shows "canonical_targets ts = canonical_targets ts'"
proof -
  let ?f = "\<lambda>t. (dt_TargetID t, dt_Address t, mset (dt_ProbeTypes t))"
  let ?g = "\<lambda>(i, a, p). \<lparr>dt_TargetID = i, dt_Address = a, dt_ProbeTypes = sorted_list_of_multiset p\<rparr>"
  let ?c = "\<lambda>t::dispatch_target. t\<lparr>dt_ProbeTypes := sort (dt_ProbeTypes t)\<rparr>"
  have c: "?c = ?g \<circ> ?f"
    by (rule ext) (simp add: sorted_list_of_multiset_mset)
  have "image_mset ?g (mset (map ?f ts)) = image_mset ?g (mset (map ?f ts'))"
    by (simp only: assms(2))
  then have eq: "mset (map ?c ts) = mset (map ?c ts')"
    unfolding c by (simp add: image_mset.compositionality)
  have "inj_on dt_TargetID (set (map ?c ts))"
    using assms(1) by (auto simp: distinct_map inj_on_def)
  with eq show ?thesis
    unfolding canonical_targets_def
    by (intro sort_key_inj_key_eq) (simp_all add: eq)
qed

end
