(* ===== verification/Go_JSON_Roundtrip.thy ===== *)
theory Go_JSON_Roundtrip
  imports Go_JSON_Values
begin

text \<open>
  What the compact printer writes, the scanner reads back: for values whose strings are
  printable ASCII without escapes and whose numbers are integers (the values the gateway
  itself prints), at any nesting the scanner allows.
\<close>

section \<open>Integer literals\<close>

text \<open>An optional minus sign and digits without a superfluous leading zero.\<close>

definition nat_lit :: "string \<Rightarrow> bool" where
  "nat_lit s \<longleftrightarrow> s \<noteq> [] \<and> list_all is_digit s \<and> (hd s = CHR ''0'' \<longrightarrow> s = ''0'')"

definition int_lit :: "string \<Rightarrow> bool" where
  "int_lit s \<longleftrightarrow> nat_lit s \<or> (\<exists>t. s = CHR ''-'' # t \<and> nat_lit t)"

lemma byte_digit_zero: "d < 10 \<Longrightarrow> byte (48 + d) = CHR ''0'' \<longleftrightarrow> d = 0"
proof -
  assume "d < 10"
  then have "code (byte (48 + d)) = 48 + d" by simp
  moreover have "code (CHR ''0'') = 48" by (simp add: code_def)
  ultimately show ?thesis by (metis add_cancel_left_right code_inject)
qed

lemma hd_show_nat: "0 < n \<Longrightarrow> hd (show_nat n) \<noteq> CHR ''0''"
proof (induction n rule: show_nat.induct)
  case (1 n)
  show ?case
  proof (cases "n < 10")
    case True
    with 1 show ?thesis by (subst show_nat.simps) (simp add: byte_digit_zero)
  next
    case False
    with 1 have "hd (show_nat (n div 10)) \<noteq> CHR ''0''" by simp
    with False show ?thesis by (subst show_nat.simps) simp
  qed
qed

lemma show_nat_lit: "nat_lit (show_nat n)"
proof (cases "n = 0")
  case True
  then show ?thesis
    by (subst show_nat.simps) (simp add: nat_lit_def byte_digit_zero [of 0, simplified] is_digit_def code_def)
next
  case False
  then show ?thesis
    by (simp add: nat_lit_def show_nat_digits hd_show_nat)
qed

lemma itoa_lit: "int_lit (itoa i)"
  by (auto simp: itoa_def int_lit_def show_nat_lit)

section \<open>Scanning a printed value\<close>

fun jdepth :: "json \<Rightarrow> nat" where
  "jdepth (JArr vs) = Suc (Max (insert 0 (set (map jdepth vs))))"
| "jdepth (JObj kvs) = Suc (Max (insert 0 (set (map (\<lambda>(k, v). jdepth v) kvs))))"
| "jdepth _ = 0"

fun printable :: "json \<Rightarrow> bool" where
  "printable (JNum lit) = int_lit lit"
| "printable (JStr s) = list_all plain_char s"
| "printable (JArr vs) = list_all printable vs"
| "printable (JObj kvs) = list_all (\<lambda>(k, v). list_all plain_char k \<and> printable v) kvs"
| "printable _ = True"

text \<open>The bytes that can follow a value inside an array or an object.\<close>

definition closer :: "char \<Rightarrow> bool" where
  "closer c \<longleftrightarrow> c = CHR '','' \<or> c = CHR '']'' \<or> c = CHR ''}''"

lemma closer_num_step: "closer c \<Longrightarrow> num_accepts st \<Longrightarrow> num_step st c = None"
  by (cases st) (auto simp: closer_def is_digit_def code_def)

text \<open>A value in the middle of an array or an object: the scanner ends up behind it.\<close>

definition scans :: "json \<Rightarrow> bool" where
  "scans v \<longleftrightarrow>
     (\<forall>stk stk' c r. closer c \<longrightarrow> length stk + jdepth v \<le> max_nesting \<longrightarrow>
        close_value v stk = SCont stk' MAfter \<longrightarrow>
        json_run stk MValue (json_print v @ c # r) = json_run stk' MAfter (c # r))"

lemma scans_num_tail:
  assumes "num_accepts st" "closer c" "close_value (JNum (rev acc)) stk = SCont stk' MAfter"
  shows "json_run stk (MNum st acc) (c # r) = json_run stk' MAfter (c # r)"
  using assms by (simp add: closer_num_step)

lemma scans_nat_lit:
  assumes "nat_lit s" "closer c" "close_value (JNum (rev acc @ s)) stk = SCont stk' MAfter"
  shows "json_run stk (MNum NMinus acc) (s @ c # r) = json_run stk' MAfter (c # r)"
proof -
  from assms(1) obtain d ds where s: "s = d # ds" by (cases s) (auto simp: nat_lit_def)
  show ?thesis
  proof (cases "d = CHR ''0''")
    case True
    with assms s have "ds = []" by (simp add: nat_lit_def)
    with True s assms(2,3) show ?thesis
      using scans_num_tail [of NZero c "d # acc" stk stk' r] by simp
  next
    case False
    with assms(1) s have "is_digit d" "list_all is_digit ds" by (simp_all add: nat_lit_def)
    with False s assms(2,3) show ?thesis
      using scans_num_tail [of NInt c "rev ds @ d # acc" stk stk' r]
      by (simp add: json_run_digits)
  qed
qed

lemma begin_digit:
  "is_digit d \<Longrightarrow> begin_value stk d = SCont stk (MNum (if d = CHR ''0'' then NZero else NInt) [d])"
  by (auto simp: begin_value_def is_digit_def code_def)

lemma digit_not_space: "is_digit d \<Longrightarrow> \<not> is_json_space d"
  by (auto simp: is_digit_def is_json_space_def)

lemma scans_int_lit: "int_lit lit \<Longrightarrow> scans (JNum lit)"
  unfolding scans_def
proof (intro allI impI)
  fix stk stk' c r
  assume lit: "int_lit lit" and c: "closer c"
    and cl: "close_value (JNum lit) stk = SCont stk' MAfter"
  from lit consider "nat_lit lit" | t where "lit = CHR ''-'' # t" "nat_lit t"
    by (auto simp: int_lit_def)
  then show "json_run stk MValue (json_print (JNum lit) @ c # r) = json_run stk' MAfter (c # r)"
  proof cases
    case 1
    then obtain d ds where s: "lit = d # ds" "is_digit d" by (cases lit) (auto simp: nat_lit_def)
    have "json_run stk MValue (lit @ c # r) = json_run stk (MNum NMinus []) (lit @ c # r)"
      using s by (simp add: begin_digit digit_not_space)
    with scans_nat_lit [OF 1 c, of "[]"] cl show ?thesis by simp
  next
    case 2
    then have "json_run stk MValue (lit @ c # r) = json_run stk (MNum NMinus ''-'') (t @ c # r)"
      by (simp add: begin_value_def is_json_space_def code_def)
    with scans_nat_lit [OF 2(2) c, of "''-''"] 2(1) cl show ?thesis by simp
  qed
qed

lemma dquote_not_space [simp]: "\<not> is_json_space dquote"
  by (simp add: is_json_space_def code_def)

lemma begin_value_marks [simp]:
  "begin_value stk dquote = SCont stk (MStr False [])"
  "begin_value stk CHR ''{'' = open_frame (FObj []) stk MKeyOrEnd"
  "begin_value stk CHR ''['' = open_frame (FArr []) stk MValueOrEnd"
  by (simp_all add: begin_value_def)

lemma marks_not_space [simp]:
  "\<not> is_json_space CHR ''{''" "\<not> is_json_space CHR ''[''" "\<not> is_json_space CHR '':''"
  "\<not> is_json_space CHR '',''" "\<not> is_json_space CHR '']''" "\<not> is_json_space CHR ''}''"
  by (simp_all add: is_json_space_def code_def)

lemma run_quote:
  "list_all plain_char s \<Longrightarrow>
   json_run stk MValue (quote s @ r) =
     (case close_value (JStr s) stk of
        SFail \<Rightarrow> None | SDone v \<Rightarrow> Some (v, r) | SDoneBefore v \<Rightarrow> Some (v, dquote # r)
      | SCont stk' m' \<Rightarrow> json_run stk' m' r)"
proof -
  assume plain: "list_all plain_char s"
  then have "quote s @ r = dquote # (s @ dquote # r)"
    by (simp add: quote_def quote_body_plain)
  then have "json_run stk MValue (quote s @ r) = json_run stk (MStr False []) (s @ dquote # r)"
    by simp
  also have "end_string False (rev s @ []) stk = close_value (JStr s) stk"
    using plain by (simp add: end_string_def unquote_plain)
  then have "json_run stk (MStr False []) (s @ dquote # r) =
      (case close_value (JStr s) stk of
        SFail \<Rightarrow> None | SDone v \<Rightarrow> Some (v, r) | SDoneBefore v \<Rightarrow> Some (v, dquote # r)
      | SCont stk' m' \<Rightarrow> json_run stk' m' r)"
    by (simp only: json_run_string [OF plain])
  finally show ?thesis .
qed

lemma run_key:
  assumes "list_all plain_char s"
  shows "json_run (FObj kvs # stk) (MStr True []) (s @ dquote # CHR '':'' # r) =
         json_run (FKey kvs s # stk) MValue r"
proof -
  have "end_string True (rev s @ []) (FObj kvs # stk) = SCont (FKey kvs s # stk) MColon"
    using assms by (simp add: end_string_def unquote_plain)
  then show ?thesis
    by (simp add: json_run_string [OF assms])
qed

declare json_run.simps(2) [simp del]

lemma scansI:
  assumes "\<And>stk stk' c r. closer c \<Longrightarrow> length stk + jdepth v \<le> max_nesting \<Longrightarrow>
    close_value v stk = SCont stk' MAfter \<Longrightarrow>
    json_run stk MValue (json_print v @ c # r) = json_run stk' MAfter (c # r)"
  shows "scans v"
  using assms by (simp add: scans_def)

lemma scansD:
  "scans v \<Longrightarrow> closer c \<Longrightarrow> length stk + jdepth v \<le> max_nesting \<Longrightarrow>
   close_value v stk = SCont stk' MAfter \<Longrightarrow>
   json_run stk MValue (json_print v @ c # r) = json_run stk' MAfter (c # r)"
  by (simp add: scans_def)

lemma scans_string:
  assumes "list_all plain_char s"
  shows "scans (JStr s)"
proof (rule scansI)
  fix stk stk' c r
  assume "close_value (JStr s) stk = SCont stk' MAfter"
  then show "json_run stk MValue (json_print (JStr s) @ c # r) = json_run stk' MAfter (c # r)"
    using run_quote [OF assms, of stk "c # r"] by simp
qed

lemma json_run_cont: "json_step stk m c = SCont stk' m' \<Longrightarrow> json_run stk m (c # r) = json_run stk' m' r"
  by (simp add: json_run.simps(2))

lemma begin_literals:
  "json_step stk MValue CHR ''n'' = SCont stk (MLit ''ull'' JNull)"
  "json_step stk MValue CHR ''t'' = SCont stk (MLit ''rue'' (JBool True))"
  "json_step stk MValue CHR ''f'' = SCont stk (MLit ''alse'' (JBool False))"
  by (simp_all add: begin_value_def is_json_space_def code_def is_digit_def)

lemma run_literal:
  "close_value v stk = SCont stk' MAfter \<Longrightarrow> w \<noteq> [] \<Longrightarrow>
   json_run stk (MLit w v) (w @ r) = json_run stk' MAfter r"
proof (induction w)
  case (Cons x xs)
  then show ?case by (cases xs) (simp_all add: json_run_cont)
qed simp

lemma scans_literal: "scans JNull" "scans (JBool b)"
proof -
  show "scans JNull"
  proof (rule scansI)
    fix stk stk' c r
    assume "close_value JNull stk = SCont stk' MAfter"
    from run_literal [OF this, of "''ull''" "c # r"]
    show "json_run stk MValue (json_print JNull @ c # r) = json_run stk' MAfter (c # r)"
      by (simp add: json_run_cont [OF begin_literals(1)])
  qed
  show "scans (JBool b)"
  proof (rule scansI)
    fix stk stk' c r
    assume "close_value (JBool b) stk = SCont stk' MAfter"
    from run_literal [OF this, of "''rue''" "c # r"] run_literal [OF this, of "''alse''" "c # r"]
    show "json_run stk MValue (json_print (JBool b) @ c # r) = json_run stk' MAfter (c # r)"
      by (cases b) (simp_all add: json_run_cont [OF begin_literals(2)] json_run_cont [OF begin_literals(3)])
  qed
qed

lemma closer_marks [simp]: "closer CHR '',''" "closer CHR '']''" "closer CHR ''}''"
  by (simp_all add: closer_def)

lemma scan_elements:
  assumes "\<And>v. v \<in> set vs \<Longrightarrow> scans v" "vs \<noteq> []"
    "\<And>v. v \<in> set vs \<Longrightarrow> Suc (length stk) + jdepth v \<le> max_nesting"
  shows "json_run (FArr acc # stk) MValue (join_comma (map json_print vs) @ CHR '']'' # r) =
         json_run (FArr (rev vs @ acc) # stk) MAfter (CHR '']'' # r)"
  using assms
proof (induction vs arbitrary: acc)
  case Nil
  then show ?case by simp
next
  case (Cons v vs)
  have v: "json_run (FArr acc # stk) MValue (json_print v @ c # r') =
      json_run (FArr (v # acc) # stk) MAfter (c # r')" if "closer c" for c r'
    using Cons.prems(1) [of v] Cons.prems(3) [of v] that by (intro scansD) simp_all
  show ?case
  proof (cases vs)
    case Nil
    then show ?thesis by (simp add: v)
  next
    case (Cons w ws)
    let ?tail = "join_comma (map json_print vs) @ CHR '']'' # r"
    have "json_run (FArr acc # stk) MValue (json_print v @ CHR '','' # ?tail) =
        json_run (FArr (v # acc) # stk) MValue ?tail"
      by (simp add: v json_run_cont)
    moreover have "json_run (FArr (v # acc) # stk) MValue ?tail =
        json_run (FArr (rev vs @ v # acc) # stk) MAfter (CHR '']'' # r)"
      using Cons.IH Cons.prems Cons by simp
    ultimately show ?thesis using Cons by simp
  qed
qed

text \<open>Members: \<open>pre\<close> is the mode before the first key (\<open>MKey\<close> or \<open>MKeyOrEnd\<close>).\<close>

lemma key_step:
  "pre \<in> {MKey, MKeyOrEnd} \<Longrightarrow> json_step stk pre dquote = SCont stk (MStr True [])"
  by (auto simp: is_json_space_def code_def)

lemma run_member:
  assumes "list_all plain_char k" "pre \<in> {MKey, MKeyOrEnd}" "scans v" "closer c"
    "Suc (length stk) + jdepth v \<le> max_nesting"
  shows "json_run (FObj acc # stk) pre (quote k @ CHR '':'' # json_print v @ c # r) =
         json_run (FObj ((k, v) # acc) # stk) MAfter (c # r)"
proof -
  let ?rest = "json_print v @ c # r"
  have "quote k @ CHR '':'' # ?rest = dquote # (k @ dquote # CHR '':'' # ?rest)"
    using assms(1) by (simp add: quote_def quote_body_plain)
  then have "json_run (FObj acc # stk) pre (quote k @ CHR '':'' # ?rest) =
      json_run (FObj acc # stk) (MStr True []) (k @ dquote # CHR '':'' # ?rest)"
    by (simp only: json_run_cont [OF key_step [OF assms(2)]])
  also have "\<dots> = json_run (FKey acc k # stk) MValue ?rest"
    by (rule run_key [OF assms(1)])
  also have "\<dots> = json_run (FObj ((k, v) # acc) # stk) MAfter (c # r)"
    using assms(3-5) by (intro scansD) simp_all
  finally show ?thesis .
qed

abbreviation print_member :: "string \<times> json \<Rightarrow> string" where
  "print_member \<equiv> \<lambda>(k, v). quote k @ '':'' @ json_print v"

lemma scan_members:
  assumes "\<And>k v. (k, v) \<in> set kvs \<Longrightarrow> list_all plain_char k \<and> scans v" "kvs \<noteq> []"
    "\<And>k v. (k, v) \<in> set kvs \<Longrightarrow> Suc (length stk) + jdepth v \<le> max_nesting" "pre \<in> {MKey, MKeyOrEnd}"
  shows "json_run (FObj acc # stk) pre (join_comma (map print_member kvs) @ CHR ''}'' # r) =
         json_run (FObj (rev kvs @ acc) # stk) MAfter (CHR ''}'' # r)"
  using assms
proof (induction kvs arbitrary: acc pre)
  case Nil
  then show ?case by simp
next
  case (Cons m kvs)
  obtain k v where m: "m = (k, v)" by (cases m)
  have run: "json_run (FObj acc # stk) pre (print_member m @ c # r') =
      json_run (FObj (m # acc) # stk) MAfter (c # r')" if "closer c" for c r'
    using run_member [of k pre v c stk acc r'] Cons.prems(1) [of k v] Cons.prems(3) [of k v]
      Cons.prems(4) that m by simp
  show ?case
  proof (cases kvs)
    case Nil
    then show ?thesis using run [of "CHR ''}''" r] by simp
  next
    case (Cons m' ms)
    let ?tail = "join_comma (map print_member kvs) @ CHR ''}'' # r"
    have "json_run (FObj acc # stk) pre (print_member m @ CHR '','' # ?tail) =
        json_run (FObj (m # acc) # stk) MKey ?tail"
      using run [OF closer_marks(1), of ?tail] by (simp add: json_run_cont)
    moreover have "json_run (FObj (m # acc) # stk) MKey ?tail =
        json_run (FObj (rev kvs @ m # acc) # stk) MAfter (CHR ''}'' # r)"
      using Cons.prems(1,3) Cons by (intro Cons.IH) auto
    ultimately show ?thesis using Cons by simp
  qed
qed

text \<open>A printed value never starts with white space or a closing bracket.\<close>

lemma json_print_head:
  assumes "printable v"
  obtains c cs where "json_print v = c # cs" "\<not> is_json_space c" "c \<noteq> CHR '']''"
proof (cases v)
  case (JBool b)
  then show ?thesis by (cases b) (auto simp: is_json_space_def code_def intro: that)
next
  case (JNum lit)
  with assms obtain c cs where "lit = c # cs" "c = CHR ''-'' \<or> is_digit c"
    by (cases lit) (auto simp: int_lit_def nat_lit_def)
  with JNum show ?thesis
    by (intro that) (auto simp: digit_not_space is_json_space_def code_def is_digit_def)
qed (auto simp: is_json_space_def code_def quote_def intro: that)

lemma value_or_end:
  assumes "printable v"
  shows "json_run stk MValueOrEnd (json_print v @ r) = json_run stk MValue (json_print v @ r)"
proof -
  obtain c cs where "json_print v = c # cs" "\<not> is_json_space c" "c \<noteq> CHR '']''"
    using json_print_head [OF assms] .
  then show ?thesis by (simp add: json_run.simps(2))
qed

lemma jdepth_arr: "v \<in> set vs \<Longrightarrow> Suc (jdepth v) \<le> jdepth (JArr vs)"
  by simp

lemma jdepth_obj: "(k, v) \<in> set kvs \<Longrightarrow> Suc (jdepth v) \<le> jdepth (JObj kvs)"
  by (force simp: intro: Max_ge)

lemma open_frame_cont: "Suc (length stk) \<le> max_nesting \<Longrightarrow> open_frame f stk m = SCont (f # stk) m"
  by (simp add: open_frame_def)

lemma scans_array:
  assumes "\<And>v. v \<in> set vs \<Longrightarrow> scans v" "printable (JArr vs)"
  shows "scans (JArr vs)"
proof (rule scansI)
  fix stk stk' c r
  assume d: "length stk + jdepth (JArr vs) \<le> max_nesting"
    and cl: "close_value (JArr vs) stk = SCont stk' MAfter"
  have step: "json_run stk MValue (CHR ''['' # s) = json_run (FArr [] # stk) MValueOrEnd s" for s
    using d by (simp add: json_run_cont open_frame_cont)
  have close: "json_run (FArr (rev vs) # stk) MAfter (CHR '']'' # c # r) = json_run stk' MAfter (c # r)"
    using cl by (simp add: json_run_cont)
  show "json_run stk MValue (json_print (JArr vs) @ c # r) = json_run stk' MAfter (c # r)"
  proof (cases vs)
    case Nil
    with cl show ?thesis by (simp add: step json_run_cont)
  next
    case (Cons v ws)
    let ?body = "join_comma (map json_print vs) @ CHR '']'' # c # r"
    have "printable v" using assms(2) Cons by simp
    have "\<exists>s. ?body = json_print v @ s"
      using Cons by (cases ws) auto
    then have "json_run (FArr [] # stk) MValueOrEnd ?body = json_run (FArr [] # stk) MValue ?body"
      using value_or_end [OF \<open>printable v\<close>] by metis
    also have "\<dots> = json_run (FArr (rev vs @ []) # stk) MAfter (CHR '']'' # c # r)"
      using assms(1) Cons d jdepth_arr by (intro scan_elements) fastforce+
    finally show ?thesis using close by (simp add: step)
  qed
qed

lemma scans_object_body:
  assumes "\<And>k v. (k, v) \<in> set kvs \<Longrightarrow> scans v" "printable (JObj kvs)"
    "length stk + jdepth (JObj kvs) \<le> max_nesting"
  shows "json_run stk MValue (json_print (JObj kvs) @ r) =
         json_run (FObj (rev kvs) # stk) (if kvs = [] then MKeyOrEnd else MAfter) (CHR ''}'' # r)"
proof -
  have step: "json_run stk MValue (CHR ''{'' # s) = json_run (FObj [] # stk) MKeyOrEnd s" for s
    using assms(3) by (simp add: json_run_cont open_frame_cont)
  show ?thesis
  proof (cases "kvs = []")
    case True
    then show ?thesis by (simp add: step)
  next
    case False
    have "json_run (FObj [] # stk) MKeyOrEnd (join_comma (map print_member kvs) @ CHR ''}'' # r) =
        json_run (FObj (rev kvs @ []) # stk) MAfter (CHR ''}'' # r)"
      using assms False jdepth_obj by (intro scan_members) (fastforce simp: list_all_iff)+
    with False show ?thesis by (simp add: step)
  qed
qed

lemma scans_object:
  assumes "\<And>k v. (k, v) \<in> set kvs \<Longrightarrow> scans v" "printable (JObj kvs)"
  shows "scans (JObj kvs)"
proof (rule scansI)
  fix stk stk' c r
  assume d: "length stk + jdepth (JObj kvs) \<le> max_nesting"
    and "close_value (JObj kvs) stk = SCont stk' MAfter"
  moreover have "json_run stk MValue (json_print (JObj kvs) @ c # r) =
      json_run (FObj (rev kvs) # stk) (if kvs = [] then MKeyOrEnd else MAfter) (CHR ''}'' # c # r)"
    using assms d by (intro scans_object_body)
  ultimately show "json_run stk MValue (json_print (JObj kvs) @ c # r) = json_run stk' MAfter (c # r)"
    by (cases "kvs = []") (simp_all add: json_run_cont)
qed

lemma printable_scans: "printable v \<Longrightarrow> scans v"
proof (induction v rule: printable.induct)
  case (3 vs)
  then show ?case by (intro scans_array) (auto simp: list_all_iff)
next
  case (4 kvs)
  then show ?case by (intro scans_object) (auto simp: list_all_iff)
qed (simp_all add: scans_int_lit scans_string scans_literal)

text \<open>A printed object is read back whole, whatever follows it.\<close>

theorem json_next_print:
  assumes "printable (JObj kvs)" "jdepth (JObj kvs) \<le> max_nesting"
  shows "json_next (json_print (JObj kvs) @ r) = Some (JObj kvs, r)"
proof -
  have "json_next (json_print (JObj kvs) @ r) =
      json_run [FObj (rev kvs)] (if kvs = [] then MKeyOrEnd else MAfter) (CHR ''}'' # r)"
    unfolding json_next_def using assms
    by (intro scans_object_body) (auto simp: list_all_iff intro: printable_scans)
  then show ?thesis by (simp add: json_run.simps(2))
qed

theorem json_parse_print:
  "printable (JObj kvs) \<Longrightarrow> jdepth (JObj kvs) \<le> max_nesting \<Longrightarrow>
   json_parse (json_print (JObj kvs)) = Some (JObj kvs)"
  using json_next_print [of kvs "[]"] by (simp add: json_parse_def)

end
