(* ===== verification/Protocol_Config_JSON.thy ===== *)
theory Protocol_Config_JSON
  imports Protocol_Dispatch Go_JSON_Roundtrip
begin

text \<open>
  The JSON form of a dispatched configuration carries all of it: a stored config reads back
  unchanged, and two configurations with the same canonical payload are the same
  configuration, so the only way two of them share an ID is a collision of the hash.
\<close>

section \<open>Field names\<close>

definition field_char :: "char \<Rightarrow> bool" where
  "field_char c \<longleftrightarrow> is_lower c \<or> code c = 95"

definition upper :: "char \<Rightarrow> char" where
  "upper c = (if is_lower c then byte (code c - 32) else c)"

lemma fold_name_field: "list_all field_char s \<Longrightarrow> fold_name s = map upper s"
  by (induction s rule: fold_name.induct) (auto simp: field_char_def is_lower_def upper_def)

lemma code_upper: "code (upper c) = (if is_lower c then code c - 32 else code c)"
proof -
  have "code c - 32 < 256" using code_less [of c] by linarith
  then show ?thesis by (simp add: upper_def)
qed

lemma upper_inject: "field_char c \<Longrightarrow> field_char d \<Longrightarrow> upper c = upper d \<Longrightarrow> c = d"
proof -
  assume f: "field_char c" "field_char d" and "upper c = upper d"
  then have "code (upper c) = code (upper d)" by simp
  with f have "code c \<le> code d \<and> code d \<le> code c"
    by (auto simp: code_upper field_char_def is_lower_def simp del: code_inject split: if_splits)
  then show ?thesis by (metis code_inject le_antisym)
qed

definition field_name :: "string \<Rightarrow> bool" where
  "field_name s \<longleftrightarrow> list_all field_char s"

lemma field_matches_eq [simp]:
  assumes "field_name k" "field_name n"
  shows "field_matches k n \<longleftrightarrow> k = n"
proof -
  have "map upper k = map upper n \<longleftrightarrow> k = n" using assms
  proof (induction k arbitrary: n)
    case (Cons c k)
    then show ?case by (cases n) (auto simp: field_name_def dest: upper_inject)
  qed auto
  then show ?thesis
    using assms by (simp add: field_matches_def fold_name_field field_name_def)
qed

lemma field_names [simp]:
  "field_name ''count''" "field_name ''interval_ms''" "field_name ''timeout_ms''" "field_name ''method''"
  "field_name ''follow_redirects''" "field_name ''verify_tls''" "field_name ''transport''"
  "field_name ''icmp''" "field_name ''http''" "field_name ''dns''" "field_name ''version''"
  "field_name ''timestamp''" "field_name ''probe_version''" "field_name ''config_id''" "field_name ''results''"
  "field_name ''success''" "field_name ''sent''" "field_name ''received''" "field_name ''loss_ratio''"
  "field_name ''status_code''" "field_name ''duration_ms''"
  by (simp_all add: field_name_def field_char_def is_lower_def code_def)

section \<open>Reading a printed config\<close>

lemma json_int_neq [simp]: "json_int i \<noteq> JNull"
  by (simp add: json_int_def)

lemma sub_json_neq [simp]: "icmp_json i \<noteq> JNull" "http_json h \<noteq> JNull" "dns_json d \<noteq> JNull"
  by (simp_all add: icmp_json_def http_json_def dns_json_def)

lemma read_icmp_json:
  "int64_ok (ic_Count i) \<Longrightarrow> int64_ok (ic_IntervalMS i) \<Longrightarrow> int64_ok (ic_TimeoutMS i) \<Longrightarrow>
   as_object read_icmp (icmp_json i) z = Some i"
  by (simp add: icmp_json_def read_icmp_def int_field_def json_int_neq)

lemma read_http_json:
  "int64_ok (hc_TimeoutMS h) \<Longrightarrow> as_object read_http (http_json h) z = Some h"
  by (simp add: http_json_def read_http_def int_field_def bool_field_def string_field_def json_int_neq)

lemma read_dns_json:
  "int64_ok (dc_TimeoutMS d) \<Longrightarrow> as_object read_dns (dns_json d) z = Some d"
  by (simp add: dns_json_def read_dns_def int_field_def string_field_def json_int_neq)

lemma read_config_json:
  "config_typed c \<Longrightarrow> as_object read_config (config_json c) z = Some c"
  by (simp add: config_typed_def config_json_def read_config_def int_field_def read_icmp_json read_http_json
      read_dns_json json_int_neq sub_json_neq)

text \<open>The strings of the config are printable ASCII, as the two the protocol fixes are.\<close>

definition config_plain :: "measurement_config \<Rightarrow> bool" where
  "config_plain c \<longleftrightarrow>
     list_all plain_char (hc_Method (mc_HTTP c)) \<and> list_all plain_char (dc_Transport (mc_DNS c))"

lemma config_ok_plain: "config_ok c \<Longrightarrow> config_plain c"
  by (simp add: config_ok_def config_plain_def HTTPMethod_def DNSTransport_def plain_char_def code_def)

lemma config_json_printable:
  "config_plain c \<Longrightarrow> printable (config_json c) \<and> jdepth (config_json c) = 2"
  by (simp add: config_plain_def config_json_def icmp_json_def http_json_def dns_json_def json_int_def
      itoa_lit plain_char_def code_def)

theorem config_round_trip:
  assumes "config_typed c" "config_plain c"
  shows "config_unmarshal (config_marshal c) = Some c"
proof -
  obtain kvs where kvs: "config_json c = JObj kvs" by (simp add: config_json_def)
  have "json_parse (json_print (config_json c)) = Some (config_json c)"
    using config_json_printable [OF assms(2)] json_parse_print [of kvs] kvs
    by (simp only: max_nesting_def)
  then show ?thesis
    using assms(1) by (simp add: config_unmarshal_def config_marshal_def read_config_json)
qed

section \<open>The payload of an ID\<close>

definition target_plain :: "dispatch_target \<Rightarrow> bool" where
  "target_plain t \<longleftrightarrow>
     list_all plain_char (dt_TargetID t) \<and> list_all plain_char (dt_Address t) \<and>
     list_all (list_all plain_char) (dt_ProbeTypes t)"

definition payload_json :: "measurement_config \<Rightarrow> dispatch_target list \<Rightarrow> json" where
  "payload_json cfg ts =
     JObj [(''config'', config_json cfg), (''targets'', JArr (map target_json (canonical_targets ts)))]"

lemma config_payload_print: "config_payload cfg ts = json_print (payload_json cfg ts)"
  by (simp add: config_payload_def payload_json_def)

lemma json_int_inject: "int64_ok i \<Longrightarrow> int64_ok j \<Longrightarrow> json_int i = json_int j \<longleftrightarrow> i = j"
  by (metis as_int64_json_int option.inject)

lemma config_json_inject:
  "config_typed c \<Longrightarrow> config_typed c' \<Longrightarrow> config_json c = config_json c' \<Longrightarrow> c = c'"
  by (metis read_config_json option.inject)

lemma target_json_inject: "target_json t = target_json t' \<longleftrightarrow> (t :: dispatch_target) = t'"
proof
  assume eq: "target_json t = target_json t'"
  then have "map JStr (dt_ProbeTypes t) = map JStr (dt_ProbeTypes t')"
    by (simp add: target_json_def)
  then have "dt_ProbeTypes t = dt_ProbeTypes t'"
    by (simp add: inj_map_eq_map inj_def)
  with eq show "t = t'" by (simp add: target_json_def)
qed simp

lemma jdepth_strings: "jdepth (JArr (map JStr xs)) = 1"
proof -
  have "insert 0 (set (map jdepth (map JStr xs))) = {0}" by auto
  then show ?thesis by (simp only: jdepth.simps) simp
qed

lemma target_json_printable:
  "target_plain t \<Longrightarrow> printable (target_json t) \<and> jdepth (target_json t) \<le> 2"
proof (intro conjI)
  assume t: "target_plain t"
  have "list_all printable (map JStr (dt_ProbeTypes t))"
    using t by (simp add: target_plain_def list_all_iff)
  with t show "printable (target_json t)"
    by (simp add: target_plain_def target_json_def plain_char_def code_def)
  show "jdepth (target_json t) \<le> 2"
    by (simp add: target_json_def jdepth_strings [simplified])
qed

lemma canonical_plain: "list_all target_plain ts \<Longrightarrow> t \<in> set (canonical_targets ts) \<Longrightarrow> target_plain t"
  by (auto simp: canonical_targets_def target_plain_def list_all_iff)

lemma payload_json_printable:
  assumes "config_plain cfg" "list_all target_plain ts"
  shows "printable (payload_json cfg ts) \<and> jdepth (payload_json cfg ts) \<le> 4"
proof -
  have "printable (target_json t) \<and> jdepth (target_json t) \<le> 2" if "t \<in> set (canonical_targets ts)" for t
    using canonical_plain [OF assms(2) that] by (rule target_json_printable)
  moreover have "list_all plain_char ''config''" "list_all plain_char ''targets''"
    by (simp_all add: plain_char_def code_def)
  moreover note config_json_printable [OF assms(1)]
  ultimately show ?thesis
    by (auto simp: payload_json_def list_all_iff)
qed

theorem config_payload_inject:
  assumes "config_typed c" "config_plain c" "list_all target_plain ts"
    and "config_typed c'" "config_plain c'" "list_all target_plain ts'"
  shows "config_payload c ts = config_payload c' ts' \<longleftrightarrow>
         c = c' \<and> canonical_targets ts = canonical_targets ts'"
proof
  assume eq: "config_payload c ts = config_payload c' ts'"
  have parse: "json_parse (config_payload d us) = Some (payload_json d us)"
    if "config_plain d" "list_all target_plain us" for d us
    using payload_json_printable [OF that] unfolding config_payload_print
    by (simp add: payload_json_def json_parse_print max_nesting_def del: json_print.simps printable.simps jdepth.simps)
  have "payload_json c ts = payload_json c' ts'"
    using parse [OF assms(2,3)] parse [OF assms(5,6)] eq by simp
  then have "config_json c = config_json c'"
    and "map target_json (canonical_targets ts) = map target_json (canonical_targets ts')"
    by (simp_all add: payload_json_def)
  then show "c = c' \<and> canonical_targets ts = canonical_targets ts'"
    using config_json_inject [OF assms(1,4)] target_json_inject by (simp add: inj_map_eq_map inj_def)
qed (simp add: config_payload_def)

end
