(* ===== verification/Store_Base.thy ===== *)
theory Store_Base
  imports Protocol_Decode Protocol_Config_JSON
begin

text \<open>
  \<open>internal/store/store.go\<close> and the tables of \<open>internal/store/migrations\<close>: the database
  as a record of row lists, the store's sentinel errors, and the invariant its constraints
  (primary keys, UNIQUE columns, foreign keys) promise.

  A driver call can fail at any time.  Every operation takes \<open>io\<close>, where \<open>io i\<close> says that
  the operation's \<open>i\<close>-th driver call fails (open, query, exec, scan or commit); a failing
  call changes nothing, and a transaction that does not reach its commit is rolled back.
\<close>

section \<open>Time\<close>

text \<open>
  An instant is a count of nanoseconds since 1970; \<open>None\<close> is Go's zero time.  Tables hold
  Unix seconds.
\<close>

type_synonym gotime = "int option"

definition unix_seconds :: "int \<Rightarrow> int" where
  "unix_seconds t = t div 1000000000"

definition of_unix :: "int \<Rightarrow> gotime" where
  "of_unix s = Some (s * 1000000000)"

definition unixOrZero :: "int \<Rightarrow> gotime" where
  "unixOrZero sec = (if sec \<le> 0 then None else of_unix sec)"

lemma unix_of_unix [simp]: "of_unix s = Some t \<Longrightarrow> unix_seconds t = s"
  by (auto simp: of_unix_def unix_seconds_def)

section \<open>Errors\<close>

datatype store_error = ErrNotFound | ErrDuplicate | ErrInUse | ErrDB | ErrConfig config_error

type_synonym faults = "nat \<Rightarrow> bool"

abbreviation no_faults :: faults where
  "no_faults \<equiv> \<lambda>_. False"

section \<open>Tables\<close>

record probe_row =
  pr_id :: int
  pr_probe_id :: string
  pr_token_hash :: string
  pr_campus_code :: string
  pr_campus_name :: string
  pr_building_group_code :: string
  pr_building_group_name :: string
  pr_building_code :: string
  pr_building_name :: string
  pr_network_type :: string
  pr_enabled :: int
  pr_description :: string
  pr_created_at :: int
  pr_updated_at :: int
  pr_rotated_at :: int
  pr_created_via :: string

record target_row =
  tr_id :: int
  tr_target_id :: string
  tr_display_name :: string
  tr_address :: string
  tr_description :: string
  tr_enabled :: int
  tr_created_at :: int
  tr_updated_at :: int

record campus_row =
  cr_code :: string
  cr_name :: string
  cr_created_at :: int
  cr_updated_at :: int

record building_row =
  br_code :: string
  br_campus_code :: string
  br_group_code :: string
  br_group_name :: string
  br_name :: string
  br_created_at :: int
  br_updated_at :: int

text \<open>
  \<open>db_probe_seq\<close> and \<open>db_target_seq\<close> are the AUTOINCREMENT counters; \<open>db_types\<close> is
  \<open>target_probe_types\<close>, \<open>db_settings\<close> maps a key to its value and update time, and
  \<open>db_versions\<close> is \<open>schema_migrations\<close>.
\<close>

record db =
  db_probes :: "probe_row list"
  db_probe_seq :: int
  db_targets :: "target_row list"
  db_target_seq :: int
  db_types :: "(string \<times> string) list"
  db_settings :: "(string, string \<times> int) gomap"
  db_campuses :: "campus_row list"
  db_buildings :: "building_row list"
  db_versions :: "int list"

definition empty_db :: db where
  "empty_db = \<lparr>db_probes = [], db_probe_seq = 0, db_targets = [], db_target_seq = 0, db_types = [],
     db_settings = [], db_campuses = [], db_buildings = [], db_versions = []\<rparr>"

definition boolToInt :: "bool \<Rightarrow> int" where
  "boolToInt b = (if b then 1 else 0)"

lemma boolToInt_simps [simp]:
  "boolToInt b \<noteq> 0 \<longleftrightarrow> b" "boolToInt b = 1 \<longleftrightarrow> b" "boolToInt b = 0 \<longleftrightarrow> \<not> b"
  by (simp_all add: boolToInt_def)

section \<open>What the constraints promise\<close>

definition probes_inv :: "db \<Rightarrow> bool" where
  "probes_inv d \<longleftrightarrow> distinct (map pr_probe_id (db_probes d)) \<and> distinct (map pr_token_hash (db_probes d)) \<and>
     distinct (map pr_id (db_probes d)) \<and> (\<forall>r \<in> set (db_probes d). pr_id r \<le> db_probe_seq d)"

definition targets_inv :: "db \<Rightarrow> bool" where
  "targets_inv d \<longleftrightarrow> distinct (map tr_target_id (db_targets d)) \<and> distinct (map tr_id (db_targets d)) \<and>
     (\<forall>r \<in> set (db_targets d). tr_id r \<le> db_target_seq d) \<and> distinct (db_types d) \<and>
     fst ` set (db_types d) \<subseteq> tr_target_id ` set (db_targets d)"

definition catalog_inv :: "db \<Rightarrow> bool" where
  "catalog_inv d \<longleftrightarrow> distinct (map cr_code (db_campuses d)) \<and> distinct (map br_code (db_buildings d)) \<and>
     br_campus_code ` set (db_buildings d) \<subseteq> cr_code ` set (db_campuses d)"

definition settings_inv :: "db \<Rightarrow> bool" where
  "settings_inv d \<longleftrightarrow> wf_map (db_settings d)"

definition store_inv :: "db \<Rightarrow> bool" where
  "store_inv d \<longleftrightarrow> probes_inv d \<and> targets_inv d \<and> catalog_inv d \<and> settings_inv d"

lemmas store_inv_defs = store_inv_def probes_inv_def targets_inv_def catalog_inv_def settings_inv_def

lemma store_inv_empty: "store_inv empty_db"
  by (simp add: store_inv_defs empty_db_def)

text \<open>Rows by key: a UNIQUE column selects at most one.\<close>

lemma find_unique:
  "distinct (map f xs) \<Longrightarrow> x \<in> set xs \<Longrightarrow> find (\<lambda>r. f r = f x) xs = Some x"
  by (induction xs) (auto simp: image_iff)

lemma find_some: "find P xs = Some x \<Longrightarrow> x \<in> set xs \<and> P x"
  by (induction xs) (auto split: if_splits)

lemma find_append_last:
  "\<forall>x \<in> set xs. \<not> P x \<Longrightarrow> find P (xs @ ys) = find P ys"
  by (induction xs) auto

lemma find_none: "find P xs = None \<longleftrightarrow> (\<forall>x \<in> set xs. \<not> P x)"
  by (induction xs) auto

lemma distinct_map_filter_update:
  "distinct (map f xs) \<Longrightarrow> (\<And>x. P x \<Longrightarrow> f (g x) = f x) \<Longrightarrow>
   distinct (map f (map (\<lambda>x. if P x then g x else x) xs))"
proof -
  assume d: "distinct (map f xs)" and f: "\<And>x. P x \<Longrightarrow> f (g x) = f x"
  have "map f (map (\<lambda>x. if P x then g x else x) xs) = map f xs"
    by (simp add: f)
  with d show ?thesis by (simp only:)
qed

section \<open>Rows in the order of a unique column\<close>

definition rows_by :: "('r \<Rightarrow> string) \<Rightarrow> 'r list \<Rightarrow> 'r list" where
  "rows_by f rs = sort_key f rs"

lemma rows_by_simps [simp]:
  "set (rows_by f rs) = set rs" "length (rows_by f rs) = length rs"
  by (simp_all add: rows_by_def)

lemma distinct_rows_by [simp]: "distinct (map f (rows_by g rs)) \<longleftrightarrow> distinct (map f rs)"
proof -
  have "mset (map f (rows_by g rs)) = mset (map f rs)"
    by (simp add: rows_by_def)
  then show ?thesis
    by (metis mset_eq_imp_distinct_iff)
qed

lemma sorted_rows_by: "sorted (map f (rows_by f rs))"
  by (simp add: rows_by_def)

end
