(* ===== verification/Store_Probes.thy ===== *)
theory Store_Probes
  imports Store_Base
begin

text \<open>
  \<open>internal/store/probes.go\<close>: the probes table.  The client never supplies an identity, so
  the lookups by token hash and by probe ID are the gateway's only authority on who a probe is.
\<close>

section \<open>Probes\<close>

record probe =
  p_ID :: int
  p_ProbeID :: string
  p_TokenHash :: string
  p_CampusCode :: string
  p_CampusName :: string
  p_BuildingGroupCode :: string
  p_BuildingGroupName :: string
  p_BuildingCode :: string
  p_BuildingName :: string
  p_NetworkType :: string
  p_Enabled :: bool
  p_Description :: string
  p_RotatedAt :: gotime
  p_CreatedVia :: string
  p_CreatedAt :: gotime
  p_UpdatedAt :: gotime

definition scanProbe :: "probe_row \<Rightarrow> probe" where
  "scanProbe r =
     \<lparr>p_ID = pr_id r, p_ProbeID = pr_probe_id r, p_TokenHash = pr_token_hash r,
      p_CampusCode = pr_campus_code r, p_CampusName = pr_campus_name r,
      p_BuildingGroupCode = pr_building_group_code r, p_BuildingGroupName = pr_building_group_name r,
      p_BuildingCode = pr_building_code r, p_BuildingName = pr_building_name r,
      p_NetworkType = pr_network_type r, p_Enabled = (pr_enabled r \<noteq> 0),
      p_Description = pr_description r, p_RotatedAt = unixOrZero (pr_rotated_at r),
      p_CreatedVia = pr_created_via r, p_CreatedAt = of_unix (pr_created_at r),
      p_UpdatedAt = of_unix (pr_updated_at r)\<rparr>"

lemma scanProbe_sel [simp]:
  "p_ID (scanProbe r) = pr_id r" "p_ProbeID (scanProbe r) = pr_probe_id r"
  "p_TokenHash (scanProbe r) = pr_token_hash r" "p_CampusCode (scanProbe r) = pr_campus_code r"
  "p_BuildingCode (scanProbe r) = pr_building_code r" "p_Enabled (scanProbe r) \<longleftrightarrow> pr_enabled r \<noteq> 0"
  "p_RotatedAt (scanProbe r) = unixOrZero (pr_rotated_at r)"
  "p_CreatedVia (scanProbe r) = pr_created_via r"
  by (simp_all add: scanProbe_def)

definition createdViaOrDefault :: "string \<Rightarrow> string" where
  "createdViaOrDefault v = (if v = ''public'' then ''public'' else ''admin'')"

section \<open>Queries\<close>

definition select_probe :: "(probe_row \<Rightarrow> bool) \<Rightarrow> faults \<Rightarrow> db \<Rightarrow> store_error + probe" where
  "select_probe P io d =
     (if io 0 then Inl ErrDB
      else case find P (db_probes d) of None \<Rightarrow> Inl ErrNotFound | Some r \<Rightarrow> Inr (scanProbe r))"

definition ProbeByTokenHash :: "string \<Rightarrow> faults \<Rightarrow> db \<Rightarrow> store_error + probe" where
  "ProbeByTokenHash hash = select_probe (\<lambda>r. pr_token_hash r = hash)"

definition GetProbe :: "string \<Rightarrow> faults \<Rightarrow> db \<Rightarrow> store_error + probe" where
  "GetProbe pid = select_probe (\<lambda>r. pr_probe_id r = pid)"

definition ListProbes :: "faults \<Rightarrow> db \<Rightarrow> store_error + probe list" where
  "ListProbes io d =
     (if io 0 then Inl ErrDB else Inr (map scanProbe (rows_by pr_probe_id (db_probes d))))"

definition CountProbes :: "faults \<Rightarrow> db \<Rightarrow> store_error + int" where
  "CountProbes io d = (if io 0 then Inl ErrDB else Inr (int (length (db_probes d))))"

section \<open>Changes\<close>

text \<open>
  \<open>CreateProbe\<close> inserts and then reads the row back for its ID, so a failing read-back
  reports an error although the row exists.  The result is the probe as the caller's struct
  then holds it.
\<close>

definition new_probe_row :: "int \<Rightarrow> probe \<Rightarrow> db \<Rightarrow> probe_row" where
  "new_probe_row created p d =
     \<lparr>pr_id = db_probe_seq d + 1, pr_probe_id = p_ProbeID p, pr_token_hash = p_TokenHash p,
      pr_campus_code = p_CampusCode p, pr_campus_name = p_CampusName p,
      pr_building_group_code = p_BuildingGroupCode p, pr_building_group_name = p_BuildingGroupName p,
      pr_building_code = p_BuildingCode p, pr_building_name = p_BuildingName p,
      pr_network_type = p_NetworkType p, pr_enabled = boolToInt (p_Enabled p),
      pr_description = p_Description p, pr_created_at = created, pr_updated_at = created,
      pr_rotated_at = 0, pr_created_via = createdViaOrDefault (p_CreatedVia p)\<rparr>"

definition CreateProbe :: "int \<Rightarrow> probe \<Rightarrow> faults \<Rightarrow> db \<Rightarrow> (store_error + probe) \<times> db" where
  "CreateProbe now p io d =
     (let made = (case p_CreatedAt p of None \<Rightarrow> of_unix (unix_seconds now) | Some t \<Rightarrow> Some t);
          p = p\<lparr>p_CreatedAt := made, p_UpdatedAt := made\<rparr>;
          row = new_probe_row (unix_seconds (the made)) p d in
      if io 0 then (Inl ErrDB, d)
      else if \<exists>r \<in> set (db_probes d). pr_probe_id r = p_ProbeID p \<or> pr_token_hash r = p_TokenHash p
      then (Inl ErrDuplicate, d)
      else
        (let d' = d\<lparr>db_probes := db_probes d @ [row], db_probe_seq := db_probe_seq d + 1\<rparr> in
         case GetProbe (p_ProbeID p) (\<lambda>i. io (i + 1)) d' of
           Inl e \<Rightarrow> (Inl e, d')
         | Inr got \<Rightarrow> (Inr (p\<lparr>p_ID := p_ID got\<rparr>), d')))"

text \<open>
  An UPDATE or DELETE that touches no row is \<open>ErrNotFound\<close>; reading the number of affected
  rows (driver call 1) can itself fail, after the statement has taken effect.  Every
  operation reads the clock once.
\<close>

definition requireAffected :: "bool \<Rightarrow> nat \<Rightarrow> store_error + unit" where
  "requireAffected fault n = (if fault then Inl ErrDB else if n = 0 then Inl ErrNotFound else Inr ())"

definition count_rows :: "('r \<Rightarrow> bool) \<Rightarrow> 'r list \<Rightarrow> nat" where
  "count_rows P rs = length (filter P rs)"

definition update_rows :: "('r \<Rightarrow> bool) \<Rightarrow> ('r \<Rightarrow> 'r) \<Rightarrow> 'r list \<Rightarrow> 'r list" where
  "update_rows P f rs = map (\<lambda>r. if P r then f r else r) rs"

definition SetProbeEnabled :: "int \<Rightarrow> string \<Rightarrow> bool \<Rightarrow> faults \<Rightarrow> db \<Rightarrow> (store_error + unit) \<times> db" where
  "SetProbeEnabled now pid enabled io d =
     (if io 0 then (Inl ErrDB, d)
      else (requireAffected (io 1) (count_rows (\<lambda>r. pr_probe_id r = pid) (db_probes d)),
            d\<lparr>db_probes := update_rows (\<lambda>r. pr_probe_id r = pid)
                (\<lambda>r. r\<lparr>pr_enabled := boolToInt enabled, pr_updated_at := unix_seconds now\<rparr>) (db_probes d)\<rparr>))"

definition UpdateProbeToken :: "int \<Rightarrow> string \<Rightarrow> string \<Rightarrow> faults \<Rightarrow> db \<Rightarrow> (store_error + unit) \<times> db" where
  "UpdateProbeToken now pid hash io d =
     (if io 0 then (Inl ErrDB, d)
      else if count_rows (\<lambda>r. pr_probe_id r = pid) (db_probes d) \<noteq> 0 \<and>
              (\<exists>r \<in> set (db_probes d). pr_probe_id r \<noteq> pid \<and> pr_token_hash r = hash)
      then (Inl ErrDuplicate, d)
      else (requireAffected (io 1) (count_rows (\<lambda>r. pr_probe_id r = pid) (db_probes d)),
            d\<lparr>db_probes := update_rows (\<lambda>r. pr_probe_id r = pid)
                (\<lambda>r. r\<lparr>pr_token_hash := hash, pr_updated_at := unix_seconds now,
                       pr_rotated_at := unix_seconds now\<rparr>) (db_probes d)\<rparr>))"

definition DeleteProbe :: "string \<Rightarrow> faults \<Rightarrow> db \<Rightarrow> (store_error + unit) \<times> db" where
  "DeleteProbe pid io d =
     (if io 0 then (Inl ErrDB, d)
      else (requireAffected (io 1) (count_rows (\<lambda>r. pr_probe_id r = pid) (db_probes d)),
            d\<lparr>db_probes := filter (\<lambda>r. pr_probe_id r \<noteq> pid) (db_probes d)\<rparr>))"

section \<open>Lookups are exact\<close>

lemma requireAffected_Inr [gw_results]: "requireAffected f n = Inr u \<longleftrightarrow> \<not> f \<and> n \<noteq> 0"
  by (simp add: requireAffected_def)

lemma select_probe_Inr [gw_results]:
  "select_probe P io d = Inr p \<longleftrightarrow> \<not> io 0 \<and> (\<exists>r. find P (db_probes d) = Some r \<and> p = scanProbe r)"
  by (auto simp: select_probe_def split: option.splits)

lemma ProbeByTokenHash_sound:
  "ProbeByTokenHash hash io d = Inr p \<Longrightarrow> p_TokenHash p = hash \<and> p \<in> scanProbe ` set (db_probes d)"
  by (auto simp: ProbeByTokenHash_def gw_results dest!: find_some)

lemma GetProbe_sound:
  "GetProbe pid io d = Inr p \<Longrightarrow> p_ProbeID p = pid \<and> p \<in> scanProbe ` set (db_probes d)"
  by (auto simp: GetProbe_def gw_results dest!: find_some)

lemma ProbeByTokenHash_complete:
  "probes_inv d \<Longrightarrow> r \<in> set (db_probes d) \<Longrightarrow> \<not> io 0 \<Longrightarrow>
   ProbeByTokenHash (pr_token_hash r) io d = Inr (scanProbe r)"
  by (simp add: ProbeByTokenHash_def gw_results probes_inv_def find_unique)

lemma GetProbe_complete:
  "probes_inv d \<Longrightarrow> r \<in> set (db_probes d) \<Longrightarrow> \<not> io 0 \<Longrightarrow>
   GetProbe (pr_probe_id r) io d = Inr (scanProbe r)"
  by (simp add: GetProbe_def gw_results probes_inv_def find_unique)

lemma select_probe_not_found:
  "select_probe P io d = Inl ErrNotFound \<longleftrightarrow> \<not> io 0 \<and> (\<forall>r \<in> set (db_probes d). \<not> P r)"
  unfolding find_none [symmetric] by (auto simp: select_probe_def split: option.splits)

lemma ListProbes_ids:
  "ListProbes io d = Inr ps \<Longrightarrow> sorted (map p_ProbeID ps) \<and> p_ProbeID ` set ps = pr_probe_id ` set (db_probes d)"
  by (auto simp: ListProbes_def comp_def image_image sorted_rows_by split: if_splits)

lemma ListProbes_distinct:
  "probes_inv d \<Longrightarrow> ListProbes io d = Inr ps \<Longrightarrow> distinct (map p_ProbeID ps)"
  by (auto simp: ListProbes_def comp_def probes_inv_def split: if_splits)

section \<open>The constraints hold after every change\<close>

lemma update_rows_map:
  "(\<And>r. P r \<Longrightarrow> f (g r) = f r) \<Longrightarrow> map f (update_rows P g rs) = map f rs"
  by (simp add: update_rows_def)

lemma update_rows_image:
  "(\<And>r. P r \<Longrightarrow> f (g r) = f r) \<Longrightarrow> f ` set (update_rows P g rs) = f ` set rs"
  unfolding list.set_map [symmetric] by (simp only: update_rows_map)

lemma update_rows_set: "set (update_rows P g rs) = (\<lambda>r. if P r then g r else r) ` set rs"
  by (simp add: update_rows_def)

lemma distinct_map_filter': "distinct (map f xs) \<Longrightarrow> distinct (map f (filter P xs))"
  by (rule distinct_map_filter)

lemma CreateProbe_inv: "probes_inv d \<Longrightarrow> probes_inv (snd (CreateProbe now p io d))"
  by (auto simp: CreateProbe_def Let_def probes_inv_def new_probe_row_def
      split: sum.splits prod.splits)

lemma SetProbeEnabled_inv: "probes_inv d \<Longrightarrow> probes_inv (snd (SetProbeEnabled now pid b io d))"
  by (auto simp: SetProbeEnabled_def probes_inv_def update_rows_map update_rows_set)

lemma DeleteProbe_inv: "probes_inv d \<Longrightarrow> probes_inv (snd (DeleteProbe pid io d))"
  by (auto simp: DeleteProbe_def probes_inv_def distinct_map_filter')

lemma update_rows_none: "\<forall>r \<in> set rs. \<not> P r \<Longrightarrow> update_rows P g rs = rs"
  unfolding update_rows_def by (intro map_idI) simp

lemma update_rows_Cons:
  "update_rows P g (r # rs) = (if P r then g r else r) # update_rows P g rs"
  by (simp add: update_rows_def)

lemma distinct_set_column:
  assumes "distinct (map k xs)" "distinct (map f xs)" "\<And>r. r \<in> set xs \<Longrightarrow> k r \<noteq> key \<Longrightarrow> f r \<noteq> v"
    "\<And>r. f (g r) = v"
  shows "distinct (map f (update_rows (\<lambda>r. k r = key) g xs))"
  using assms(1-3)
proof (induction xs)
  case Nil
  then show ?case by (simp add: update_rows_def)
next
  case (Cons x xs)
  then have IH: "distinct (map f (update_rows (\<lambda>r. k r = key) g xs))" by simp
  show ?case
  proof (cases "k x = key")
    case True
    then have "\<forall>r \<in> set xs. k r \<noteq> key" using Cons.prems(1) by (force simp: image_iff)
    then have "update_rows (\<lambda>r. k r = key) g xs = xs"
      by (rule update_rows_none)
    with True IH Cons.prems(3) \<open>\<forall>r \<in> set xs. k r \<noteq> key\<close> show ?thesis
      by (auto simp: update_rows_Cons assms(4))
  next
    case False
    with Cons.prems(2,3) have "f x \<notin> f ` set (update_rows (\<lambda>r. k r = key) g xs)"
      by (auto simp: update_rows_set assms(4))
    with IH False show ?thesis by (simp add: update_rows_Cons)
  qed
qed

lemma UpdateProbeToken_inv: "probes_inv d \<Longrightarrow> probes_inv (snd (UpdateProbeToken now pid hash io d))"
proof (cases "\<forall>r \<in> set (db_probes d). pr_probe_id r \<noteq> pid")
  case True
  then have "update_rows (\<lambda>r. pr_probe_id r = pid) g (db_probes d) = db_probes d" for g
    by (rule update_rows_none)
  then show "probes_inv d \<Longrightarrow> ?thesis" by (simp add: UpdateProbeToken_def)
next
  case False
  then have "count_rows (\<lambda>r. pr_probe_id r = pid) (db_probes d) \<noteq> 0"
    by (auto simp: count_rows_def filter_empty_conv)
  then show "probes_inv d \<Longrightarrow> ?thesis"
    unfolding UpdateProbeToken_def probes_inv_def
    by (auto simp: update_rows_map update_rows_set intro!: distinct_set_column)
qed

section \<open>What each change does\<close>

lemma count_rows_0: "count_rows P rs = 0 \<longleftrightarrow> (\<forall>r \<in> set rs. \<not> P r)"
  by (auto simp: count_rows_def filter_empty_conv)

lemma find_update_rows:
  "(\<And>r. k (g r) = k r) \<Longrightarrow>
   find (\<lambda>r. k r = q) (update_rows (\<lambda>r. k r = key) g rs) =
   map_option (if q = key then g else id) (find (\<lambda>r. k r = q) rs)"
  by (induction rs) (auto simp: update_rows_def)

lemma find_filter_other:
  "find (\<lambda>r. k r = q) (filter (\<lambda>r. k r \<noteq> key) rs) = (if q = key then None else find (\<lambda>r. k r = q) rs)"
  by (induction rs) auto

lemma CreateProbe_ok:
  assumes "CreateProbe now p io d = (Inr q, d')"
  shows "\<exists>row. db_probes d' = db_probes d @ [row] \<and> pr_probe_id row = p_ProbeID p \<and>
           pr_token_hash row = p_TokenHash p \<and> (pr_enabled row \<noteq> 0 \<longleftrightarrow> p_Enabled p) \<and>
           pr_campus_code row = p_CampusCode p \<and> pr_building_code row = p_BuildingCode p \<and>
           pr_created_via row = createdViaOrDefault (p_CreatedVia p) \<and> pr_rotated_at row = 0 \<and>
           p_ProbeID q = p_ProbeID p \<and> p_TokenHash q = p_TokenHash p"
  using assms
  by (auto simp: CreateProbe_def Let_def new_probe_row_def split: if_splits sum.splits)

lemma CreateProbe_fresh:
  "CreateProbe now p io d = (Inr q, d') \<Longrightarrow>
   p_ProbeID p \<notin> pr_probe_id ` set (db_probes d) \<and> p_TokenHash p \<notin> pr_token_hash ` set (db_probes d)"
  by (force simp: CreateProbe_def Let_def split: if_splits)

text \<open>
  A failing change leaves the table alone, except that the read-back of \<open>CreateProbe\<close> and
  the affected-rows call come after the statement.
\<close>

lemma CreateProbe_error:
  "CreateProbe now p io d = (Inl e, d') \<Longrightarrow> \<not> io 1 \<Longrightarrow> probes_inv d \<Longrightarrow> d' = d"
proof (rule ccontr)
  assume c: "CreateProbe now p io d = (Inl e, d')" "\<not> io 1" "probes_inv d" and "d' \<noteq> d"
  then have "probes_inv d'" using CreateProbe_inv [OF c(3), of now p io] by simp
  with c \<open>d' \<noteq> d\<close> show False
    using GetProbe_complete [of d' "last (db_probes d')" "\<lambda>i. io (i + 1)"]
    by (auto simp: CreateProbe_def Let_def new_probe_row_def split: if_splits sum.splits)
qed

lemma DeleteProbe_gone:
  "DeleteProbe pid io d = (Inr u, d') \<Longrightarrow> GetProbe pid no_faults d' = Inl ErrNotFound"
  by (auto simp: DeleteProbe_def GetProbe_def select_probe_not_found split: if_splits)

lemma DeleteProbe_other:
  "DeleteProbe pid io d = (u, d') \<Longrightarrow> q \<noteq> pid \<Longrightarrow> GetProbe q io' d' = GetProbe q io' d"
  by (auto simp: DeleteProbe_def GetProbe_def select_probe_def find_filter_other split: if_splits)

text \<open>After a rotation the new token is the probe's only one: the old hash finds nobody.\<close>

lemma UpdateProbeToken_rotates:
  assumes "UpdateProbeToken now pid hash io d = (Inr u, d')" "probes_inv d" "r \<in> set (db_probes d)"
    "pr_probe_id r = pid"
  shows "\<exists>p. ProbeByTokenHash hash no_faults d' = Inr p \<and> p_ProbeID p = pid"
    and "pr_token_hash r \<noteq> hash \<Longrightarrow> ProbeByTokenHash (pr_token_hash r) no_faults d' = Inl ErrNotFound"
proof -
  let ?g = "\<lambda>r. r\<lparr>pr_token_hash := hash, pr_updated_at := unix_seconds now, pr_rotated_at := unix_seconds now\<rparr>"
  have d': "db_probes d' = update_rows (\<lambda>r. pr_probe_id r = pid) ?g (db_probes d)"
    using assms(1) by (auto simp: UpdateProbeToken_def split: if_splits)
  have inv: "probes_inv d'"
    using UpdateProbeToken_inv [OF assms(2), of now pid hash io] assms(1) by simp
  have "?g r \<in> set (db_probes d')"
    using assms(3,4) by (auto simp: d' update_rows_set)
  from ProbeByTokenHash_complete [OF inv this, of no_faults] assms(4)
  show "\<exists>p. ProbeByTokenHash hash no_faults d' = Inr p \<and> p_ProbeID p = pid" by simp
  show "ProbeByTokenHash (pr_token_hash r) no_faults d' = Inl ErrNotFound" if "pr_token_hash r \<noteq> hash"
  proof -
    have "r' = r" if "r' \<in> set (db_probes d)" "pr_token_hash r' = pr_token_hash r" for r'
      using assms(2,3) that unfolding probes_inv_def distinct_map inj_on_def by blast
    with that assms(4) show ?thesis
      by (auto simp: ProbeByTokenHash_def select_probe_not_found d' update_rows_set split: if_splits)
  qed
qed

end
