(* ===== verification/Store_Targets.thy ===== *)
theory Store_Targets
  imports Store_Probes
begin

text \<open>
  \<open>internal/store/targets.go\<close>: measurement destinations and the probe types permitted for
  each, and the two views of them the protocol needs: the allowlist a push is judged by and
  the list a probe is told to measure.
\<close>

section \<open>Targets\<close>

record target =
  t_ID :: int
  t_TargetID :: string
  t_DisplayName :: string
  t_Address :: string
  t_Description :: string
  t_Enabled :: bool
  t_ProbeTypes :: "string list"
  t_CreatedAt :: gotime
  t_UpdatedAt :: gotime

definition types_of :: "string \<Rightarrow> db \<Rightarrow> string list" where
  "types_of tid d = sort (map snd (filter (\<lambda>(t, pt). t = tid) (db_types d)))"

definition scan_target :: "target_row \<Rightarrow> string list \<Rightarrow> target" where
  "scan_target r types =
     \<lparr>t_ID = tr_id r, t_TargetID = tr_target_id r, t_DisplayName = tr_display_name r,
      t_Address = tr_address r, t_Description = tr_description r, t_Enabled = (tr_enabled r \<noteq> 0),
      t_ProbeTypes = types, t_CreatedAt = of_unix (tr_created_at r), t_UpdatedAt = of_unix (tr_updated_at r)\<rparr>"

definition probeTypesFor :: "string \<Rightarrow> bool \<Rightarrow> db \<Rightarrow> store_error + string list" where
  "probeTypesFor tid fault d = (if fault then Inl ErrDB else Inr (types_of tid d))"

text \<open>One query for the targets, then one per target for its types (driver calls 1, 2, ...).\<close>

fun fill_types :: "target_row list \<Rightarrow> nat \<Rightarrow> faults \<Rightarrow> db \<Rightarrow> store_error + target list" where
  "fill_types [] i io d = Inr []"
| "fill_types (r # rs) i io d =
     bind_result (probeTypesFor (tr_target_id r) (io i) d) (\<lambda>types.
     bind_result (fill_types rs (Suc i) io d) (\<lambda>ts. Inr (scan_target r types # ts)))"

definition ListTargets :: "faults \<Rightarrow> db \<Rightarrow> store_error + target list" where
  "ListTargets io d =
     (if io 0 then Inl ErrDB else fill_types (rows_by tr_target_id (db_targets d)) 1 io d)"

section \<open>Changes\<close>

text \<open>
  \<open>insertProbeTypes\<close> inside a transaction: \<open>i\<close> counts the driver calls, \<open>seen\<close> the types
  already inserted.  The primary key and the foreign key of \<open>target_probe_types\<close> can refuse
  a row.
\<close>

fun insertProbeTypes :: "string \<Rightarrow> string list \<Rightarrow> string list \<Rightarrow> nat \<Rightarrow> faults \<Rightarrow> db \<Rightarrow>
    store_error + (nat \<times> db)" where
  "insertProbeTypes tid [] seen i io d = Inr (i, d)"
| "insertProbeTypes tid (pt # pts) seen i io d =
     (if pt \<in> set seen then insertProbeTypes tid pts seen i io d
      else if io i \<or> (tid, pt) \<in> set (db_types d) \<or> tid \<notin> tr_target_id ` set (db_targets d) then Inl ErrDB
      else insertProbeTypes tid pts (pt # seen) (Suc i) io (d\<lparr>db_types := db_types d @ [(tid, pt)]\<rparr>))"

definition createTargetTx :: "int \<Rightarrow> target \<Rightarrow> nat \<Rightarrow> faults \<Rightarrow> db \<Rightarrow> store_error + (nat \<times> db)" where
  "createTargetTx now t i io d =
     (let s = unix_seconds now;
          row = \<lparr>tr_id = db_target_seq d + 1, tr_target_id = t_TargetID t, tr_display_name = t_DisplayName t,
                 tr_address = t_Address t, tr_description = t_Description t,
                 tr_enabled = boolToInt (t_Enabled t), tr_created_at = s, tr_updated_at = s\<rparr> in
      if io i then Inl ErrDB
      else if t_TargetID t \<in> tr_target_id ` set (db_targets d) then Inl ErrDuplicate
      else insertProbeTypes (t_TargetID t) (t_ProbeTypes t) [] (Suc i) io
             (d\<lparr>db_targets := db_targets d @ [row], db_target_seq := db_target_seq d + 1\<rparr>))"

text \<open>A transaction: what its body did is kept only when the commit succeeds.\<close>

definition commit_tx :: "faults \<Rightarrow> db \<Rightarrow> store_error + (nat \<times> db) \<Rightarrow> (store_error + unit) \<times> db" where
  "commit_tx io d r =
     (case r of
        Inl e \<Rightarrow> (Inl e, d)
      | Inr (i, d') \<Rightarrow> (if io i then (Inl ErrDB, d) else (Inr (), d')))"

definition CreateTarget :: "int \<Rightarrow> target \<Rightarrow> faults \<Rightarrow> db \<Rightarrow> (store_error + unit) \<times> db" where
  "CreateTarget now t io d =
     (if io 0 then (Inl ErrDB, d) else commit_tx io d (createTargetTx now t 1 io d))"

definition update_target_tx :: "int \<Rightarrow> target \<Rightarrow> faults \<Rightarrow> db \<Rightarrow> store_error + (nat \<times> db)" where
  "update_target_tx now t io d =
     (if io 1 \<or> io 2 then Inl ErrDB
      else if count_rows (\<lambda>r. tr_target_id r = t_TargetID t) (db_targets d) = 0 then Inl ErrNotFound
      else if io 3 then Inl ErrDB
      else insertProbeTypes (t_TargetID t) (t_ProbeTypes t) [] 4 io
             (d\<lparr>db_targets := update_rows (\<lambda>r. tr_target_id r = t_TargetID t)
                  (\<lambda>r. r\<lparr>tr_display_name := t_DisplayName t, tr_address := t_Address t,
                         tr_description := t_Description t, tr_enabled := boolToInt (t_Enabled t),
                         tr_updated_at := unix_seconds now\<rparr>) (db_targets d),
                db_types := filter (\<lambda>(tid, pt). tid \<noteq> t_TargetID t) (db_types d)\<rparr>))"

definition UpdateTarget :: "int \<Rightarrow> target \<Rightarrow> faults \<Rightarrow> db \<Rightarrow> (store_error + unit) \<times> db" where
  "UpdateTarget now t io d =
     (if io 0 then (Inl ErrDB, d) else commit_tx io d (update_target_tx now t io d))"

text \<open>The foreign key cascades: the types go with their target.\<close>

definition DeleteTarget :: "string \<Rightarrow> faults \<Rightarrow> db \<Rightarrow> (store_error + unit) \<times> db" where
  "DeleteTarget tid io d =
     (if io 0 then (Inl ErrDB, d)
      else (requireAffected (io 1) (count_rows (\<lambda>r. tr_target_id r = tid) (db_targets d)),
            d\<lparr>db_targets := filter (\<lambda>r. tr_target_id r \<noteq> tid) (db_targets d),
              db_types := filter (\<lambda>(t, pt). t \<noteq> tid) (db_types d)\<rparr>))"

section \<open>Views\<close>

text \<open>
  \<open>JOIN target_probe_types ... ORDER BY target_id, probe_type\<close> over the targets that
  satisfy the WHERE clause.
\<close>

definition join_rows :: "(target_row \<Rightarrow> bool) \<Rightarrow> db \<Rightarrow> (string \<times> string \<times> string) list" where
  "join_rows P d =
     concat (map (\<lambda>t. map (\<lambda>pt. (tr_target_id t, tr_address t, pt)) (types_of (tr_target_id t) d))
       (rows_by tr_target_id (filter P (db_targets d))))"

fun allow_rows :: "(string \<times> string \<times> string) list \<Rightarrow> allowlist \<Rightarrow> allowlist" where
  "allow_rows [] al = al"
| "allow_rows ((tid, _, pt) # rows) al =
     allow_rows rows (map_put tid (map_put pt True (or_zero (map_of al tid) [])) al)"

definition Allowlist :: "faults \<Rightarrow> db \<Rightarrow> store_error + allowlist" where
  "Allowlist io d =
     (if io 0 then Inl ErrDB else Inr (allow_rows (join_rows (\<lambda>t. tr_enabled t = 1) d) []))"

text \<open>SQLite's \<open>TRIM\<close> removes spaces only.\<close>

definition sql_blank :: "string \<Rightarrow> bool" where
  "sql_blank s \<longleftrightarrow> list_all (\<lambda>c. c = CHR '' '') s"

definition dispatchable :: "target_row \<Rightarrow> bool" where
  "dispatchable t \<longleftrightarrow> tr_enabled t = 1 \<and> \<not> sql_blank (tr_address t)"

fun fold_dispatch :: "(string \<times> string \<times> string) list \<Rightarrow> dispatch_target list \<Rightarrow> dispatch_target list" where
  "fold_dispatch [] out = out"
| "fold_dispatch ((tid, addr, pt) # rows) out =
     (if out \<noteq> [] \<and> dt_TargetID (last out) = tid
      then fold_dispatch rows
             (butlast out @ [(last out)\<lparr>dt_ProbeTypes := dt_ProbeTypes (last out) @ [pt]\<rparr>])
      else fold_dispatch rows (out @ [\<lparr>dt_TargetID = tid, dt_Address = addr, dt_ProbeTypes = [pt]\<rparr>]))"

definition DispatchTargets :: "faults \<Rightarrow> db \<Rightarrow> store_error + dispatch_target list" where
  "DispatchTargets io d =
     (if io 0 then Inl ErrDB
      else Inr (fold_dispatch (join_rows dispatchable d) []))"

definition ProbeTypesSorted :: "string list \<Rightarrow> string list" where
  "ProbeTypesSorted types = sort types"

section \<open>What the views hold\<close>

lemma set_types_of [simp]: "set (types_of tid d) = {pt. (tid, pt) \<in> set (db_types d)}"
  by (force simp: types_of_def)

lemma distinct_types_of: "distinct (db_types d) \<Longrightarrow> distinct (types_of tid d)"
  by (auto simp: types_of_def distinct_map inj_on_def)

lemma join_rows_iff:
  "(tid, addr, pt) \<in> set (join_rows P d) \<longleftrightarrow>
     (\<exists>t \<in> set (db_targets d). P t \<and> tr_target_id t = tid \<and> tr_address t = addr) \<and> (tid, pt) \<in> set (db_types d)"
  by (auto simp: join_rows_def)

definition allows :: "allowlist \<Rightarrow> string \<Rightarrow> probe_type \<Rightarrow> bool" where
  "allows al tid pt \<longleftrightarrow> (\<exists>m. map_of al tid = Some m \<and> type_allowed m pt)"

lemma allows_put:
  "allows (map_put tid (map_put pt True (or_zero (map_of al tid) [])) al) t p \<longleftrightarrow>
   (t = tid \<and> p = pt) \<or> allows al t p"
  by (auto simp: allows_def type_allowed_def map_of_put or_zero_def split: option.splits)

lemma allow_rows_iff:
  "allows (allow_rows rows al) tid pt \<longleftrightarrow> (\<exists>a. (tid, a, pt) \<in> set rows) \<or> allows al tid pt"
  by (induction rows al rule: allow_rows.induct) (auto simp: allows_put)

lemma allow_rows_known:
  "map_of (allow_rows rows al) tid \<noteq> None \<longleftrightarrow> (\<exists>a pt. (tid, a, pt) \<in> set rows) \<or> map_of al tid \<noteq> None"
  by (induction rows al rule: allow_rows.induct) (auto simp: map_of_put)

lemma Allowlist_Inr: "Allowlist io d = Inr al \<longleftrightarrow> \<not> io 0 \<and> al = allow_rows (join_rows (\<lambda>t. tr_enabled t = 1) d) []"
  by (auto simp: Allowlist_def)

lemma Allowlist_iff:
  "Allowlist io d = Inr al \<Longrightarrow>
   allows al tid pt \<longleftrightarrow>
     (\<exists>t \<in> set (db_targets d). tr_target_id t = tid \<and> tr_enabled t = 1) \<and> (tid, pt) \<in> set (db_types d)"
proof -
  assume "Allowlist io d = Inr al"
  then have "allows al tid pt \<longleftrightarrow> (\<exists>a. (tid, a, pt) \<in> set (join_rows (\<lambda>t. tr_enabled t = 1) d))"
    by (simp add: Allowlist_Inr allow_rows_iff allows_def [of "[]"])
  also have "\<dots> \<longleftrightarrow> (\<exists>t \<in> set (db_targets d). tr_target_id t = tid \<and> tr_enabled t = 1) \<and> (tid, pt) \<in> set (db_types d)"
    unfolding join_rows_iff by blast
  finally show ?thesis .
qed

lemma Allowlist_known:
  "Allowlist io d = Inr al \<Longrightarrow>
   map_of al tid \<noteq> None \<longleftrightarrow>
     (\<exists>t \<in> set (db_targets d). tr_target_id t = tid \<and> tr_enabled t = 1) \<and> (\<exists>pt. (tid, pt) \<in> set (db_types d))"
proof -
  assume "Allowlist io d = Inr al"
  then have "map_of al tid \<noteq> None \<longleftrightarrow> (\<exists>a pt. (tid, a, pt) \<in> set (join_rows (\<lambda>t. tr_enabled t = 1) d))"
    by (simp only: Allowlist_Inr allow_rows_known map_of.simps) simp
  also have "\<dots> \<longleftrightarrow> (\<exists>t \<in> set (db_targets d). tr_target_id t = tid \<and> tr_enabled t = 1) \<and> (\<exists>pt. (tid, pt) \<in> set (db_types d))"
    unfolding join_rows_iff by blast
  finally show ?thesis .
qed

text \<open>The rows of one target fold into one entry, the rows of several into one entry each.\<close>

definition dispatch_of :: "target_row \<Rightarrow> string list \<Rightarrow> dispatch_target" where
  "dispatch_of t types = \<lparr>dt_TargetID = tr_target_id t, dt_Address = tr_address t, dt_ProbeTypes = types\<rparr>"

lemma fold_dispatch_more:
  "fold_dispatch (map (\<lambda>pt. (dt_TargetID e, a, pt)) pts @ rows) (out @ [e]) =
   fold_dispatch rows (out @ [e\<lparr>dt_ProbeTypes := dt_ProbeTypes e @ pts\<rparr>])"
proof (induction pts arbitrary: e)
  case (Cons pt pts)
  from Cons [of "e\<lparr>dt_ProbeTypes := dt_ProbeTypes e @ [pt]\<rparr>"] show ?case by simp
qed simp

lemma fold_dispatch_target:
  assumes "tr_target_id t \<notin> dt_TargetID ` set out" "pts \<noteq> []"
  shows "fold_dispatch (map (\<lambda>pt. (tr_target_id t, tr_address t, pt)) pts @ rows) out =
         fold_dispatch rows (out @ [dispatch_of t pts])"
proof -
  obtain p ps where p: "pts = p # ps" using assms(2) by (cases pts) auto
  have "\<not> (out \<noteq> [] \<and> dt_TargetID (last out) = tr_target_id t)"
    using assms(1) last_in_set by force
  then have "fold_dispatch (map (\<lambda>pt. (tr_target_id t, tr_address t, pt)) pts @ rows) out =
      fold_dispatch (map (\<lambda>pt. (tr_target_id t, tr_address t, pt)) ps @ rows) (out @ [dispatch_of t [p]])"
    by (simp only: p list.map append_Cons fold_dispatch.simps if_False dispatch_of_def)
  then show ?thesis
    using fold_dispatch_more [of "dispatch_of t [p]" "tr_address t" ps rows out]
    by (simp add: p dispatch_of_def)
qed

lemma fold_dispatch_join:
  assumes "distinct (map tr_target_id ts)" "tr_target_id ` set ts \<inter> dt_TargetID ` set out = {}"
  shows "fold_dispatch (concat (map (\<lambda>t. map (\<lambda>pt. (tr_target_id t, tr_address t, pt)) (types_of (tr_target_id t) d)) ts)) out =
         out @ map (\<lambda>t. dispatch_of t (types_of (tr_target_id t) d)) (filter (\<lambda>t. types_of (tr_target_id t) d \<noteq> []) ts)"
  using assms
proof (induction ts arbitrary: out)
  case Nil
  then show ?case by simp
next
  case (Cons t ts)
  show ?case
  proof (cases "types_of (tr_target_id t) d = []")
    case True
    with Cons show ?thesis by simp
  next
    case False
    with Cons.prems have "fold_dispatch (concat (map (\<lambda>t. map (\<lambda>pt. (tr_target_id t, tr_address t, pt))
          (types_of (tr_target_id t) d)) (t # ts))) out =
        fold_dispatch (concat (map (\<lambda>t. map (\<lambda>pt. (tr_target_id t, tr_address t, pt))
          (types_of (tr_target_id t) d)) ts)) (out @ [dispatch_of t (types_of (tr_target_id t) d)])"
      by (simp add: fold_dispatch_target)
    also have "\<dots> = (out @ [dispatch_of t (types_of (tr_target_id t) d)]) @
        map (\<lambda>t. dispatch_of t (types_of (tr_target_id t) d)) (filter (\<lambda>t. types_of (tr_target_id t) d \<noteq> []) ts)"
      using Cons.prems by (intro Cons.IH) (auto simp: dispatch_of_def)
    finally show ?thesis using False by simp
  qed
qed

theorem DispatchTargets_spec:
  assumes "targets_inv d" "\<not> io 0"
  shows "DispatchTargets io d = Inr (map (\<lambda>t. dispatch_of t (types_of (tr_target_id t) d))
           (filter (\<lambda>t. types_of (tr_target_id t) d \<noteq> []) (rows_by tr_target_id (filter dispatchable (db_targets d)))))"
proof -
  have "distinct (map tr_target_id (rows_by tr_target_id (filter dispatchable (db_targets d))))"
    using assms(1) by (simp add: targets_inv_def distinct_map_filter)
  from fold_dispatch_join [OF this, of "[]" d] assms(2) show ?thesis
    by (simp add: DispatchTargets_def join_rows_def)
qed

text \<open>Every dispatched target and type is allowed, so a probe that measures what it is told is accepted.\<close>

lemma DispatchTargets_allowed:
  assumes "targets_inv d" "DispatchTargets io d = Inr dts" "Allowlist io' d = Inr al"
    "t \<in> set dts" "pt \<in> set (dt_ProbeTypes t)"
  shows "allows al (dt_TargetID t) pt"
proof -
  from assms(2) have "\<not> io 0" by (simp add: DispatchTargets_def split: if_splits)
  with DispatchTargets_spec [OF assms(1), of io] assms(2,4,5) show ?thesis
    by (auto simp: Allowlist_iff [OF assms(3)] dispatch_of_def dispatchable_def)
qed

lemma DispatchTargets_distinct:
  assumes "targets_inv d" "DispatchTargets io d = Inr dts"
  shows "distinct (map dt_TargetID dts)"
proof -
  from assms(2) have "\<not> io 0" by (simp add: DispatchTargets_def split: if_splits)
  with DispatchTargets_spec [OF assms(1), of io] assms
  have "map dt_TargetID dts = map tr_target_id (filter (\<lambda>t. types_of (tr_target_id t) d \<noteq> [])
      (rows_by tr_target_id (filter dispatchable (db_targets d))))"
    by (auto simp: dispatch_of_def)
  with assms(1) show ?thesis
    by (simp add: targets_inv_def distinct_map_filter)
qed

section \<open>Changes are atomic and keep the constraints\<close>

lemma insertProbeTypes_frame:
  "insertProbeTypes tid pts seen i io d = Inr (j, d') \<Longrightarrow> d' = d\<lparr>db_types := db_types d'\<rparr>"
proof (induction tid pts seen i io d rule: insertProbeTypes.induct)
  case (2 tid pt pts seen i io d)
  show ?case
  proof (cases "pt \<in> set seen")
    case True
    with 2 show ?thesis by simp
  next
    case False
    let ?d = "d\<lparr>db_types := db_types d @ [(tid, pt)]\<rparr>"
    from False "2.prems" have ok: "\<not> (io i \<or> (tid, pt) \<in> set (db_types d) \<or> tid \<notin> tr_target_id ` set (db_targets d))"
      and run: "insertProbeTypes tid pts (pt # seen) (Suc i) io ?d = Inr (j, d')"
      by (auto split: if_splits)
    from "2.IH"(2) [OF False ok run] show ?thesis by (cases d) simp
  qed
qed simp

lemma insertProbeTypes_types:
  "insertProbeTypes tid pts seen i io d = Inr (j, d') \<Longrightarrow> distinct (db_types d) \<Longrightarrow>
   distinct (db_types d') \<and> set (db_types d') = set (db_types d) \<union> Pair tid ` (set pts - set seen)"
  by (induction tid pts seen i io d rule: insertProbeTypes.induct) (auto split: if_splits)

lemma insertProbeTypes_known:
  "insertProbeTypes tid pts seen i io d = Inr (j, d') \<Longrightarrow> set pts \<subseteq> set seen \<or> tid \<in> tr_target_id ` set (db_targets d)"
  by (induction tid pts seen i io d rule: insertProbeTypes.induct) (auto split: if_splits)

lemma commit_tx_ok: "commit_tx io d r = (Inr u, d') \<longleftrightarrow> (\<exists>i. r = Inr (i, d') \<and> \<not> io i)"
  by (auto simp: commit_tx_def split: sum.splits prod.splits)

lemma commit_tx_error: "commit_tx io d r = (Inl e, d') \<Longrightarrow> d' = d"
  by (auto simp: commit_tx_def split: sum.splits prod.splits if_splits)

lemma CreateTarget_error: "CreateTarget now t io d = (Inl e, d') \<Longrightarrow> d' = d"
  by (auto simp: CreateTarget_def dest: commit_tx_error split: if_splits)

lemma UpdateTarget_error: "UpdateTarget now t io d = (Inl e, d') \<Longrightarrow> d' = d"
  by (auto simp: UpdateTarget_def dest: commit_tx_error split: if_splits)

text \<open>A new target: its row and exactly the types it was given.\<close>

lemma createTargetTx_ok:
  assumes "createTargetTx now t i io d = Inr (j, d')" "targets_inv d"
  shows "t_TargetID t \<notin> tr_target_id ` set (db_targets d) \<and>
         (\<exists>row. db_targets d' = db_targets d @ [row] \<and> tr_target_id row = t_TargetID t \<and>
            tr_address row = t_Address t \<and> tr_enabled row = boolToInt (t_Enabled t) \<and>
            tr_id row = db_target_seq d + 1) \<and>
         set (db_types d') = set (db_types d) \<union> Pair (t_TargetID t) ` set (t_ProbeTypes t) \<and>
         distinct (db_types d') \<and> db_target_seq d' = db_target_seq d + 1 \<and>
         d' = d\<lparr>db_targets := db_targets d', db_target_seq := db_target_seq d', db_types := db_types d'\<rparr>"
proof -
  let ?s = "unix_seconds now"
  let ?row = "\<lparr>tr_id = db_target_seq d + 1, tr_target_id = t_TargetID t, tr_display_name = t_DisplayName t,
                 tr_address = t_Address t, tr_description = t_Description t,
                 tr_enabled = boolToInt (t_Enabled t), tr_created_at = ?s, tr_updated_at = ?s\<rparr>"
  let ?d = "d\<lparr>db_targets := db_targets d @ [?row], db_target_seq := db_target_seq d + 1\<rparr>"
  from assms(1) have fresh: "t_TargetID t \<notin> tr_target_id ` set (db_targets d)"
    and run: "insertProbeTypes (t_TargetID t) (t_ProbeTypes t) [] (Suc i) io ?d = Inr (j, d')"
    by (auto simp: createTargetTx_def Let_def split: if_splits)
  obtain ty where d': "d' = ?d\<lparr>db_types := ty\<rparr>"
    using insertProbeTypes_frame [OF run] by blast
  have "distinct (db_types d') \<and> set (db_types d') = set (db_types d) \<union> Pair (t_TargetID t) ` set (t_ProbeTypes t)"
    using insertProbeTypes_types [OF run] assms(2) by (simp add: targets_inv_def)
  with fresh show ?thesis by (simp add: d')
qed

lemma createTargetTx_inv:
  "createTargetTx now t i io d = Inr (j, d') \<Longrightarrow> targets_inv d \<Longrightarrow> targets_inv d'"
  using createTargetTx_ok [of now t i io d j d']
  by (auto simp: targets_inv_def) force+

lemma CreateTarget_inv: "targets_inv d \<Longrightarrow> targets_inv (snd (CreateTarget now t io d))"
  by (auto simp: CreateTarget_def commit_tx_def dest: createTargetTx_inv split: sum.splits prod.splits)

lemma update_target_tx_ok:
  assumes "update_target_tx now t io d = Inr (j, d')" "targets_inv d"
  shows "targets_inv d' \<and> t_TargetID t \<in> tr_target_id ` set (db_targets d) \<and>
         types_of (t_TargetID t) d' = sort (remdups (t_ProbeTypes t)) \<and>
         (\<forall>tid. tid \<noteq> t_TargetID t \<longrightarrow> set (types_of tid d') = set (types_of tid d))"
proof -
  let ?g = "\<lambda>r. r\<lparr>tr_display_name := t_DisplayName t, tr_address := t_Address t,
      tr_description := t_Description t, tr_enabled := boolToInt (t_Enabled t), tr_updated_at := unix_seconds now\<rparr>"
  let ?d = "d\<lparr>db_targets := update_rows (\<lambda>r. tr_target_id r = t_TargetID t) ?g (db_targets d),
      db_types := filter (\<lambda>(tid, pt). tid \<noteq> t_TargetID t) (db_types d)\<rparr>"
  from assms(1) have some: "count_rows (\<lambda>r. tr_target_id r = t_TargetID t) (db_targets d) \<noteq> 0"
    and run: "insertProbeTypes (t_TargetID t) (t_ProbeTypes t) [] 4 io ?d = Inr (j, d')"
    by (auto simp: update_target_tx_def split: if_splits)
  obtain ty where d': "d' = ?d\<lparr>db_types := ty\<rparr>"
    using insertProbeTypes_frame [OF run] by blast
  have types: "distinct (db_types d') \<and>
      set (db_types d') = {(tid, pt) \<in> set (db_types d). tid \<noteq> t_TargetID t} \<union> Pair (t_TargetID t) ` set (t_ProbeTypes t)"
    using insertProbeTypes_types [OF run] assms(2) by (auto simp: targets_inv_def)
  have known: "t_TargetID t \<in> tr_target_id ` set (db_targets d)"
    using some unfolding count_rows_0 by (metis imageI)
  have ids: "map tr_target_id (db_targets d') = map tr_target_id (db_targets d)"
    "map tr_id (db_targets d') = map tr_id (db_targets d)"
    by (simp_all add: d' update_rows_map)
  have "targets_inv d'"
  proof -
    have "fst ` set (db_types d') \<subseteq> insert (t_TargetID t) (fst ` set (db_types d))"
      using types by auto
    moreover have "fst ` set (db_types d) \<subseteq> set (map tr_target_id (db_targets d))"
      using assms(2) by (simp add: targets_inv_def)
    ultimately have "fst ` set (db_types d') \<subseteq> set (map tr_target_id (db_targets d'))"
      unfolding ids using known by (metis image_set insert_absorb order_trans insert_mono)
    moreover have "\<forall>r \<in> set (db_targets d'). tr_id r \<le> db_target_seq d'"
      using assms(2) by (auto simp: d' update_rows_set targets_inv_def)
    ultimately show ?thesis
      using types assms(2) unfolding targets_inv_def list.set_map [symmetric] ids by blast
  qed
  moreover have "types_of (t_TargetID t) d' = sort (remdups (t_ProbeTypes t))"
  proof (rule sorted_distinct_set_unique)
    show "distinct (types_of (t_TargetID t) d')" by (rule distinct_types_of) (use types in blast)
    show "set (types_of (t_TargetID t) d') = set (sort (remdups (t_ProbeTypes t)))"
      using types by auto
  qed (simp_all add: types_of_def)
  moreover have "set (types_of tid d') = set (types_of tid d)" if "tid \<noteq> t_TargetID t" for tid
    using types that by auto
  ultimately show ?thesis using known by blast
qed

lemma UpdateTarget_inv: "targets_inv d \<Longrightarrow> targets_inv (snd (UpdateTarget now t io d))"
  by (auto simp: UpdateTarget_def commit_tx_def dest: update_target_tx_ok split: sum.splits prod.splits)

lemma DeleteTarget_inv: "targets_inv d \<Longrightarrow> targets_inv (snd (DeleteTarget tid io d))"
  by (auto simp: DeleteTarget_def targets_inv_def distinct_map_filter)

text \<open>A deleted target is unknown to the allowlist at once, with everything it allowed.\<close>

lemma DeleteTarget_unknown:
  "DeleteTarget tid io d = (Inr u, d') \<Longrightarrow> Allowlist io' d' = Inr al \<Longrightarrow> map_of al tid = None"
  using Allowlist_known [of io' d' al tid]
  by (auto simp: DeleteTarget_def split: if_splits)

end
