(* ===== verification/Keyed_Store.thy ===== *)
theory Keyed_Store
  imports Gateway_Prelude
begin

text \<open>
  The contract of a keyed store, which the latest-measurement store, the settings table and
  the limiter and session maps all offer: what a lookup returns after a write and after a
  removal.  The client's view of a whole history of writes is proved once here.
\<close>

text \<open>One change: a write or a removal.\<close>

datatype ('k, 'v) change = Write 'k 'v | Remove 'k

fun changed_key :: "('k, 'v) change \<Rightarrow> 'k" where
  "changed_key (Write k v) = k"
| "changed_key (Remove k) = k"

fun last_change :: "'k \<Rightarrow> ('k, 'v) change list \<Rightarrow> 'v option \<Rightarrow> 'v option" where
  "last_change k [] cur = cur"
| "last_change k (c # cs) cur =
     last_change k cs (case c of Write k' v \<Rightarrow> if k' = k then Some v else cur
                                | Remove k' \<Rightarrow> if k' = k then None else cur)"

locale keyed_store =
  fixes lookup :: "'s \<Rightarrow> 'k \<Rightarrow> 'v option"
    and put :: "'k \<Rightarrow> 'v \<Rightarrow> 's \<Rightarrow> 's"
    and del :: "'k \<Rightarrow> 's \<Rightarrow> 's"
    and ok :: "'s \<Rightarrow> bool"
  assumes lookup_put: "ok s \<Longrightarrow> lookup (put k v s) k' = (if k' = k then Some v else lookup s k')"
    and lookup_del: "ok s \<Longrightarrow> lookup (del k s) k' = (if k' = k then None else lookup s k')"
    and ok_put: "ok s \<Longrightarrow> ok (put k v s)"
    and ok_del: "ok s \<Longrightarrow> ok (del k s)"
begin

fun apply_change :: "('k, 'v) change \<Rightarrow> 's \<Rightarrow> 's" where
  "apply_change (Write k v) s = put k v s"
| "apply_change (Remove k) s = del k s"

lemma ok_history: "ok s \<Longrightarrow> ok (fold apply_change cs s)"
proof (induction cs arbitrary: s)
  case (Cons c cs)
  then show ?case by (cases c) (simp_all add: ok_put ok_del)
qed simp

text \<open>After any history a key holds what the last change to it left.\<close>

lemma lookup_history: "ok s \<Longrightarrow> lookup (fold apply_change cs s) k = last_change k cs (lookup s k)"
proof (induction cs arbitrary: s)
  case (Cons c cs)
  then show ?case
    by (cases c) (auto simp: ok_put ok_del lookup_put lookup_del)
qed simp

lemma lookup_unchanged:
  "ok s \<Longrightarrow> k \<notin> changed_key ` set cs \<Longrightarrow> lookup (fold apply_change cs s) k = lookup s k"
proof (induction cs arbitrary: s)
  case (Cons c cs)
  then show ?case
    by (cases c) (auto simp: ok_put ok_del lookup_put lookup_del)
qed simp

lemma lookup_removed:
  assumes "ok s" "k \<notin> changed_key ` set cs"
  shows "lookup (fold apply_change cs (del k s)) k = None"
  using lookup_unchanged [of "del k s" k cs] assms by (simp add: ok_del lookup_del)

lemma put_put: "ok s \<Longrightarrow> lookup (put k v (put k v' s)) = lookup (put k v s)"
  by (rule ext) (simp add: lookup_put ok_put)

end

text \<open>A Go map by itself is one.\<close>

interpretation go_map: keyed_store "map_of" "map_put" "map_del" "wf_map"
  by unfold_locales (simp_all add: map_of_put map_of_del gw_keys)

end
