(* ===== verification/Store_Settings.thy ===== *)
theory Store_Settings
  imports Store_Base Keyed_Store
begin

text \<open>
  \<open>internal/store/settings.go\<close> and \<open>internal/store/measurement.go\<close>: the settings table and
  the measurement parameters stored in it as JSON.
\<close>

section \<open>Settings\<close>

definition setting_value :: "db \<Rightarrow> string \<Rightarrow> string option" where
  "setting_value d k = map_option fst (map_of (db_settings d) k)"

text \<open>The pair is the value (empty when unset) and whether the key exists.\<close>

definition Setting :: "string \<Rightarrow> faults \<Rightarrow> db \<Rightarrow> store_error + (string \<times> bool)" where
  "Setting k io d =
     (if io 0 then Inl ErrDB
      else case setting_value d k of None \<Rightarrow> Inr ([], False) | Some v \<Rightarrow> Inr (v, True))"

definition SetSetting :: "int \<Rightarrow> string \<Rightarrow> string \<Rightarrow> faults \<Rightarrow> db \<Rightarrow> (store_error + unit) \<times> db" where
  "SetSetting now k v io d =
     (if io 0 then (Inl ErrDB, d)
      else (Inr (), d\<lparr>db_settings := map_put k (v, unix_seconds now) (db_settings d)\<rparr>))"

definition DeleteSetting :: "string \<Rightarrow> faults \<Rightarrow> db \<Rightarrow> (store_error + unit) \<times> db" where
  "DeleteSetting k io d =
     (if io 0 then (Inl ErrDB, d) else (Inr (), d\<lparr>db_settings := map_del k (db_settings d)\<rparr>))"

definition set_setting :: "int \<Rightarrow> string \<Rightarrow> string \<Rightarrow> db \<Rightarrow> db" where
  "set_setting now k v d = snd (SetSetting now k v no_faults d)"

definition delete_setting :: "string \<Rightarrow> db \<Rightarrow> db" where
  "delete_setting k d = snd (DeleteSetting k no_faults d)"

interpretation settings: keyed_store setting_value "set_setting now" delete_setting settings_inv for now
  by unfold_locales
    (simp_all add: setting_value_def set_setting_def SetSetting_def delete_setting_def DeleteSetting_def
      settings_inv_def map_of_put map_of_del gw_keys)

lemma SetSetting_ok [gw_results]:
  "SetSetting now k v io d = (Inr u, d') \<longleftrightarrow> \<not> io 0 \<and> d' = set_setting now k v d"
  by (auto simp: SetSetting_def set_setting_def)

lemma DeleteSetting_ok [gw_results]:
  "DeleteSetting k io d = (Inr u, d') \<longleftrightarrow> \<not> io 0 \<and> d' = delete_setting k d"
  by (auto simp: DeleteSetting_def delete_setting_def)

lemma Setting_ok [gw_results]:
  "Setting k io d = Inr r \<longleftrightarrow>
     \<not> io 0 \<and> r = (case setting_value d k of None \<Rightarrow> ([], False) | Some v \<Rightarrow> (v, True))"
  by (auto simp: Setting_def split: option.splits)

lemma SetSetting_inv: "settings_inv d \<Longrightarrow> settings_inv (snd (SetSetting now k v io d))"
  by (simp add: SetSetting_def settings_inv_def gw_keys)

lemma DeleteSetting_inv: "settings_inv d \<Longrightarrow> settings_inv (snd (DeleteSetting k io d))"
  by (simp add: DeleteSetting_def settings_inv_def gw_keys)

section \<open>Measurement parameters\<close>

definition measurementConfigKey :: string where
  "measurementConfigKey = ''measurement_config''"

definition MeasurementConfig :: "faults \<Rightarrow> db \<Rightarrow> store_error + (measurement_config \<times> bool)" where
  "MeasurementConfig io d =
     bind_result (Setting measurementConfigKey io d) (\<lambda>(raw, known).
       if \<not> known then Inr (DefaultMeasurementConfig, False)
       else (case config_unmarshal raw of
               None \<Rightarrow> Inr (DefaultMeasurementConfig, False)
             | Some cfg \<Rightarrow>
                 (case config_Validate cfg of
                    Inl e \<Rightarrow> Inr (DefaultMeasurementConfig, False)
                  | Inr u \<Rightarrow> Inr (cfg, True))))"

definition SetMeasurementConfig ::
    "int \<Rightarrow> measurement_config \<Rightarrow> faults \<Rightarrow> db \<Rightarrow> (store_error + unit) \<times> db" where
  "SetMeasurementConfig now cfg io d =
     (case config_Validate cfg of
        Inl e \<Rightarrow> (Inl (ErrConfig e), d)
      | Inr u \<Rightarrow> SetSetting now measurementConfigKey (config_marshal cfg) io d)"

definition ResetMeasurementConfig :: "faults \<Rightarrow> db \<Rightarrow> (store_error + unit) \<times> db" where
  "ResetMeasurementConfig = DeleteSetting measurementConfigKey"

text \<open>Whatever the settings row holds, what is dispatched is valid.\<close>

lemma MeasurementConfig_valid: "MeasurementConfig io d = Inr (cfg, custom) \<Longrightarrow> config_ok cfg"
  by (auto simp: MeasurementConfig_def gw_results default_config_ok split: if_splits option.splits sum.splits)

lemma MeasurementConfig_same:
  assumes "MeasurementConfig io d = Inr r"
  shows "(\<exists>e. MeasurementConfig io' d = Inl e) \<or> MeasurementConfig io' d = Inr r"
proof (cases "io' 0")
  case True
  then show ?thesis by (simp add: MeasurementConfig_def Setting_def)
next
  case False
  have "\<not> io 0" using assms by (auto simp: MeasurementConfig_def Setting_def)
  with False have "Setting measurementConfigKey io' d = Setting measurementConfigKey io d"
    by (simp add: Setting_def)
  with assms show ?thesis by (simp add: MeasurementConfig_def)
qed

lemma SetMeasurementConfig_reads_back:
  assumes "SetMeasurementConfig now cfg io d = (Inr u, d')" "config_typed cfg" "settings_inv d"
  shows "MeasurementConfig no_faults d' = Inr (cfg, True)"
proof -
  from assms(1) have ok: "config_ok cfg"
    and d': "d' = set_setting now measurementConfigKey (config_marshal cfg) d"
    by (auto simp: SetMeasurementConfig_def gw_results split: sum.splits)
  have "setting_value d' measurementConfigKey = Some (config_marshal cfg)"
    using settings.lookup_put [OF assms(3)] by (simp add: d')
  moreover have "config_Validate cfg = Inr ()" using ok by (simp add: gw_results)
  ultimately show ?thesis
    using config_round_trip [OF assms(2) config_ok_plain [OF ok]]
    by (simp add: MeasurementConfig_def Setting_def)
qed

lemma ResetMeasurementConfig_default:
  assumes "ResetMeasurementConfig io d = (Inr u, d')" "settings_inv d"
  shows "MeasurementConfig no_faults d' = Inr (DefaultMeasurementConfig, False)"
  using assms settings.lookup_del [OF assms(2)]
  by (auto simp: ResetMeasurementConfig_def gw_results MeasurementConfig_def Setting_def)

text \<open>Other settings do not move the dispatched parameters.\<close>

lemma MeasurementConfig_other_setting:
  assumes "settings_inv d" "k \<noteq> measurementConfigKey"
  shows "MeasurementConfig io (set_setting now k v d) = MeasurementConfig io d"
  using settings.lookup_put [OF assms(1)] assms(2)
  by (simp add: MeasurementConfig_def Setting_def)

end
