(* ===== verification/Latest_Store.thy ===== *)
theory Latest_Store
  imports Keyed_Store Store_Base
begin

text \<open>
  \<open>internal/latest/store.go\<close>: the most recent validated measurement of every probe, in
  memory.  Its operations hold one lock each, so they are the atomic steps modelled here.
\<close>

record entry =
  e_Results :: results
  e_ServerReceivedAt :: int

type_synonym latest_store = "(string, entry) gomap"

definition latest_New :: latest_store where
  "latest_New = []"

definition latest_Put :: "string \<Rightarrow> results \<Rightarrow> int \<Rightarrow> latest_store \<Rightarrow> latest_store" where
  "latest_Put probeID rs now s = map_put probeID \<lparr>e_Results = rs, e_ServerReceivedAt = now\<rparr> s"

definition latest_Get :: "latest_store \<Rightarrow> string \<Rightarrow> entry option" where
  "latest_Get s probeID = map_of s probeID"

text \<open>The copy loop of \<open>Snapshot\<close>: the entries visited one by one into a fresh map.\<close>

definition latest_Snapshot :: "latest_store \<Rightarrow> latest_store" where
  "latest_Snapshot s = fold (\<lambda>(k, v) out. map_put k v out) s []"

definition latest_Delete :: "string \<Rightarrow> latest_store \<Rightarrow> latest_store" where
  "latest_Delete probeID s = map_del probeID s"

definition latest_inv :: "latest_store \<Rightarrow> bool" where
  "latest_inv s \<longleftrightarrow> wf_map s"

definition put_entry :: "string \<Rightarrow> entry \<Rightarrow> latest_store \<Rightarrow> latest_store" where
  "put_entry k e = latest_Put k (e_Results e) (e_ServerReceivedAt e)"

interpretation latest: keyed_store latest_Get put_entry latest_Delete latest_inv
  by unfold_locales
    (simp_all add: latest_Get_def put_entry_def latest_Put_def latest_Delete_def latest_inv_def map_of_put
      map_of_del gw_keys)

lemma latest_Put_entry: "latest_Put k rs t = put_entry k \<lparr>e_Results = rs, e_ServerReceivedAt = t\<rparr>"
  by (simp add: put_entry_def)

lemma latest_Get_Put:
  "latest_Get (latest_Put k rs t s) k' =
   (if k' = k then Some \<lparr>e_Results = rs, e_ServerReceivedAt = t\<rparr> else latest_Get s k')"
  by (simp add: latest_Get_def latest_Put_def map_of_put)

lemma latest_Get_Delete: "latest_Get (latest_Delete k s) k' = (if k' = k then None else latest_Get s k')"
  by (simp add: latest_Get_def latest_Delete_def map_of_del)

lemma latest_inv_ops [intro]:
  "latest_inv latest_New" "latest_inv s \<Longrightarrow> latest_inv (latest_Put k rs t s)"
  "latest_inv s \<Longrightarrow> latest_inv (latest_Delete k s)"
  by (simp_all add: latest_inv_def latest_New_def latest_Put_def latest_Delete_def gw_keys)

text \<open>A snapshot is the store's contents, whatever order the map was visited in.\<close>

lemma snapshot_fold:
  "wf_map s \<Longrightarrow> map_of (fold (\<lambda>(k, v) out. map_put k v out) s acc) = map_of acc ++ map_of s"
proof (induction s arbitrary: acc)
  case (Cons e s)
  obtain k v where e: "e = (k, v)" by (cases e)
  with Cons.prems have "map_of s k = None" by (simp add: map_of_eq_None_iff)
  with Cons e show ?case
    by (auto simp: map_of_put fun_eq_iff map_add_def split: option.splits)
qed simp

lemma Snapshot_lookup: "latest_inv s \<Longrightarrow> map_of (latest_Snapshot s) k = latest_Get s k"
  by (simp add: latest_Snapshot_def latest_inv_def latest_Get_def snapshot_fold)

end
