(* ===== verification/Token.thy ===== *)
theory Token
  imports Go_Hash
begin

text \<open>\<open>internal/token/token.go\<close>: probe tokens and their hashes.\<close>

definition token_Prefix :: string where
  "token_Prefix = ''cqu_probe_''"

definition secretBytes :: nat where
  "secretBytes = 32"

text \<open>\<open>random n\<close> is what \<open>crypto/rand.Read\<close> gives for \<open>n\<close> bytes, or its failure.\<close>

definition Generate :: "(nat \<Rightarrow> string option) \<Rightarrow> string option" where
  "Generate random = map_option (\<lambda>buf. token_Prefix @ b64url buf) (random secretBytes)"

definition Hash :: "string \<Rightarrow> string" where
  "Hash tok = hex_encode (sha256 tok)"

lemma length_Hash [simp]: "length (Hash tok) = 64"
  by (simp add: Hash_def)

lemma Generate_form:
  assumes "Generate random = Some tok" "\<And>n s. random n = Some s \<Longrightarrow> length s = n"
  shows "has_prefix tok token_Prefix \<and> length tok = 53"
  using assms by (auto simp: Generate_def token_Prefix_def secretBytes_def length_b64url has_prefix_def)

end
