(* ===== verification/Net_IP.thy ===== *)
theory Net_IP
  imports Go_Strconv
begin

text \<open>
  The part of Go's \<open>net\<close> package the gateway calls: \<open>ParseIP\<close>, \<open>ParseCIDR\<close>,
  \<open>IPNet.Contains\<close>, \<open>IP.IsLoopback\<close> and \<open>SplitHostPort\<close>.  An address is its list of
  bytes, 16 of them as \<open>ParseIP\<close> returns it.
\<close>

type_synonym ip = "nat list"

record ip_net =
  n_IP :: ip
  n_Mask :: "nat list"

section \<open>Addresses\<close>

definition v4_prefix :: ip where
  "v4_prefix = replicate 10 0 @ [255, 255]"

definition v4_field :: "string \<Rightarrow> nat option" where
  "v4_field s =
     (if s = [] \<or> \<not> list_all is_digit s \<or> (hd s = CHR ''0'' \<and> tl s \<noteq> []) \<or> length s > 3 then None
      else case read_nat s of None \<Rightarrow> None | Some n \<Rightarrow> if n > 255 then None else Some n)"

definition parse_v4 :: "string \<Rightarrow> ip option" where
  "parse_v4 s =
     (case map v4_field (split_on CHR ''.'' s) of
        [Some a, Some b, Some c, Some d] \<Rightarrow> Some [a, b, c, d]
      | _ \<Rightarrow> None)"

definition hex_digit_val :: "char \<Rightarrow> nat option" where
  "hex_digit_val c =
     (if is_digit c then Some (code c - 48)
      else if 97 \<le> code c \<and> code c \<le> 102 then Some (code c - 87)
      else if 65 \<le> code c \<and> code c \<le> 70 then Some (code c - 55) else None)"

text \<open>The digits at the front, their value, and the rest; more than four digits are an error.\<close>

fun hex_field :: "nat \<Rightarrow> nat \<Rightarrow> string \<Rightarrow> (nat \<times> nat \<times> string) option" where
  "hex_field off acc [] = Some (off, acc, [])"
| "hex_field off acc (c # cs) =
     (case hex_digit_val c of
        None \<Rightarrow> Some (off, acc, c # cs)
      | Some v \<Rightarrow> if off > 3 then None else hex_field (Suc off) (16 * acc + v) cs)"

text \<open>
  \<open>netip.parseIPv6\<close>: \<open>bytes\<close> is what has been parsed, \<open>ell\<close> the position of an ellipsis.
  The fuel is the number of 16-bit fields left; the loop runs at most eight times.
\<close>

fun parse_v6_fields :: "nat \<Rightarrow> string \<Rightarrow> nat list \<Rightarrow> nat option \<Rightarrow> (nat list \<times> nat option) option" where
  "parse_v6_fields 0 s bytes ell = (if s = [] then Some (bytes, ell) else None)"
| "parse_v6_fields (Suc n) s bytes ell =
     (case hex_field 0 0 s of
        None \<Rightarrow> None
      | Some (off, acc, rest) \<Rightarrow>
          (if off = 0 then None
           else if take 1 rest = ''.'' then
             (if (ell = None \<and> length bytes \<noteq> 12) \<or> length bytes + 4 > 16 then None
              else map_option (\<lambda>v4. (bytes @ v4, ell)) (parse_v4 s))
           else
             (let bytes = bytes @ [acc div 256, acc mod 256] in
              case rest of
                [] \<Rightarrow> Some (bytes, ell)
              | c # r \<Rightarrow>
                  (if c \<noteq> CHR '':'' \<or> r = [] then None
                   else if hd r = CHR '':'' then
                     (if ell \<noteq> None then None
                      else if tl r = [] then Some (bytes, Some (length bytes))
                      else parse_v6_fields n (tl r) bytes (Some (length bytes)))
                   else parse_v6_fields n r bytes ell))))"

definition expand_ellipsis :: "nat list \<times> nat option \<Rightarrow> ip option" where
  "expand_ellipsis r =
     (case r of
        (bytes, None) \<Rightarrow> if length bytes = 16 then Some bytes else None
      | (bytes, Some e) \<Rightarrow>
          (if length bytes < 16 then Some (take e bytes @ replicate (16 - length bytes) 0 @ drop e bytes)
           else None))"

definition parse_v6 :: "string \<Rightarrow> ip option" where
  "parse_v6 s =
     (if take 2 s = ''::'' then
        (if length s = 2 then Some (replicate 16 0)
         else Option.bind (parse_v6_fields 8 (drop 2 s) [] (Some 0)) expand_ellipsis)
      else Option.bind (parse_v6_fields 8 s [] None) expand_ellipsis)"

text \<open>
  \<open>netip.ParseAddr\<close>: the first of \<open>.\<close>, \<open>:\<close> and \<open>%\<close> decides; an address with a zone is
  refused by both callers.  The flag tells an IPv4 address.
\<close>

definition parse_addr :: "string \<Rightarrow> (ip \<times> bool) option" where
  "parse_addr s =
     (case dropWhile (\<lambda>c. c \<notin> {CHR ''.'', CHR '':'', CHR ''%''}) s of
        [] \<Rightarrow> None
      | c # _ \<Rightarrow>
          (if c = CHR ''.'' then map_option (\<lambda>b. (v4_prefix @ b, True)) (parse_v4 s)
           else if c = CHR '':'' \<and> CHR ''%'' \<notin> set s then map_option (\<lambda>b. (b, False)) (parse_v6 s)
           else None))"

definition ParseIP :: "string \<Rightarrow> ip option" where
  "ParseIP s = map_option fst (parse_addr s)"

definition To4 :: "ip \<Rightarrow> ip option" where
  "To4 a =
     (if length a = 4 then Some a
      else if length a = 16 \<and> take 12 a = v4_prefix then Some (drop 12 a) else None)"

definition IsLoopback :: "ip \<Rightarrow> bool" where
  "IsLoopback a = (case To4 a of Some b \<Rightarrow> hd b = 127 | None \<Rightarrow> a = replicate 15 0 @ [1])"

section \<open>Networks\<close>

definition mask_byte :: "nat \<Rightarrow> nat" where
  "mask_byte n = (if n \<ge> 8 then 255 else 256 - 2 ^ (8 - n))"

fun CIDRMask :: "nat \<Rightarrow> nat \<Rightarrow> nat list" where
  "CIDRMask ones 0 = []"
| "CIDRMask ones (Suc n) = mask_byte ones # CIDRMask (ones - 8) n"

text \<open>A mask byte of a prefix mask keeps the leading bits: division by its lowest set bit.\<close>

definition and_byte :: "nat \<Rightarrow> nat \<Rightarrow> nat" where
  "and_byte a m = a - a mod (256 - m)"

definition mask_ip :: "ip \<Rightarrow> nat list \<Rightarrow> ip" where
  "mask_ip a m = map2 and_byte (if length m = 4 \<and> length a = 16 \<and> take 12 a = v4_prefix then drop 12 a else a) m"

definition ParseCIDR :: "string \<Rightarrow> ip_net option" where
  "ParseCIDR s =
     (let addr = takeWhile (\<lambda>c. c \<noteq> CHR ''/'') s;
          rest = drop (length addr) s in
      if rest = [] then None
      else case parse_addr addr of
             None \<Rightarrow> None
           | Some (a, is4) \<Rightarrow>
               (let mask = tl rest; bits = (if is4 then 32 else 128) in
                if mask = [] \<or> \<not> list_all is_digit mask then None
                else case read_nat mask of
                       None \<Rightarrow> None
                     | Some n \<Rightarrow>
                         (if n > bits then None
                          else (let m = CIDRMask n (bits div 8) in Some \<lparr>n_IP = mask_ip a m, n_Mask = m\<rparr>))))"

definition networkNumberAndMask :: "ip_net \<Rightarrow> (ip \<times> nat list) option" where
  "networkNumberAndMask n =
     (let a = (case To4 (n_IP n) of Some b \<Rightarrow> b | None \<Rightarrow> n_IP n); m = n_Mask n in
      if length a \<noteq> 4 \<and> length a \<noteq> 16 then None
      else if length m = 4 then (if length a = 4 then Some (a, m) else None)
      else if length m = 16 then Some (a, if length a = 4 then drop 12 m else m)
      else None)"

definition Contains :: "ip_net \<Rightarrow> ip \<Rightarrow> bool" where
  "Contains n a =
     (case networkNumberAndMask n of
        None \<Rightarrow> False
      | Some (nn, m) \<Rightarrow>
          (let a = (case To4 a of Some b \<Rightarrow> b | None \<Rightarrow> a) in
           length a = length nn \<and> map2 and_byte nn m = map2 and_byte a m))"

text \<open>\<open>Mask.Size\<close>: how many leading ones a prefix mask has, and its width in bits.\<close>

definition mask_ones :: "nat list \<Rightarrow> nat" where
  "mask_ones m = sum_list (map (\<lambda>b. length (filter (\<lambda>i. 2 ^ i \<le> b mod (2 * 2 ^ i)) [0..<8])) m)"

section \<open>Host and port\<close>

definition has_byte :: "char \<Rightarrow> string \<Rightarrow> bool" where
  "has_byte c s \<longleftrightarrow> c \<in> set s"

text \<open>The host of \<open>SplitHostPort\<close>, or its error.\<close>

definition split_host :: "string \<Rightarrow> string option" where
  "split_host s =
     (if \<not> has_byte CHR '':'' s then None
      else
        (let port = takeWhile (\<lambda>c. c \<noteq> CHR '':'') (rev s);
             i = length s - Suc (length port) in
         if hd s = CHR ''['' then
           (if \<not> has_byte CHR '']'' s then None
            else (let e = length (takeWhile (\<lambda>c. c \<noteq> CHR '']'') s) in
                  if Suc e \<noteq> i then None
                  else if has_byte CHR ''['' (drop 1 s) \<or> has_byte CHR '']'' (drop (Suc e) s) then None
                  else Some (take (e - 1) (drop 1 s))))
         else
           (let host = take i s in
            if has_byte CHR '':'' host \<or> has_byte CHR ''['' s \<or> has_byte CHR '']'' s then None
            else Some host)))"

end
