(* ===== verification/Client_IP.thy ===== *)
theory Client_IP
  imports Net_IP
begin

text \<open>
  \<open>internal/clientip/clientip.go\<close>: the address a request is attributed to.  Every limit that
  is keyed on an address reads it from here, so the theorems say what a caller can and cannot
  choose.
\<close>

text \<open>What the gateway reads of a request; \<open>forwarded\<close> is the first \<open>X-Forwarded-For\<close> header.\<close>

record peer_info =
  RemoteAddr :: string
  XForwardedFor :: string

definition trim_brackets :: "string \<Rightarrow> string" where
  "trim_brackets s =
     (let f = dropWhile (\<lambda>c. c = CHR ''['' \<or> c = CHR '']'') in rev (f (rev (f s))))"

definition hostOnly :: "string \<Rightarrow> string" where
  "hostOnly addr =
     (if addr = [] then []
      else case split_host addr of Some host \<Rightarrow> host | None \<Rightarrow> trim_brackets addr)"

definition nets_contain :: "ip_net list \<Rightarrow> string \<Rightarrow> bool" where
  "nets_contain nets addr =
     (case ParseIP addr of None \<Rightarrow> False | Some a \<Rightarrow> list_ex (\<lambda>n. Contains n a) nets)"

definition entry_addr :: "string \<Rightarrow> string" where
  "entry_addr e = hostOnly (trim_space e)"

definition is_addr :: "string \<Rightarrow> bool" where
  "is_addr a \<longleftrightarrow> a \<noteq> [] \<and> ParseIP a \<noteq> None"

text \<open>The walk from the right (over the reversed entries) and the fallback from the left.\<close>

fun first_untrusted :: "ip_net list \<Rightarrow> string list \<Rightarrow> string option" where
  "first_untrusted trusted [] = None"
| "first_untrusted trusted (e # es) =
     (let addr = entry_addr e in
      if addr = [] \<or> ParseIP addr = None \<or> nets_contain trusted addr then first_untrusted trusted es
      else Some addr)"

fun first_addr :: "string list \<Rightarrow> string option" where
  "first_addr [] = None"
| "first_addr (e # es) =
     (let addr = entry_addr e in if addr \<noteq> [] \<and> ParseIP addr \<noteq> None then Some addr else first_addr es)"

definition clientip_From :: "peer_info \<Rightarrow> ip_net list \<Rightarrow> string" where
  "clientip_From r trusted =
     (let peer = hostOnly (RemoteAddr r) in
      if trusted = [] \<or> \<not> nets_contain trusted peer then peer
      else
        (let entries = split_on CHR '','' (XForwardedFor r) in
         case first_untrusted trusted (rev entries) of
           Some addr \<Rightarrow> addr
         | None \<Rightarrow> (case first_addr entries of Some addr \<Rightarrow> addr | None \<Rightarrow> peer)))"

section \<open>What a caller can choose\<close>

text \<open>An untrusted peer has no say: the header is ignored.\<close>

lemma From_untrusted_peer:
  "\<not> nets_contain trusted (hostOnly (RemoteAddr r)) \<Longrightarrow> clientip_From r trusted = hostOnly (RemoteAddr r)"
  by (simp add: clientip_From_def)

lemma nets_contain_Nil [simp]: "\<not> nets_contain [] addr"
  by (simp add: nets_contain_def split: option.splits)

text \<open>The walk returns the first entry that parses and is not trusted.\<close>

lemma first_untrusted_find:
  "first_untrusted trusted es =
   find (\<lambda>a. is_addr a \<and> \<not> nets_contain trusted a) (map entry_addr es)"
  by (induction es) (auto simp: Let_def is_addr_def)

lemma first_addr_find: "first_addr es = find is_addr (map entry_addr es)"
  by (induction es) (auto simp: Let_def is_addr_def)

lemma find_Some_sat: "find P xs = Some x \<Longrightarrow> P x"
  by (induction xs) (auto split: if_splits)

lemma first_untrusted_addr:
  "first_untrusted trusted es = Some a \<Longrightarrow> is_addr a \<and> \<not> nets_contain trusted a"
  unfolding first_untrusted_find by (drule find_Some_sat) simp

lemma first_untrusted_append:
  "first_untrusted trusted (es @ fs) =
   (case first_untrusted trusted es of Some a \<Rightarrow> Some a | None \<Rightarrow> first_untrusted trusted fs)"
  by (induction es) (auto simp: Let_def)

lemma split_on_append: "split_on sep (a @ sep # b) = split_on sep a @ split_on sep b"
  by (induction a) (auto split: list.splits)

text \<open>
  Behind a trusted proxy, what the client itself put in front of the header changes nothing
  as soon as the proxies appended one untrusted address.
\<close>

lemma From_ignores_spoofed_prefix:
  assumes "nets_contain trusted (hostOnly (RemoteAddr r))"
    "first_untrusted trusted (rev (split_on CHR '','' appended)) = Some a"
  shows "clientip_From (r\<lparr>XForwardedFor := spoofed @ '','' @ appended\<rparr>) trusted = a"
    and "clientip_From (r\<lparr>XForwardedFor := appended\<rparr>) trusted = a"
proof -
  have ne: "trusted \<noteq> []" using assms(1) by auto
  have "rev (split_on CHR '','' (spoofed @ '','' @ appended)) =
      rev (split_on CHR '','' appended) @ rev (split_on CHR '','' spoofed)"
    by (simp add: split_on_append)
  then have "first_untrusted trusted (rev (split_on CHR '','' (spoofed @ '','' @ appended))) = Some a"
    by (simp only: first_untrusted_append assms(2) option.case)
  with assms(1) ne show "clientip_From (r\<lparr>XForwardedFor := spoofed @ '','' @ appended\<rparr>) trusted = a"
    by (simp add: clientip_From_def Let_def)
  show "clientip_From (r\<lparr>XForwardedFor := appended\<rparr>) trusted = a"
    using assms ne by (simp add: clientip_From_def Let_def)
qed

text \<open>The result is the peer, or an address from the header that parses.\<close>

lemma From_parses: "clientip_From r trusted = hostOnly (RemoteAddr r) \<or> is_addr (clientip_From r trusted)"
proof -
  have "is_addr a" if "first_addr es = Some a" for es a
    using that unfolding first_addr_find by (rule find_Some_sat)
  then show ?thesis
    by (auto simp: clientip_From_def Let_def dest: first_untrusted_addr split: option.splits)
qed

end
