(* ===== verification/Api_Limiter.thy ===== *)
theory Api_Limiter
  imports Keyed_Store Go_Float
begin

text \<open>
  \<open>internal/api/limiter.go\<close>: a token bucket per probe and a bounded map of failure budgets
  per address.  The token bucket itself is \<open>golang.org/x/time/rate\<close>, which is not part of
  the repository: it is the parameter \<open>ops\<close>.
\<close>

section \<open>The rate limiter the code calls\<close>

text \<open>
  \<open>rl_new interval burst\<close> is \<open>rate.NewLimiter(rate.Every(interval), burst)\<close>;
  \<open>rl_allow now b\<close> is \<open>b.Allow()\<close> with the limiter it leaves behind and
  \<open>rl_tokens now b\<close> is \<open>b.Tokens()\<close>.
\<close>

record 'b rate_ops =
  rl_new :: "int \<Rightarrow> int \<Rightarrow> 'b"
  rl_allow :: "int \<Rightarrow> 'b \<Rightarrow> bool \<times> 'b"
  rl_tokens :: "int \<Rightarrow> 'b \<Rightarrow> float64"

text \<open>
  What the package documents of \<open>Allow\<close>: an event is refused exactly when less than one
  token is available, a refused event takes none, and a new limiter holds its burst.
\<close>

definition rate_contract :: "'b rate_ops \<Rightarrow> bool" where
  "rate_contract ops \<longleftrightarrow>
     (\<forall>now b. fst (rl_allow ops now b) \<longleftrightarrow> \<not> float_lt (rl_tokens ops now b) (Fin 1)) \<and>
     (\<forall>now b. \<not> fst (rl_allow ops now b) \<longrightarrow>
        float_lt (rl_tokens ops now (snd (rl_allow ops now b))) (Fin 1)) \<and>
     (\<forall>now i n. 1 \<le> n \<longrightarrow> \<not> float_lt (rl_tokens ops now (rl_new ops i n)) (Fin 1))"

text \<open>The simplest limiter that satisfies it: a budget that is never refilled.\<close>

definition countdown_ops :: "int rate_ops" where
  "countdown_ops = \<lparr>rl_new = (\<lambda>i n. n), rl_allow = (\<lambda>now b. if b < 1 then (False, b) else (True, b - 1)),
     rl_tokens = (\<lambda>now b. Fin (of_int b))\<rparr>"

lemma countdown_contract: "rate_contract countdown_ops"
  by (auto simp: rate_contract_def countdown_ops_def)

section \<open>The limiter\<close>

definition maxTrackedAuthFailures :: nat where "maxTrackedAuthFailures = 10000"
definition authFailureBurst :: int where "authFailureBurst = 20"
definition windowForAuthFailures :: int where "windowForAuthFailures = 60000000000"

record 'b failure_entry =
  fe_limiter :: 'b
  fe_lastUsed :: int

record 'b limiter =
  lim_interval :: int
  lim_burst :: int
  lim_buckets :: "(string, 'b) gomap"
  lim_failures :: "(string, 'b failure_entry) gomap"

definition NewLimiter :: "int \<Rightarrow> int \<Rightarrow> 'b limiter" where
  "NewLimiter interval burst =
     \<lparr>lim_interval = interval, lim_burst = burst, lim_buckets = [], lim_failures = []\<rparr>"

definition Allow :: "'b rate_ops \<Rightarrow> int \<Rightarrow> string \<Rightarrow> 'b limiter \<Rightarrow> bool \<times> 'b limiter" where
  "Allow ops now probeID l =
     (let b = (case map_of (lim_buckets l) probeID of
                 Some b \<Rightarrow> b | None \<Rightarrow> rl_new ops (lim_interval l) (lim_burst l));
          r = rl_allow ops now b
      in (fst r, l\<lparr>lim_buckets := map_put probeID (snd r) (lim_buckets l)\<rparr>))"

definition lim_Remove :: "string \<Rightarrow> 'b limiter \<Rightarrow> 'b limiter" where
  "lim_Remove probeID l = l\<lparr>lim_buckets := map_del probeID (lim_buckets l)\<rparr>"

text \<open>The linear scan for the least recently used entry: the loop's variables as arguments.\<close>

fun scan_oldest :: "(string, 'b failure_entry) gomap \<Rightarrow> string \<Rightarrow> int \<Rightarrow> bool \<Rightarrow> string" where
  "scan_oldest [] oldestKey oldest first = oldestKey"
| "scan_oldest ((k, candidate) # m) oldestKey oldest first =
     (if first \<or> fe_lastUsed candidate < oldest then scan_oldest m k (fe_lastUsed candidate) False
      else scan_oldest m oldestKey oldest first)"

definition evict :: "(string, 'b failure_entry) gomap \<Rightarrow> (string, 'b failure_entry) gomap" where
  "evict m = (if length m \<ge> maxTrackedAuthFailures then map_del (scan_oldest m [] 0 True) m else m)"

definition AllowAuthFailure :: "'b rate_ops \<Rightarrow> int \<Rightarrow> string \<Rightarrow> 'b limiter \<Rightarrow> bool \<times> 'b limiter" where
  "AllowAuthFailure ops now ip l =
     (let (b, m) = (case map_of (lim_failures l) ip of
                      Some e \<Rightarrow> (fe_limiter e, lim_failures l)
                    | None \<Rightarrow> (rl_new ops (windowForAuthFailures div authFailureBurst) authFailureBurst,
                               evict (lim_failures l)));
          r = rl_allow ops now b
      in (fst r, l\<lparr>lim_failures := map_put ip \<lparr>fe_limiter = snd r, fe_lastUsed = now\<rparr> m\<rparr>))"

definition AuthFailureBlocked :: "'b rate_ops \<Rightarrow> int \<Rightarrow> string \<Rightarrow> 'b limiter \<Rightarrow> bool \<times> 'b limiter" where
  "AuthFailureBlocked ops now ip l =
     (case map_of (lim_failures l) ip of
        None \<Rightarrow> (False, l)
      | Some e \<Rightarrow>
          (float_lt (rl_tokens ops now (fe_limiter e)) (Fin 1),
           l\<lparr>lim_failures := map_put ip (e\<lparr>fe_lastUsed := now\<rparr>) (lim_failures l)\<rparr>))"

section \<open>The failure map is bounded and evicts its oldest entry\<close>

definition limiter_inv :: "'b limiter \<Rightarrow> bool" where
  "limiter_inv l \<longleftrightarrow>
     wf_map (lim_buckets l) \<and> wf_map (lim_failures l) \<and> length (lim_failures l) \<le> maxTrackedAuthFailures"

text \<open>The scan ends at an entry no other entry is older than.\<close>

lemma scan_oldest_from:
  "\<lbrakk>\<not> first; \<forall>(k, e) \<in> set seen. oldest \<le> fe_lastUsed e; \<exists>e. (oldestKey, e) \<in> set seen \<and> fe_lastUsed e = oldest\<rbrakk> \<Longrightarrow>
   \<exists>e. (scan_oldest m oldestKey oldest first, e) \<in> set seen \<union> set m \<and>
       (\<forall>(k, e') \<in> set seen \<union> set m. fe_lastUsed e \<le> fe_lastUsed e')"
proof (induction m arbitrary: oldestKey oldest first seen)
  case Nil
  then show ?case by auto
next
  case (Cons x m)
  obtain k c where x: "x = (k, c)" by (cases x)
  show ?case
  proof (cases "fe_lastUsed c < oldest")
    case True
    have "\<exists>e. (scan_oldest m k (fe_lastUsed c) False, e) \<in> set (x # seen) \<union> set m \<and>
       (\<forall>(k, e') \<in> set (x # seen) \<union> set m. fe_lastUsed e \<le> fe_lastUsed e')"
      using Cons.prems True x by (intro Cons.IH) fastforce+
    with True x show ?thesis by simp
  next
    case False
    have "\<exists>e. (scan_oldest m oldestKey oldest first, e) \<in> set (x # seen) \<union> set m \<and>
       (\<forall>(k, e') \<in> set (x # seen) \<union> set m. fe_lastUsed e \<le> fe_lastUsed e')"
      using Cons.prems False x by (intro Cons.IH) auto
    with False Cons.prems(1) x show ?thesis by simp
  qed
qed

lemma scan_oldest_min:
  assumes "m \<noteq> []"
  shows "\<exists>e. (scan_oldest m [] 0 True, e) \<in> set m \<and> (\<forall>(k, e') \<in> set m. fe_lastUsed e \<le> fe_lastUsed e')"
proof -
  obtain k c m' where m: "m = (k, c) # m'" using assms by (cases m) auto
  from scan_oldest_from [of False "[(k, c)]" "fe_lastUsed c" k m'] m show ?thesis by simp
qed

lemma evict_length: "wf_map m \<Longrightarrow> length m \<le> maxTrackedAuthFailures \<Longrightarrow> length (evict m) < maxTrackedAuthFailures"
proof -
  assume wf: "wf_map m" and le: "length m \<le> maxTrackedAuthFailures"
  show ?thesis
  proof (cases "length m \<ge> maxTrackedAuthFailures")
    case True
    then have "m \<noteq> []" by (auto simp: maxTrackedAuthFailures_def)
    then have "scan_oldest m [] 0 True \<in> set (keys m)"
      using scan_oldest_min [of m] by force
    with True wf le show ?thesis
      by (simp add: evict_def length_map_del maxTrackedAuthFailures_def)
  qed (simp add: evict_def)
qed

lemma evict_wf: "wf_map m \<Longrightarrow> wf_map (evict m)"
  by (simp add: evict_def gw_keys)

text \<open>What an insertion into a full map loses is one of the least recently used entries.\<close>

lemma evict_oldest:
  assumes "map_of m k = Some e" "map_of (evict m) k = None" "wf_map m" "map_of m k' = Some e'"
  shows "fe_lastUsed e \<le> fe_lastUsed e'"
proof -
  from assms(1,2) have k: "k = scan_oldest m [] 0 True"
    by (auto simp: evict_def map_of_del split: if_splits)
  from assms(1) have "m \<noteq> []" by auto
  with scan_oldest_min [of m] k obtain f where f: "(k, f) \<in> set m" "\<forall>(k', e') \<in> set m. fe_lastUsed f \<le> fe_lastUsed e'"
    by auto
  from f(1) assms(1,3) have "f = e" by simp
  with f(2) assms(4) show ?thesis by (auto dest: map_of_SomeD)
qed

lemma evict_keeps_others: "map_of m k = Some e \<Longrightarrow> map_of (evict m) k \<in> {None, Some e}"
  by (auto simp: evict_def map_of_del)

lemma limiter_inv_new: "limiter_inv (NewLimiter i n)"
  by (simp add: limiter_inv_def NewLimiter_def maxTrackedAuthFailures_def)

lemma limiter_inv_Allow: "limiter_inv l \<Longrightarrow> limiter_inv (snd (Allow ops now p l))"
  by (simp add: Allow_def Let_def limiter_inv_def gw_keys)

lemma limiter_inv_Remove: "limiter_inv l \<Longrightarrow> limiter_inv (lim_Remove p l)"
  by (simp add: lim_Remove_def limiter_inv_def gw_keys)

lemma map_of_Some_key: "map_of m k = Some e \<Longrightarrow> k \<in> set (keys m)"
  by (metis domI dom_map_of_conv_image_fst list.set_map)

lemma limiter_inv_AllowAuthFailure:
  assumes "limiter_inv l"
  shows "limiter_inv (snd (AllowAuthFailure ops now ip l))"
proof (cases "map_of (lim_failures l) ip")
  case None
  have "length (evict (lim_failures l)) < maxTrackedAuthFailures"
    using assms by (intro evict_length) (simp_all add: limiter_inv_def)
  then have "length (map_put ip x (evict (lim_failures l))) \<le> maxTrackedAuthFailures" for x
    by (simp add: length_map_put)
  with None assms show ?thesis
    by (simp add: AllowAuthFailure_def Let_def limiter_inv_def gw_keys evict_wf)
next
  case (Some e)
  with assms map_of_Some_key [OF Some] show ?thesis
    by (simp add: AllowAuthFailure_def Let_def limiter_inv_def gw_keys length_map_put)
qed

lemma limiter_inv_AuthFailureBlocked:
  assumes "limiter_inv l"
  shows "limiter_inv (snd (AuthFailureBlocked ops now ip l))"
proof (cases "map_of (lim_failures l) ip")
  case None
  with assms show ?thesis by (simp add: AuthFailureBlocked_def)
next
  case (Some e)
  with assms map_of_Some_key [OF Some] show ?thesis
    by (simp add: AuthFailureBlocked_def limiter_inv_def gw_keys length_map_put)
qed

section \<open>Peeking and charging\<close>

text \<open>The peek creates no entry and takes nothing from any budget.\<close>

definition budget :: "'b limiter \<Rightarrow> string \<Rightarrow> 'b option" where
  "budget l ip = map_option fe_limiter (map_of (lim_failures l) ip)"

lemma AuthFailureBlocked_budget: "budget (snd (AuthFailureBlocked ops now ip l)) ip' = budget l ip'"
  by (auto simp: AuthFailureBlocked_def budget_def map_of_put split: option.splits)

lemma AuthFailureBlocked_buckets: "lim_buckets (snd (AuthFailureBlocked ops now ip l)) = lim_buckets l"
  by (simp add: AuthFailureBlocked_def split: option.splits)

lemma AllowAuthFailure_buckets: "lim_buckets (snd (AllowAuthFailure ops now ip l)) = lim_buckets l"
  by (simp add: AllowAuthFailure_def Let_def split: option.splits)

lemma Allow_failures: "lim_failures (snd (Allow ops now p l)) = lim_failures l"
  by (simp add: Allow_def Let_def)

text \<open>An address whose budget has just run out is blocked at once.\<close>

lemma exhausted_then_blocked:
  assumes "rate_contract ops" "\<not> fst (AllowAuthFailure ops now ip l)"
  shows "fst (AuthFailureBlocked ops now ip (snd (AllowAuthFailure ops now ip l)))"
  using assms
  by (auto simp: AllowAuthFailure_def AuthFailureBlocked_def Let_def map_of_put rate_contract_def
      split: option.splits prod.splits)

text \<open>A charge touches the budget of its own address only, except for the entry it may evict.\<close>

lemma AllowAuthFailure_other:
  "ip' \<noteq> ip \<Longrightarrow> map_of (lim_failures l) ip' = Some e \<Longrightarrow>
   map_of (lim_failures (snd (AllowAuthFailure ops now ip l))) ip' \<in> {None, Some e}"
  using evict_keeps_others [of "lim_failures l" ip' e]
  by (auto simp: AllowAuthFailure_def Let_def map_of_put split: option.splits prod.splits)

end
