(* ===== verification/Api_Recorder.thy ===== *)
theory Api_Recorder
  imports Gateway_Prelude
begin

text \<open>
  \<open>statusRecorder\<close> of \<open>internal/api/middleware.go\<close>: the wrapper through which the request counter
  learns the status of an answer, and the \<open>http.ResponseWriter\<close> of \<open>net/http\<close> that it wraps.
\<close>

section \<open>The writer underneath\<close>

text \<open>
  The first final status is the one that is sent, a second one is ignored, an informational one
  goes out ahead of it, and a write without a status sends 200, as does a handler that writes
  nothing.
\<close>

record http_writer =
  hw_sent :: "int option"
  hw_informed :: "int list"

definition informational :: "int \<Rightarrow> bool" where
  "informational cd \<longleftrightarrow> 100 \<le> cd \<and> cd \<le> 199 \<and> cd \<noteq> 101"

definition http_WriteHeader :: "int \<Rightarrow> http_writer \<Rightarrow> http_writer" where
  "http_WriteHeader cd w =
     (if hw_sent w \<noteq> None then w
      else if informational cd then w\<lparr>hw_informed := hw_informed w @ [cd]\<rparr>
      else w\<lparr>hw_sent := Some cd\<rparr>)"

definition http_Write :: "http_writer \<Rightarrow> http_writer" where
  "http_Write w = (if hw_sent w = None then http_WriteHeader 200 w else w)"

definition sent_status :: "http_writer \<Rightarrow> int" where
  "sent_status w = or_zero (hw_sent w) 200"

section \<open>The recorder\<close>

record status_recorder =
  sr_writer :: http_writer
  sr_status :: int
  sr_wrote :: bool

datatype writer_call = WriteHeader int | WriteBytes

fun recorder_call :: "writer_call \<Rightarrow> status_recorder \<Rightarrow> status_recorder" where
  "recorder_call (WriteHeader cd) s =
     (let s = (if \<not> sr_wrote s then s\<lparr>sr_status := cd, sr_wrote := True\<rparr> else s)
      in s\<lparr>sr_writer := http_WriteHeader cd (sr_writer s)\<rparr>)"
| "recorder_call WriteBytes s =
     (let s = (if \<not> sr_wrote s then s\<lparr>sr_status := 200, sr_wrote := True\<rparr> else s)
      in s\<lparr>sr_writer := http_Write (sr_writer s)\<rparr>)"

text \<open>The recorder that \<open>RouteMetrics\<close> puts around a fresh writer, after the handler's calls.\<close>

definition recorded :: "writer_call list \<Rightarrow> status_recorder" where
  "recorded calls =
     fold recorder_call calls \<lparr>sr_writer = \<lparr>hw_sent = None, hw_informed = []\<rparr>, sr_status = 200, sr_wrote = False\<rparr>"

text \<open>While no informational status is written, the recorder knows what was sent.\<close>

definition in_step :: "status_recorder \<Rightarrow> bool" where
  "in_step s \<longleftrightarrow> (if sr_wrote s then hw_sent (sr_writer s) = Some (sr_status s)
     else hw_sent (sr_writer s) = None \<and> sr_status s = 200)"

lemma in_step_call: "in_step s \<Longrightarrow> (\<And>cd. c = WriteHeader cd \<Longrightarrow> \<not> informational cd) \<Longrightarrow> in_step (recorder_call c s)"
  by (cases c) (auto simp: in_step_def http_Write_def http_WriteHeader_def Let_def informational_def)

lemma in_step_calls:
  "in_step s \<Longrightarrow> (\<And>cd. WriteHeader cd \<in> set calls \<Longrightarrow> \<not> informational cd) \<Longrightarrow> in_step (fold recorder_call calls s)"
  by (induction calls arbitrary: s) (auto simp: in_step_call)

lemma recorded_in_step:
  "(\<And>cd. WriteHeader cd \<in> set calls \<Longrightarrow> \<not> informational cd) \<Longrightarrow> in_step (recorded calls)"
  unfolding recorded_def by (rule in_step_calls) (simp add: in_step_def)

lemma recorded_first [simp]:
  "sr_status (recorded (WriteHeader cd # calls)) = cd"
proof -
  have "sr_wrote s \<Longrightarrow> sr_status (fold recorder_call calls s) = sr_status s" for s
  proof (induction calls arbitrary: s)
    case (Cons c calls)
    then show ?case by (cases c) (simp_all add: Let_def)
  qed simp
  then show ?thesis by (simp add: recorded_def Let_def)
qed

end
