(* ===== verification/Go_Mime.thy ===== *)
theory Go_Mime
  imports Go_Bytes
begin

text \<open>
  The part of Go's \<open>mime.ParseMediaType\<close> the gateway depends on: the media type, and
  whether the parameters after it parse.
\<close>

text \<open>
  \<open>strings.ToLower\<close> on UTF-8.  Two runes beyond ASCII have an ASCII lower case, the dotted
  capital I and the Kelvin sign; every other rune stays outside ASCII and is left as it is.
\<close>

fun go_lower :: "string \<Rightarrow> string" where
  "go_lower [] = []"
| "go_lower (c # r) =
     (if is_upper c then byte (code c + 32) # go_lower r
      else (case r of
              d # r1 \<Rightarrow>
                (if code c = 196 \<and> code d = 176 then CHR ''i'' # go_lower r1
                 else (case r1 of
                         e # r2 \<Rightarrow>
                           (if code c = 226 \<and> code d = 132 \<and> code e = 170 then CHR ''k'' # go_lower r2
                            else c # go_lower r)
                       | [] \<Rightarrow> c # go_lower r))
            | [] \<Rightarrow> [c]))"

definition is_tspecial :: "char \<Rightarrow> bool" where
  "is_tspecial c \<longleftrightarrow> c \<in> set ''()<>@,;:/[]?='' \<or> code c = 92 \<or> code c = 34"

definition is_token_char :: "char \<Rightarrow> bool" where
  "is_token_char c \<longleftrightarrow> 32 < code c \<and> code c < 127 \<and> \<not> is_tspecial c"

definition consumeToken :: "string \<Rightarrow> string \<times> string" where
  "consumeToken v = (takeWhile is_token_char v, dropWhile is_token_char v)"

text \<open>Inside a quoted string: what has been read (reversed), or no closing quote.\<close>

fun quoted_value :: "string \<Rightarrow> string \<Rightarrow> (string \<times> string) option" where
  "quoted_value acc [] = None"
| "quoted_value acc [r] = (if code r = 34 then Some (rev acc, []) else None)"
| "quoted_value acc (r # s # v) =
     (if code r = 34 then Some (rev acc, s # v)
      else if code r = 92 \<and> is_tspecial s then quoted_value (s # acc) v
      else if code r = 13 \<or> code r = 10 then None
      else quoted_value (r # acc) (s # v))"

definition consumeValue :: "string \<Rightarrow> string \<times> string" where
  "consumeValue v =
     (case v of
        [] \<Rightarrow> ([], [])
      | c # r \<Rightarrow>
          (if code c \<noteq> 34 then consumeToken v
           else case quoted_value [] r of Some x \<Rightarrow> x | None \<Rightarrow> ([], v)))"

text \<open>The key is empty when there is no parameter.\<close>

definition consumeMediaParam :: "string \<Rightarrow> string \<times> string \<times> string" where
  "consumeMediaParam v =
     (let none = ([], [], v); rest = trim_left v in
      if take 1 rest \<noteq> '';'' then none
      else
        (let (param, rest) = consumeToken (trim_left (drop 1 rest));
             rest = trim_left rest in
         if param = [] \<or> take 1 rest \<noteq> ''='' then none
         else
           (let rest = trim_left (drop 1 rest); (value, rest2) = consumeValue rest in
            if value = [] \<and> rest2 = rest then none else (go_lower param, value, rest2))))"

text \<open>
  The parameter loop; every round that goes on takes at least one byte off, so the length is
  fuel enough.  A parameter that does not parse leaves the media type beside the error; a
  parameter given twice with different values does not.
\<close>

datatype param_check = ParamsOK | ParamsInvalid | ParamsDuplicate

fun check_params :: "nat \<Rightarrow> string \<Rightarrow> (string, string) gomap \<Rightarrow> param_check" where
  "check_params 0 v seen = (if v = [] then ParamsOK else ParamsInvalid)"
| "check_params (Suc n) v seen =
     (let v = trim_left v in
      if v = [] then ParamsOK
      else
        (let (key, value, rest) = consumeMediaParam v in
         if key = [] then (if trim_space rest = '';'' then ParamsOK else ParamsInvalid)
         else (case map_of seen key of
                 Some value' \<Rightarrow> if value' \<noteq> value then ParamsDuplicate else check_params n rest seen
               | None \<Rightarrow> check_params n rest (map_put key value seen))))"

definition media_type_ok :: "string \<Rightarrow> bool" where
  "media_type_ok s =
     (let (typ, rest) = consumeToken s in
      typ \<noteq> [] \<and>
      (rest = [] \<or>
       (hd rest = CHR ''/'' \<and>
        (let (subtype, rest2) = consumeToken (tl rest) in subtype \<noteq> [] \<and> rest2 = []))))"

text \<open>The media type \<open>ParseMediaType\<close> returns, and whether it returns an error with it.\<close>

definition ParseMediaType :: "string \<Rightarrow> string \<times> bool" where
  "ParseMediaType v =
     (let base = takeWhile (\<lambda>c. c \<noteq> CHR '';'') v;
          mt = trim_space (go_lower base) in
      if \<not> media_type_ok mt then ([], True)
      else case check_params (Suc (length v)) (drop (length base) v) [] of
             ParamsOK \<Rightarrow> (mt, False)
           | ParamsInvalid \<Rightarrow> (mt, True)
           | ParamsDuplicate \<Rightarrow> ([], True))"

definition is_json_media_type :: "string \<Rightarrow> bool" where
  "is_json_media_type v \<longleftrightarrow> ParseMediaType v = (''application/json'', False)"

end
