(* ===== verification/Api_Base.thy ===== *)
theory Api_Base
  imports Store_Targets Store_Settings Latest_Store Token Client_IP Api_Limiter Api_Recorder Go_Mime
begin

text \<open>
  Requests, responses and shared state of the probe-facing API, with
  \<open>internal/api/errors.go\<close>, the counters of \<open>internal/metrics/self.go\<close> and the wrappers of
  \<open>internal/api/middleware.go\<close>.
\<close>

section \<open>Requests and responses\<close>

text \<open>
  Header values are empty when the header is absent, as \<open>Header.Get\<close> returns them;
  \<open>rq_BodyFails\<close> says that the transport fails after the bytes of \<open>rq_Body\<close>.
\<close>

record http_request = peer_info +
  rq_Method :: string
  rq_Path :: string
  rq_Authorization :: string
  rq_ContentType :: string
  rq_ContentLength :: int
  rq_Body :: string
  rq_BodyFails :: bool

record response =
  rs_Status :: int
  rs_Body :: "json option"

definition StatusOK :: int where "StatusOK = 200"
definition StatusNoContent :: int where "StatusNoContent = 204"
definition StatusBadRequest :: int where "StatusBadRequest = 400"
definition StatusUnauthorized :: int where "StatusUnauthorized = 401"
definition StatusForbidden :: int where "StatusForbidden = 403"
definition StatusMethodNotAllowed :: int where "StatusMethodNotAllowed = 405"
definition StatusConflict :: int where "StatusConflict = 409"
definition StatusRequestEntityTooLarge :: int where "StatusRequestEntityTooLarge = 413"
definition StatusUnsupportedMediaType :: int where "StatusUnsupportedMediaType = 415"
definition StatusTooManyRequests :: int where "StatusTooManyRequests = 429"
definition StatusInternalServerError :: int where "StatusInternalServerError = 500"
definition StatusServiceUnavailable :: int where "StatusServiceUnavailable = 503"

lemmas status_defs = StatusOK_def StatusNoContent_def StatusBadRequest_def StatusUnauthorized_def
  StatusForbidden_def StatusMethodNotAllowed_def StatusConflict_def StatusRequestEntityTooLarge_def
  StatusUnsupportedMediaType_def StatusTooManyRequests_def StatusInternalServerError_def
  StatusServiceUnavailable_def

lemma status_neq_204 [simp]:
  "StatusOK \<noteq> StatusNoContent" "StatusBadRequest \<noteq> StatusNoContent" "StatusUnauthorized \<noteq> StatusNoContent"
  "StatusForbidden \<noteq> StatusNoContent" "StatusMethodNotAllowed \<noteq> StatusNoContent"
  "StatusConflict \<noteq> StatusNoContent" "StatusRequestEntityTooLarge \<noteq> StatusNoContent"
  "StatusUnsupportedMediaType \<noteq> StatusNoContent" "StatusTooManyRequests \<noteq> StatusNoContent"
  "StatusInternalServerError \<noteq> StatusNoContent" "StatusServiceUnavailable \<noteq> StatusNoContent"
  by (simp_all add: status_defs)

section \<open>Error responses (errors.go)\<close>

definition MaxBodyBytes :: nat where "MaxBodyBytes = 65536"

definition msgBadRequest :: string where "msgBadRequest = ''request is not valid''"
definition msgInvalidJSON :: string where "msgInvalidJSON = ''request body is not valid JSON''"
definition msgPayload :: string where "msgPayload = ''invalid measurement payload''"
definition msgVersion :: string where "msgVersion = ''unsupported protocol version''"
definition msgTarget :: string where "msgTarget = ''unknown target''"
definition msgProbeType :: string where "msgProbeType = ''probe type is not allowed for this target''"
definition msgUnauthorized :: string where "msgUnauthorized = ''missing or invalid credentials''"
definition msgDisabled :: string where "msgDisabled = ''probe is disabled''"
definition msgRateLimited :: string where "msgRateLimited = ''too many requests''"
definition msgConfigStale :: string where
  "msgConfigStale = ''measurement config is out of date; fetch the target list again''"
definition msgTooLarge :: string where "msgTooLarge = ''request body too large''"
definition msgMediaType :: string where "msgMediaType = ''unsupported content type''"
definition msgMethod :: string where "msgMethod = ''method not allowed''"
definition errInternal :: string where "errInternal = ''internal error''"
definition msgUnavailable :: string where "msgUnavailable = ''service temporarily unavailable''"

definition writeError :: "int \<Rightarrow> string \<Rightarrow> string \<Rightarrow> response" where
  "writeError status cd message =
     \<lparr>rs_Status = status,
      rs_Body = Some (JObj [(''error'', JObj [(''code'', JStr cd), (''message'', JStr message)])])\<rparr>"

definition statusForCode :: "string \<Rightarrow> int" where
  "statusForCode cd =
     (if cd \<in> {CodeUnsupportedVersion, CodeInvalidJSON, CodeInvalidPayload, CodeInvalidTarget,
               CodeInvalidProbeType, CodeInvalidRequest} then StatusBadRequest
      else if cd = CodeUnauthorized then StatusUnauthorized
      else if cd = CodeProbeDisabled then StatusForbidden
      else if cd = CodeRateLimited then StatusTooManyRequests
      else if cd = CodeConfigStale then StatusConflict
      else if cd = CodeServiceUnavailable then StatusServiceUnavailable
      else StatusInternalServerError)"

definition messageForCode :: "string \<Rightarrow> string" where
  "messageForCode cd =
     (if cd = CodeInvalidJSON then msgInvalidJSON
      else if cd = CodeUnsupportedVersion then msgVersion
      else if cd = CodeInvalidTarget then msgTarget
      else if cd = CodeInvalidProbeType then msgProbeType
      else if cd = CodeUnauthorized then msgUnauthorized
      else if cd = CodeProbeDisabled then msgDisabled
      else if cd = CodeRateLimited then msgRateLimited
      else if cd = CodeConfigStale then msgConfigStale
      else if cd = CodeInternalError then errInternal
      else if cd = CodeServiceUnavailable then msgUnavailable
      else if cd = CodeInvalidPayload then msgPayload
      else msgBadRequest)"

definition writeProtocolError :: "perror \<Rightarrow> response" where
  "writeProtocolError e = writeError (statusForCode (Code e)) (Code e) (messageForCode (Code e))"

lemma rs_Status_writeError [simp]: "rs_Status (writeError s c m) = s"
  by (simp add: writeError_def)

section \<open>Counters (metrics/self.go)\<close>

record self_metrics =
  PushTotal :: nat
  PushRejected :: "(string, nat) gomap"
  AuthFailed :: "(string, nat) gomap"
  HTTPRequests :: "(string \<times> string \<times> string, nat) gomap"
  CollectErrors :: nat

definition NewSelf :: self_metrics where
  "NewSelf = \<lparr>PushTotal = 0, PushRejected = [], AuthFailed = [], HTTPRequests = [], CollectErrors = 0\<rparr>"

definition inc :: "'k \<Rightarrow> ('k, nat) gomap \<Rightarrow> ('k, nat) gomap" where
  "inc k m = map_put k (Suc (or_zero (map_of m k) 0)) m"

section \<open>The API server's state\<close>

text \<open>
  \<open>as_self\<close> and \<open>as_limiter\<close> are the server's pointers, which its methods check for nil;
  the record is extended by the other servers' state.
\<close>

record 'b api_state =
  as_db :: db
  as_latest :: latest_store
  as_self :: "self_metrics option"
  as_limiter :: "'b limiter option"

definition on_self :: "(self_metrics \<Rightarrow> self_metrics) \<Rightarrow> ('b, 'm) api_state_scheme \<Rightarrow> ('b, 'm) api_state_scheme" where
  "on_self f st = st\<lparr>as_self := map_option f (as_self st)\<rparr>"

lemma on_self_sel [simp]:
  "as_db (on_self f st) = as_db st" "as_latest (on_self f st) = as_latest st"
  "as_limiter (on_self f st) = as_limiter st"
  by (simp_all add: on_self_def)

section \<open>Middleware\<close>

text \<open>A handler maps a request and a state to its response and the state it leaves.\<close>

type_synonym 's handler = "http_request \<Rightarrow> 's \<Rightarrow> response \<times> 's"

text \<open>
  \<open>MaxBytesReader\<close> is what the handler reads through: reading yields the whole body, the
  limit error, or the transport's error.
\<close>

datatype body_read = BodyRead string | BodyTooLarge | BodyFailed

definition ReadAll :: "http_request \<Rightarrow> body_read" where
  "ReadAll rq =
     (if length (rq_Body rq) > MaxBodyBytes then BodyTooLarge
      else if rq_BodyFails rq then BodyFailed else BodyRead (rq_Body rq))"

definition BodyLimit :: "'s handler \<Rightarrow> 's handler" where
  "BodyLimit next_handler rq st =
     (if rq_ContentLength rq > int MaxBodyBytes
      then (writeError StatusRequestEntityTooLarge ''invalid_request'' msgTooLarge, st)
      else next_handler rq st)"

definition RequireJSON :: "'s handler \<Rightarrow> 's handler" where
  "RequireJSON next_handler rq st =
     (if rq_ContentType rq = [] \<or> \<not> is_json_media_type (rq_ContentType rq)
      then (writeError StatusUnsupportedMediaType ''invalid_request'' msgMediaType, st)
      else next_handler rq st)"

definition routeLabel :: "string \<Rightarrow> string" where
  "routeLabel pattern =
     (if pattern = [] then ''unmatched''
      else if CHR '' '' \<in> set pattern then tl (dropWhile (\<lambda>c. c \<noteq> CHR '' '') pattern)
      else pattern)"

text \<open>
  What a handler does to its writer for a response: the status, and the body if there is one.
  The request's pattern is the one its multiplexer matched.
\<close>

definition response_calls :: "response \<Rightarrow> writer_call list" where
  "response_calls rs = WriteHeader (rs_Status rs) # (if rs_Body rs = None then [] else [WriteBytes])"

lemma recorded_response [simp]: "sr_status (recorded (response_calls rs)) = rs_Status rs"
  by (simp add: response_calls_def)

definition RouteMetrics :: "string \<Rightarrow> (('b, 'm) api_state_scheme) handler \<Rightarrow> (('b, 'm) api_state_scheme) handler" where
  "RouteMetrics pattern next_handler rq st =
     (let (rs, st') = next_handler rq st in
      (rs, on_self (\<lambda>s. s\<lparr>HTTPRequests :=
         inc (rq_Method rq, routeLabel pattern, itoa (sr_status (recorded (response_calls rs)))) (HTTPRequests s)\<rparr>) st'))"

definition CIDRAllowlist :: "ip_net list \<Rightarrow> ip_net list \<Rightarrow> 's handler \<Rightarrow> 's handler" where
  "CIDRAllowlist nets trustedProxies next_handler rq st =
     (case ParseIP (clientip_From (peer_info.truncate rq) trustedProxies) of
        None \<Rightarrow> (writeError StatusForbidden ''invalid_request'' msgBadRequest, st)
      | Some a \<Rightarrow>
          (if IsLoopback a \<or> list_ex (\<lambda>n. Contains n a) nets then next_handler rq st
           else (writeError StatusForbidden ''invalid_request'' msgBadRequest, st)))"

text \<open>An empty allowlist admits loopback and nobody else.\<close>

lemma CIDRAllowlist_closed:
  "CIDRAllowlist [] tp next_handler rq st =
   (case ParseIP (clientip_From (peer_info.truncate rq) tp) of
      Some a \<Rightarrow> if IsLoopback a then next_handler rq st
                else (writeError StatusForbidden ''invalid_request'' msgBadRequest, st)
    | None \<Rightarrow> (writeError StatusForbidden ''invalid_request'' msgBadRequest, st))"
  by (simp add: CIDRAllowlist_def split: option.splits)

end
