(* ===== verification/Api_Push.thy ===== *)
theory Api_Push
  imports Api_Base
begin

text \<open>
  \<open>internal/api/push.go\<close> and \<open>internal/api/targets.go\<close>: authentication, the acceptance
  chain of a push, the target list, and the routes.

  \<open>ops\<close> is the token bucket, \<open>tp\<close> the trusted proxies, \<open>now\<close> the clock and \<open>io n\<close>
  the faults of the handler's \<open>n\<close>-th store call.
\<close>

section \<open>The server\<close>

text \<open>The collaborators a push server is built from; logger and clock are left out.\<close>

record 'b push_deps =
  dp_Store :: db
  dp_Latest :: latest_store
  dp_Self :: "self_metrics option"
  dp_Limiter :: "'b limiter option"
  dp_TrustedProxies :: "ip_net list"

text \<open>The server is the state its handlers work on, and the proxies it trusts.\<close>

definition api_NewServer :: "'b push_deps \<Rightarrow> 'b api_state \<times> ip_net list" where
  "api_NewServer d =
     (\<lparr>as_db = dp_Store d, as_latest = dp_Latest d, as_self = dp_Self d, as_limiter = dp_Limiter d\<rparr>, dp_TrustedProxies d)"

declare api_NewServer_def [simp]

section \<open>Counting\<close>

definition authFailed :: "string \<Rightarrow> ('b, 'm) api_state_scheme \<Rightarrow> ('b, 'm) api_state_scheme" where
  "authFailed reason = on_self (\<lambda>s. s\<lparr>AuthFailed := inc reason (AuthFailed s)\<rparr>)"

definition reject :: "string \<Rightarrow> ('b, 'm) api_state_scheme \<Rightarrow> ('b, 'm) api_state_scheme" where
  "reject cd = on_self (\<lambda>s. s\<lparr>PushRejected := inc cd (PushRejected s)\<rparr>)"

text \<open>The server's \<open>writeProtocolError\<close>; every error of the protocol package is a \<open>protocol.Error\<close>.\<close>

definition protocol_rejection :: "perror \<Rightarrow> ('b, 'm) api_state_scheme \<Rightarrow> response \<times> ('b, 'm) api_state_scheme" where
  "protocol_rejection e st = (writeProtocolError e, reject (Code e) st)"

definition unavailable :: "('b, 'm) api_state_scheme \<Rightarrow> response \<times> ('b, 'm) api_state_scheme" where
  "unavailable st =
     (writeError StatusServiceUnavailable CodeServiceUnavailable msgUnavailable, reject CodeInternalError st)"

definition rate_limited :: "('b, 'm) api_state_scheme \<Rightarrow> response \<times> ('b, 'm) api_state_scheme" where
  "rate_limited st =
     (writeError StatusTooManyRequests CodeRateLimited msgRateLimited, reject CodeRateLimited st)"

definition unauthorized :: "string \<Rightarrow> ('b, 'm) api_state_scheme \<Rightarrow> response \<times> ('b, 'm) api_state_scheme" where
  "unauthorized reason st =
     (writeError StatusUnauthorized CodeUnauthorized msgUnauthorized, authFailed reason st)"

section \<open>Authentication\<close>

definition bearerPrefix :: string where
  "bearerPrefix = ''Bearer ''"

text \<open>The limiter's answer, or the given one when the server has no limiter.\<close>

definition with_limiter :: "bool \<Rightarrow> ('b limiter \<Rightarrow> bool \<times> 'b limiter) \<Rightarrow>
    ('b, 'm) api_state_scheme \<Rightarrow> bool \<times> ('b, 'm) api_state_scheme" where
  "with_limiter dflt f st =
     (case as_limiter st of
        None \<Rightarrow> (dflt, st)
      | Some l \<Rightarrow> (let (b, l') = f l in (b, st\<lparr>as_limiter := Some l'\<rparr>)))"

definition client_ip :: "http_request \<Rightarrow> ip_net list \<Rightarrow> string" where
  "client_ip rq tp = clientip_From (peer_info.truncate rq) tp"

definition authenticate :: "'b rate_ops \<Rightarrow> ip_net list \<Rightarrow> int \<Rightarrow> faults \<Rightarrow> http_request \<Rightarrow>
    ('b, 'm) api_state_scheme \<Rightarrow> (response + probe) \<times> ('b, 'm) api_state_scheme" where
  "authenticate ops tp now io rq st =
     (let fail = (\<lambda>(rs, st). (Inl rs, st));
          header = rq_Authorization rq;
          raw = trim_prefix header bearerPrefix in
      if \<not> has_prefix header bearerPrefix then fail (unauthorized ''missing_or_malformed'' st)
      else if raw = [] then fail (unauthorized ''missing_or_malformed'' st)
      else
        (let (blocked, st) = with_limiter False (AuthFailureBlocked ops now (client_ip rq tp)) st in
         if blocked then fail (rate_limited st)
         else
           (case ProbeByTokenHash (Hash raw) io (as_db st) of
              Inr probe \<Rightarrow> (Inr probe, st)
            | Inl ErrNotFound \<Rightarrow>
                (let (ok, st) = with_limiter True (AllowAuthFailure ops now (client_ip rq tp)) st in
                 if \<not> ok then fail (rate_limited (authFailed ''invalid_token'' st))
                 else fail (unauthorized ''invalid_token'' st))
            | Inl _ \<Rightarrow> fail (unavailable st))))"

section \<open>Pushing\<close>

text \<open>\<open>dispatchEntries\<close> copies the store's rows field by field.\<close>

definition dispatchEntries :: "dispatch_target list \<Rightarrow> dispatch_target list" where
  "dispatchEntries targets =
     map (\<lambda>t. \<lparr>dt_TargetID = dt_TargetID t, dt_Address = dt_Address t, dt_ProbeTypes = dt_ProbeTypes t\<rparr>) targets"

lemma dispatchEntries_id [simp]: "dispatchEntries ts = ts"
  by (simp add: dispatchEntries_def map_idI)

text \<open>The three reads the validation needs, and the validation (store calls 1, 2 and 3).\<close>

definition judge_push :: "(nat \<Rightarrow> faults) \<Rightarrow> push_request \<Rightarrow> db \<Rightarrow> store_error + (perror + unit)" where
  "judge_push io req d =
     bind_result (Allowlist (io 1) d) (\<lambda>al.
     bind_result (MeasurementConfig (io 2) d) (\<lambda>(config, _).
     bind_result (DispatchTargets (io 3) d) (\<lambda>targets.
       Inr (Validate req al (ConfigID config (dispatchEntries targets))))))"

definition accept_push :: "int \<Rightarrow> string \<Rightarrow> push_request \<Rightarrow> ('b, 'm) api_state_scheme \<Rightarrow>
    response \<times> ('b, 'm) api_state_scheme" where
  "accept_push now probeID req st =
     (\<lparr>rs_Status = StatusNoContent, rs_Body = None\<rparr>,
      on_self (\<lambda>s. s\<lparr>PushTotal := Suc (PushTotal s)\<rparr>)
        (st\<lparr>as_latest := latest_Put probeID (req_Results req) now (as_latest st)\<rparr>))"

definition handle_body :: "int \<Rightarrow> (nat \<Rightarrow> faults) \<Rightarrow> string \<Rightarrow> string \<Rightarrow> ('b, 'm) api_state_scheme \<Rightarrow>
    response \<times> ('b, 'm) api_state_scheme" where
  "handle_body now io probeID body st =
     (case Decode body of
        Inl e \<Rightarrow> protocol_rejection e st
      | Inr req \<Rightarrow>
          (case judge_push io req (as_db st) of
             Inl _ \<Rightarrow> unavailable st
           | Inr (Inl e) \<Rightarrow> protocol_rejection e st
           | Inr (Inr _) \<Rightarrow> accept_push now probeID req st))"

definition disabled_probe :: "('b, 'm) api_state_scheme \<Rightarrow> response \<times> ('b, 'm) api_state_scheme" where
  "disabled_probe st =
     (writeError StatusForbidden CodeProbeDisabled msgDisabled, reject CodeProbeDisabled st)"

definition handlePush :: "'b rate_ops \<Rightarrow> ip_net list \<Rightarrow> int \<Rightarrow> (nat \<Rightarrow> faults) \<Rightarrow>
    (('b, 'm) api_state_scheme) handler" where
  "handlePush ops tp now io rq st =
     (case authenticate ops tp now (io 0) rq st of
        (Inl rs, st) \<Rightarrow> (rs, st)
      | (Inr probe, st) \<Rightarrow>
          (if \<not> p_Enabled probe then disabled_probe st
           else
             (let (ok, st) = with_limiter True (Allow ops now (p_ProbeID probe)) st in
              if \<not> ok then rate_limited st
              else
                (case ReadAll rq of
                   BodyTooLarge \<Rightarrow>
                     (writeError StatusRequestEntityTooLarge CodeInvalidRequest msgTooLarge,
                      reject CodeInvalidRequest st)
                 | BodyFailed \<Rightarrow>
                     (writeError StatusBadRequest CodeInvalidRequest msgBadRequest,
                      reject CodeInvalidRequest st)
                 | BodyRead body \<Rightarrow> handle_body now io (p_ProbeID probe) body st))))"

section \<open>The target list\<close>

definition targetsVersion :: int where "targetsVersion = 1"

definition targets_body :: "measurement_config \<Rightarrow> dispatch_target list \<Rightarrow> json" where
  "targets_body config entries =
     JObj [(''version'', json_int targetsVersion), (''config'', config_json config),
           (''config_id'', JStr (ConfigID config entries)), (''targets'', JArr (map target_json entries))]"

definition handleTargets :: "'b rate_ops \<Rightarrow> ip_net list \<Rightarrow> int \<Rightarrow> (nat \<Rightarrow> faults) \<Rightarrow>
    (('b, 'm) api_state_scheme) handler" where
  "handleTargets ops tp now io rq st =
     (case authenticate ops tp now (io 0) rq st of
        (Inl rs, st) \<Rightarrow> (rs, st)
      | (Inr probe, st) \<Rightarrow>
          (if \<not> p_Enabled probe then disabled_probe st
           else
             (case DispatchTargets (io 1) (as_db st) of
                Inl _ \<Rightarrow> unavailable st
              | Inr targets \<Rightarrow>
                  (case MeasurementConfig (io 2) (as_db st) of
                     Inl _ \<Rightarrow> unavailable st
                   | Inr (config, _) \<Rightarrow>
                       (\<lparr>rs_Status = StatusOK,
                         rs_Body = Some (targets_body config (dispatchEntries targets))\<rparr>, st)))))"

section \<open>Routes\<close>

definition notAllowed :: "'s handler" where
  "notAllowed rq st = (writeError StatusMethodNotAllowed CodeInvalidRequest msgMethod, st)"

definition api_routes :: "'b rate_ops \<Rightarrow> ip_net list \<Rightarrow> int \<Rightarrow> (nat \<Rightarrow> faults) \<Rightarrow>
    http_request \<Rightarrow> (string \<times> (('b, 'm) api_state_scheme) handler) option" where
  "api_routes ops tp now io rq =
     (if rq_Path rq = ''/api/v1/push'' then
        (if rq_Method rq = ''POST''
         then Some (''POST /api/v1/push'', BodyLimit (RequireJSON (handlePush ops tp now io)))
         else Some (''/api/v1/push'', notAllowed))
      else if rq_Path rq = ''/api/v1/targets'' then
        (if rq_Method rq = ''GET'' \<or> rq_Method rq = ''HEAD''
         then Some (''GET /api/v1/targets'', handleTargets ops tp now io)
         else Some (''/api/v1/targets'', notAllowed))
      else None)"

text \<open>\<open>None\<close> when the multiplexer has no route: it answers 404 itself.\<close>

definition serve_api :: "'b rate_ops \<Rightarrow> ip_net list \<Rightarrow> int \<Rightarrow> (nat \<Rightarrow> faults) \<Rightarrow> http_request \<Rightarrow>
    ('b, 'm) api_state_scheme \<Rightarrow> (response \<times> ('b, 'm) api_state_scheme) option" where
  "serve_api ops tp now io rq st =
     (case api_routes ops tp now io rq of
        None \<Rightarrow> None
      | Some (pattern, h) \<Rightarrow> Some (RouteMetrics pattern h rq st))"

section \<open>Outcomes\<close>

named_theorems api_frame \<open>what an API operation leaves alone\<close>

lemma with_limiter_frame [api_frame]:
  "as_db (snd (with_limiter b f st)) = as_db st" "as_latest (snd (with_limiter b f st)) = as_latest st"
  "as_self (snd (with_limiter b f st)) = as_self st"
  by (auto simp: with_limiter_def split: option.splits prod.splits)

lemma counting_frame [api_frame]:
  "as_db (authFailed r st) = as_db st" "as_latest (authFailed r st) = as_latest st"
  "as_limiter (authFailed r st) = as_limiter st"
  "as_db (reject r st) = as_db st" "as_latest (reject r st) = as_latest st"
  "as_limiter (reject r st) = as_limiter st"
  by (simp_all add: authFailed_def reject_def)

lemma rejection_frame [api_frame]:
  "as_db (snd (protocol_rejection e st)) = as_db st" "as_latest (snd (protocol_rejection e st)) = as_latest st"
  "as_db (snd (unavailable st)) = as_db st" "as_latest (snd (unavailable st)) = as_latest st"
  "as_db (snd (rate_limited st)) = as_db st" "as_latest (snd (rate_limited st)) = as_latest st"
  "as_db (snd (unauthorized r st)) = as_db st" "as_latest (snd (unauthorized r st)) = as_latest st"
  "as_db (snd (disabled_probe st)) = as_db st" "as_latest (snd (disabled_probe st)) = as_latest st"
  by (simp_all add: protocol_rejection_def unavailable_def rate_limited_def unauthorized_def
      disabled_probe_def api_frame)

lemma rejection_status [simp]:
  "rs_Status (fst (protocol_rejection e st)) = statusForCode (Code e)"
  "rs_Status (fst (unavailable st)) = StatusServiceUnavailable"
  "rs_Status (fst (rate_limited st)) = StatusTooManyRequests"
  "rs_Status (fst (unauthorized r st)) = StatusUnauthorized"
  "rs_Status (fst (disabled_probe st)) = StatusForbidden"
  by (simp_all add: protocol_rejection_def writeProtocolError_def unavailable_def rate_limited_def
      unauthorized_def disabled_probe_def)

lemma authenticate_frame:
  "as_db (snd (authenticate ops tp now io rq st)) = as_db st \<and>
   as_latest (snd (authenticate ops tp now io rq st)) = as_latest st"
  by (simp add: authenticate_def Let_def split_beta api_frame split: sum.split store_error.split)

lemma handle_body_db: "as_db (snd (handle_body now io pid body st)) = as_db st"
  by (simp add: handle_body_def accept_push_def api_frame split: sum.split)

lemma handlePush_db: "as_db (snd (handlePush ops tp now io rq st)) = as_db st"
  using authenticate_frame [of ops tp now "io 0" rq st]
  by (cases "authenticate ops tp now (io 0) rq st")
    (simp add: handlePush_def Let_def split_beta api_frame handle_body_db split: sum.split body_read.split)

lemma handleTargets_frame:
  "as_db (snd (handleTargets ops tp now io rq st)) = as_db st \<and>
   as_latest (snd (handleTargets ops tp now io rq st)) = as_latest st"
  using authenticate_frame [of ops tp now "io 0" rq st]
  by (cases "authenticate ops tp now (io 0) rq st")
    (simp add: handleTargets_def Let_def split_beta api_frame split: sum.split)

text \<open>Who is authenticated: the token in the header hashes to the probe's row.\<close>

lemma authenticate_ok:
  assumes "authenticate ops tp now io rq st = (Inr probe, st')"
  shows "\<exists>raw. rq_Authorization rq = bearerPrefix @ raw \<and> raw \<noteq> [] \<and>
           ProbeByTokenHash (Hash raw) io (as_db st) = Inr probe"
proof -
  let ?h = "rq_Authorization rq"
  from assms have pre: "has_prefix ?h bearerPrefix" and ne: "trim_prefix ?h bearerPrefix \<noteq> []"
    and found: "ProbeByTokenHash (Hash (trim_prefix ?h bearerPrefix)) io (as_db st) = Inr probe"
    by (auto simp: authenticate_def Let_def split_beta api_frame split: sum.splits store_error.splits if_splits)
  from pre have "?h = bearerPrefix @ trim_prefix ?h bearerPrefix"
    by (metis append_take_drop_id has_prefix_def trim_prefix_def)
  with ne found show ?thesis by metis
qed

text \<open>An unauthenticated request leaves every probe's bucket as it was.\<close>

definition buckets :: "('b, 'm) api_state_scheme \<Rightarrow> (string, 'b) gomap" where
  "buckets st = (case as_limiter st of None \<Rightarrow> [] | Some l \<Rightarrow> lim_buckets l)"

lemma buckets_frame [api_frame]:
  "buckets (authFailed r st) = buckets st" "buckets (reject r st) = buckets st"
  "buckets (snd (with_limiter b (AuthFailureBlocked ops now ip) st)) = buckets st"
  "buckets (snd (with_limiter b (AllowAuthFailure ops now ip) st)) = buckets st"
  by (simp_all add: buckets_def api_frame with_limiter_def split_beta AuthFailureBlocked_buckets
      AllowAuthFailure_buckets split: option.split)

lemma authenticate_buckets: "buckets (snd (authenticate ops tp now io rq st)) = buckets st"
  by (simp add: authenticate_def Let_def split_beta api_frame unavailable_def rate_limited_def
      unauthorized_def split: sum.split store_error.split)

text \<open>The statuses a failed authentication can have, and why.\<close>

lemma authenticate_status:
  assumes "authenticate ops tp now io rq st = (Inl rs, st')"
  shows "rs_Status rs = StatusUnauthorized \<or> rs_Status rs = StatusTooManyRequests \<or>
         (rs_Status rs = StatusServiceUnavailable \<and> io 0)"
  using assms
  by (auto simp: authenticate_def Let_def split_beta ProbeByTokenHash_def select_probe_def
      unavailable_def rate_limited_def unauthorized_def
      split: sum.splits store_error.splits if_splits option.splits)

lemma authenticate_401:
  assumes "authenticate ops tp now io rq st = (Inl rs, st')" "rs_Status rs = StatusUnauthorized"
  shows "\<not> has_prefix (rq_Authorization rq) bearerPrefix \<or> trim_prefix (rq_Authorization rq) bearerPrefix = [] \<or>
         ProbeByTokenHash (Hash (trim_prefix (rq_Authorization rq) bearerPrefix)) io (as_db st) = Inl ErrNotFound"
  using assms
  by (auto simp: authenticate_def Let_def split_beta api_frame unavailable_def rate_limited_def status_defs
      split: sum.splits store_error.splits if_splits)

lemma statusForCode_not_204 [simp]: "statusForCode cd \<noteq> StatusNoContent"
  by (simp add: statusForCode_def status_defs)

lemma handle_body_cases:
  "(rs_Status (fst (handle_body now io pid body st)) = StatusNoContent \<and>
    (\<exists>req. Decode body = Inr req \<and> judge_push io req (as_db st) = Inr (Inr ()) \<and>
       as_latest (snd (handle_body now io pid body st)) = latest_Put pid (req_Results req) now (as_latest st))) \<or>
   (rs_Status (fst (handle_body now io pid body st)) \<noteq> StatusNoContent \<and>
    as_latest (snd (handle_body now io pid body st)) = as_latest st)"
  by (auto simp: handle_body_def accept_push_def api_frame split: sum.split)

lemma judge_push_ok:
  assumes "judge_push io req d = Inr (Inr ())" "wf_results (req_Results req)"
  shows "\<exists>al cfg custom targets. Allowlist (io 1) d = Inr al \<and> MeasurementConfig (io 2) d = Inr (cfg, custom) \<and>
           DispatchTargets (io 3) d = Inr targets \<and> request_ok req al (ConfigID cfg targets)"
  using assms by (auto simp: judge_push_def gw_results Validate_iff)

text \<open>A push changes the latest store exactly when it is answered 204.\<close>

lemma handlePush_cases:
  assumes "handlePush ops tp now io rq st = (rs, st')"
  shows "(rs_Status rs \<noteq> StatusNoContent \<and> as_latest st' = as_latest st) \<or>
         (rs_Status rs = StatusNoContent \<and>
          (\<exists>probe st1 req. authenticate ops tp now (io 0) rq st = (Inr probe, st1) \<and> p_Enabled probe \<and>
             ReadAll rq = BodyRead (rq_Body rq) \<and> Decode (rq_Body rq) = Inr req \<and>
             judge_push io req (as_db st) = Inr (Inr ()) \<and>
             as_latest st' = latest_Put (p_ProbeID probe) (req_Results req) now (as_latest st)))"
proof (cases "authenticate ops tp now (io 0) rq st")
  case (Pair r st1)
  have frame: "as_db st1 = as_db st" "as_latest st1 = as_latest st"
    using authenticate_frame [of ops tp now "io 0" rq st] Pair by simp_all
  show ?thesis
  proof (cases r)
    case (Inl rs1)
    with assms Pair frame authenticate_status [of ops tp now "io 0" rq st rs1 st1] show ?thesis
      by (auto simp: handlePush_def status_defs)
  next
    case (Inr probe)
    let ?l = "with_limiter True (Allow ops now (p_ProbeID probe)) st1"
    have lf: "as_db (snd ?l) = as_db st" "as_latest (snd ?l) = as_latest st"
      by (simp_all add: api_frame frame)
    show ?thesis
    proof (cases "p_Enabled probe \<and> fst ?l \<and> (\<exists>body. ReadAll rq = BodyRead body)")
      case True
      then have body: "ReadAll rq = BodyRead (rq_Body rq)"
        by (auto simp: ReadAll_def split: if_splits)
      with True assms Pair Inr
      have run: "handle_body now io (p_ProbeID probe) (rq_Body rq) (snd ?l) = (rs, st')"
        by (simp add: handlePush_def Let_def split_beta)
      from handle_body_cases [of now io "p_ProbeID probe" "rq_Body rq" "snd ?l"] run True body Pair Inr lf
      show ?thesis by auto
    next
      case False
      with assms Pair Inr frame lf show ?thesis
        by (auto simp: handlePush_def Let_def split_beta api_frame disabled_probe_def rate_limited_def
            status_defs split: if_splits body_read.splits)
    qed
  qed
qed

section \<open>The served config ID is current\<close>

text \<open>A request that names the current ID is judged like one that names none.\<close>

lemma Validate_current:
  "length cid \<le> MaxConfigIDLen \<Longrightarrow> req_ConfigID r = cid \<Longrightarrow>
   Validate r al cid = Validate (r\<lparr>req_ConfigID := []\<rparr>) al cid"
  by (auto simp: Validate_def)

lemma judge_push_current:
  assumes "DispatchTargets io' d = Inr targets" "MeasurementConfig io'' d = Inr (cfg, custom)"
    "req_ConfigID req = ConfigID cfg targets"
  shows "judge_push io req d = judge_push io (req\<lparr>req_ConfigID := []\<rparr>) d"
proof -
  have t: "DispatchTargets (io 3) d = Inl ErrDB \<or> DispatchTargets (io 3) d = Inr targets"
    using assms(1) by (auto simp: DispatchTargets_def split: if_splits)
  have c: "(\<exists>e. MeasurementConfig (io 2) d = Inl e) \<or> MeasurementConfig (io 2) d = Inr (cfg, custom)"
    using MeasurementConfig_same [OF assms(2)] .
  have len: "length (ConfigID cfg targets) \<le> MaxConfigIDLen"
    by (simp add: length_ConfigID MaxConfigIDLen_def)
  from t c show ?thesis
    using Validate_current [OF len assms(3)]
    by (cases "Allowlist (io 1) d") (auto simp: judge_push_def)
qed

lemma judge_push_stale:
  assumes "judge_push io req d = Inr r" "MeasurementConfig io'' d = Inr (cfg, custom)"
    "DispatchTargets io' d = Inr targets" "req_Version req = Version"
    "length (req_ConfigID req) \<le> MaxConfigIDLen" "req_ConfigID req \<notin> {[], ConfigID cfg targets}"
  shows "r = Inl (newError CodeConfigStale ''measurement config is out of date'')"
proof -
  have "DispatchTargets (io 3) d = Inl ErrDB \<or> DispatchTargets (io 3) d = Inr targets"
    using assms(3) by (auto simp: DispatchTargets_def split: if_splits)
  moreover have "(\<exists>e. MeasurementConfig (io 2) d = Inl e) \<or> MeasurementConfig (io 2) d = Inr (cfg, custom)"
    using MeasurementConfig_same [OF assms(2)] .
  ultimately show ?thesis
    using assms(1,4-6) Validate_stale [of req]
    by (cases "Allowlist (io 1) d") (auto simp: judge_push_def)
qed

lemma handleTargets_ok:
  assumes "handleTargets ops tp now io rq st = (rs, st')" "rs_Status rs = StatusOK"
  shows "\<exists>cfg custom targets. DispatchTargets (io 1) (as_db st) = Inr targets \<and>
           MeasurementConfig (io 2) (as_db st) = Inr (cfg, custom) \<and> rs_Body rs = Some (targets_body cfg targets)"
proof (cases "authenticate ops tp now (io 0) rq st")
  case (Pair r st1)
  have db: "as_db st1 = as_db st"
    using authenticate_frame [of ops tp now "io 0" rq st] Pair by simp
  have "\<exists>probe. r = Inr probe"
    using assms Pair authenticate_status [of ops tp now "io 0" rq st _ st1]
    by (cases r) (fastforce simp: handleTargets_def status_defs)+
  with assms Pair show ?thesis
    by (auto simp: handleTargets_def db unavailable_def disabled_probe_def status_defs split: sum.splits if_splits)
qed

end
