(* ===== verification/Store_Catalog.thy ===== *)
theory Store_Catalog
  imports Store_Probes
begin

text \<open>
  \<open>internal/store/catalog.go\<close>: campuses and buildings, and the rule that nothing a probe
  still refers to is deleted.
\<close>

section \<open>Campuses and buildings\<close>

record campus =
  c_Code :: string
  c_Name :: string
  c_CreatedAt :: gotime
  c_UpdatedAt :: gotime

record building =
  b_Code :: string
  b_CampusCode :: string
  b_BuildingGroupCode :: string
  b_BuildingGroupName :: string
  b_Name :: string
  b_CreatedAt :: gotime
  b_UpdatedAt :: gotime

definition scanCampus :: "campus_row \<Rightarrow> campus" where
  "scanCampus r = \<lparr>c_Code = cr_code r, c_Name = cr_name r, c_CreatedAt = of_unix (cr_created_at r),
     c_UpdatedAt = of_unix (cr_updated_at r)\<rparr>"

definition scanBuilding :: "building_row \<Rightarrow> building" where
  "scanBuilding r = \<lparr>b_Code = br_code r, b_CampusCode = br_campus_code r, b_BuildingGroupCode = br_group_code r,
     b_BuildingGroupName = br_group_name r, b_Name = br_name r, b_CreatedAt = of_unix (br_created_at r),
     b_UpdatedAt = of_unix (br_updated_at r)\<rparr>"

definition ListCampuses :: "faults \<Rightarrow> db \<Rightarrow> store_error + campus list" where
  "ListCampuses io d =
     (if io 0 then Inl ErrDB else Inr (map scanCampus (rows_by cr_code (db_campuses d))))"

definition GetCampus :: "string \<Rightarrow> faults \<Rightarrow> db \<Rightarrow> store_error + campus" where
  "GetCampus cd io d =
     (if io 0 then Inl ErrDB
      else case find (\<lambda>r. cr_code r = cd) (db_campuses d) of
             None \<Rightarrow> Inl ErrNotFound | Some r \<Rightarrow> Inr (scanCampus r))"

definition CreateCampus :: "int \<Rightarrow> campus \<Rightarrow> faults \<Rightarrow> db \<Rightarrow> (store_error + campus) \<times> db" where
  "CreateCampus now c io d =
     (let s = unix_seconds now in
      if io 0 then (Inl ErrDB, d)
      else if c_Code c \<in> cr_code ` set (db_campuses d) then (Inl ErrDuplicate, d)
      else (Inr (c\<lparr>c_CreatedAt := of_unix s, c_UpdatedAt := of_unix s\<rparr>),
            d\<lparr>db_campuses := db_campuses d @
                [\<lparr>cr_code = c_Code c, cr_name = c_Name c, cr_created_at = s, cr_updated_at = s\<rparr>]\<rparr>))"

definition UpdateCampusName :: "int \<Rightarrow> string \<Rightarrow> string \<Rightarrow> faults \<Rightarrow> db \<Rightarrow> (store_error + unit) \<times> db" where
  "UpdateCampusName now cd name io d =
     (if io 0 then (Inl ErrDB, d)
      else (requireAffected (io 1) (count_rows (\<lambda>r. cr_code r = cd) (db_campuses d)),
            d\<lparr>db_campuses := update_rows (\<lambda>r. cr_code r = cd)
                (\<lambda>r. r\<lparr>cr_name := name, cr_updated_at := unix_seconds now\<rparr>) (db_campuses d)\<rparr>))"

text \<open>
  \<open>DeleteCampus\<close> in one transaction: begin, count, delete the buildings, delete the campus
  (its foreign key RESTRICT finds no building left), affected rows, commit.
\<close>

definition campus_in_use :: "string \<Rightarrow> db \<Rightarrow> bool" where
  "campus_in_use cd d \<longleftrightarrow>
     (\<exists>p \<in> set (db_probes d). pr_campus_code p = cd \<or>
        (\<exists>b \<in> set (db_buildings d). br_campus_code b = cd \<and> br_code b = pr_building_code p))"

definition DeleteCampus :: "string \<Rightarrow> faults \<Rightarrow> db \<Rightarrow> (store_error + unit) \<times> db" where
  "DeleteCampus cd io d =
     (if io 0 \<or> io 1 then (Inl ErrDB, d)
      else if campus_in_use cd d then (Inl ErrInUse, d)
      else if io 2 \<or> io 3 \<or> io 4 then (Inl ErrDB, d)
      else if count_rows (\<lambda>r. cr_code r = cd) (db_campuses d) = 0 then (Inl ErrNotFound, d)
      else if io 5 then (Inl ErrDB, d)
      else (Inr (), d\<lparr>db_buildings := filter (\<lambda>b. br_campus_code b \<noteq> cd) (db_buildings d),
                      db_campuses := filter (\<lambda>c. cr_code c \<noteq> cd) (db_campuses d)\<rparr>))"

text \<open>\<open>ORDER BY campus_code, code\<close>.\<close>

definition ListBuildings :: "faults \<Rightarrow> db \<Rightarrow> store_error + building list" where
  "ListBuildings io d =
     (if io 0 then Inl ErrDB
      else Inr (map scanBuilding (rows_by br_campus_code (rows_by br_code (db_buildings d)))))"

definition ListBuildingsByCampus :: "string \<Rightarrow> faults \<Rightarrow> db \<Rightarrow> store_error + building list" where
  "ListBuildingsByCampus cd io d =
     (if io 0 then Inl ErrDB
      else Inr (map scanBuilding (rows_by br_code (filter (\<lambda>b. br_campus_code b = cd) (db_buildings d)))))"

definition GetBuilding :: "string \<Rightarrow> faults \<Rightarrow> db \<Rightarrow> store_error + building" where
  "GetBuilding cd io d =
     (if io 0 then Inl ErrDB
      else case find (\<lambda>r. br_code r = cd) (db_buildings d) of
             None \<Rightarrow> Inl ErrNotFound | Some r \<Rightarrow> Inr (scanBuilding r))"

text \<open>The unique check comes before the foreign key, whose violation is a plain error.\<close>

definition CreateBuilding :: "int \<Rightarrow> building \<Rightarrow> faults \<Rightarrow> db \<Rightarrow> (store_error + building) \<times> db" where
  "CreateBuilding now b io d =
     (let s = unix_seconds now in
      if io 0 then (Inl ErrDB, d)
      else if b_Code b \<in> br_code ` set (db_buildings d) then (Inl ErrDuplicate, d)
      else if b_CampusCode b \<notin> cr_code ` set (db_campuses d) then (Inl ErrDB, d)
      else (Inr (b\<lparr>b_CreatedAt := of_unix s, b_UpdatedAt := of_unix s\<rparr>),
            d\<lparr>db_buildings := db_buildings d @
                [\<lparr>br_code = b_Code b, br_campus_code = b_CampusCode b, br_group_code = b_BuildingGroupCode b,
                  br_group_name = b_BuildingGroupName b, br_name = b_Name b, br_created_at = s,
                  br_updated_at = s\<rparr>]\<rparr>))"

definition UpdateBuilding :: "int \<Rightarrow> building \<Rightarrow> faults \<Rightarrow> db \<Rightarrow> (store_error + unit) \<times> db" where
  "UpdateBuilding now b io d =
     (if io 0 then (Inl ErrDB, d)
      else (requireAffected (io 1) (count_rows (\<lambda>r. br_code r = b_Code b) (db_buildings d)),
            d\<lparr>db_buildings := update_rows (\<lambda>r. br_code r = b_Code b)
                (\<lambda>r. r\<lparr>br_group_code := b_BuildingGroupCode b, br_group_name := b_BuildingGroupName b,
                       br_name := b_Name b, br_updated_at := unix_seconds now\<rparr>) (db_buildings d)\<rparr>))"

definition CampusProbeCount :: "string \<Rightarrow> bool \<Rightarrow> db \<Rightarrow> store_error + int" where
  "CampusProbeCount cd fault d =
     (if fault then Inl ErrDB else Inr (int (count_rows (\<lambda>p. pr_campus_code p = cd) (db_probes d))))"

definition BuildingProbeCount :: "string \<Rightarrow> bool \<Rightarrow> db \<Rightarrow> store_error + int" where
  "BuildingProbeCount cd fault d =
     (if fault then Inl ErrDB else Inr (int (count_rows (\<lambda>p. pr_building_code p = cd) (db_probes d))))"

definition DeleteBuilding :: "string \<Rightarrow> faults \<Rightarrow> db \<Rightarrow> (store_error + unit) \<times> db" where
  "DeleteBuilding cd io d =
     (case BuildingProbeCount cd (io 0) d of
        Inl e \<Rightarrow> (Inl e, d)
      | Inr n \<Rightarrow>
          (if n > 0 then (Inl ErrInUse, d)
           else if io 1 then (Inl ErrDB, d)
           else (requireAffected (io 2) (count_rows (\<lambda>b. br_code b = cd) (db_buildings d)),
                 d\<lparr>db_buildings := filter (\<lambda>b. br_code b \<noteq> cd) (db_buildings d)\<rparr>)))"

text \<open>One entry per group code, with the greatest name (\<open>MAX\<close>) its buildings give it.\<close>

record building_group =
  bg_Code :: string
  bg_Name :: string

definition BuildingGroups :: "faults \<Rightarrow> db \<Rightarrow> store_error + building_group list" where
  "BuildingGroups io d =
     (if io 0 then Inl ErrDB
      else Inr (map (\<lambda>g. \<lparr>bg_Code = g,
                  bg_Name = Max (set (map br_group_name (filter (\<lambda>b. br_group_code b = g) (db_buildings d))))\<rparr>)
             (sort (remdups (map br_group_code (db_buildings d))))))"

section \<open>Nothing dangles\<close>

text \<open>Every probe's building is in the catalog, and so is its campus.\<close>

definition probes_placed :: "db \<Rightarrow> bool" where
  "probes_placed d \<longleftrightarrow>
     (\<forall>p \<in> set (db_probes d). pr_campus_code p \<in> cr_code ` set (db_campuses d) \<and>
        pr_building_code p \<in> br_code ` set (db_buildings d))"

lemma CreateCampus_inv: "catalog_inv d \<Longrightarrow> catalog_inv (snd (CreateCampus now c io d))"
  by (auto simp: CreateCampus_def Let_def catalog_inv_def)

lemma UpdateCampusName_inv: "catalog_inv d \<Longrightarrow> catalog_inv (snd (UpdateCampusName now cd name io d))"
  by (auto simp: UpdateCampusName_def catalog_inv_def update_rows_map update_rows_image)

lemma DeleteCampus_inv: "catalog_inv d \<Longrightarrow> catalog_inv (snd (DeleteCampus cd io d))"
  by (auto simp: DeleteCampus_def catalog_inv_def distinct_map_filter)

lemma CreateBuilding_inv: "catalog_inv d \<Longrightarrow> catalog_inv (snd (CreateBuilding now b io d))"
  by (auto simp: CreateBuilding_def Let_def catalog_inv_def)

lemma UpdateBuilding_inv: "catalog_inv d \<Longrightarrow> catalog_inv (snd (UpdateBuilding now b io d))"
  by (auto simp: UpdateBuilding_def catalog_inv_def update_rows_map update_rows_image)

lemma DeleteBuilding_inv: "catalog_inv d \<Longrightarrow> catalog_inv (snd (DeleteBuilding cd io d))"
  by (auto simp: DeleteBuilding_def catalog_inv_def distinct_map_filter split: sum.splits)

lemma DeleteCampus_ok:
  assumes "DeleteCampus cd io d = (Inr u, d')"
  shows "\<not> campus_in_use cd d"
    and "d' = d\<lparr>db_buildings := filter (\<lambda>b. br_campus_code b \<noteq> cd) (db_buildings d),
                 db_campuses := filter (\<lambda>c. cr_code c \<noteq> cd) (db_campuses d)\<rparr>"
proof -
  show free: "\<not> campus_in_use cd d"
    using assms unfolding DeleteCampus_def by (metis Inl_Inr_False prod.inject)
  from assms have "\<not> (io 0 \<or> io 1)" "\<not> (io 2 \<or> io 3 \<or> io 4)" "\<not> io 5"
      "count_rows (\<lambda>r. cr_code r = cd) (db_campuses d) \<noteq> 0"
    unfolding DeleteCampus_def using free by (metis Inl_Inr_False prod.inject)+
  with assms free show "d' = d\<lparr>db_buildings := filter (\<lambda>b. br_campus_code b \<noteq> cd) (db_buildings d),
                 db_campuses := filter (\<lambda>c. cr_code c \<noteq> cd) (db_campuses d)\<rparr>"
    by (simp only: DeleteCampus_def if_False prod.inject)
qed

lemma DeleteCampus_error: "DeleteCampus cd io d = (Inl e, d') \<Longrightarrow> d' = d"
  unfolding DeleteCampus_def by (metis Inl_Inr_False prod.inject)

lemma DeleteCampus_placed:
  assumes "probes_placed d"
  shows "probes_placed (snd (DeleteCampus cd io d))"
proof (cases "DeleteCampus cd io d")
  case (Pair r d')
  show ?thesis
  proof (cases r)
    case (Inl e)
    with Pair DeleteCampus_error assms show ?thesis by fastforce
  next
    case (Inr u)
    note ok = DeleteCampus_ok [OF Pair [unfolded Inr]]
    have "pr_campus_code p \<in> cr_code ` set (db_campuses d') \<and> pr_building_code p \<in> br_code ` set (db_buildings d')"
      if p: "p \<in> set (db_probes d)" for p
    proof -
      from assms p have "pr_campus_code p \<in> cr_code ` set (db_campuses d)"
        and "pr_building_code p \<in> br_code ` set (db_buildings d)"
        by (simp_all add: probes_placed_def)
      then obtain c b where c: "c \<in> set (db_campuses d)" "cr_code c = pr_campus_code p"
        and b: "b \<in> set (db_buildings d)" "br_code b = pr_building_code p"
        by (elim imageE) simp
      with p ok(1) have "pr_campus_code p \<noteq> cd" "br_campus_code b \<noteq> cd"
        unfolding campus_in_use_def by blast+
      with c b have "c \<in> set (db_campuses d')" "b \<in> set (db_buildings d')"
        by (simp_all add: ok(2))
      with c b show ?thesis by (metis imageI)
    qed
    then show ?thesis by (simp add: Pair ok(2) probes_placed_def)
  qed
qed

lemma DeleteBuilding_placed: "probes_placed d \<Longrightarrow> probes_placed (snd (DeleteBuilding cd io d))"
  by (auto simp: DeleteBuilding_def BuildingProbeCount_def probes_placed_def count_rows_def
      filter_empty_conv image_iff split: sum.splits if_splits)

lemma UpdateBuilding_placed: "probes_placed d \<Longrightarrow> probes_placed (snd (UpdateBuilding now b io d))"
  by (auto simp: UpdateBuilding_def probes_placed_def update_rows_image)

lemma UpdateCampusName_placed: "probes_placed d \<Longrightarrow> probes_placed (snd (UpdateCampusName now cd name io d))"
  by (auto simp: UpdateCampusName_def probes_placed_def update_rows_image)

end
