(* ===== verification/Samples.thy ===== *)
theory Samples
  imports Api_Push Store_Catalog
begin

text \<open>
  Concrete inputs that the closed instances of the properties share: a small database with
  one probe, one target, one campus and one building, a push of that probe, and what the
  operations compute on them.
\<close>

definition sample_allowlist :: allowlist where
  "sample_allowlist = [(''t1'', [(ProbeICMP, True), (ProbeDNS, True)])]"

definition sample_json :: json where
  "sample_json = JObj [(''version'', JNum ''1''), (''results'', JObj [(''t1'', JObj [(''dns'',
     JObj [(''success'', JBool True), (''duration_ms'', JNum ''0'')])])])]"

definition sample_body :: string where
  "sample_body = json_print sample_json"

definition sample_request :: push_request where
  "sample_request =
     \<lparr>req_Version = 1, req_Timestamp = 0, req_ProbeVersion = [], req_ConfigID = [],
      req_Results = [(''t1'', [(ProbeDNS, no_measurement\<lparr>m_DNS :=
        Some \<lparr>dns_Success = True, dns_DurationMS = Some (Fin 0)\<rparr>\<rparr>)])]\<rparr>"

lemma sample_scans: "json_next sample_body = Some (sample_json, [])"
proof -
  have "printable sample_json" and "jdepth sample_json \<le> max_nesting"
    by (simp_all add: sample_json_def int_lit_def nat_lit_def plain_char_def is_digit_def code_def max_nesting_def)
  then show ?thesis
    unfolding sample_body_def sample_json_def using json_next_print [where r = "[]"] by fastforce
qed

lemma sample_numbers: "as_int64 (JNum ''1'') = Some 1" "as_float64 (JNum ''0'') = Some (Fin 0)"
  by code_simp+

lemma sample_raw: "decode_raw sample_json = Some (zero_raw\<lparr>raw_Version := Some 1,
    raw_Results := [(''t1'', [(''dns'', JObj [(''success'', JBool True), (''duration_ms'', JNum ''0'')])])]\<rparr>)"
  by (simp add: sample_json_def zero_raw_def raw_inner_def sample_numbers del: as_int64.simps)

lemma sample_types_decode:
  "decode_targets [(''t1'', [(''dns'', JObj [(''success'', JBool True), (''duration_ms'', JNum ''0'')])])] [] =
   Inr (req_Results sample_request)"
  by (simp add: decodeMeasurement_def probe_type_defs decodeDNS_def unmarshalStrict_def or_zero_def sample_numbers
      sample_request_def del: as_float64.simps)

lemma sample_decodes: "Decode sample_body = Inr sample_request"
  by (simp add: Decode_def sample_scans sample_raw sample_types_decode zero_raw_def request_of_raw_def or_zero_def
      del: decode_targets.simps)
    (simp add: sample_request_def)

definition sample_probe_row :: probe_row where
  "sample_probe_row =
     \<lparr>pr_id = 1, pr_probe_id = ''p1'', pr_token_hash = Hash ''tok'', pr_campus_code = ''a'', pr_campus_name = ''A'',
      pr_building_group_code = ''g'', pr_building_group_name = ''G'', pr_building_code = ''b'', pr_building_name = ''B'',
      pr_network_type = ''wired'', pr_enabled = 1, pr_description = [], pr_created_at = 1, pr_updated_at = 1,
      pr_rotated_at = 0, pr_created_via = ''admin''\<rparr>"

definition sample_target_row :: target_row where
  "sample_target_row =
     \<lparr>tr_id = 1, tr_target_id = ''t1'', tr_display_name = [], tr_address = ''1.1.1.1'', tr_description = [],
      tr_enabled = 1, tr_created_at = 1, tr_updated_at = 1\<rparr>"

definition sample_db :: db where
  "sample_db = empty_db
     \<lparr>db_probes := [sample_probe_row], db_probe_seq := 1, db_targets := [sample_target_row], db_target_seq := 1,
      db_types := [(''t1'', ''dns''), (''t1'', ''icmp'')],
      db_campuses := [\<lparr>cr_code = ''a'', cr_name = ''A'', cr_created_at = 1, cr_updated_at = 1\<rparr>],
      db_buildings := [\<lparr>br_code = ''b'', br_campus_code = ''a'', br_group_code = ''g'', br_group_name = ''G'',
        br_name = ''B'', br_created_at = 1, br_updated_at = 1\<rparr>]\<rparr>"

definition sample_state :: "int api_state" where
  "sample_state = \<lparr>as_db = sample_db, as_latest = [], as_self = Some NewSelf, as_limiter = Some (NewLimiter 5 3)\<rparr>"

definition sample_push :: http_request where
  "sample_push =
     \<lparr>RemoteAddr = ''10.0.0.1:5000'', XForwardedFor = [], rq_Method = ''POST'', rq_Path = ''/api/v1/push'',
      rq_Authorization = ''Bearer tok'', rq_ContentType = ''application/json'', rq_ContentLength = 80,
      rq_Body = sample_body, rq_BodyFails = False\<rparr>"

lemma sample_store_inv: "store_inv sample_db"
  by (simp add: store_inv_defs sample_db_def empty_db_def sample_probe_row_def sample_target_row_def)

lemma sample_probe: "ProbeByTokenHash (Hash ''tok'') no_faults sample_db = Inr (scanProbe sample_probe_row)"
  by (simp add: ProbeByTokenHash_def select_probe_def sample_db_def sample_probe_row_def)

lemma sample_types: "types_of ''t1'' sample_db = [''dns'', ''icmp'']"
  by (simp add: types_of_def sample_db_def empty_db_def)

lemma sample_allow: "\<exists>al. Allowlist no_faults sample_db = Inr al"
  by (simp add: Allowlist_def)

lemma sample_allowlist_db:
  "Allowlist no_faults sample_db = Inr [(''t1'', [(''dns'', True), (''icmp'', True)])]"
proof -
  have "join_rows (\<lambda>t. tr_enabled t = 1) sample_db =
      [(''t1'', ''1.1.1.1'', ''dns''), (''t1'', ''1.1.1.1'', ''icmp'')]"
    using sample_types by (simp add: join_rows_def rows_by_def sample_db_def empty_db_def sample_target_row_def)
  then show ?thesis by (simp add: Allowlist_def or_zero_def)
qed

lemma sample_config: "MeasurementConfig no_faults sample_db = Inr (DefaultMeasurementConfig, False)"
  by (simp add: MeasurementConfig_def Setting_def setting_value_def sample_db_def empty_db_def)

lemma sample_request_ok:
  "request_ok sample_request [(''t1'', [(''dns'', True), (''icmp'', True)])] cid"
  by (simp add: request_ok_def sample_request_def Version_def target_ok_def type_allowed_def
      measurement_ok_def dns_ok_def no_measurement_def probe_type_defs)

lemma sample_judged: "judge_push (\<lambda>_. no_faults) sample_request sample_db = Inr (Inr ())"
  using Validate_iff [OF Decode_wf [OF sample_decodes]] sample_request_ok
  by (simp add: judge_push_def sample_allowlist_db sample_config DispatchTargets_def)

lemma sample_authenticated:
  "authenticate countdown_ops [] 0 no_faults sample_push sample_state = (Inr (scanProbe sample_probe_row), sample_state)"
proof -
  have pre: "has_prefix ''Bearer tok'' bearerPrefix" "trim_prefix ''Bearer tok'' bearerPrefix = ''tok''"
    by (simp_all add: has_prefix_def trim_prefix_def bearerPrefix_def)
  show ?thesis
    using sample_probe
    by (simp add: authenticate_def Let_def sample_push_def pre sample_state_def with_limiter_def
        AuthFailureBlocked_def NewLimiter_def)
qed

lemma sample_accepted:
  "\<exists>st'. handlePush countdown_ops [] 0 (\<lambda>_. no_faults) sample_push sample_state =
     (\<lparr>rs_Status = StatusNoContent, rs_Body = None\<rparr>, st')"
proof -
  have en: "pr_enabled sample_probe_row \<noteq> 0" by (simp add: sample_probe_row_def)
  have body: "ReadAll sample_push = BodyRead sample_body"
    by (simp add: ReadAll_def sample_push_def sample_body_def sample_json_def quote_def quote_body_plain
        plain_char_def code_def MaxBodyBytes_def)
  have db: "as_db (snd (with_limiter b f sample_state)) = sample_db" for b f
    by (simp add: api_frame) (simp add: sample_state_def)
  have ok: "fst (with_limiter True (Allow countdown_ops 0 pid) sample_state)" for pid
    by (simp add: with_limiter_def sample_state_def Allow_def NewLimiter_def countdown_ops_def Let_def)
  show ?thesis
    by (simp add: handlePush_def sample_authenticated en Let_def split_beta ok body handle_body_def sample_decodes
        db sample_judged accept_push_def)
qed

lemma sample_dispatch: "\<exists>targets. DispatchTargets no_faults sample_db = Inr targets"
  by (simp add: DispatchTargets_def)

lemma sample_targets_served:
  "\<exists>targets. handleTargets countdown_ops [] 0 (\<lambda>_. no_faults) sample_push sample_state =
     (\<lparr>rs_Status = StatusOK, rs_Body = Some (targets_body DefaultMeasurementConfig targets)\<rparr>, sample_state)"
proof -
  have en: "pr_enabled sample_probe_row \<noteq> 0" by (simp add: sample_probe_row_def)
  obtain targets where "DispatchTargets no_faults sample_db = Inr targets" using sample_dispatch by blast
  moreover have "as_db sample_state = sample_db" by (simp add: sample_state_def)
  ultimately show ?thesis
    by (auto simp: handleTargets_def sample_authenticated en sample_config)
qed

end
