(* ===== verification/Push_Properties.thy ===== *)
theory Push_Properties
  imports Samples
begin

text \<open>
  The properties of the probe-facing API: pushes, authentication and throttling, and the
  attribution of a request to an address.
\<close>

section \<open>Pushes\<close>

text \<open>C1: A push is answered 204 only when its bearer token hashes to the row of an enabled
  probe, its body decodes to a request that satisfies every rule of the protocol against the
  current allowlist and the current config ID; and then exactly that probe's latest entry is
  replaced, by the request's measurements and the server's own clock.\<close>

theorem push_accepted:
  assumes "handlePush ops tp now io rq st = (rs, st')" "rs_Status rs = StatusNoContent"
  shows "\<exists>raw probe req al cfg custom targets.
           rq_Authorization rq = ''Bearer '' @ raw \<and> raw \<noteq> [] \<and>
           ProbeByTokenHash (Hash raw) (io 0) (as_db st) = Inr probe \<and> p_TokenHash probe = Hash raw \<and>
           p_Enabled probe \<and> length (rq_Body rq) \<le> MaxBodyBytes \<and> Decode (rq_Body rq) = Inr req \<and>
           Allowlist (io 1) (as_db st) = Inr al \<and> MeasurementConfig (io 2) (as_db st) = Inr (cfg, custom) \<and>
           DispatchTargets (io 3) (as_db st) = Inr targets \<and> request_ok req al (ConfigID cfg targets) \<and>
           as_db st' = as_db st \<and>
           as_latest st' = latest_Put (p_ProbeID probe) (req_Results req) now (as_latest st)"
proof -
  from handlePush_cases [OF assms(1)] assms(2) obtain probe st1 req where
    auth: "authenticate ops tp now (io 0) rq st = (Inr probe, st1)" and rest: "p_Enabled probe"
      "ReadAll rq = BodyRead (rq_Body rq)" "Decode (rq_Body rq) = Inr req"
      "as_latest st' = latest_Put (p_ProbeID probe) (req_Results req) now (as_latest st)"
    and judged: "judge_push io req (as_db st) = Inr (Inr ())" by auto
  from authenticate_ok [OF auth] obtain raw where raw: "rq_Authorization rq = bearerPrefix @ raw" "raw \<noteq> []"
    "ProbeByTokenHash (Hash raw) (io 0) (as_db st) = Inr probe" by blast
  have "length (rq_Body rq) \<le> MaxBodyBytes" using rest(2) by (auto simp: ReadAll_def split: if_splits)
  with raw rest judge_push_ok [OF judged Decode_wf [OF rest(3)]] ProbeByTokenHash_sound [OF raw(3)]
    handlePush_db [of ops tp now io rq st] assms(1)
  show ?thesis by (auto simp: bearerPrefix_def)
qed

theorem push_accepted_witness:
  "\<exists>probe. ProbeByTokenHash (Hash ''tok'') no_faults sample_db = Inr probe \<and> p_Enabled probe"
proof -
  obtain st' where run: "handlePush countdown_ops [] 0 (\<lambda>_. no_faults) sample_push sample_state =
     (\<lparr>rs_Status = StatusNoContent, rs_Body = None\<rparr>, st')"
    using sample_accepted by blast
  from push_accepted [OF run] show ?thesis
    by (auto simp: sample_push_def sample_state_def)
qed

text \<open>C2: A push that is answered with anything but 204 leaves every probe's latest
  measurement, its last-seen time and the whole database as they were.\<close>

theorem push_rejected_changes_nothing:
  assumes "handlePush ops tp now io rq st = (rs, st')" "rs_Status rs \<noteq> StatusNoContent"
  shows "as_latest st' = as_latest st \<and> as_db st' = as_db st"
  using handlePush_cases [OF assms(1)] handlePush_db [of ops tp now io rq st] assms by auto

theorem push_rejected_changes_nothing_witness:
  "as_latest (snd (handlePush countdown_ops [] 0 (\<lambda>_. no_faults) (sample_push\<lparr>rq_Authorization := []\<rparr>) sample_state))
   = as_latest sample_state"
proof -
  let ?r = "handlePush countdown_ops [] 0 (\<lambda>_. no_faults) (sample_push\<lparr>rq_Authorization := []\<rparr>) sample_state"
  have "rs_Status (fst ?r) \<noteq> StatusNoContent"
    by (simp add: handlePush_def authenticate_def Let_def has_prefix_def bearerPrefix_def unauthorized_def)
  with push_rejected_changes_nothing [of countdown_ops "[]" 0 "\<lambda>_. no_faults" _ sample_state "fst ?r" "snd ?r"]
  show ?thesis by simp
qed

text \<open>C3: The config ID that GET /api/v1/targets serves is the one the push handler judges by:
  while the database is unchanged, a push that echoes it is judged exactly like a push that
  names no config at all, so it is never told that its config is stale.\<close>

theorem served_config_id_is_current:
  assumes "handleTargets ops tp now io rq st = (rs, st')" "rs_Status rs = StatusOK" "as_db st2 = as_db st"
  shows "\<exists>cfg targets. rs_Body rs = Some (targets_body cfg targets) \<and>
           (\<forall>io2 req. judge_push io2 (req\<lparr>req_ConfigID := ConfigID cfg targets\<rparr>) (as_db st2) =
                       judge_push io2 (req\<lparr>req_ConfigID := []\<rparr>) (as_db st2))"
proof -
  from handleTargets_ok [OF assms(1,2)] obtain cfg custom targets where
    d: "DispatchTargets (io 1) (as_db st) = Inr targets"
    and c: "MeasurementConfig (io 2) (as_db st) = Inr (cfg, custom)"
    and b: "rs_Body rs = Some (targets_body cfg targets)" by blast
  have "judge_push io2 (req\<lparr>req_ConfigID := ConfigID cfg targets\<rparr>) (as_db st2) =
      judge_push io2 (req\<lparr>req_ConfigID := []\<rparr>) (as_db st2)" for io2 req
    unfolding assms(3)
    using judge_push_current [OF d c, of "req\<lparr>req_ConfigID := ConfigID cfg targets\<rparr>" io2] by simp
  with b show ?thesis by blast
qed

theorem served_config_id_is_current_witness:
  "\<exists>rs. fst (handleTargets countdown_ops [] 0 (\<lambda>_. no_faults) sample_push sample_state) = rs \<and>
     rs_Status rs = StatusOK \<and>
     (\<exists>cfg targets. \<forall>req. judge_push (\<lambda>_. no_faults) (req\<lparr>req_ConfigID := ConfigID cfg targets\<rparr>) sample_db =
        judge_push (\<lambda>_. no_faults) (req\<lparr>req_ConfigID := []\<rparr>) sample_db)"
proof -
  obtain targets where run: "handleTargets countdown_ops [] 0 (\<lambda>_. no_faults) sample_push sample_state =
     (\<lparr>rs_Status = StatusOK, rs_Body = Some (targets_body DefaultMeasurementConfig targets)\<rparr>, sample_state)"
    using sample_targets_served by blast
  from served_config_id_is_current [OF run] run show ?thesis
    by (fastforce simp: sample_state_def)
qed

text \<open>A push that names any other config is refused as stale, with 409, whatever its
  measurements are.\<close>

theorem stale_push_refused:
  assumes "judge_push io req d = Inr r" "MeasurementConfig io'' d = Inr (cfg, custom)"
    "DispatchTargets io' d = Inr targets" "req_Version req = Version"
    "length (req_ConfigID req) \<le> MaxConfigIDLen" "req_ConfigID req \<notin> {[], ConfigID cfg targets}"
  shows "\<exists>e. r = Inl e \<and> Code e = CodeConfigStale \<and> rs_Status (writeProtocolError e) = StatusConflict"
  using judge_push_stale [OF assms]
  by (simp add: writeProtocolError_def statusForCode_def code_defs)

theorem stale_push_refused_witness:
  "\<exists>e. judge_push (\<lambda>_. no_faults) (sample_request\<lparr>req_ConfigID := ''x''\<rparr>) sample_db = Inr (Inl e) \<and>
     Code e = CodeConfigStale"
proof -
  obtain targets where t: "DispatchTargets no_faults sample_db = Inr targets" using sample_dispatch by blast
  obtain r where r: "judge_push (\<lambda>_. no_faults) (sample_request\<lparr>req_ConfigID := ''x''\<rparr>) sample_db = Inr r"
    using sample_allowlist_db sample_config t by (simp add: judge_push_def)
  have "length ''x'' \<noteq> length (ConfigID DefaultMeasurementConfig targets)"
    by (simp add: length_ConfigID)
  then have "''x'' \<noteq> ConfigID DefaultMeasurementConfig targets" by metis
  with stale_push_refused [OF r sample_config t] r show ?thesis
    by (auto simp: sample_request_def Version_def MaxConfigIDLen_def)
qed

text \<open>C4: A decoded request is accepted exactly when it is a valid push of the protocol: the
  version, the lengths, the config ID, the timestamp and every measurement of every target are
  judged as the declarative specification states, whatever order the Go maps are visited in.\<close>

theorem accepted_iff_request_ok:
  assumes "Decode body = Inr r"
  shows "Validate r al cid = Inr () \<longleftrightarrow> request_ok r al cid"
  using assms by (intro Validate_iff Decode_wf)

theorem accepted_iff_request_ok_witness:
  "Decode sample_body = Inr sample_request \<and>
   (Validate sample_request sample_allowlist ''id'' = Inr () \<longleftrightarrow>
    request_ok sample_request sample_allowlist ''id'')"
  using accepted_iff_request_ok [OF sample_decodes] sample_decodes by simp

text \<open>C5: The verdict on a request, including which error is reported first, does not depend on
  the order in which Go happens to visit the maps of the request or of the allowlist.\<close>

theorem validation_order_independent:
  assumes "wf_results (req_Results r)" "wf_results rs'" "same_map2 (req_Results r) rs'" "same_map2 al al'"
  shows "Validate r al cid = Validate (r\<lparr>req_Results := rs'\<rparr>) al' cid"
  using assms by (rule Validate_order_independent)

theorem validation_order_independent_witness:
  "Validate sample_request [(''t2'', []), (''t1'', [(ProbeDNS, True)])] ''id'' =
   Validate sample_request [(''t1'', [(ProbeDNS, True)]), (''t2'', [])] ''id''"
proof -
  let ?a = "[(''t2'', []), (''t1'', [(ProbeDNS, True)])]" and ?b = "[(''t1'', [(ProbeDNS, True)]), (''t2'', [])]"
  have "wf_results (req_Results sample_request)" by (simp add: sample_request_def wf_results_def)
  moreover have "same_map2 ?a ?b" by (simp add: same_map2_def)
  moreover have "same_map2 (req_Results sample_request) (req_Results sample_request)"
    by (simp add: same_map2_def option.rel_refl)
  ultimately show ?thesis
    using validation_order_independent [of sample_request "req_Results sample_request" ?a ?b "''id''"] by simp
qed

section \<open>Authentication and throttling\<close>

text \<open>C6: A request that fails authentication is answered 401 only when it carries no
  well-formed token or a token the database does not know; a failing database is answered 503,
  everything else 429; and it never touches any probe's push bucket.\<close>

theorem authentication_failures:
  assumes "authenticate ops tp now io rq st = (Inl rs, st')"
  shows "buckets st' = buckets st \<and> as_latest st' = as_latest st \<and>
    (if rs_Status rs = StatusUnauthorized
     then \<not> has_prefix (rq_Authorization rq) ''Bearer '' \<or> trim_prefix (rq_Authorization rq) ''Bearer '' = [] \<or>
       ProbeByTokenHash (Hash (trim_prefix (rq_Authorization rq) ''Bearer '')) io (as_db st) = Inl ErrNotFound
     else if rs_Status rs = StatusServiceUnavailable then io 0
     else rs_Status rs = StatusTooManyRequests)"
  using authenticate_401 [OF assms] authenticate_status [OF assms]
    authenticate_buckets [of ops tp now io rq st] authenticate_frame [of ops tp now io rq st] assms
  by (auto simp: bearerPrefix_def status_defs)

theorem authentication_failures_witness:
  "buckets (snd (authenticate countdown_ops [] 0 (\<lambda>_. True) sample_push sample_state)) = buckets sample_state"
proof -
  have "has_prefix ''Bearer tok'' bearerPrefix" "trim_prefix ''Bearer tok'' bearerPrefix = ''tok''"
    by (simp_all add: has_prefix_def trim_prefix_def bearerPrefix_def)
  then obtain rs st' where "authenticate countdown_ops [] 0 (\<lambda>_. True) sample_push sample_state = (Inl rs, st')"
    by (simp add: authenticate_def Let_def sample_push_def sample_state_def with_limiter_def unavailable_def
        AuthFailureBlocked_def NewLimiter_def ProbeByTokenHash_def select_probe_def)
  from authentication_failures [OF this] this show ?thesis by simp
qed

text \<open>Once an address has used up its budget of failed authentications, its next
  well-formed request is answered 429 and never reaches the database, whatever token it
  carries.\<close>

theorem exhausted_address_throttled:
  assumes "rate_contract ops" "as_limiter st = Some (snd (AllowAuthFailure ops now (client_ip rq tp) l))"
    "\<not> fst (AllowAuthFailure ops now (client_ip rq tp) l)"
    "rq_Authorization rq = ''Bearer '' @ raw" "raw \<noteq> []"
  shows "\<exists>st'. authenticate ops tp now io rq st =
    (Inl (writeError StatusTooManyRequests CodeRateLimited msgRateLimited), st')"
proof -
  have "fst (AuthFailureBlocked ops now (client_ip rq tp) (snd (AllowAuthFailure ops now (client_ip rq tp) l)))"
    by (rule exhausted_then_blocked [OF assms(1,3)])
  then show ?thesis
    using assms(2,4,5)
    by (simp add: authenticate_def Let_def split_beta with_limiter_def rate_limited_def
        bearerPrefix_def has_prefix_def trim_prefix_def)
qed

theorem exhausted_address_throttled_witness:
  "\<exists>st'. authenticate countdown_ops [] 7 no_faults sample_push
     (sample_state\<lparr>as_limiter := Some (NewLimiter 5 3\<lparr>lim_failures :=
        [(''10.0.0.1'', \<lparr>fe_limiter = 0, fe_lastUsed = 7\<rparr>)]\<rparr>)\<rparr>) =
     (Inl (writeError StatusTooManyRequests CodeRateLimited msgRateLimited), st')"
proof -
  let ?l = "NewLimiter 5 3\<lparr>lim_failures := [(''10.0.0.1'', \<lparr>fe_limiter = 0 :: int, fe_lastUsed = 7\<rparr>)]\<rparr>"
  have ip: "client_ip sample_push [] = ''10.0.0.1''"
    by (simp add: client_ip_def clientip_From_def sample_push_def peer_info.truncate_def hostOnly_def
        split_host_def has_byte_def Let_def)
  have charge: "AllowAuthFailure countdown_ops 7 ''10.0.0.1'' ?l = (False, ?l)"
    by (simp add: AllowAuthFailure_def countdown_ops_def)
  show ?thesis
    by (rule exhausted_address_throttled [OF countdown_contract, where l = ?l and raw = "''tok''"])
      (simp_all add: ip charge, simp add: sample_push_def)
qed

text \<open>The map of failing addresses never holds more than its bound, whatever sequence of
  addresses fails or knocks.\<close>

theorem failure_map_bounded:
  assumes "limiter_inv l"
  shows "limiter_inv (snd (AllowAuthFailure ops now ip l)) \<and> limiter_inv (snd (AuthFailureBlocked ops now ip l)) \<and>
         limiter_inv (snd (Allow ops now p l)) \<and> limiter_inv (lim_Remove p l) \<and>
         length (lim_failures (snd (AllowAuthFailure ops now ip l))) \<le> 10000"
  using limiter_inv_AllowAuthFailure [OF assms] limiter_inv_AuthFailureBlocked [OF assms]
    limiter_inv_Allow [OF assms] limiter_inv_Remove [OF assms]
  by (simp add: limiter_inv_def maxTrackedAuthFailures_def)

theorem failure_map_bounded_witness:
  "length (lim_failures (snd (AllowAuthFailure countdown_ops 0 ''10.0.0.1'' (NewLimiter 5 3)))) \<le> 10000"
  using failure_map_bounded [OF limiter_inv_new] by blast

text \<open>An entry that a new address pushes out of the full map is one that no other entry is
  older than: an address that keeps failing or knocking keeps its block.\<close>

theorem evicts_least_recently_used:
  assumes "limiter_inv l" "map_of (lim_failures l) ip' = Some e" "ip' \<noteq> ip"
    "map_of (lim_failures (snd (AllowAuthFailure ops now ip l))) ip' = None"
    "map_of (lim_failures l) other = Some e'"
  shows "fe_lastUsed e \<le> fe_lastUsed e'"
proof -
  have "map_of (evict (lim_failures l)) ip' = None"
    using assms(2-4) by (auto simp: AllowAuthFailure_def Let_def map_of_put split: option.splits prod.splits)
  with assms show ?thesis by (intro evict_oldest) (auto simp: limiter_inv_def)
qed

definition full_map :: "(string, int failure_entry) gomap" where
  "full_map = map (\<lambda>i. (replicate i CHR ''a'', \<lparr>fe_limiter = 0, fe_lastUsed = int i\<rparr>)) [0..<maxTrackedAuthFailures]"

lemma full_map_facts:
  "wf_map full_map" "length full_map = maxTrackedAuthFailures" "map_of full_map ''x'' = None"
  "map_of full_map ''aaa'' = Some \<lparr>fe_limiter = 0, fe_lastUsed = 3\<rparr>"
proof -
  have keys: "keys full_map = map (\<lambda>i. replicate i CHR ''a'') [0..<maxTrackedAuthFailures]"
    by (simp add: full_map_def comp_def)
  show wf: "wf_map full_map"
    unfolding keys distinct_map by (auto intro: inj_onI dest: arg_cong [where f = length])
  show "length full_map = maxTrackedAuthFailures" by (simp add: full_map_def)
  have "''x'' \<noteq> replicate i CHR ''a''" for i by (cases i) auto
  then have "''x'' \<notin> set (keys full_map)" unfolding keys by auto
  then show "map_of full_map ''x'' = None" by (simp add: map_of_eq_None_iff)
  have "3 \<in> set [0..<maxTrackedAuthFailures]" by (simp add: maxTrackedAuthFailures_def del: upt_rec_numeral)
  then have "(replicate 3 CHR ''a'', \<lparr>fe_limiter = 0, fe_lastUsed = int 3\<rparr>) \<in> set full_map"
    unfolding full_map_def by (metis (no_types, lifting) imageI list.set_map)
  then have "(''aaa'', \<lparr>fe_limiter = 0, fe_lastUsed = 3\<rparr>) \<in> set full_map"
    by (simp add: numeral_3_eq_3)
  with wf show "map_of full_map ''aaa'' = Some \<lparr>fe_limiter = 0, fe_lastUsed = 3\<rparr>"
    by (rule map_of_is_SomeI)
qed

theorem evicts_least_recently_used_witness:
  "\<exists>ip' e. map_of full_map ip' = Some e \<and> fe_lastUsed e \<le> 3 \<and>
     map_of (lim_failures (snd (AllowAuthFailure countdown_ops 9 ''x'' (NewLimiter 5 3\<lparr>lim_failures := full_map\<rparr>)))) ip' = None"
proof -
  let ?l = "NewLimiter 5 3\<lparr>lim_failures := full_map\<rparr>"
  let ?k = "scan_oldest full_map [] 0 True"
  have inv: "limiter_inv ?l"
    using full_map_facts by (simp add: limiter_inv_def NewLimiter_def)
  have "full_map \<noteq> []" using full_map_facts(4) by auto
  from scan_oldest_min [OF this] obtain e where "(?k, e) \<in> set full_map" by blast
  then have k: "map_of full_map ?k = Some e" using full_map_facts(1) by (intro map_of_is_SomeI)
  then have kx: "?k \<noteq> ''x''" using full_map_facts(3) by auto
  have "evict full_map = map_del ?k full_map" by (simp add: evict_def full_map_facts(2))
  then have gone: "map_of (lim_failures (snd (AllowAuthFailure countdown_ops 9 ''x'' ?l))) ?k = None"
    using full_map_facts(3) kx by (simp add: AllowAuthFailure_def Let_def map_of_put map_of_del)
  have "fe_lastUsed e \<le> fe_lastUsed \<lparr>fe_limiter = 0 :: int, fe_lastUsed = 3\<rparr>"
    by (rule evicts_least_recently_used [OF inv _ kx gone, of e "''aaa''"]) (simp_all add: k full_map_facts(4))
  with k gone show ?thesis by auto
qed

section \<open>Attribution of a request to an address\<close>

text \<open>C7: Behind a trusted proxy, once the proxies have appended one untrusted address to
  X-Forwarded-For, nothing the client itself put in front of it changes the address the request
  is attributed to.\<close>

theorem spoofed_forwarded_ignored:
  assumes "nets_contain trusted (hostOnly (RemoteAddr r))"
    "first_untrusted trusted (rev (split_on CHR '','' appended)) = Some a"
  shows "clientip_From (r\<lparr>XForwardedFor := spoofed @ '','' @ appended\<rparr>) trusted = a \<and>
         clientip_From (r\<lparr>XForwardedFor := appended\<rparr>) trusted = a"
  using From_ignores_spoofed_prefix [OF assms] by blast

definition sample_proxies :: "ip_net list" where
  "sample_proxies = [\<lparr>n_IP = [10, 0, 0, 0], n_Mask = [255, 0, 0, 0]\<rparr>]"

theorem spoofed_forwarded_ignored_witness:
  "clientip_From \<lparr>RemoteAddr = ''10.0.0.1'', XForwardedFor = ''1.1.1.1'' @ '','' @ ''2.2.2.2''\<rparr> sample_proxies = ''2.2.2.2''"
proof -
  have "nets_contain sample_proxies (hostOnly ''10.0.0.1'')"
    "first_untrusted sample_proxies (rev (split_on CHR '','' ''2.2.2.2'')) = Some ''2.2.2.2''"
    by code_simp+
  with spoofed_forwarded_ignored [of sample_proxies "\<lparr>RemoteAddr = ''10.0.0.1'', XForwardedFor = []\<rparr>" "''2.2.2.2''"
      "''2.2.2.2''" "''1.1.1.1''"]
  show ?thesis by simp
qed

text \<open>A peer outside the trusted networks cannot choose its address: the header is ignored
  and the peer's own address is used.\<close>

theorem untrusted_peer_header_ignored:
  assumes "\<not> nets_contain trusted (hostOnly (RemoteAddr r))"
  shows "clientip_From (r\<lparr>XForwardedFor := h\<rparr>) trusted = hostOnly (RemoteAddr r)"
  using From_untrusted_peer [of trusted "r\<lparr>XForwardedFor := h\<rparr>"] assms by simp

theorem untrusted_peer_header_ignored_witness:
  "clientip_From (\<lparr>RemoteAddr = ''9.9.9.9:1'', XForwardedFor = []\<rparr>\<lparr>XForwardedFor := ''1.1.1.1''\<rparr>) sample_proxies = hostOnly ''9.9.9.9:1''"
proof -
  have "\<not> nets_contain sample_proxies (hostOnly ''9.9.9.9:1'')" by code_simp
  with untrusted_peer_header_ignored [of sample_proxies "\<lparr>RemoteAddr = ''9.9.9.9:1'', XForwardedFor = []\<rparr>" "''1.1.1.1''"]
  show ?thesis by simp
qed

end
