(* ===== verification/Expiring_Store.thy ===== *)
theory Expiring_Store
  imports Gateway_Prelude
begin

text \<open>
  The contract of a store of secrets that expire, which the portal's one-shot token slots and
  the admin sessions both keep: a secret opens an entry only if it was issued and has not
  expired, and using one secret does not disturb another.  What follows for any interleaving
  of uses is proved once here.
\<close>

datatype 'e access = Issue string 'e | Redeem string

fun issues_of :: "string \<Rightarrow> 'e access \<Rightarrow> bool" where
  "issues_of k (Issue k' e) = (k' = k)"
| "issues_of k (Redeem k') = False"

locale expiring_store =
  fixes entries :: "'s \<Rightarrow> string \<Rightarrow> 'e option"
    and expires :: "'e \<Rightarrow> int"
    and issue :: "int \<Rightarrow> string \<Rightarrow> 'e \<Rightarrow> 's \<Rightarrow> bool \<times> 's"
    and redeem :: "int \<Rightarrow> string \<Rightarrow> 's \<Rightarrow> 'e option \<times> 's"
    and ok :: "'s \<Rightarrow> bool"
  assumes issue_entries: "ok s \<Longrightarrow> entries (snd (issue t k e s)) k' =
      (if fst (issue t k e s) \<and> k' = k then Some e
       else case entries s k' of Some x \<Rightarrow> if expires x < t then None else Some x | None \<Rightarrow> None)"
    and redeem_live: "ok s \<Longrightarrow> fst (redeem t k s) = Some e \<Longrightarrow> \<exists>x. entries s k = Some x \<and> t \<le> expires x"
    and redeem_other: "ok s \<Longrightarrow> k' \<noteq> k \<Longrightarrow> entries (snd (redeem t k s)) k' = entries s k'"
    and redeem_refused: "ok s \<Longrightarrow> fst (redeem t k s) = None \<Longrightarrow> entries (snd (redeem t k s)) k \<in> {None, entries s k}"
    and issue_ok: "ok s \<Longrightarrow> ok (snd (issue t k e s))"
    and redeem_ok: "ok s \<Longrightarrow> ok (snd (redeem t k s))"
begin

text \<open>What the uses of one secret in a timed sequence of accesses obtain.\<close>

fun gained :: "string \<Rightarrow> (int \<times> 'e access) list \<Rightarrow> 's \<Rightarrow> 'e list" where
  "gained k [] s = []"
| "gained k ((t, Issue k' e) # evs) s = gained k evs (snd (issue t k' e s))"
| "gained k ((t, Redeem k') # evs) s =
     (case fst (redeem t k' s) of Some e \<Rightarrow> if k' = k then [e] else [] | None \<Rightarrow> []) @
     gained k evs (snd (redeem t k' s))"

fun after :: "(int \<times> 'e access) list \<Rightarrow> 's \<Rightarrow> 's" where
  "after [] s = s"
| "after ((t, Issue k' e) # evs) s = after evs (snd (issue t k' e s))"
| "after ((t, Redeem k') # evs) s = after evs (snd (redeem t k' s))"

lemma after_ok: "ok s \<Longrightarrow> ok (after evs s)"
  by (induction evs s rule: after.induct) (simp_all add: issue_ok redeem_ok)

lemma redeem_absent: "ok s \<Longrightarrow> entries s k = None \<Longrightarrow> fst (redeem t k s) = None"
  using redeem_live [of s t k] by (cases "fst (redeem t k s)") auto

lemma redeem_keeps_absent:
  "ok s \<Longrightarrow> entries s k = None \<Longrightarrow> entries (snd (redeem t k' s)) k = None"
  using redeem_other [of s k k' t] redeem_refused [of s t k] redeem_absent [of s k t] by (cases "k' = k") auto

text \<open>A secret that is not in the store stays useless until it is issued.\<close>

lemma absent_gains_nothing:
  "ok s \<Longrightarrow> entries s k = None \<Longrightarrow> list_all (\<lambda>(t, a). \<not> issues_of k a) evs \<Longrightarrow> gained k evs s = []"
proof (induction k evs s rule: gained.induct)
  case (2 k t k' e evs s)
  then show ?case by (auto simp: issue_entries issue_ok)
next
  case (3 k t k' evs s)
  then show ?case
    using redeem_absent [of s k t] by (auto simp: redeem_ok redeem_keeps_absent split: option.splits)
qed simp

text \<open>Once its time is over a secret is useless for good, unless it is issued anew.\<close>

lemma expired_gains_nothing:
  "ok s \<Longrightarrow> entries s k = Some x \<Longrightarrow> expires x < t0 \<Longrightarrow>
   list_all (\<lambda>(t, a). t0 \<le> t \<and> \<not> issues_of k a) evs \<Longrightarrow> gained k evs s = []"
proof (induction k evs s rule: gained.induct)
  case (2 k t k' e evs s)
  then have "gained k evs (snd (issue t k' e s)) = []"
    by (intro absent_gains_nothing) (auto simp: issue_entries issue_ok list_all_iff)
  then show ?case by simp
next
  case (3 k t k' evs s)
  show ?case
  proof (cases "k' = k")
    case True
    from 3 have t: "expires x < t" by simp
    have none: "fst (redeem t k s) = None"
      using redeem_live [OF "3.prems"(1), of t k] "3.prems"(2) t by (cases "fst (redeem t k s)") auto
    from redeem_refused [OF "3.prems"(1) none] "3.prems"(2)
    have "entries (snd (redeem t k s)) k = None \<or> entries (snd (redeem t k s)) k = Some x" by auto
    then have "gained k evs (snd (redeem t k s)) = []"
    proof
      assume "entries (snd (redeem t k s)) k = None"
      with 3 show ?thesis by (intro absent_gains_nothing) (auto simp: redeem_ok list_all_iff)
    next
      assume "entries (snd (redeem t k s)) k = Some x"
      with 3 True show ?thesis by (simp add: redeem_ok)
    qed
    with True none show ?thesis by simp
  next
    case False
    with 3 show ?thesis by (auto simp: redeem_ok redeem_other split: option.splits)
  qed
qed simp

end

text \<open>A one-shot store hands out the stored entry, and only once.\<close>

locale one_shot = expiring_store +
  assumes redeem_entry: "ok s \<Longrightarrow> fst (redeem t k s) = Some e \<Longrightarrow> entries s k = Some e"
    and redeem_once: "ok s \<Longrightarrow> fst (redeem t k s) = Some e \<Longrightarrow> entries (snd (redeem t k s)) k = None"
begin

lemma gained_at_most_once:
  "ok s \<Longrightarrow> list_all (\<lambda>(t, a). \<not> issues_of k a) evs \<Longrightarrow>
   gained k evs s = [] \<or> (\<exists>e. gained k evs s = [e] \<and> entries s k = Some e)"
proof (induction k evs s rule: gained.induct)
  case (2 k t k' e evs s)
  then show ?case by (auto simp: issue_entries issue_ok split: option.splits if_splits)
next
  case (3 k t k' evs s)
  show ?case
  proof (cases "k' = k \<and> fst (redeem t k s) \<noteq> None")
    case True
    then obtain e where e: "fst (redeem t k s) = Some e" by auto
    have "gained k evs (snd (redeem t k s)) = []"
      using 3 redeem_once [OF "3.prems"(1) e] by (intro absent_gains_nothing) (auto simp: redeem_ok)
    with True e redeem_entry [OF "3.prems"(1) e] show ?thesis by auto
  next
    case False
    then have g: "gained k ((t, Redeem k') # evs) s = gained k evs (snd (redeem t k' s))"
      by (auto split: option.splits)
    have "entries (snd (redeem t k' s)) k = Some e \<Longrightarrow> entries s k = Some e" for e
      using False redeem_other [OF "3.prems"(1), of k k' t] redeem_refused [OF "3.prems"(1), of t k]
      by (cases "k' = k") auto
    with 3 g show ?thesis by (fastforce simp: redeem_ok)
  qed
qed simp

text \<open>Until it is used or its time is over, an issued secret waits for its owner.\<close>

lemma waits_for_owner:
  "ok s \<Longrightarrow> entries s k = Some e \<Longrightarrow>
   list_all (\<lambda>(t, a). t \<le> expires e \<and> a \<noteq> Redeem k \<and> \<not> issues_of k a) evs \<Longrightarrow> entries (after evs s) k = Some e"
proof (induction evs s rule: after.induct)
  case (2 t k' e' evs s)
  then show ?case by (auto simp: issue_entries issue_ok)
next
  case (3 t k' evs s)
  then show ?case by (auto simp: redeem_ok redeem_other)
qed simp

end

end
