(* ===== verification/Go_URL.thy ===== *)
theory Go_URL
  imports Net_IP Go_Mime
begin

text \<open>
  The part of Go's \<open>net/url\<close> the web interfaces call: \<open>ParseQuery\<close> for form bodies and
  query strings, and \<open>Parse\<close> as far as the host of an origin depends on it.
\<close>

section \<open>Query strings\<close>

type_synonym url_values = "(string, string list) gomap"

text \<open>\<open>QueryUnescape\<close>: \<open>%XX\<close> and \<open>+\<close>; \<open>None\<close> when an escape is malformed.\<close>

fun QueryUnescape :: "string \<Rightarrow> string option" where
  "QueryUnescape [] = Some []"
| "QueryUnescape (c # r) =
     (if c = CHR ''%'' then
        (case r of
           a # b # r2 \<Rightarrow>
             (case (hex_digit_val a, hex_digit_val b) of
                (Some x, Some y) \<Rightarrow> map_option (\<lambda>s. byte (16 * x + y) # s) (QueryUnescape r2)
              | _ \<Rightarrow> None)
         | _ \<Rightarrow> None)
      else map_option (\<lambda>s. (if c = CHR ''+'' then CHR '' '' else c) # s) (QueryUnescape r))"

text \<open>\<open>strings.Cut\<close> at a byte: what is before it and what is after it.\<close>

definition cut :: "char \<Rightarrow> string \<Rightarrow> string \<times> string" where
  "cut sep s = (takeWhile (\<lambda>c. c \<noteq> sep) s, tl (dropWhile (\<lambda>c. c \<noteq> sep) s))"

definition add_value :: "string \<Rightarrow> string \<Rightarrow> url_values \<Rightarrow> url_values" where
  "add_value k v m = map_put k (or_zero (map_of m k) [] @ [v]) m"

text \<open>
  One setting after another: a bad one is skipped and makes the whole parse report an error,
  next to the values of the others.
\<close>

fun parse_pairs :: "string list \<Rightarrow> url_values \<Rightarrow> bool \<Rightarrow> url_values \<times> bool" where
  "parse_pairs [] m err = (m, err)"
| "parse_pairs (kv # kvs) m err =
     (if CHR '';'' \<in> set kv then parse_pairs kvs m True
      else if kv = [] then parse_pairs kvs m err
      else case (QueryUnescape (fst (cut CHR ''='' kv)), QueryUnescape (snd (cut CHR ''='' kv))) of
             (Some k, Some v) \<Rightarrow> parse_pairs kvs (add_value k v m) err
           | _ \<Rightarrow> parse_pairs kvs m True)"

definition ParseQuery :: "string \<Rightarrow> url_values \<times> bool" where
  "ParseQuery s = parse_pairs (split_on CHR ''&'' s) [] False"

text \<open>\<open>Values.Get\<close>: the first value, or the empty string.\<close>

definition values_Get :: "url_values \<Rightarrow> string \<Rightarrow> string" where
  "values_Get m k = (case map_of m k of Some (v # _) \<Rightarrow> v | _ \<Rightarrow> [])"

section \<open>The host of a URL\<close>

text \<open>\<open>getScheme\<close>: the scheme and the rest; \<open>None\<close> is its error (a leading colon).\<close>

fun get_scheme :: "nat \<Rightarrow> string \<Rightarrow> string \<Rightarrow> string \<Rightarrow> (string \<times> string) option" where
  "get_scheme i acc [] raw = Some ([], raw)"
| "get_scheme i acc (c # r) raw =
     (if is_lower c \<or> is_upper c then get_scheme (Suc i) (c # acc) r raw
      else if is_digit c \<or> c \<in> set ''+-.'' then
        (if i = 0 then Some ([], raw) else get_scheme (Suc i) (c # acc) r raw)
      else if c = CHR '':'' then (if i = 0 then None else Some (rev acc, r))
      else Some ([], raw))"

text \<open>Unescaping the path and the fragment checks every escape; a \<open>+\<close> stays itself.\<close>

fun escapes_ok :: "string \<Rightarrow> bool" where
  "escapes_ok [] = True"
| "escapes_ok (c # r) =
     (if c = CHR ''%'' then
        (case r of
           a # b # r2 \<Rightarrow> hex_digit_val a \<noteq> None \<and> hex_digit_val b \<noteq> None \<and> escapes_ok r2
         | _ \<Rightarrow> False)
      else escapes_ok r)"

text \<open>
  Unescaping a host: an escape may only stand for a byte beyond ASCII, and a byte of ASCII
  must be one that a host may hold.
\<close>

definition host_byte_ok :: "char \<Rightarrow> bool" where
  "host_byte_ok c \<longleftrightarrow>
     code c \<ge> 128 \<or> is_lower c \<or> is_upper c \<or> is_digit c \<or> c \<in> set ''-_.~!$&()*+,;=:[]<>'' \<or> code c = 34 \<or> code c = 39"

fun unescape_host :: "string \<Rightarrow> string option" where
  "unescape_host [] = Some []"
| "unescape_host (c # r) =
     (if c = CHR ''%'' then
        (case r of
           a # b # r2 \<Rightarrow>
             (case (hex_digit_val a, hex_digit_val b) of
                (Some x, Some y) \<Rightarrow>
                  (if x < 8 \<and> [a, b] \<noteq> ''25'' then None
                   else map_option (\<lambda>s. byte (16 * x + y) # s) (unescape_host r2))
              | _ \<Rightarrow> None)
         | _ \<Rightarrow> None)
      else if \<not> host_byte_ok c then None
      else map_option (\<lambda>s. c # s) (unescape_host r))"

definition valid_port :: "string \<Rightarrow> bool" where
  "valid_port p \<longleftrightarrow> p = [] \<or> (hd p = CHR '':'' \<and> list_all is_digit (tl p))"

text \<open>What follows the last occurrence of a byte, with what precedes it.\<close>

definition cut_last :: "char \<Rightarrow> string \<Rightarrow> (string \<times> string) option" where
  "cut_last sep s =
     (if sep \<notin> set s then None
      else (let after = rev (takeWhile (\<lambda>c. c \<noteq> sep) (rev s)) in
            Some (take (length s - Suc (length after)) s, after)))"

text \<open>
  A bracketed host is an IPv6 literal, here without a zone; any other host has at most a
  port after its last colon.
\<close>

definition parse_host :: "string \<Rightarrow> string option" where
  "parse_host host =
     (if take 1 host = ''['' then
        (case cut_last CHR '']'' host of
           None \<Rightarrow> None
         | Some (inner, port) \<Rightarrow>
             (if valid_port port \<and> parse_v6 (tl inner) \<noteq> None then Some host else None))
      else
        (case cut_last CHR '':'' host of
           Some (_, port) \<Rightarrow> (if list_all is_digit port then unescape_host host else None)
         | None \<Rightarrow> unescape_host host))"

definition userinfo_byte_ok :: "char \<Rightarrow> bool" where
  "userinfo_byte_ok c \<longleftrightarrow>
     is_lower c \<or> is_upper c \<or> is_digit c \<or> c \<in> set ''-._:~!$&()*+,;=%@'' \<or> code c = 39"

definition parse_authority :: "string \<Rightarrow> string option" where
  "parse_authority a =
     (case cut_last CHR ''@'' a of
        None \<Rightarrow> parse_host a
      | Some (user, host) \<Rightarrow>
          (case parse_host host of
             None \<Rightarrow> None
           | Some h \<Rightarrow> if list_all userinfo_byte_ok user \<and> escapes_ok user then Some h else None))"

definition url_Host :: "string \<Rightarrow> string option" where
  "url_Host raw =
     (let (u, frag) = cut CHR ''#'' raw in
      if \<exists>c \<in> set u. code c < 32 \<or> code c = 127 then None
      else if \<not> escapes_ok frag then None
      else if u = ''*'' then Some []
      else
        (case get_scheme 0 [] u u of
           None \<Rightarrow> None
         | Some (scheme, rest0) \<Rightarrow>
             (let rest = takeWhile (\<lambda>c. c \<noteq> CHR ''?'') rest0 in
              if take 1 rest \<noteq> ''/'' then
                (if scheme \<noteq> [] then Some []
                 else if CHR '':'' \<in> set (takeWhile (\<lambda>c. c \<noteq> CHR ''/'') rest) then None
                 else if escapes_ok rest then Some [] else None)
              else if (scheme \<noteq> [] \<or> take 3 rest \<noteq> ''///'') \<and> take 2 rest = ''//'' then
                (let authority = takeWhile (\<lambda>c. c \<noteq> CHR ''/'') (drop 2 rest);
                     path = drop (2 + length authority) rest in
                 case parse_authority authority of
                   None \<Rightarrow> None
                 | Some h \<Rightarrow> if escapes_ok path then Some h else None)
              else if escapes_ok rest then Some [] else None)))"

text \<open>The host of a plain origin is what stands between the slashes.\<close>

lemma url_Host_examples:
  "url_Host ''https://probe.example.cn'' = Some ''probe.example.cn''"
  "url_Host ''http://10.0.0.1:8080/x?y#z'' = Some ''10.0.0.1:8080''"
  "url_Host ''https://a@b.example/'' = Some ''b.example''"
  "url_Host ''null'' = Some []" "url_Host ''http://b ad/'' = None" "url_Host [] = Some []"
  by code_simp+

lemma ParseQuery_examples:
  "ParseQuery ''a=1&b=x+y%21&a=2'' = ([(''a'', [''1'', ''2'']), (''b'', [''x y!''])], False)"
  "snd (ParseQuery ''a=1;b=2'')" "snd (ParseQuery ''a=%zz'')" "ParseQuery [] = ([], False)"
  by code_simp+

end
