(* ===== verification/Go_Regexp.thy ===== *)
theory Go_Regexp
  imports Go_Bytes
begin

text \<open>
  Go's \<open>regexp\<close> for the anchored patterns of the gateway: the pattern as a term, its language
  as an inductive predicate, and a matcher by derivatives that decides it.  Every class in
  these patterns is ASCII, so matching bytes and matching runes agree.
\<close>

section \<open>Patterns and their language\<close>

datatype rx =
    REmpty
  | RNone
  | RClass "(nat \<times> nat) list"
  | RSeq rx rx
  | RAlt rx rx
  | RStar rx

definition in_class :: "(nat \<times> nat) list \<Rightarrow> char \<Rightarrow> bool" where
  "in_class cls c \<longleftrightarrow> list_ex (\<lambda>(lo, hi). lo \<le> code c \<and> code c \<le> hi) cls"

inductive rx_lang :: "rx \<Rightarrow> string \<Rightarrow> bool" where
  lang_empty: "rx_lang REmpty []"
| lang_class: "in_class cls c \<Longrightarrow> rx_lang (RClass cls) [c]"
| lang_seq: "rx_lang r s \<Longrightarrow> rx_lang q t \<Longrightarrow> rx_lang (RSeq r q) (s @ t)"
| lang_alt1: "rx_lang r s \<Longrightarrow> rx_lang (RAlt r q) s"
| lang_alt2: "rx_lang q s \<Longrightarrow> rx_lang (RAlt r q) s"
| lang_star_nil: "rx_lang (RStar r) []"
| lang_star_step: "rx_lang r s \<Longrightarrow> rx_lang (RStar r) t \<Longrightarrow> rx_lang (RStar r) (s @ t)"

inductive_simps lang_empty_iff [simp]: "rx_lang REmpty s"
inductive_simps lang_none_iff [simp]: "rx_lang RNone s"
inductive_simps lang_class_iff: "rx_lang (RClass cls) s"
inductive_simps lang_seq_iff: "rx_lang (RSeq r q) s"
inductive_simps lang_alt_iff: "rx_lang (RAlt r q) s"
inductive_cases lang_starE: "rx_lang (RStar r) s"

section \<open>The matcher\<close>

primrec rx_nullable :: "rx \<Rightarrow> bool" where
  "rx_nullable REmpty = True"
| "rx_nullable RNone = False"
| "rx_nullable (RClass cls) = False"
| "rx_nullable (RSeq r q) = (rx_nullable r \<and> rx_nullable q)"
| "rx_nullable (RAlt r q) = (rx_nullable r \<or> rx_nullable q)"
| "rx_nullable (RStar r) = True"

primrec rx_deriv :: "char \<Rightarrow> rx \<Rightarrow> rx" where
  "rx_deriv c REmpty = RNone"
| "rx_deriv c RNone = RNone"
| "rx_deriv c (RClass cls) = (if in_class cls c then REmpty else RNone)"
| "rx_deriv c (RSeq r q) =
     (if rx_nullable r then RAlt (RSeq (rx_deriv c r) q) (rx_deriv c q) else RSeq (rx_deriv c r) q)"
| "rx_deriv c (RAlt r q) = RAlt (rx_deriv c r) (rx_deriv c q)"
| "rx_deriv c (RStar r) = RSeq (rx_deriv c r) (RStar r)"

fun MatchString :: "rx \<Rightarrow> string \<Rightarrow> bool" where
  "MatchString r [] = rx_nullable r"
| "MatchString r (c # s) = MatchString (rx_deriv c r) s"

lemma rx_nullable_iff: "rx_nullable r \<longleftrightarrow> rx_lang r []"
  by (induction r) (auto simp: lang_class_iff lang_seq_iff lang_alt_iff intro: lang_star_nil)

text \<open>A non-empty word of a star starts with a non-empty round.\<close>

lemma lang_star_Cons:
  "rx_lang (RStar r) w \<Longrightarrow> w = c # s \<Longrightarrow> \<exists>u v. s = u @ v \<and> rx_lang r (c # u) \<and> rx_lang (RStar r) v"
proof (induction "RStar r" w arbitrary: s rule: rx_lang.induct)
  case (lang_star_step x t)
  show ?case
  proof (cases x)
    case Nil
    with lang_star_step show ?thesis by simp
  next
    case (Cons d u)
    with lang_star_step show ?thesis by auto
  qed
qed simp

lemma rx_deriv_iff: "rx_lang (rx_deriv c r) s \<longleftrightarrow> rx_lang r (c # s)"
proof (induction r arbitrary: s)
  case (RSeq r q)
  have split: "rx_lang (RSeq r q) (c # s) \<longleftrightarrow>
      (\<exists>u t. s = u @ t \<and> rx_lang r (c # u) \<and> rx_lang q t) \<or> (rx_lang r [] \<and> rx_lang q (c # s))"
    unfolding lang_seq_iff by (auto simp: Cons_eq_append_conv)
  show ?case unfolding split by (auto simp: lang_seq_iff lang_alt_iff RSeq.IH rx_nullable_iff)
next
  case (RStar r)
  show ?case
  proof
    assume "rx_lang (rx_deriv c (RStar r)) s"
    then obtain u v where "s = u @ v" "rx_lang r (c # u)" "rx_lang (RStar r) v"
      by (auto simp: lang_seq_iff RStar.IH)
    then show "rx_lang (RStar r) (c # s)" using lang_star_step [of r "c # u" v] by simp
  next
    assume "rx_lang (RStar r) (c # s)"
    then show "rx_lang (rx_deriv c (RStar r)) s"
      by (auto simp: lang_seq_iff RStar.IH dest: lang_star_Cons)
  qed
qed (auto simp: lang_class_iff lang_alt_iff)

theorem MatchString_iff: "MatchString r s \<longleftrightarrow> rx_lang r s"
  by (induction r s rule: MatchString.induct) (simp_all add: rx_nullable_iff rx_deriv_iff)

declare MatchString.simps [simp del]

section \<open>Repetition\<close>

definition RPlus :: "rx \<Rightarrow> rx" where
  "RPlus r = RSeq r (RStar r)"

fun rx_repeat :: "rx \<Rightarrow> nat \<Rightarrow> nat \<Rightarrow> rx" where
  "rx_repeat r 0 0 = REmpty"
| "rx_repeat r (Suc lo) 0 = RNone"
| "rx_repeat r 0 (Suc hi) = RAlt REmpty (RSeq r (rx_repeat r 0 hi))"
| "rx_repeat r (Suc lo) (Suc hi) = RSeq r (rx_repeat r lo hi)"

lemma lang_class_seq:
  "rx_lang (RSeq (RClass cls) q) s \<longleftrightarrow> (\<exists>c t. s = c # t \<and> in_class cls c \<and> rx_lang q t)"
  by (auto simp: lang_seq_iff lang_class_iff) (metis append_Cons append_Nil)

lemma lang_repeat_class:
  "rx_lang (rx_repeat (RClass cls) lo hi) s \<longleftrightarrow> lo \<le> length s \<and> length s \<le> hi \<and> list_all (in_class cls) s"
proof (induction "RClass cls" lo hi arbitrary: s rule: rx_repeat.induct)
  case (3 hi)
  then show ?case by (cases s) (auto simp: lang_alt_iff lang_class_seq)
next
  case (4 lo hi)
  then show ?case by (cases s) (auto simp: lang_class_seq)
qed auto

lemma star_class_all: "rx_lang r s \<Longrightarrow> r = RStar (RClass cls) \<Longrightarrow> list_all (in_class cls) s"
  by (induction rule: rx_lang.induct) (auto simp: lang_class_iff)

lemma lang_star_class: "rx_lang (RStar (RClass cls)) s \<longleftrightarrow> list_all (in_class cls) s"
proof
  assume "list_all (in_class cls) s"
  then show "rx_lang (RStar (RClass cls)) s"
  proof (induction s)
    case (Cons c s)
    then have "rx_lang (RStar (RClass cls)) ([c] @ s)"
      by (intro lang_star_step lang_class) simp_all
    then show ?case by simp
  qed (rule lang_star_nil)
qed (simp add: star_class_all)

lemma lang_plus_class: "rx_lang (RPlus (RClass cls)) s \<longleftrightarrow> s \<noteq> [] \<and> list_all (in_class cls) s"
  by (cases s) (auto simp: RPlus_def lang_class_seq lang_star_class)

text \<open>A predicate that the empty word and every appended round satisfy holds of a star's words.\<close>

lemma lang_star_induct:
  assumes "rx_lang (RStar r) s" "P []" "\<And>u v. rx_lang r u \<Longrightarrow> P v \<Longrightarrow> P (u @ v)"
  shows "P s"
  using assms(1) by (induction "RStar r" s rule: rx_lang.induct) (simp_all add: assms)

end
