(* ===== verification/Web_Base.thy ===== *)
theory Web_Base
  imports Api_Base Go_URL Go_Regexp
begin

text \<open>
  What the two web interfaces share: \<open>internal/webui/webui.go\<close> and the parts of
  \<open>net/http\<close> their handlers call (forms, cookies, redirects, plain errors).  A page is the
  data handed to its template; executing a template is \<open>html/template\<close> on files that are
  not Go code, so whether it succeeds is the parameter \<open>exec\<close>.
\<close>

section \<open>Requests\<close>

text \<open>
  A request of the public listener: what the push API reads, and the query string, the
  Origin header and the parsed cookies the web interfaces read besides.
\<close>

record web_request = http_request +
  wq_RawQuery :: string
  wq_Origin :: string
  wq_Cookies :: "(string \<times> string) list"

definition Cookie :: "string \<Rightarrow> web_request \<Rightarrow> string option" where
  "Cookie name rq = map_of (wq_Cookies rq) name"

definition maxFormSize :: nat where "maxFormSize = 10485760"

text \<open>
  \<open>ParseForm\<close>: the posted values, and whether it returns an error.  Every handler that reads a
  form has called it first, so \<open>PostFormValue\<close> never goes on to read a multipart body.
\<close>

definition parsePostForm :: "web_request \<Rightarrow> url_values \<times> bool" where
  "parsePostForm rq =
     (if rq_Method rq \<notin> {''POST'', ''PUT'', ''PATCH''} then ([], False)
      else
        (let (mt, err) = ParseMediaType
               (if rq_ContentType rq = [] then ''application/octet-stream'' else rq_ContentType rq) in
         if mt \<noteq> ''application/x-www-form-urlencoded'' then ([], err)
         else if rq_BodyFails rq \<or> length (rq_Body rq) > maxFormSize then ([], True)
         else (let (vs, e) = ParseQuery (rq_Body rq) in (vs, err \<or> e))))"

definition ParseForm_fails :: "web_request \<Rightarrow> bool" where
  "ParseForm_fails rq \<longleftrightarrow> snd (parsePostForm rq) \<or> snd (ParseQuery (wq_RawQuery rq))"

definition PostForm :: "web_request \<Rightarrow> url_values" where
  "PostForm rq = fst (parsePostForm rq)"

definition PostFormValue :: "web_request \<Rightarrow> string \<Rightarrow> string" where
  "PostFormValue rq k = values_Get (PostForm rq) k"

definition trimmed_value :: "web_request \<Rightarrow> string \<Rightarrow> string" where
  "trimmed_value rq k = trim_space (PostFormValue rq k)"

definition QueryValue :: "web_request \<Rightarrow> string \<Rightarrow> string" where
  "QueryValue rq k = values_Get (fst (ParseQuery (wq_RawQuery rq))) k"

text \<open>Text beyond ASCII, by its UTF-8 bytes.\<close>

definition text_bytes :: "nat list \<Rightarrow> string" where
  "text_bytes ns = map byte ns"

lemma text_bytes_Nil [simp]: "text_bytes ns = [] \<longleftrightarrow> ns = []"
  by (simp add: text_bytes_def)

section \<open>Responses\<close>

text \<open>A page carries the data of its package's template: \<open>'p\<close>.\<close>

record 'p page_data =
  pd_Title :: string
  pd_Username :: string
  pd_CSRF :: string
  pd_Error :: string
  pd_Pages :: 'p

datatype 'p web_body = NoBody | PlainText string | Page string "'p page_data"

record session_cookie =
  ck_Name :: string
  ck_Value :: string
  ck_Path :: string
  ck_MaxAge :: int
  ck_HttpOnly :: bool
  ck_Lax :: bool
  ck_Secure :: bool

record 'p web_response =
  wp_Status :: int
  wp_Location :: "string option"
  wp_SetCookie :: "session_cookie option"
  wp_Body :: "'p web_body"

definition StatusSeeOther :: int where "StatusSeeOther = 303"
definition StatusNotFound :: int where "StatusNotFound = 404"
definition StatusGone :: int where "StatusGone = 410"

lemmas web_status_defs = status_defs StatusSeeOther_def StatusNotFound_def StatusGone_def

definition http_Error :: "string \<Rightarrow> int \<Rightarrow> 'p web_response" where
  "http_Error msg status =
     \<lparr>wp_Status = status, wp_Location = None, wp_SetCookie = None, wp_Body = PlainText msg\<rparr>"

definition NotFound :: "'p web_response" where
  "NotFound = http_Error ''404 page not found'' StatusNotFound"

definition Redirect :: "string \<Rightarrow> 'p web_response" where
  "Redirect url =
     \<lparr>wp_Status = StatusSeeOther, wp_Location = Some url, wp_SetCookie = None, wp_Body = NoBody\<rparr>"

definition internal_error :: "'p web_response" where
  "internal_error = http_Error ''internal error'' StatusInternalServerError"

text \<open>
  \<open>Render\<close>: into a buffer first, so that a template that fails leaves an empty 500 and
  nothing of the page.
\<close>

definition Render :: "string list \<Rightarrow> (string \<Rightarrow> 'p page_data \<Rightarrow> bool) \<Rightarrow> int \<Rightarrow> string \<Rightarrow> 'p page_data \<Rightarrow>
    'p web_response" where
  "Render templates exec status page data =
     (if page \<notin> set templates then http_Error ''template not found'' StatusInternalServerError
      else if \<not> exec page data then
        \<lparr>wp_Status = StatusInternalServerError, wp_Location = None, wp_SetCookie = None, wp_Body = NoBody\<rparr>
      else \<lparr>wp_Status = status, wp_Location = None, wp_SetCookie = None, wp_Body = Page page data\<rparr>)"

lemma web_response_sel [simp]:
  "wp_Status (http_Error m s) = s" "wp_Location (http_Error m s) = None"
  "wp_Status (Redirect u) = StatusSeeOther" "wp_Location (Redirect u) = Some u"
  "wp_Body (Redirect u) = NoBody" "wp_Body (http_Error m s) = PlainText m"
  "wp_Location (Render ts ex st p d) = None"
  "wp_SetCookie (Render ts ex st p d) = None" "wp_SetCookie (http_Error m s) = None" "wp_SetCookie (Redirect u) = None"
  by (simp_all add: http_Error_def Redirect_def Render_def)

text \<open>A page is rendered whole or not at all.\<close>

lemma Render_body:
  "wp_Body (Render ts ex st p d) = Page q e \<longleftrightarrow> q = p \<and> e = d \<and> p \<in> set ts \<and> ex p d"
  by (auto simp: Render_def http_Error_def)

section \<open>Display helpers of the templates\<close>

fun join_loop :: "nat \<Rightarrow> string \<Rightarrow> string list \<Rightarrow> string" where
  "join_loop i out [] = out"
| "join_loop i out (p # ps) = join_loop (Suc i) ((if i > 0 then out @ '', '' else out) @ p) ps"

definition webui_join :: "string list \<Rightarrow> string" where
  "webui_join parts = join_loop 0 [] parts"

text \<open>It is the usual join: the parts with a separator between them.\<close>

fun separated :: "string list \<Rightarrow> string" where
  "separated [] = []"
| "separated [p] = p"
| "separated (p # q # ps) = p @ '', '' @ separated (q # ps)"

lemma join_loop_concat: "join_loop (Suc i) out ps = out @ concat (map (\<lambda>p. '', '' @ p) ps)"
  by (induction ps arbitrary: i out) simp_all

lemma separated_concat: "separated (p # ps) = p @ concat (map (\<lambda>p. '', '' @ p) ps)"
  by (induction ps arbitrary: p) simp_all

lemma webui_join_separated: "webui_join ps = separated ps"
  by (cases ps) (simp_all add: webui_join_def join_loop_concat separated_concat)

section \<open>Random identifiers\<close>

text \<open>
  \<open>rnd\<close> gives the bytes of one call of \<open>crypto/rand.Read\<close>, or its failure, as for
  \<open>token.Generate\<close>.
\<close>

definition randomString :: "nat \<Rightarrow> (nat \<Rightarrow> string option) \<Rightarrow> string option" where
  "randomString n rnd = map_option b64url (rnd n)"

lemma randomString_safe: "randomString n rnd = Some s \<Longrightarrow> list_all url_safe s"
  by (auto simp: randomString_def b64url_safe)

section \<open>Codes and network types\<close>

text \<open>Both interfaces constrain what reaches a metric label or a probe ID the same way.\<close>

definition codePattern :: rx where
  "codePattern = rx_repeat (RClass [(97, 122), (48, 57), (95, 95)]) 1 16"

definition networkTypes :: "string list" where
  "networkTypes = [''wired'', ''wireless'']"

definition probeIDRandomBytes :: nat where "probeIDRandomBytes = 3"

definition code_char :: "char \<Rightarrow> bool" where
  "code_char c \<longleftrightarrow> is_lower c \<or> is_digit c \<or> c = CHR ''_''"

lemma codePattern_iff:
  "MatchString codePattern s \<longleftrightarrow> 1 \<le> length s \<and> length s \<le> 16 \<and> list_all code_char s"
proof -
  have "in_class [(97, 122), (48, 57), (95, 95)] c \<longleftrightarrow> code_char c" for c
    using code_inject [of c "CHR ''_''"] by (auto simp: in_class_def code_char_def is_lower_def is_digit_def code_def)
  then have "in_class [(97, 122), (48, 57), (95, 95)] = code_char" by (rule ext)
  then show ?thesis by (simp add: codePattern_def MatchString_iff lang_repeat_class)
qed

text \<open>\<open>{campus}-{building}-{6 hex}\<close>.\<close>

definition generateProbeID :: "string \<Rightarrow> string \<Rightarrow> (nat \<Rightarrow> string option) \<Rightarrow> string option" where
  "generateProbeID campusCode buildingCode rnd =
     map_option (\<lambda>buf. campusCode @ ''-'' @ buildingCode @ ''-'' @ hex_encode buf) (rnd probeIDRandomBytes)"

end
