(* ===== verification/Portal_OneShot.thy ===== *)
theory Portal_OneShot
  imports Expiring_Store Web_Base
begin

text \<open>
  \<open>internal/portal/oneshot.go\<close>: the store that shows a plaintext token to exactly one page
  render.  Each operation runs under one lock, so it is one atomic step here.
\<close>

section \<open>Return paths\<close>

definition backPathPattern :: rx where
  "backPathPattern =
     (let seg = RClass [(65, 90), (97, 122), (48, 57), (46, 46), (95, 95), (126, 126), (45, 45)];
          slash = RClass [(47, 47)] in
      RSeq slash (RSeq (RStar (RSeq (RPlus seg) slash)) (RStar seg)))"

definition safeBackPath :: "string \<Rightarrow> string" where
  "safeBackPath path = (if MatchString backPathPattern path then path else ''/'')"

definition segment_char :: "char \<Rightarrow> bool" where
  "segment_char c \<longleftrightarrow> is_upper c \<or> is_lower c \<or> is_digit c \<or> c \<in> set ''._~-''"

text \<open>A path on this site: it starts with one slash and never has two in a row.\<close>

fun no_empty_segment :: "string \<Rightarrow> bool" where
  "no_empty_segment (a # b # r) = (\<not> (a = CHR ''/'' \<and> b = CHR ''/'') \<and> no_empty_segment (b # r))"
| "no_empty_segment s = True"

definition site_path :: "string \<Rightarrow> bool" where
  "site_path s \<longleftrightarrow> take 1 s = ''/'' \<and> list_all (\<lambda>c. segment_char c \<or> c = CHR ''/'') s \<and> no_empty_segment s"

lemma in_seg_class:
  "in_class [(65, 90), (97, 122), (48, 57), (46, 46), (95, 95), (126, 126), (45, 45)] c \<longleftrightarrow> segment_char c"
proof -
  have e: "c = CHR ''.'' \<longleftrightarrow> code c = 46" "c = CHR ''_'' \<longleftrightarrow> code c = 95" "c = CHR ''~'' \<longleftrightarrow> code c = 126"
    "c = CHR ''-'' \<longleftrightarrow> code c = 45"
    using code_inject [of c "CHR ''.''"] code_inject [of c "CHR ''_''"] code_inject [of c "CHR ''~''"]
      code_inject [of c "CHR ''-''"] by (simp_all add: code_def)
  obtain n where n: "code c = n" by simp
  show ?thesis
    unfolding in_class_def segment_char_def is_upper_def is_lower_def is_digit_def
    by (simp add: e n) presburger
qed

lemma in_slash_class: "in_class [(47, 47)] c \<longleftrightarrow> c = CHR ''/''"
  using code_inject [of c "CHR ''/''"] by (auto simp: in_class_def code_def)

lemma segment_not_slash: "segment_char c \<Longrightarrow> c \<noteq> CHR ''/''"
  by (auto simp: segment_char_def is_upper_def is_lower_def is_digit_def code_def)

lemma no_empty_segment_append:
  "list_all segment_char s \<Longrightarrow> s \<noteq> [] \<Longrightarrow> no_empty_segment (CHR ''/'' # w) \<Longrightarrow>
   no_empty_segment (s @ CHR ''/'' # w)"
proof (induction s)
  case (Cons a s)
  then show ?case by (cases s) (auto dest: segment_not_slash)
qed simp

lemma no_empty_segment_seg: "list_all segment_char s \<Longrightarrow> no_empty_segment s"
  by (induction s rule: no_empty_segment.induct) (auto dest: segment_not_slash)

lemma backPath_site_path:
  assumes "MatchString backPathPattern s"
  shows "site_path s"
proof -
  let ?seg = "RClass [(65, 90), (97, 122), (48, 57), (46, 46), (95, 95), (126, 126), (45, 45)]"
  let ?slash = "RClass [(47, 47)]"
  let ?ok = "\<lambda>w. list_all (\<lambda>c. segment_char c \<or> c = CHR ''/'') w"
  have all_seg: "list_all (in_class [(65, 90), (97, 122), (48, 57), (46, 46), (95, 95), (126, 126), (45, 45)]) w \<longleftrightarrow>
      list_all segment_char w" for w
    using in_seg_class by (simp add: list_all_iff)
  from assms obtain u v where s: "s = CHR ''/'' # u @ v"
    and u: "rx_lang (RStar (RSeq (RPlus ?seg) ?slash)) u" and v: "list_all segment_char v"
    by (auto simp: backPathPattern_def Let_def MatchString_iff lang_class_seq in_slash_class lang_seq_iff [of "RStar _"]
        lang_star_class all_seg)
  from u have "?ok u \<and> no_empty_segment (CHR ''/'' # u @ v)"
  proof (rule lang_star_induct)
    have "no_empty_segment (CHR ''/'' # v)"
      using v no_empty_segment_seg [of v] by (cases v) (auto dest: segment_not_slash)
    then show "?ok [] \<and> no_empty_segment (CHR ''/'' # [] @ v)" by simp
  next
    fix x y
    assume "rx_lang (RSeq (RPlus ?seg) ?slash) x" and y: "?ok y \<and> no_empty_segment (CHR ''/'' # y @ v)"
    then obtain w where x: "x = w @ ''/''" "w \<noteq> []" "list_all segment_char w"
      by (auto simp: lang_seq_iff [of "RPlus _"] lang_plus_class lang_class_iff in_slash_class all_seg)
    have "no_empty_segment (w @ CHR ''/'' # y @ v)" using x y by (intro no_empty_segment_append) simp_all
    moreover obtain a w' where "w = a # w'" "a \<noteq> CHR ''/''"
      using x by (cases w) (auto dest: segment_not_slash)
    ultimately show "?ok (x @ y) \<and> no_empty_segment (CHR ''/'' # (x @ y) @ v)"
      using x y by (auto simp: list_all_iff)
  qed
  with s v show ?thesis by (auto simp: site_path_def list_all_iff)
qed

lemma no_empty_segment_drop: "no_empty_segment (u @ v) \<Longrightarrow> no_empty_segment v"
proof (induction u)
  case (Cons a u)
  then show ?case by (cases "u @ v") auto
qed simp

lemma segments_match:
  "list_all (\<lambda>c. segment_char c \<or> c = CHR ''/'') t \<Longrightarrow> no_empty_segment (CHR ''/'' # t) \<Longrightarrow>
   rx_lang (RSeq (RStar (RSeq (RPlus (RClass [(65, 90), (97, 122), (48, 57), (46, 46), (95, 95), (126, 126), (45, 45)]))
     (RClass [(47, 47)]))) (RStar (RClass [(65, 90), (97, 122), (48, 57), (46, 46), (95, 95), (126, 126), (45, 45)]))) t"
  (is "_ \<Longrightarrow> _ \<Longrightarrow> rx_lang (RSeq (RStar (RSeq (RPlus ?seg) ?slash)) _) t")
proof (induction t rule: length_induct)
  case (1 t)
  have all_seg: "list_all (in_class [(65, 90), (97, 122), (48, 57), (46, 46), (95, 95), (126, 126), (45, 45)]) w \<longleftrightarrow>
      list_all segment_char w" for w
    using in_seg_class by (simp add: list_all_iff)
  define u where "u = takeWhile (\<lambda>c. c \<noteq> CHR ''/'') t"
  define r where "r = dropWhile (\<lambda>c. c \<noteq> CHR ''/'') t"
  have t: "t = u @ r" by (simp add: u_def r_def)
  have u: "list_all segment_char u"
    using "1.prems"(1) unfolding u_def by (auto simp: list_all_iff dest: set_takeWhileD)
  show ?case
  proof (cases r)
    case Nil
    moreover have "rx_lang (RStar ?seg) u" using u by (simp add: lang_star_class all_seg)
    ultimately show ?thesis using lang_seq [OF lang_star_nil] t by fastforce
  next
    case (Cons c t')
    then have "c = CHR ''/''"
      using hd_dropWhile [of "\<lambda>c. c \<noteq> CHR ''/''" t] by (simp add: r_def)
    with Cons t have t': "t = u @ CHR ''/'' # t'" by simp
    with "1.prems"(2) have ne: "u \<noteq> []" by auto
    have "no_empty_segment ((CHR ''/'' # u) @ CHR ''/'' # t')" using "1.prems"(2) t' by simp
    then have "no_empty_segment (CHR ''/'' # t')" by (rule no_empty_segment_drop)
    moreover have "list_all (\<lambda>c. segment_char c \<or> c = CHR ''/'') t'" "length t' < length t"
      using "1.prems"(1) t' by simp_all
    ultimately obtain v w where vw: "t' = v @ w" "rx_lang (RStar (RSeq (RPlus ?seg) ?slash)) v" "rx_lang (RStar ?seg) w"
      using "1.IH" by (auto simp: lang_seq_iff [of "RStar _"])
    have "rx_lang (RSeq (RPlus ?seg) ?slash) (u @ ''/'')"
      using u ne by (intro lang_seq) (simp_all add: lang_plus_class all_seg lang_class_iff in_slash_class)
    then have "rx_lang (RStar (RSeq (RPlus ?seg) ?slash)) ((u @ ''/'') @ v)"
      using vw(2) by (rule lang_star_step)
    then have "rx_lang (RSeq (RStar (RSeq (RPlus ?seg) ?slash)) (RStar ?seg)) (((u @ ''/'') @ v) @ w)"
      using vw(3) by (rule lang_seq)
    then show ?thesis using t' vw(1) by simp
  qed
qed

lemma backPath_iff: "MatchString backPathPattern s \<longleftrightarrow> site_path s"
proof
  assume s: "site_path s"
  then obtain t where t: "s = CHR ''/'' # t" by (cases s) (auto simp: site_path_def)
  with s segments_match [of t] show "MatchString backPathPattern s"
    by (simp add: site_path_def backPathPattern_def Let_def MatchString_iff lang_class_seq in_slash_class)
qed (rule backPath_site_path)

lemma safeBackPath_site_path: "site_path (safeBackPath p)"
  using backPath_site_path [of p] by (simp add: safeBackPath_def site_path_def)

section \<open>The store\<close>

record one_shot =
  os_probeID :: string
  os_value :: string
  os_back :: string
  os_expires :: int

record one_shot_store =
  os_slots :: "(string, one_shot) gomap"
  os_ttl :: int

definition newOneShotStore :: "int \<Rightarrow> one_shot_store" where
  "newOneShotStore ttl = \<lparr>os_slots = [], os_ttl = ttl\<rparr>"

definition put_slot :: "int \<Rightarrow> string \<Rightarrow> one_shot \<Rightarrow> one_shot_store \<Rightarrow> one_shot_store" where
  "put_slot now slot v os =
     os\<lparr>os_slots := map_put slot v (filter (\<lambda>(k, v). \<not> os_expires v < now) (os_slots os))\<rparr>"

definition putPair :: "(nat \<Rightarrow> string option) \<Rightarrow> int \<Rightarrow> string \<Rightarrow> string \<Rightarrow> string \<Rightarrow> one_shot_store \<Rightarrow>
    string option \<times> one_shot_store" where
  "putPair rnd now probeID value back os =
     (case randomString 32 rnd of
        None \<Rightarrow> (None, os)
      | Some slot \<Rightarrow>
          (Some slot, put_slot now slot
             \<lparr>os_probeID = probeID, os_value = value, os_back = safeBackPath back, os_expires = now + os_ttl os\<rparr> os))"

definition takePair :: "int \<Rightarrow> string \<Rightarrow> one_shot_store \<Rightarrow> one_shot option \<times> one_shot_store" where
  "takePair now slot os =
     (case map_of (os_slots os) slot of
        None \<Rightarrow> (None, os)
      | Some v \<Rightarrow>
          (if os_expires v < now then None else Some v, os\<lparr>os_slots := map_del slot (os_slots os)\<rparr>))"

definition slots_inv :: "one_shot_store \<Rightarrow> bool" where
  "slots_inv os \<longleftrightarrow> wf_map (os_slots os) \<and> (\<forall>(k, v) \<in> set (os_slots os). site_path (os_back v))"

text \<open>The store keeps the contract: a slot is redeemed at most once and only in its minute.\<close>

definition slot_of :: "one_shot_store \<Rightarrow> string \<Rightarrow> one_shot option" where
  "slot_of os = map_of (os_slots os)"

definition issue_slot :: "int \<Rightarrow> string \<Rightarrow> one_shot \<Rightarrow> one_shot_store \<Rightarrow> bool \<times> one_shot_store" where
  "issue_slot now slot v os = (True, put_slot now slot v os)"

lemma slot_of_put_slot:
  "wf_map (os_slots os) \<Longrightarrow> slot_of (put_slot t k v os) k' =
     (if k' = k then Some v
      else case slot_of os k' of Some x \<Rightarrow> if os_expires x < t then None else Some x | None \<Rightarrow> None)"
  by (simp add: slot_of_def put_slot_def map_of_put map_of_filter split: option.splits)

interpretation slots: one_shot slot_of os_expires issue_slot takePair "\<lambda>os. wf_map (os_slots os)"
proof unfold_locales
  fix s :: one_shot_store and t :: int and k k' :: string and e :: one_shot
  assume wf: "wf_map (os_slots s)"
  show "slot_of (snd (issue_slot t k e s)) k' =
      (if fst (issue_slot t k e s) \<and> k' = k then Some e
       else case slot_of s k' of Some x \<Rightarrow> if os_expires x < t then None else Some x | None \<Rightarrow> None)"
    using wf by (simp add: issue_slot_def slot_of_put_slot)
  show "wf_map (os_slots (snd (issue_slot t k e s)))"
    using wf by (simp add: issue_slot_def put_slot_def gw_keys)
  show "wf_map (os_slots (snd (takePair t k s)))"
    using wf by (simp add: takePair_def gw_keys split: option.splits)
qed (auto simp: takePair_def slot_of_def map_of_del split: option.splits if_splits)

lemma putPair_issue:
  "putPair rnd now pid value back os = (Some slot, o') \<Longrightarrow>
   o' = snd (issue_slot now slot \<lparr>os_probeID = pid, os_value = value, os_back = safeBackPath back,
                                   os_expires = now + os_ttl os\<rparr> os) \<and>
   randomString 32 rnd = Some slot"
  by (auto simp: putPair_def issue_slot_def split: option.splits)

lemma slots_inv_new: "slots_inv (newOneShotStore ttl)"
  by (simp add: slots_inv_def newOneShotStore_def)

lemma slots_inv_putPair: "slots_inv os \<Longrightarrow> slots_inv (snd (putPair rnd now pid value back os))"
  by (auto simp: slots_inv_def putPair_def put_slot_def gw_keys safeBackPath_site_path
      dest!: set_map_put [THEN subsetD] split: option.splits)

lemma slots_inv_takePair: "slots_inv os \<Longrightarrow> slots_inv (snd (takePair now slot os))"
  by (auto simp: slots_inv_def takePair_def gw_keys AList.delete_eq split: option.splits)

end
