(* ===== verification/Portal_Limiter.thy ===== *)
theory Portal_Limiter
  imports Api_Limiter
begin

text \<open>
  \<open>internal/portal/limiter.go\<close>: one token bucket per registering address, in a bounded map.
  The buckets are the rate limiter parameter of \<open>Api_Limiter\<close>.
\<close>

definition maxTrackedRegisterIPs :: nat where "maxTrackedRegisterIPs = 10000"

record 'b ip_entry =
  ie_limiter :: 'b
  ie_lastUsed :: int

record 'b register_limiter =
  rg_interval :: int
  rg_burst :: int
  rg_buckets :: "(string, 'b ip_entry) gomap"

definition NewRegisterLimiter :: "int \<Rightarrow> int \<Rightarrow> 'b register_limiter" where
  "NewRegisterLimiter interval burst = \<lparr>rg_interval = interval, rg_burst = burst, rg_buckets = []\<rparr>"

text \<open>
  The scan of \<open>evictIdleLocked\<close>: the key it deletes, if any.  A full bucket is deleted at
  once; the least recently used one is kept in \<open>oldestKey\<close>, whose empty string also means
  that none has been seen yet.
\<close>

fun scan_idle :: "'b rate_ops \<Rightarrow> int \<Rightarrow> int \<Rightarrow> (string, 'b ip_entry) gomap \<Rightarrow> string \<Rightarrow> int \<Rightarrow> string option" where
  "scan_idle ops now burst [] oldestKey oldest = (if oldestKey \<noteq> [] then Some oldestKey else None)"
| "scan_idle ops now burst ((k, e) # m) oldestKey oldest =
     (if float_le (float_of_int burst) (rl_tokens ops now (ie_limiter e)) then Some k
      else if oldestKey = [] \<or> ie_lastUsed e < oldest then scan_idle ops now burst m k (ie_lastUsed e)
      else scan_idle ops now burst m oldestKey oldest)"

definition evictIdleLocked :: "'b rate_ops \<Rightarrow> int \<Rightarrow> 'b register_limiter \<Rightarrow> 'b register_limiter" where
  "evictIdleLocked ops now l =
     (case scan_idle ops now (rg_burst l) (rg_buckets l) [] 0 of
        None \<Rightarrow> l
      | Some k \<Rightarrow> l\<lparr>rg_buckets := map_del k (rg_buckets l)\<rparr>)"

definition register_Allow :: "'b rate_ops \<Rightarrow> int \<Rightarrow> string \<Rightarrow> 'b register_limiter \<Rightarrow> bool \<times> 'b register_limiter" where
  "register_Allow ops now ip l =
     (let (b, l) = (case map_of (rg_buckets l) ip of
                      Some e \<Rightarrow> (ie_limiter e, l)
                    | None \<Rightarrow>
                        (rl_new ops (rg_interval l) (rg_burst l),
                         if length (rg_buckets l) \<ge> maxTrackedRegisterIPs then evictIdleLocked ops now l else l));
          r = rl_allow ops now b
      in (fst r, l\<lparr>rg_buckets := map_put ip \<lparr>ie_limiter = snd r, ie_lastUsed = now\<rparr> (rg_buckets l)\<rparr>))"

definition register_Remove :: "string \<Rightarrow> 'b register_limiter \<Rightarrow> 'b register_limiter" where
  "register_Remove ip l = l\<lparr>rg_buckets := map_del ip (rg_buckets l)\<rparr>"

section \<open>The map is bounded\<close>

text \<open>
  As long as no address is the empty string the scan finds a victim, because \<open>oldestKey\<close>
  is a key of the map once one has been seen.
\<close>

lemma scan_idle_finds:
  "[] \<notin> set (keys m) \<Longrightarrow> m \<noteq> [] \<or> oldestKey \<noteq> [] \<Longrightarrow>
   \<exists>k. scan_idle ops now burst m oldestKey oldest = Some k \<and> k \<in> insert oldestKey (set (keys m)) - {[]}"
proof (induction m arbitrary: oldestKey oldest)
  case (Cons x m)
  obtain k e where x: "x = (k, e)" by (cases x)
  with Cons.prems have "k \<noteq> []" by auto
  from x Cons.prems(1) have m: "[] \<notin> set (keys m)" by auto
  show ?case
  proof (cases "oldestKey = [] \<or> ie_lastUsed e < oldest")
    case True
    with Cons.IH [OF m, of k "ie_lastUsed e"] x \<open>k \<noteq> []\<close> show ?thesis by auto
  next
    case False
    with Cons.IH [OF m, of oldestKey oldest] x \<open>k \<noteq> []\<close> show ?thesis by auto
  qed
qed simp

text \<open>
  What it deletes is a full bucket, or the least recently used entry when no bucket is full.
\<close>

definition bucket_full :: "'b rate_ops \<Rightarrow> int \<Rightarrow> int \<Rightarrow> 'b ip_entry \<Rightarrow> bool" where
  "bucket_full ops now burst e \<longleftrightarrow> float_le (float_of_int burst) (rl_tokens ops now (ie_limiter e))"

lemma scan_idle_choice:
  "\<lbrakk>scan_idle ops now burst m oldestKey oldest = Some k; [] \<notin> set (keys m);
    \<forall>(k, e) \<in> set seen. oldest \<le> ie_lastUsed e \<and> \<not> bucket_full ops now burst e; oldestKey = [] \<longrightarrow> seen = [];
    oldestKey \<noteq> [] \<longrightarrow> (\<exists>e. (oldestKey, e) \<in> set seen \<and> ie_lastUsed e = oldest)\<rbrakk> \<Longrightarrow>
   \<exists>e. (k, e) \<in> set seen \<union> set m \<and>
     (bucket_full ops now burst e \<or>
      (\<forall>(k', e') \<in> set seen \<union> set m. ie_lastUsed e \<le> ie_lastUsed e' \<and> \<not> bucket_full ops now burst e'))"
proof (induction m arbitrary: oldestKey oldest seen)
  case Nil
  then show ?case by (auto split: if_splits)
next
  case (Cons x m)
  obtain k1 e1 where x: "x = (k1, e1)" by (cases x)
  show ?case
  proof (cases "bucket_full ops now burst e1")
    case True
    with Cons.prems(1) x have "k = k1" by (simp add: bucket_full_def)
    with True x show ?thesis by auto
  next
    case nf: False
    have ne: "k1 \<noteq> []" using Cons.prems(2) x by auto
    show ?thesis
    proof (cases "oldestKey = [] \<or> ie_lastUsed e1 < oldest")
      case True
      have "\<exists>e. (k, e) \<in> set (x # seen) \<union> set m \<and>
          (bucket_full ops now burst e \<or>
           (\<forall>(k', e') \<in> set (x # seen) \<union> set m. ie_lastUsed e \<le> ie_lastUsed e' \<and> \<not> bucket_full ops now burst e'))"
        using Cons.prems True nf ne x by (intro Cons.IH [of k1 "ie_lastUsed e1"]) (fastforce simp: bucket_full_def)+
      then show ?thesis by simp
    next
      case False
      have "\<exists>e. (k, e) \<in> set (x # seen) \<union> set m \<and>
          (bucket_full ops now burst e \<or>
           (\<forall>(k', e') \<in> set (x # seen) \<union> set m. ie_lastUsed e \<le> ie_lastUsed e' \<and> \<not> bucket_full ops now burst e'))"
        using Cons.prems False nf ne x by (intro Cons.IH [of oldestKey oldest]) (auto simp: bucket_full_def)
      then show ?thesis by simp
    qed
  qed
qed

definition register_inv :: "'b register_limiter \<Rightarrow> bool" where
  "register_inv l \<longleftrightarrow>
     wf_map (rg_buckets l) \<and> [] \<notin> set (keys (rg_buckets l)) \<and> length (rg_buckets l) \<le> maxTrackedRegisterIPs"

lemma evictIdle_room:
  assumes "register_inv l" "length (rg_buckets l) \<ge> maxTrackedRegisterIPs"
  shows "register_inv (evictIdleLocked ops now l)"
    and "length (rg_buckets (evictIdleLocked ops now l)) < maxTrackedRegisterIPs"
proof -
  from assms(2) have "rg_buckets l \<noteq> []" by (auto simp: maxTrackedRegisterIPs_def)
  with assms(1) scan_idle_finds [of "rg_buckets l" "[]" ops now "rg_burst l" 0] obtain k where
    k: "scan_idle ops now (rg_burst l) (rg_buckets l) [] 0 = Some k" "k \<in> set (keys (rg_buckets l))"
    by (auto simp: register_inv_def)
  then have len: "length (map_del k (rg_buckets l)) = length (rg_buckets l) - 1"
    using assms(1) by (simp add: register_inv_def length_map_del)
  show "length (rg_buckets (evictIdleLocked ops now l)) < maxTrackedRegisterIPs"
    using k(1) len assms by (simp add: evictIdleLocked_def register_inv_def maxTrackedRegisterIPs_def)
  show "register_inv (evictIdleLocked ops now l)"
    using k(1) length_map_del_le [of k "rg_buckets l"] assms(1)
    by (simp add: evictIdleLocked_def register_inv_def gw_keys set_keys_del del: set_map)
qed

lemma register_inv_new: "register_inv (NewRegisterLimiter i n)"
  by (simp add: register_inv_def NewRegisterLimiter_def)

lemma register_inv_Remove: "register_inv l \<Longrightarrow> register_inv (register_Remove ip l)"
  using length_map_del_le [of ip "rg_buckets l"]
  by (simp add: register_inv_def register_Remove_def gw_keys set_keys_del del: set_map)

lemma register_inv_Allow:
  assumes "register_inv l" "ip \<noteq> []"
  shows "register_inv (snd (register_Allow ops now ip l))"
proof (cases "map_of (rg_buckets l) ip")
  case None
  let ?l = "if length (rg_buckets l) \<ge> maxTrackedRegisterIPs then evictIdleLocked ops now l else l"
  have "register_inv ?l" "length (rg_buckets ?l) < maxTrackedRegisterIPs"
    using assms(1) evictIdle_room [of l ops now] by auto
  with None assms(2) show ?thesis
    by (simp add: register_Allow_def Let_def register_inv_def gw_keys length_map_put set_keys_put del: set_map)
next
  case (Some e)
  with assms map_of_Some_key [OF Some] show ?thesis
    by (simp add: register_Allow_def Let_def register_inv_def gw_keys length_map_put set_keys_put del: set_map)
qed

text \<open>An address that has not registered lately gets its burst; others keep their budgets.\<close>

lemma register_Allow_fresh:
  "rate_contract ops \<Longrightarrow> 1 \<le> rg_burst l \<Longrightarrow> map_of (rg_buckets l) ip = None \<Longrightarrow> fst (register_Allow ops now ip l)"
  by (simp add: register_Allow_def Let_def rate_contract_def)

lemma register_Allow_known:
  "map_of (rg_buckets l) ip = Some e \<Longrightarrow> ip' \<noteq> ip \<Longrightarrow>
   map_of (rg_buckets (snd (register_Allow ops now ip l))) ip' = map_of (rg_buckets l) ip'"
  by (simp add: register_Allow_def Let_def map_of_put)

end
