(* ===== verification/Portal_Text.thy ===== *)
theory Portal_Text
  imports Web_Base
begin

text \<open>
  The messages and titles of the registration pages of \<open>internal/portal\<close>, as the bytes the
  code sends.  Each is defined by the UTF-8 encoding of the source's literal.
\<close>

named_theorems portal_text \<open>the definitions of the messages\<close>

definition msg_no_campus :: string where
  "msg_no_campus = text_bytes
    [231, 174, 161, 231, 144, 134, 229, 145, 152, 229, 176, 154, 230, 156, 170, 233, 133, 141, 231,
     189, 174, 228, 187, 187, 228, 189, 149, 230, 160, 161, 229, 140, 186, 239, 188, 140, 230, 154,
     130, 230, 151, 182, 230, 151, 160, 230, 179, 149, 230, 179, 168, 229, 134, 140, 227, 128, 130]"

definition msg_no_building :: string where
  "msg_no_building = text_bytes
    [230, 165, 188, 230, 160, 139, 228, 184, 141, 229, 173, 152, 229, 156, 168, 239, 188, 140, 232,
     175, 183, 228, 187, 142, 229, 136, 151, 232, 161, 168, 228, 184, 173, 233, 128, 137, 230, 139,
     169, 227, 128, 130]"

definition msg_campus_gone :: string where
  "msg_campus_gone = text_bytes
    [230, 165, 188, 230, 160, 139, 230, 137, 128, 229, 177, 158, 230, 160, 161, 229, 140, 186, 228,
     184, 141, 229, 173, 152, 229, 156, 168, 227, 128, 130]"

definition msg_too_often :: string where
  "msg_too_often = text_bytes
    [230, 179, 168, 229, 134, 140, 232, 191, 135, 228, 186, 142, 233, 162, 145, 231, 185, 129, 239,
     188, 140, 232, 175, 183, 231, 168, 141, 229, 144, 142, 229, 134, 141, 232, 175, 149, 227, 128,
     130]"

definition msg_choose_campus :: string where
  "msg_choose_campus = text_bytes
    [232, 175, 183, 233, 128, 137, 230, 139, 169, 230, 160, 161, 229, 140, 186, 227, 128, 130]"

definition msg_choose_building :: string where
  "msg_choose_building = text_bytes
    [232, 175, 183, 233, 128, 137, 230, 139, 169, 230, 165, 188, 230, 160, 139, 227, 128, 130]"

definition msg_network_type :: string where
  "msg_network_type = text_bytes
    [231, 189, 145, 231, 187, 156, 231, 177, 187, 229, 158, 139, 229, 191, 133, 233, 161, 187, 230,
     152, 175, 32, 119, 105, 114, 101, 100, 32, 230, 136, 150, 32, 119, 105, 114, 101, 108, 101,
     115, 115, 227, 128, 130]"

definition msg_description :: string where
  "msg_description = text_bytes
    [229, 164, 135, 230, 179, 168, 232, 191, 135, 233, 149, 191, 227, 128, 130]"

definition msg_building_check :: string where
  "msg_building_check = text_bytes
    [230, 151, 160, 230, 179, 149, 230, 160, 161, 233, 170, 140, 230, 165, 188, 230, 160, 139, 239,
     188, 140, 232, 175, 183, 231, 168, 141, 229, 144, 142, 233, 135, 141, 232, 175, 149, 227, 128,
     130]"

definition msg_other_campus :: string where
  "msg_other_campus = text_bytes
    [230, 137, 128, 233, 128, 137, 230, 165, 188, 230, 160, 139, 228, 184, 141, 229, 177, 158, 228,
     186, 142, 232, 175, 165, 230, 160, 161, 229, 140, 186, 227, 128, 130]"

definition msg_cap_before :: string where
  "msg_cap_before = text_bytes
    [230, 142, 162, 233, 146, 136, 230, 149, 176, 233, 135, 143, 229, 183, 178, 232, 190, 190, 228,
     184, 138, 233, 153, 144, 239, 188, 136]"

definition msg_cap_after :: string where
  "msg_cap_after = text_bytes
    [32, 228, 184, 170, 239, 188, 137, 239, 188, 140, 230, 154, 130, 230, 151, 182, 230, 151, 160,
     230, 179, 149, 232, 135, 170, 229, 138, 169, 230, 179, 168, 229, 134, 140, 227, 128, 130, 232,
     175, 183, 232, 129, 148, 231, 179, 187, 231, 189, 145, 231, 187, 156, 228, 184, 173, 229, 191,
     131, 227, 128, 130]"

definition title_register :: string where
  "title_register = text_bytes
    [230, 179, 168, 229, 134, 140, 230, 142, 162, 233, 146, 136]"

definition title_token_gone :: string where
  "title_token_gone = text_bytes
    [84, 111, 107, 101, 110, 32, 229, 183, 178, 229, 164, 177, 230, 149, 136]"

definition title_token :: string where
  "title_token = text_bytes
    [230, 142, 162, 233, 146, 136, 32, 84, 111, 107, 101, 110]"

definition msg_token_gone :: string where
  "msg_token_gone = text_bytes
    [232, 175, 165, 32, 84, 111, 107, 101, 110, 32, 229, 183, 178, 230, 152, 190, 231, 164, 186,
     232, 191, 135, 230, 136, 150, 229, 183, 178, 232, 191, 135, 230, 156, 159, 239, 188, 140, 230,
     151, 160, 230, 179, 149, 229, 134, 141, 230, 172, 161, 230, 159, 165, 231, 156, 139, 227, 128,
     130, 229, 166, 130, 233, 156, 128, 230, 150, 176, 229, 135, 173, 230, 141, 174, 239, 188, 140,
     232, 175, 183, 233, 135, 141, 230, 150, 176, 230, 179, 168, 229, 134, 140, 230, 136, 150, 232,
     129, 148, 231, 179, 187, 231, 174, 161, 231, 144, 134, 229, 145, 152, 232, 189, 174, 230, 141,
     162, 227, 128, 130]"

lemmas portal_messages [portal_text] =
  msg_no_campus_def
  msg_no_building_def
  msg_campus_gone_def
  msg_too_often_def
  msg_choose_campus_def
  msg_choose_building_def
  msg_network_type_def
  msg_description_def
  msg_building_check_def
  msg_other_campus_def
  msg_cap_before_def
  msg_cap_after_def
  title_register_def
  title_token_gone_def
  title_token_def
  msg_token_gone_def

lemma portal_messages_nonempty [simp]:
  "msg_no_campus \<noteq> []"
  "msg_no_building \<noteq> []"
  "msg_campus_gone \<noteq> []"
  "msg_too_often \<noteq> []"
  "msg_choose_campus \<noteq> []"
  "msg_choose_building \<noteq> []"
  "msg_network_type \<noteq> []"
  "msg_description \<noteq> []"
  "msg_building_check \<noteq> []"
  "msg_other_campus \<noteq> []"
  "msg_token_gone \<noteq> []"
  by (simp_all add: portal_text)

end
