(* ===== verification/Go_Duration.thy ===== *)
theory Go_Duration
  imports Go_Strconv Go_Float
begin

text \<open>
  Go's \<open>time.ParseDuration\<close>, byte for byte, with its overflow checks: a duration is a count of
  nanoseconds in a signed 64-bit integer.
\<close>

definition Second :: int where "Second = 1000000000"
definition Hour :: int where "Hour = 3600 * Second"

text \<open>The units; the two spellings of micro are U+00B5 and U+03BC.\<close>

definition unitMap :: "(string, nat) gomap" where
  "unitMap =
     [(''ns'', 1), (''us'', 1000), (map byte [194, 181, 115], 1000), (map byte [206, 188, 115], 1000),
      (''ms'', 1000000), (''s'', 1000000000), (''m'', 60000000000), (''h'', 3600000000000)]"

fun leadingInt :: "nat \<Rightarrow> string \<Rightarrow> (nat \<times> string) option" where
  "leadingInt x [] = Some (x, [])"
| "leadingInt x (c # s) =
     (if \<not> is_digit c then Some (x, c # s)
      else if x > 2 ^ 63 div 10 then None
      else (let y = 10 * x + (code c - 48) in if y > 2 ^ 63 then None else leadingInt y s))"

text \<open>Digits after the point; those beyond 63 bits are dropped.\<close>

fun leadingFraction :: "nat \<Rightarrow> nat \<Rightarrow> bool \<Rightarrow> string \<Rightarrow> nat \<times> nat \<times> string" where
  "leadingFraction x scale overflow [] = (x, scale, [])"
| "leadingFraction x scale overflow (c # s) =
     (if \<not> is_digit c then (x, scale, c # s)
      else if overflow \<or> x > (2 ^ 63 - 1) div 10 then leadingFraction x scale True s
      else (let y = 10 * x + (code c - 48) in
            if y > 2 ^ 63 then leadingFraction x scale True s
            else leadingFraction y (10 * scale) False s))"

definition fraction_ns :: "nat \<Rightarrow> nat \<Rightarrow> nat \<Rightarrow> nat" where
  "fraction_ns f scale unit =
     (case (float_of_int (int f), float_div (float_of_int (int unit)) (float_of_int (int scale))) of
        (Fin a, Fin b) \<Rightarrow> (case to_float (a * b) of Fin c \<Rightarrow> nat \<lfloor>c\<rfloor> | _ \<Rightarrow> 0)
      | _ \<Rightarrow> 0)"

definition unit_end :: "char \<Rightarrow> bool" where
  "unit_end c \<longleftrightarrow> c = CHR ''.'' \<or> is_digit c"

text \<open>One element, a number and its unit: its nanoseconds and what follows it.\<close>

definition duration_element :: "string \<Rightarrow> (nat \<times> string) option" where
  "duration_element s =
     (if s = [] \<or> \<not> unit_end (hd s) then None
      else case leadingInt 0 s of
             None \<Rightarrow> None
           | Some (v, s1) \<Rightarrow>
               (let pre = (length s1 \<noteq> length s);
                    (f, scale, s2) = (if take 1 s1 = ''.'' then leadingFraction 0 1 False (tl s1) else (0, 1, s1));
                    post = (take 1 s1 = ''.'' \<and> length s2 \<noteq> length (tl s1));
                    u = takeWhile (\<lambda>c. \<not> unit_end c) s2 in
                if \<not> pre \<and> \<not> post then None
                else if u = [] then None
                else case map_of unitMap u of
                       None \<Rightarrow> None
                     | Some unit \<Rightarrow>
                         (if v > 2 ^ 63 div unit then None
                          else (let n = v * unit + (if f > 0 then fraction_ns f scale unit else 0) in
                                if f > 0 \<and> n > 2 ^ 63 then None else Some (n, drop (length u) s2)))))"

lemma leadingInt_length: "leadingInt x s = Some (v, r) \<Longrightarrow> length r \<le> length s"
  by (induction x s rule: leadingInt.induct) (auto simp: Let_def split: if_splits)

lemma leadingFraction_length: "leadingFraction x sc b s = (f, sc', r) \<Longrightarrow> length r \<le> length s"
  by (induction x sc b s rule: leadingFraction.induct) (auto simp: Let_def is_digit_def split: if_splits)

lemma duration_element_shorter:
  assumes "duration_element s = Some (n, r)"
  shows "length r < length s"
proof -
  obtain v s1 where v: "leadingInt 0 s = Some (v, s1)"
    using assms by (auto simp: duration_element_def split: if_splits option.splits)
  let ?s2 = "snd (snd (if take 1 s1 = ''.'' then leadingFraction 0 1 False (tl s1) else (0, 1, s1)))"
  let ?u = "takeWhile (\<lambda>c. \<not> unit_end c) ?s2"
  have "?u \<noteq> []" "r = drop (length ?u) ?s2"
    using assms v by (auto simp: duration_element_def Let_def split_beta split: if_splits option.splits)
  moreover from this(1) have "?s2 \<noteq> []" by (cases ?s2) simp_all
  moreover have "length ?s2 \<le> length s1"
    using leadingFraction_length [of 0 1 False "tl s1"] by (auto simp: prod_eq_iff intro: order.trans)
  ultimately have "0 < length ?u" "0 < length ?s2" "length ?s2 \<le> length s" "length r = length ?s2 - length ?u"
    using leadingInt_length [OF v] by simp_all
  then show ?thesis by linarith
qed

text \<open>The loop ends because every element takes at least its unit off the string.\<close>

function duration_loop :: "string \<Rightarrow> nat \<Rightarrow> nat option" where
  "duration_loop s d =
     (if s = [] then Some d
      else case duration_element s of
             None \<Rightarrow> None
           | Some (n, r) \<Rightarrow> if d + n > 2 ^ 63 then None else duration_loop r (d + n))"
  by pat_completeness auto
termination
  by (relation "measure (\<lambda>(s, d). length s)") (auto dest: duration_element_shorter)

declare duration_loop.simps [simp del]

definition ParseDuration :: "string \<Rightarrow> int option" where
  "ParseDuration orig =
     (let neg = (take 1 orig = ''-'');
          s = (if orig \<noteq> [] \<and> hd orig \<in> {CHR ''-'', CHR ''+''} then tl orig else orig) in
      if s = ''0'' then Some 0
      else if s = [] then None
      else case duration_loop s 0 of
             None \<Rightarrow> None
           | Some d \<Rightarrow>
               (if neg then Some (wrap64 (- int d))
                else if d > 2 ^ 63 - 1 then None else Some (int d)))"

lemma duration_loop_bound: "d \<le> 2 ^ 63 \<Longrightarrow> duration_loop s d = Some n \<Longrightarrow> n \<le> 2 ^ 63"
proof (induction s d rule: duration_loop.induct)
  case (1 s d)
  then show ?case
    by (subst (asm) (2) duration_loop.simps) (auto split: if_splits option.splits)
qed

lemma ParseDuration_int64: "ParseDuration s = Some d \<Longrightarrow> int64_ok d"
  by (auto simp: ParseDuration_def Let_def int64_ok_def split: if_splits option.splits dest!: duration_loop_bound [rotated])

end
