(* ===== verification/Config_Load.thy ===== *)
theory Config_Load
  imports Go_Duration Client_IP Go_Mime
begin

text \<open>
  \<open>internal/config/config.go\<close>: the configuration read from the environment.  \<open>env\<close> is
  \<open>os.Getenv\<close>, which gives the empty string for a variable that is not set.
\<close>

text \<open>The log levels, in their order.\<close>

datatype log_level = LevelDebug | LevelInfo | LevelWarn | LevelError

primrec level_rank :: "log_level \<Rightarrow> int" where
  "level_rank LevelDebug = -4"
| "level_rank LevelInfo = 0"
| "level_rank LevelWarn = 4"
| "level_rank LevelError = 8"

lemma level_rank_inject: "level_rank a = level_rank b \<longleftrightarrow> a = b"
  by (cases a; cases b) simp_all

instantiation log_level :: linorder
begin

definition less_eq_log_level :: "log_level \<Rightarrow> log_level \<Rightarrow> bool" where
  "less_eq_log_level a b \<longleftrightarrow> level_rank a \<le> level_rank b"

definition less_log_level :: "log_level \<Rightarrow> log_level \<Rightarrow> bool" where
  "less_log_level a b \<longleftrightarrow> level_rank a < level_rank b"

instance
  by standard (auto simp: less_eq_log_level_def less_log_level_def level_rank_inject)

end

record config =
  ListenAddr :: string
  MetricsAddr :: string
  DataDir :: string
  PublicBaseURL :: string
  AdminUsername :: string
  AdminPassword :: string
  OnlineThreshold :: int
  RateLimit :: int
  RateLimitBurst :: int
  RegisterLimit :: int
  RegisterLimitBurst :: int
  MaxProbes :: int
  MetricsAllowedCIDRs :: "ip_net list"
  TrustedProxyCIDRs :: "ip_net list"
  LogLevel :: log_level

datatype load_error =
    BadDuration string string
  | NotPositive string int
  | NotAnInteger string string
  | BelowOne string int
  | BadCIDR string
  | CatchAllProxy ip_net
  | BadLevel string

definition DBPath :: "config \<Rightarrow> string" where
  "DBPath c = DataDir c @ ''/netprobe.db''"

definition envOr :: "(string \<Rightarrow> string) \<Rightarrow> string \<Rightarrow> string \<Rightarrow> string" where
  "envOr env key def = (let v = trim_space (env key) in if v \<noteq> [] then v else def)"

definition durationEnv :: "(string \<Rightarrow> string) \<Rightarrow> string \<Rightarrow> int \<Rightarrow> load_error + int" where
  "durationEnv env key def =
     (let raw = trim_space (env key) in
      if raw = [] then Inr def
      else case ParseDuration raw of None \<Rightarrow> Inl (BadDuration key raw) | Some d \<Rightarrow> Inr d)"

fun parse_cidr_parts :: "string list \<Rightarrow> load_error + ip_net list" where
  "parse_cidr_parts [] = Inr []"
| "parse_cidr_parts (p # ps) =
     (let part = trim_space p in
      if part = [] then parse_cidr_parts ps
      else case ParseCIDR part of
             None \<Rightarrow> Inl (BadCIDR part)
           | Some n \<Rightarrow> bind_result (parse_cidr_parts ps) (\<lambda>ns. Inr (n # ns)))"

definition parseCIDRs :: "string \<Rightarrow> load_error + ip_net list" where
  "parseCIDRs raw = (if raw = [] then Inr [] else parse_cidr_parts (split_on CHR '','' raw))"

definition parseLevel :: "string \<Rightarrow> load_error + log_level" where
  "parseLevel raw =
     (let l = go_lower raw in
      if l = ''debug'' then Inr LevelDebug
      else if l = ''info'' then Inr LevelInfo
      else if l = ''warn'' \<or> l = ''warning'' then Inr LevelWarn
      else if l = ''error'' then Inr LevelError
      else Inl (BadLevel raw))"

text \<open>\<open>Mask.Size\<close>: leading ones and width, both zero for a mask that is no prefix.\<close>

definition mask_Size :: "nat list \<Rightarrow> nat \<times> nat" where
  "mask_Size m =
     (if m = CIDRMask (mask_ones m) (length m) then (mask_ones m, 8 * length m) else (0, 0))"

definition is_catch_all :: "ip_net \<Rightarrow> bool" where
  "is_catch_all n = (case mask_Size (n_Mask n) of (ones, bits) \<Rightarrow> ones = 0 \<and> bits \<noteq> 0)"

text \<open>The guards of one variable: a positive duration, an integer of at least one.\<close>

definition positive_duration :: "(string \<Rightarrow> string) \<Rightarrow> string \<Rightarrow> int \<Rightarrow> load_error + int" where
  "positive_duration env key def =
     bind_result (durationEnv env key def) (\<lambda>d. if d \<le> 0 then Inl (NotPositive key d) else Inr d)"

definition count_env :: "(string \<Rightarrow> string) \<Rightarrow> string \<Rightarrow> string \<Rightarrow> load_error + int" where
  "count_env env key def =
     (let raw = envOr env key def in
      case atoi raw of
        None \<Rightarrow> Inl (NotAnInteger key raw)
      | Some n \<Rightarrow> if n < 1 then Inl (BelowOne key n) else Inr n)"

definition Load :: "(string \<Rightarrow> string) \<Rightarrow> load_error + config" where
  "Load env =
     bind_result (positive_duration env ''ONLINE_THRESHOLD'' (30 * Second)) (\<lambda>online.
     bind_result (positive_duration env ''RATE_LIMIT'' (5 * Second)) (\<lambda>rate.
     bind_result (count_env env ''RATE_LIMIT_BURST'' ''3'') (\<lambda>burst.
     bind_result (positive_duration env ''REGISTER_LIMIT'' Hour) (\<lambda>reg.
     bind_result (count_env env ''REGISTER_LIMIT_BURST'' ''3'') (\<lambda>reg_burst.
     bind_result (count_env env ''MAX_PROBES'' ''500'') (\<lambda>max_probes.
     bind_result (parseCIDRs (envOr env ''METRICS_ALLOWED_CIDRS'' [])) (\<lambda>allowed.
     bind_result (parseCIDRs (envOr env ''TRUSTED_PROXY_CIDRS'' [])) (\<lambda>trusted.
     bind_result (case find is_catch_all trusted of
                    Some n \<Rightarrow> Inl (CatchAllProxy n) | None \<Rightarrow> Inr ()) (\<lambda>_.
     bind_result (parseLevel (envOr env ''LOG_LEVEL'' ''info'')) (\<lambda>level.
       Inr \<lparr>ListenAddr = envOr env ''LISTEN_ADDR'' ''0.0.0.0:8080'',
            MetricsAddr = envOr env ''METRICS_ADDR'' ''127.0.0.1:9090'',
            DataDir = envOr env ''DATA_DIR'' ''/data'',
            PublicBaseURL = envOr env ''PUBLIC_BASE_URL'' [],
            AdminUsername = envOr env ''ADMIN_USERNAME'' ''admin'',
            AdminPassword = envOr env ''ADMIN_PASSWORD'' [],
            OnlineThreshold = online, RateLimit = rate, RateLimitBurst = burst,
            RegisterLimit = reg, RegisterLimitBurst = reg_burst, MaxProbes = max_probes,
            MetricsAllowedCIDRs = allowed, TrustedProxyCIDRs = trusted, LogLevel = level\<rparr>))))))))))"

section \<open>What a loaded configuration promises\<close>

definition config_inv :: "config \<Rightarrow> bool" where
  "config_inv c \<longleftrightarrow>
     0 < OnlineThreshold c \<and> 0 < RateLimit c \<and> 1 \<le> RateLimitBurst c \<and> 0 < RegisterLimit c \<and>
     1 \<le> RegisterLimitBurst c \<and> 1 \<le> MaxProbes c \<and> AdminUsername c \<noteq> [] \<and> ListenAddr c \<noteq> [] \<and>
     list_all (\<lambda>n. \<not> is_catch_all n) (TrustedProxyCIDRs c)"

lemma positive_duration_Inr [gw_results]:
  "positive_duration env key def = Inr d \<longleftrightarrow> durationEnv env key def = Inr d \<and> 0 < d"
  by (cases "durationEnv env key def") (auto simp: positive_duration_def)

lemma count_env_Inr [gw_results]:
  "count_env env key def = Inr n \<longleftrightarrow> atoi (envOr env key def) = Some n \<and> 1 \<le> n"
  by (auto simp: count_env_def Let_def split: option.splits)

lemma envOr_nonempty [simp]: "def \<noteq> [] \<Longrightarrow> envOr env key def \<noteq> []"
  by (simp add: envOr_def Let_def)

lemma no_catch_all [gw_results]:
  "(case find is_catch_all ns of Some n \<Rightarrow> Inl (CatchAllProxy n) | None \<Rightarrow> Inr ()) = Inr u \<longleftrightarrow>
   list_all (\<lambda>n. \<not> is_catch_all n) ns"
  by (induction ns) auto

lemma Load_inv: "Load env = Inr c \<Longrightarrow> config_inv c"
  by (auto simp: Load_def gw_results config_inv_def)

section \<open>What the catch-all check is worth\<close>

text \<open>
  The check looks at the prefix length only.  The network of all IPv4 addresses written in
  its IPv6 form has a prefix of 96 bits, so it is accepted, and \<open>Contains\<close> then compares
  nothing of an IPv4 address.
\<close>

definition mapped_v4_net :: ip_net where
  "mapped_v4_net = \<lparr>n_IP = v4_prefix @ [0, 0, 0, 0], n_Mask = replicate 12 255 @ replicate 4 0\<rparr>"

lemma mapped_v4_parsed: "parseCIDRs ''::ffff:0:0/96'' = Inr [mapped_v4_net]"
proof -
  have split: "split_on CHR '','' ''::ffff:0:0/96'' = [''::ffff:0:0/96'']" by simp
  have trim: "trim_space ''::ffff:0:0/96'' = ''::ffff:0:0/96''"
    by (simp add: trim_space_def trim_left.simps trim_end_rev.simps space_width_def space_width_end_def code_def)
  have h: "hex_digit_val CHR ''f'' = Some 15" "hex_digit_val CHR ''0'' = Some 0" "hex_digit_val CHR '':'' = None"
    by (simp_all add: hex_digit_val_def is_digit_def code_def)
  have "parse_v6_fields (Suc (Suc (Suc n))) ''ffff:0:0'' [] (Some 0) = Some ([255, 255, 0, 0, 0, 0], Some 0)" for n
    by (simp add: h)
  from this [of 5] have fields: "parse_v6_fields 8 ''ffff:0:0'' [] (Some 0) = Some ([255, 255, 0, 0, 0, 0], Some 0)"
    by (simp add: eval_nat_numeral)
  have "expand_ellipsis ([255, 255, 0, 0, 0, 0], Some 0) = Some (v4_prefix @ [0, 0, 0, 0])"
    by (simp add: expand_ellipsis_def v4_prefix_def)
  then have "parse_v6 ''::ffff:0:0'' = Some (v4_prefix @ [0, 0, 0, 0])"
    by (simp add: parse_v6_def fields del: hex_field.simps parse_v6_fields.simps)
  then have addr: "parse_addr ''::ffff:0:0'' = Some (v4_prefix @ [0, 0, 0, 0], False)"
    by (simp add: parse_addr_def)
  have mask: "CIDRMask 96 16 = replicate 12 255 @ replicate 4 0"
    "mask_ip (v4_prefix @ [0, 0, 0, 0]) (replicate 12 255 @ replicate 4 0) = v4_prefix @ [0, 0, 0, 0]"
    "read_nat ''96'' = Some 96" "list_all is_digit ''96''"
    by code_simp+
  have "ParseCIDR ''::ffff:0:0/96'' = Some mapped_v4_net"
    by (simp add: ParseCIDR_def addr mask mapped_v4_net_def is_digit_def code_def)
  then show ?thesis by (simp add: parseCIDRs_def split trim)
qed

lemma mapped_v4_not_catch_all: "\<not> is_catch_all mapped_v4_net"
  by code_simp

lemma mapped_v4_numbers: "networkNumberAndMask mapped_v4_net = Some ([0, 0, 0, 0], [0, 0, 0, 0])"
  by code_simp

lemma and_byte_0: "a < 256 \<Longrightarrow> and_byte a 0 = 0"
  by (simp add: and_byte_def)

lemma mapped_v4_contains:
  assumes "length a = 4" "list_all (\<lambda>b. b < 256) a"
  shows "Contains mapped_v4_net (v4_prefix @ a)"
proof -
  obtain x y z w where a: "a = [x, y, z, w]" using assms(1) by (auto simp: length_Suc_conv eval_nat_numeral)
  have "To4 (v4_prefix @ a) = Some a" by (simp add: To4_def a v4_prefix_def)
  with assms(2) a show ?thesis
    by (simp add: Contains_def mapped_v4_numbers Let_def and_byte_0)
qed


end
