(* ===== verification/Portal_Register.thy ===== *)
theory Portal_Register
  imports Portal_OneShot Portal_Limiter Portal_Text Store_Catalog Config_Load
begin

text \<open>
  \<open>internal/portal/portal.go\<close> and \<open>internal/portal/register.go\<close>: the public registration
  pages.  A handler takes the configuration \<open>cfg\<close>, whether a template executes (\<open>exec\<close>),
  the clock, the faults \<open>io i\<close> of its \<open>i\<close>-th store call and the outcome \<open>rnd i\<close> of its \<open>i\<close>-th
  draw of random bytes.
\<close>

section \<open>State and pages\<close>

definition oneShotTTL :: int where "oneShotTTL = 60 * Second"

definition portalPages :: "string list" where
  "portalPages = [''register.html'', ''token.html'']"

record 'b portal_state = "'b api_state" +
  ps_oneShot :: one_shot_store
  ps_limiter :: "'b register_limiter option"

datatype portal_page =
    RegisterPage "campus list" string bool "building list option"
  | TokenPage string string string string
  | TokenGone string

type_synonym portal_exec = "string \<Rightarrow> portal_page page_data \<Rightarrow> bool"

definition portal_data :: "string \<Rightarrow> string \<Rightarrow> portal_page \<Rightarrow> portal_page page_data" where
  "portal_data title err pages =
     \<lparr>pd_Title = title, pd_Username = [], pd_CSRF = [], pd_Error = err, pd_Pages = pages\<rparr>"

text \<open>\<open>NewServer\<close> refuses to start without a positive probe cap; the one-shot store starts empty.\<close>

definition portal_NewServer :: "config option \<Rightarrow> 'b register_limiter option \<Rightarrow>
    (one_shot_store \<times> 'b register_limiter option) option" where
  "portal_NewServer cfg lm =
     (case cfg of
        None \<Rightarrow> None
      | Some c \<Rightarrow> if MaxProbes c \<le> 0 then None else Some (newOneShotStore oneShotTTL, lm))"

definition MintTokenSlot :: "(nat \<Rightarrow> string option) \<Rightarrow> int \<Rightarrow> string \<Rightarrow> string \<Rightarrow> string \<Rightarrow>
    ('b, 'm) portal_state_scheme \<Rightarrow> string option \<times> ('b, 'm) portal_state_scheme" where
  "MintTokenSlot rnd now probeID tok back st =
     (let (slot, os) = putPair rnd now probeID tok back (ps_oneShot st) in (slot, st\<lparr>ps_oneShot := os\<rparr>))"

text \<open>A request without an Origin, or a gateway without a base URL, is not refused.\<close>

definition originAllowed :: "config \<Rightarrow> web_request \<Rightarrow> bool" where
  "originAllowed cfg rq =
     (if wq_Origin rq = [] then True
      else case url_Host (wq_Origin rq) of
             None \<Rightarrow> False
           | Some host \<Rightarrow>
               (case url_Host (PublicBaseURL cfg) of
                  None \<Rightarrow> True
                | Some base \<Rightarrow> if base = [] then True else host = base))"

section \<open>The form\<close>

record registration_form =
  f_campusCode :: string
  f_buildingCode :: string
  f_networkType :: string
  f_description :: string

definition validateRegistration :: "registration_form \<Rightarrow> faults \<Rightarrow> db \<Rightarrow> string" where
  "validateRegistration f io d =
     (if \<not> MatchString codePattern (f_campusCode f) then msg_choose_campus
      else if \<not> MatchString codePattern (f_buildingCode f) then msg_choose_building
      else if f_networkType f \<notin> set networkTypes then msg_network_type
      else if rune_count (f_description f) > 256 then msg_description
      else case GetBuilding (f_buildingCode f) io d of
             Inl ErrNotFound \<Rightarrow> msg_no_building
           | Inl _ \<Rightarrow> msg_building_check
           | Inr b \<Rightarrow> if b_CampusCode b \<noteq> f_campusCode f then msg_other_campus else [])"

text \<open>\<open>renderForm\<close> reads the catalog again, with its own two store calls.\<close>

definition renderForm :: "portal_exec \<Rightarrow> faults \<Rightarrow> faults \<Rightarrow> int \<Rightarrow> string \<Rightarrow> string \<Rightarrow> db \<Rightarrow>
    portal_page web_response" where
  "renderForm exec io1 io2 status errMsg campus d =
     (case ListCampuses io1 d of
        Inl _ \<Rightarrow> internal_error
      | Inr campuses \<Rightarrow>
          (if campus = [] then
             Render portalPages exec status ''register.html''
               (portal_data title_register errMsg (RegisterPage campuses campus (campuses = []) None))
           else
             (case ListBuildingsByCampus campus io2 d of
                Inl _ \<Rightarrow> internal_error
              | Inr buildings \<Rightarrow>
                  Render portalPages exec status ''register.html''
                    (portal_data title_register errMsg
                       (RegisterPage campuses campus (campuses = []) (Some buildings))))))"

definition handleForm :: "portal_exec \<Rightarrow> (nat \<Rightarrow> faults) \<Rightarrow> web_request \<Rightarrow> db \<Rightarrow> portal_page web_response" where
  "handleForm exec io rq d =
     renderForm exec (io 0) (io 1) StatusOK [] (trim_space (QueryValue rq ''campus'')) d"

section \<open>Registration\<close>

definition maxAttempts :: nat where "maxAttempts = 5"

text \<open>
  The loop over probe IDs: a duplicate is tried again with a fresh ID, anything else ends it.
  \<open>i\<close> counts the attempts made; \<open>None\<close> is an internal error.
\<close>

fun create_attempts :: "nat \<Rightarrow> int \<Rightarrow> string \<Rightarrow> string \<Rightarrow> (nat \<Rightarrow> nat \<Rightarrow> string option) \<Rightarrow> (nat \<Rightarrow> faults) \<Rightarrow>
    nat \<Rightarrow> probe \<Rightarrow> db \<Rightarrow> probe option \<times> db" where
  "create_attempts 0 now campus building rnd io i p d = (None, d)"
| "create_attempts (Suc n) now campus building rnd io i p d =
     (case generateProbeID campus building (rnd i) of
        None \<Rightarrow> (None, d)
      | Some pid \<Rightarrow>
          (case CreateProbe now (p\<lparr>p_ProbeID := pid\<rparr>) (io i) d of
             (Inr made, d') \<Rightarrow> (Some made, d')
           | (Inl ErrDuplicate, d') \<Rightarrow> create_attempts n now campus building rnd io (Suc i) p d'
           | (Inl _, d') \<Rightarrow> (None, d')))"

definition new_probe :: "string \<Rightarrow> campus \<Rightarrow> building \<Rightarrow> string \<Rightarrow> string \<Rightarrow> string \<Rightarrow> probe" where
  "new_probe rawToken campus building networkType description createdVia =
     \<lparr>p_ID = 0, p_ProbeID = [], p_TokenHash = Hash rawToken, p_CampusCode = c_Code campus,
      p_CampusName = c_Name campus, p_BuildingGroupCode = b_BuildingGroupCode building,
      p_BuildingGroupName = b_BuildingGroupName building, p_BuildingCode = b_Code building,
      p_BuildingName = b_Name building, p_NetworkType = networkType, p_Enabled = True,
      p_Description = description, p_RotatedAt = None, p_CreatedVia = createdVia, p_CreatedAt = None,
      p_UpdatedAt = None\<rparr>"

definition register_allowed :: "'b rate_ops \<Rightarrow> int \<Rightarrow> string \<Rightarrow> ('b, 'm) portal_state_scheme \<Rightarrow>
    bool \<times> ('b, 'm) portal_state_scheme" where
  "register_allowed ops now ip st =
     (case ps_limiter st of
        None \<Rightarrow> (True, st)
      | Some l \<Rightarrow> (let (ok, l') = register_Allow ops now ip l in (ok, st\<lparr>ps_limiter := Some l'\<rparr>)))"

text \<open>
  What follows once the allowance is spent: store calls 4 (the count) and 5 to 9 (the
  attempts), draws 0 (the token), 5 to 9 (the IDs) and 10 (the slot).
\<close>

definition cap_message :: "config \<Rightarrow> string" where
  "cap_message cfg = msg_cap_before @ itoa (MaxProbes cfg) @ msg_cap_after"

definition admit_registration :: "config \<Rightarrow> portal_exec \<Rightarrow> int \<Rightarrow> (nat \<Rightarrow> faults) \<Rightarrow> (nat \<Rightarrow> nat \<Rightarrow> string option) \<Rightarrow>
    registration_form \<Rightarrow> campus \<Rightarrow> building \<Rightarrow> ('b, 'm) portal_state_scheme \<Rightarrow>
    portal_page web_response \<times> ('b, 'm) portal_state_scheme" where
  "admit_registration cfg exec now io rnd f campus building st =
     (case CountProbes (io 4) (as_db st) of
        Inl _ \<Rightarrow> (internal_error, st)
      | Inr n \<Rightarrow>
          (if n \<ge> MaxProbes cfg then
             (renderForm exec (io 10) (io 11) StatusServiceUnavailable (cap_message cfg) (f_campusCode f) (as_db st), st)
           else case Generate (rnd 0) of
             None \<Rightarrow> (internal_error, st)
           | Some rawToken \<Rightarrow>
               (case create_attempts maxAttempts now (c_Code campus) (b_Code building) rnd io 5
                       (new_probe rawToken campus building (f_networkType f) (f_description f) ''public'')
                       (as_db st) of
                  (None, d) \<Rightarrow> (internal_error, st\<lparr>as_db := d\<rparr>)
                | (Some probe, d) \<Rightarrow>
                    (case MintTokenSlot (rnd 10) now (p_ProbeID probe) rawToken ''/'' (st\<lparr>as_db := d\<rparr>) of
                       (None, st') \<Rightarrow> (internal_error, st')
                     | (Some slot, st') \<Rightarrow> (Redirect (''/token/'' @ slot), st')))))"

definition handleRegister :: "'b rate_ops \<Rightarrow> config \<Rightarrow> portal_exec \<Rightarrow> int \<Rightarrow> (nat \<Rightarrow> faults) \<Rightarrow>
    (nat \<Rightarrow> nat \<Rightarrow> string option) \<Rightarrow> web_request \<Rightarrow> ('b, 'm) portal_state_scheme \<Rightarrow>
    portal_page web_response \<times> ('b, 'm) portal_state_scheme" where
  "handleRegister ops cfg exec now io rnd rq st =
     (if \<not> originAllowed cfg rq then (http_Error ''forbidden origin'' StatusForbidden, st)
      else if ParseForm_fails rq then (http_Error ''invalid form'' StatusBadRequest, st)
      else
        (let d = as_db st;
             f = \<lparr>f_campusCode = trimmed_value rq ''campus_code'', f_buildingCode = trimmed_value rq ''building_code'',
                   f_networkType = trimmed_value rq ''network_type'', f_description = trimmed_value rq ''description''\<rparr>;
             refuse = (\<lambda>status msg campus. renderForm exec (io 10) (io 11) status msg campus d)
         in case ListCampuses (io 0) d of
              Inl _ \<Rightarrow> (internal_error, st)
            | Inr campuses \<Rightarrow>
                (if campuses = [] then (refuse StatusServiceUnavailable msg_no_campus [], st)
                 else
                   (let msg = validateRegistration f (io 1) d in
                    if msg \<noteq> [] then (refuse StatusBadRequest msg (f_campusCode f), st)
                    else case GetBuilding (f_buildingCode f) (io 2) d of
                           Inl _ \<Rightarrow> (refuse StatusBadRequest msg_no_building (f_campusCode f), st)
                         | Inr building \<Rightarrow>
                             (case GetCampus (b_CampusCode building) (io 3) d of
                                Inl _ \<Rightarrow> (refuse StatusBadRequest msg_campus_gone (f_campusCode f), st)
                              | Inr campus \<Rightarrow>
                                  (let (ok, st) = register_allowed ops now
                                         (clientip_From (peer_info.truncate rq) (TrustedProxyCIDRs cfg)) st in
                                   if \<not> ok
                                   then (refuse StatusTooManyRequests msg_too_often (f_campusCode f), st)
                                   else admit_registration cfg exec now io rnd f campus building st))))))"

section \<open>The token page and the routes\<close>

definition handleTokenShow :: "config \<Rightarrow> portal_exec \<Rightarrow> int \<Rightarrow> string \<Rightarrow> ('b, 'm) portal_state_scheme \<Rightarrow>
    portal_page web_response \<times> ('b, 'm) portal_state_scheme" where
  "handleTokenShow cfg exec now slot st =
     (case takePair now slot (ps_oneShot st) of
        (None, os) \<Rightarrow>
          (Render portalPages exec StatusGone ''token.html''
             (portal_data title_token_gone msg_token_gone (TokenGone ''/'')), st\<lparr>ps_oneShot := os\<rparr>)
      | (Some rec, os) \<Rightarrow>
          (Render portalPages exec StatusOK ''token.html''
             (portal_data title_token []
                (TokenPage (os_probeID rec) (os_value rec) (trim_suffix (PublicBaseURL cfg) ''/'') (os_back rec))),
           st\<lparr>ps_oneShot := os\<rparr>))"

text \<open>The path's one wildcard segment; a \<open>GET\<close> route also answers \<open>HEAD\<close>.\<close>

definition token_slot :: "string \<Rightarrow> string option" where
  "token_slot path =
     (let slot = trim_prefix path ''/token/'' in
      if has_prefix path ''/token/'' \<and> slot \<noteq> [] \<and> CHR ''/'' \<notin> set slot then Some slot else None)"

definition serve_portal :: "'b rate_ops \<Rightarrow> config \<Rightarrow> portal_exec \<Rightarrow> int \<Rightarrow> (nat \<Rightarrow> faults) \<Rightarrow>
    (nat \<Rightarrow> nat \<Rightarrow> string option) \<Rightarrow> web_request \<Rightarrow> ('b, 'm) portal_state_scheme \<Rightarrow>
    (portal_page web_response \<times> ('b, 'm) portal_state_scheme) option" where
  "serve_portal ops cfg exec now io rnd rq st =
     (if rq_Path rq = ''/'' \<and> rq_Method rq \<in> {''GET'', ''HEAD''} then Some (handleForm exec io rq (as_db st), st)
      else if rq_Path rq = ''/'' \<and> rq_Method rq = ''POST'' then
        Some (handleRegister ops cfg exec now io rnd rq st)
      else if rq_Method rq \<in> {''GET'', ''HEAD''} then
        map_option (\<lambda>slot. handleTokenShow cfg exec now slot st) (token_slot (rq_Path rq))
      else None)"

section \<open>What a registration does\<close>

lemma Render_status: "wp_Status (Render ts ex st p d) \<in> {st, StatusInternalServerError}"
  by (simp add: Render_def)

lemma renderForm_status: "wp_Status (renderForm ex io1 io2 st msg c d) \<in> {st, StatusInternalServerError}"
  by (auto simp: renderForm_def internal_error_def Render_def split: sum.splits)

lemma renderForm_not_redirect:
  "st \<noteq> StatusSeeOther \<Longrightarrow> wp_Status (renderForm ex io1 io2 st msg c d) \<noteq> StatusSeeOther"
  using renderForm_status [of ex io1 io2 st msg c d] by (auto simp: web_status_defs)

lemma CreateProbe_duplicate: "CreateProbe now p io d = (Inl ErrDuplicate, d') \<Longrightarrow> d' = d"
  by (auto simp: CreateProbe_def Let_def GetProbe_def select_probe_def split: if_splits sum.splits option.splits)

text \<open>The row a successful creation adds, and everything it leaves alone.\<close>

definition adds_probe :: "probe \<Rightarrow> db \<Rightarrow> db \<Rightarrow> bool" where
  "adds_probe p d d' \<longleftrightarrow>
     (\<exists>row. d' = d\<lparr>db_probes := db_probes d @ [row], db_probe_seq := db_probe_seq d + 1\<rparr> \<and>
        pr_probe_id row = p_ProbeID p \<and> pr_token_hash row = p_TokenHash p \<and>
        (pr_enabled row \<noteq> 0 \<longleftrightarrow> p_Enabled p) \<and> pr_campus_code row = p_CampusCode p \<and>
        pr_building_code row = p_BuildingCode p \<and> pr_network_type row = p_NetworkType p \<and>
        pr_created_via row = createdViaOrDefault (p_CreatedVia p))"

lemma CreateProbe_adds:
  "CreateProbe now p io d = (Inr q, d') \<Longrightarrow>
   adds_probe p d d' \<and> p_ProbeID q = p_ProbeID p \<and> p_TokenHash p \<notin> pr_token_hash ` set (db_probes d) \<and>
   p_ProbeID p \<notin> pr_probe_id ` set (db_probes d)"
  using CreateProbe_fresh [of now p io d q d']
  by (auto simp: CreateProbe_def Let_def new_probe_row_def adds_probe_def split: if_splits sum.splits)

lemma CreateProbe_grows:
  "CreateProbe now p io d = (r, d') \<Longrightarrow> d' = d \<or> adds_probe p d d'"
  by (auto simp: CreateProbe_def Let_def new_probe_row_def adds_probe_def split: if_splits sum.splits)

lemma create_attempts_adds:
  "create_attempts n now campus building rnd io i p d = (Some q, d') \<Longrightarrow>
   \<exists>k buf. rnd k probeIDRandomBytes = Some buf \<and>
     p_ProbeID q = campus @ ''-'' @ building @ ''-'' @ hex_encode buf \<and>
     adds_probe (p\<lparr>p_ProbeID := p_ProbeID q\<rparr>) d d' \<and>
     p_TokenHash p \<notin> pr_token_hash ` set (db_probes d) \<and> p_ProbeID q \<notin> pr_probe_id ` set (db_probes d)"
proof (induction n arbitrary: i d)
  case (Suc n)
  then obtain pid where pid: "generateProbeID campus building (rnd i) = Some pid"
    by (auto split: option.splits)
  obtain r d1 where c: "CreateProbe now (p\<lparr>p_ProbeID := pid\<rparr>) (io i) d = (r, d1)" by fastforce
  show ?case
  proof (cases r)
    case (Inr made)
    with Suc.prems pid c have "q = made" "d' = d1" by auto
    with Inr c CreateProbe_adds [OF c [unfolded Inr]] pid show ?thesis
      by (auto simp: generateProbeID_def)
  next
    case (Inl e)
    show ?thesis
    proof (cases "e = ErrDuplicate")
      case True
      then have "d1 = d" using CreateProbe_duplicate c Inl by blast
      with True Suc c Inl pid show ?thesis by auto
    next
      case False
      with Suc.prems c Inl pid show ?thesis by (cases e) auto
    qed
  qed
qed simp

lemma create_attempts_grows:
  "create_attempts n now campus building rnd io i p d = (r, d') \<Longrightarrow>
   d' = d \<or> (\<exists>pid. adds_probe (p\<lparr>p_ProbeID := pid\<rparr>) d d')"
proof (induction n arbitrary: i d)
  case (Suc n)
  show ?case
  proof (cases "generateProbeID campus building (rnd i)")
    case (Some pid)
    obtain r1 d1 where c: "CreateProbe now (p\<lparr>p_ProbeID := pid\<rparr>) (io i) d = (r1, d1)" by fastforce
    show ?thesis
    proof (cases "r1 = Inl ErrDuplicate")
      case True
      then have "d1 = d" using CreateProbe_duplicate c by blast
      with True Suc c Some show ?thesis by auto
    next
      case False
      with Suc.prems c Some have "d' = d1" by (cases r1) (auto split: store_error.splits)
      with CreateProbe_grows [OF c] show ?thesis by auto
    qed
  qed (use Suc.prems in simp)
qed simp

text \<open>The validator accepts exactly the submissions whose building is in the named campus.\<close>

lemma validateRegistration_ok:
  "validateRegistration f io d = [] \<longleftrightarrow>
     MatchString codePattern (f_campusCode f) \<and> MatchString codePattern (f_buildingCode f) \<and>
     f_networkType f \<in> set networkTypes \<and> rune_count (f_description f) \<le> 256 \<and>
     (\<exists>b. GetBuilding (f_buildingCode f) io d = Inr b \<and> b_CampusCode b = f_campusCode f)"
  by (auto simp: validateRegistration_def split: sum.splits store_error.splits)

lemma GetBuilding_sound:
  "GetBuilding cd io d = Inr b \<Longrightarrow> b_Code b = cd \<and> (\<exists>r \<in> set (db_buildings d). br_code r = cd \<and> b = scanBuilding r)"
  by (auto simp: GetBuilding_def scanBuilding_def dest!: find_some split: if_splits option.splits)

lemma GetCampus_sound:
  "GetCampus cd io d = Inr c \<Longrightarrow> c_Code c = cd \<and> cd \<in> cr_code ` set (db_campuses d)"
  by (auto simp: GetCampus_def scanCampus_def dest!: find_some split: if_splits option.splits)

section \<open>The outcomes of a submission\<close>

lemma http_Error_not_redirect [simp]:
  "wp_Status (internal_error :: 'p web_response) \<noteq> StatusSeeOther"
  by (simp add: internal_error_def web_status_defs)

definition admitted_probe :: "registration_form \<Rightarrow> campus \<Rightarrow> building \<Rightarrow> string \<Rightarrow> probe" where
  "admitted_probe f campus building tok =
     new_probe tok campus building (f_networkType f) (f_description f) ''public''"

lemma admit_registration_cases:
  assumes "admit_registration cfg exec now io rnd f campus building st = (rs, st')"
  obtains (created) tok p slot where "Generate (rnd 0) = Some tok" "length (db_probes (as_db st)) < nat (MaxProbes cfg)"
      "create_attempts maxAttempts now (c_Code campus) (b_Code building) rnd io 5
         (admitted_probe f campus building tok) (as_db st) = (Some p, as_db st')"
      "putPair (rnd 10) now (p_ProbeID p) tok ''/'' (ps_oneShot st) = (Some slot, ps_oneShot st')"
      "rs = Redirect (''/token/'' @ slot)" "st' = st\<lparr>as_db := as_db st', ps_oneShot := ps_oneShot st'\<rparr>"
  | (refused) "wp_Status rs \<in> {StatusServiceUnavailable, StatusInternalServerError}" "st' = st"
  | (broken) "rs = internal_error" "length (db_probes (as_db st)) < nat (MaxProbes cfg)"
      "\<exists>tok pid. adds_probe ((admitted_probe f campus building tok)\<lparr>p_ProbeID := pid\<rparr>) (as_db st) (as_db st')"
      "st' = st\<lparr>as_db := as_db st'\<rparr>"
proof (cases "CountProbes (io 4) (as_db st)")
  case (Inl e)
  with assms show ?thesis by (intro refused) (auto simp: admit_registration_def internal_error_def)
next
  case (Inr n)
  then have n: "n = int (length (db_probes (as_db st)))" by (auto simp: CountProbes_def split: if_splits)
  show ?thesis
  proof (cases "n \<ge> MaxProbes cfg")
    case True
    have e: "(rs, st') = (renderForm exec (io 10) (io 11) StatusServiceUnavailable (cap_message cfg)
        (f_campusCode f) (as_db st), st)"
      unfolding assms [symmetric] using True Inr by (simp add: admit_registration_def)
    from e renderForm_status show ?thesis by (intro refused) simp_all
  next
    case False
    then have room: "length (db_probes (as_db st)) < nat (MaxProbes cfg)" using n by linarith
    show ?thesis
    proof (cases "Generate (rnd 0)")
      case None
      with Inr False assms show ?thesis by (intro refused) (auto simp: admit_registration_def internal_error_def)
    next
      case (Some tok)
      let ?new = "admitted_probe f campus building tok"
      obtain r d where c: "create_attempts maxAttempts now (c_Code campus) (b_Code building) rnd io 5 ?new (as_db st) = (r, d)"
        by fastforce
      show ?thesis
      proof (cases r)
        case None
        with Inr False Some c assms have st': "rs = internal_error" "st' = st\<lparr>as_db := d\<rparr>"
          by (simp_all add: admit_registration_def admitted_probe_def)
        from create_attempts_grows [OF c] show ?thesis
        proof
          assume "d = as_db st"
          with st' show ?thesis by (intro refused) (simp_all add: internal_error_def)
        next
          assume "\<exists>pid. adds_probe (?new\<lparr>p_ProbeID := pid\<rparr>) (as_db st) d"
          with st' room show ?thesis by (intro broken) auto
        qed
      next
        case (Some p)
        note p = this
        obtain slot os where m: "putPair (rnd 10) now (p_ProbeID p) tok ''/'' (ps_oneShot st) = (slot, os)" by fastforce
        show ?thesis
        proof (cases slot)
          case None
          then have "os = ps_oneShot st" using m by (auto simp: putPair_def split: option.splits)
          with None m p c Inr False \<open>Generate (rnd 0) = Some tok\<close> assms
          have "rs = internal_error" "st' = st\<lparr>as_db := d\<rparr>"
            by (auto simp: admit_registration_def admitted_probe_def MintTokenSlot_def)
          with create_attempts_adds [OF c [unfolded p]] room show ?thesis by (intro broken) auto
        next
          case (Some sl)
          with m p c Inr False \<open>Generate (rnd 0) = Some tok\<close> assms
          have "rs = Redirect (''/token/'' @ sl)" "st' = st\<lparr>as_db := d, ps_oneShot := os\<rparr>"
            by (auto simp: admit_registration_def admitted_probe_def MintTokenSlot_def)
          with Some m p c \<open>Generate (rnd 0) = Some tok\<close> room show ?thesis by (intro created) auto
        qed
      qed
    qed
  qed
qed

definition form_of :: "web_request \<Rightarrow> registration_form" where
  "form_of rq =
     \<lparr>f_campusCode = trimmed_value rq ''campus_code'', f_buildingCode = trimmed_value rq ''building_code'',
       f_networkType = trimmed_value rq ''network_type'', f_description = trimmed_value rq ''description''\<rparr>"

lemma register_allowed_frame:
  "as_db (snd (register_allowed ops now ip st)) = as_db st" "as_latest (snd (register_allowed ops now ip st)) = as_latest st"
  "ps_oneShot (snd (register_allowed ops now ip st)) = ps_oneShot st" "as_limiter (snd (register_allowed ops now ip st)) = as_limiter st"
  by (simp_all add: register_allowed_def split_beta split: option.split)

lemma handleRegister_cases:
  assumes "handleRegister ops cfg exec now io rnd rq st = (rs, st')"
  obtains (early) "st' = st" "wp_Status rs \<in> {StatusForbidden, StatusBadRequest, StatusServiceUnavailable, StatusInternalServerError}"
  | (throttled) "st' = snd (register_allowed ops now (clientip_From (peer_info.truncate rq) (TrustedProxyCIDRs cfg)) st)"
      "wp_Status rs \<in> {StatusTooManyRequests, StatusInternalServerError}"
  | (admitted) building campus where "originAllowed cfg rq" "\<not> ParseForm_fails rq"
      "validateRegistration (form_of rq) (io 1) (as_db st) = []"
      "GetBuilding (f_buildingCode (form_of rq)) (io 2) (as_db st) = Inr building"
      "GetCampus (b_CampusCode building) (io 3) (as_db st) = Inr campus"
      "fst (register_allowed ops now (clientip_From (peer_info.truncate rq) (TrustedProxyCIDRs cfg)) st)"
      "admit_registration cfg exec now io rnd (form_of rq) campus building
         (snd (register_allowed ops now (clientip_From (peer_info.truncate rq) (TrustedProxyCIDRs cfg)) st)) = (rs, st')"
proof -
  let ?d = "as_db st" and ?f = "form_of rq"
  let ?lim = "register_allowed ops now (clientip_From (peer_info.truncate rq) (TrustedProxyCIDRs cfg)) st"
  have early_form: thesis if "st' = st" "rs = renderForm exec (io 10) (io 11) s m c d" "s \<in> {StatusBadRequest, StatusServiceUnavailable}" for s m c d
    using that renderForm_status [of exec "io 10" "io 11" s m c d] by (intro early) auto
  show thesis
  proof (cases "originAllowed cfg rq \<and> \<not> ParseForm_fails rq")
    case False
    with assms have "st' = st" "wp_Status rs \<in> {StatusForbidden, StatusBadRequest}"
      by (auto simp: handleRegister_def split: if_splits)
    then show thesis by (intro early) auto
  next
    case ok: True
    show thesis
    proof (cases "ListCampuses (io 0) ?d")
      case (Inl e)
      with ok assms show thesis by (intro early) (auto simp: handleRegister_def Let_def internal_error_def)
    next
      case (Inr campuses)
      note run = assms [unfolded handleRegister_def Let_def form_of_def [symmetric]]
      show thesis
      proof (cases "campuses = []")
        case True
        with ok Inr run show thesis by (intro early_form [where s = StatusServiceUnavailable]) auto
      next
        case ne: False
        show thesis
        proof (cases "validateRegistration ?f (io 1) ?d = []")
          case False
          with ne ok Inr run show thesis by (intro early_form [where s = StatusBadRequest]) auto
        next
          case valid: True
          show thesis
          proof (cases "GetBuilding (f_buildingCode ?f) (io 2) ?d")
            case (Inl e)
            with valid ne ok Inr run show thesis by (intro early_form [where s = StatusBadRequest]) auto
          next
            case b: (Inr building)
            show thesis
            proof (cases "GetCampus (b_CampusCode building) (io 3) ?d")
              case (Inl e)
              with b valid ne ok Inr run show thesis by (intro early_form [where s = StatusBadRequest]) auto
            next
              case c: (Inr campus)
              show thesis
              proof (cases "fst ?lim")
                case True
                with c b valid ne ok Inr run show thesis by (intro admitted) (auto simp: split_beta)
              next
                case False
                with c b valid ne ok Inr run have "st' = snd ?lim"
                  "rs = renderForm exec (io 10) (io 11) StatusTooManyRequests msg_too_often (f_campusCode ?f) ?d"
                  by (auto simp: split_beta)
                with renderForm_status [of exec "io 10" "io 11" StatusTooManyRequests msg_too_often "f_campusCode ?f" ?d]
                show thesis by (intro throttled) auto
              qed
            qed
          qed
        qed
      qed
    qed
  qed
qed

section \<open>Progress\<close>

lemma CreateProbe_fresh_ok:
  assumes "p_ProbeID p \<notin> pr_probe_id ` set (db_probes d)" "p_TokenHash p \<notin> pr_token_hash ` set (db_probes d)"
  shows "\<exists>q d'. CreateProbe now p no_faults d = (Inr q, d')"
proof -
  have "\<not> (\<exists>r \<in> set (db_probes d). pr_probe_id r = p_ProbeID p \<or> pr_token_hash r = p_TokenHash p)"
    using assms by (metis imageI)
  moreover have "find (\<lambda>r. pr_probe_id r = p_ProbeID p) (db_probes d @ [r]) = Some r" if "pr_probe_id r = p_ProbeID p" for r
    using that calculation by (subst find_append_last) auto
  ultimately show ?thesis
    by (simp add: CreateProbe_def Let_def GetProbe_def select_probe_def new_probe_row_def)
qed

text \<open>The loop succeeds as soon as one of the IDs it draws is unused.\<close>

lemma create_attempts_succeeds:
  assumes "j < n" "\<forall>k. rnd k probeIDRandomBytes \<noteq> None" "rnd (i + j) probeIDRandomBytes = Some buf"
    "campus @ ''-'' @ building @ ''-'' @ hex_encode buf \<notin> pr_probe_id ` set (db_probes d)"
    "p_TokenHash p \<notin> pr_token_hash ` set (db_probes d)"
  shows "\<exists>q d'. create_attempts n now campus building rnd (\<lambda>_. no_faults) i p d = (Some q, d')"
  using assms
proof (induction n arbitrary: i j)
  case (Suc n)
  obtain b where b: "rnd i probeIDRandomBytes = Some b" using Suc.prems(2) by blast
  then obtain pid where pid: "generateProbeID campus building (rnd i) = Some pid"
    "pid = campus @ ''-'' @ building @ ''-'' @ hex_encode b" by (simp add: generateProbeID_def)
  show ?case
  proof (cases "pid \<in> pr_probe_id ` set (db_probes d)")
    case False
    with CreateProbe_fresh_ok [of "p\<lparr>p_ProbeID := pid\<rparr>" d now] Suc.prems(5) pid(1) show ?thesis by auto
  next
    case True
    then have dup: "CreateProbe now (p\<lparr>p_ProbeID := pid\<rparr>) no_faults d = (Inl ErrDuplicate, d)"
      by (auto simp: CreateProbe_def Let_def)
    with True Suc.prems(3,4) b pid have "j \<noteq> 0" by (cases j) auto
    then obtain j' where j: "j = Suc j'" by (cases j) auto
    with Suc.prems have "\<exists>q d'. create_attempts n now campus building rnd (\<lambda>_. no_faults) (Suc i) p d = (Some q, d')"
      by (intro Suc.IH [of j' "Suc i"]) simp_all
    with dup pid(1) show ?thesis by simp
  qed
qed simp

end
