(* ===== verification/Portal_Properties.thy ===== *)
theory Portal_Properties
  imports Samples Portal_Register
begin

text \<open>
  The properties of the public registration pages: what a registration creates, that its
  token is shown once and works, and what a refused submission leaves alone.
\<close>

section \<open>Concrete inputs\<close>

definition sample_cfg :: config where
  "sample_cfg =
     \<lparr>ListenAddr = ''0.0.0.0:8080'', MetricsAddr = ''127.0.0.1:9090'', DataDir = ''/data'',
      PublicBaseURL = ''https://probe.cqu/'', AdminUsername = ''admin'', AdminPassword = [],
      OnlineThreshold = 30 * Second, RateLimit = 5 * Second, RateLimitBurst = 3, RegisterLimit = Hour,
      RegisterLimitBurst = 3, MaxProbes = 500, MetricsAllowedCIDRs = [], TrustedProxyCIDRs = [],
      LogLevel = LevelInfo\<rparr>"

definition sample_portal :: "int portal_state" where
  "sample_portal =
     \<lparr>as_db = sample_db\<lparr>db_probes := []\<rparr>, as_latest = [], as_self = None, as_limiter = None,
      ps_oneShot = newOneShotStore oneShotTTL, ps_limiter = Some (NewRegisterLimiter Hour 3)\<rparr>"

definition sample_form :: web_request where
  "sample_form =
     \<lparr>RemoteAddr = ''10.0.0.9:5000'', XForwardedFor = [], rq_Method = ''POST'', rq_Path = ''/'',
      rq_Authorization = [], rq_ContentType = ''application/x-www-form-urlencoded'', rq_ContentLength = 49,
      rq_Body = ''campus_code=a&building_code=b&network_type=wired'', rq_BodyFails = False,
      wq_RawQuery = [], wq_Origin = [], wq_Cookies = []\<rparr>"

definition sample_rnd :: "nat \<Rightarrow> nat \<Rightarrow> string option" where
  "sample_rnd i n = Some (replicate n CHR ''x'')"

lemma sample_form_media: "ParseMediaType ''application/x-www-form-urlencoded'' = (''application/x-www-form-urlencoded'', False)"
  by code_simp

lemma sample_form_query: "ParseQuery ''campus_code=a&building_code=b&network_type=wired'' =
    ([(''campus_code'', [''a'']), (''building_code'', [''b'']), (''network_type'', [''wired''])], False)"
  by code_simp

lemma sample_form_parsed:
  "parsePostForm sample_form = ([(''campus_code'', [''a'']), (''building_code'', [''b'']), (''network_type'', [''wired''])], False)"
  by (simp add: parsePostForm_def sample_form_def sample_form_media sample_form_query maxFormSize_def)

lemma sample_trim: "trim_space ''a'' = ''a''" "trim_space ''b'' = ''b''" "trim_space ''wired'' = ''wired''"
  by (simp_all add: trim_space_def trim_left.simps trim_end_rev.simps space_width_def space_width_end_def code_def)

lemma sample_form_of: "form_of sample_form = \<lparr>f_campusCode = ''a'', f_buildingCode = ''b'', f_networkType = ''wired'', f_description = []\<rparr>"
  by (simp add: form_of_def trimmed_value_def PostFormValue_def PostForm_def sample_form_parsed values_Get_def sample_trim)

definition sample_campus :: campus where
  "sample_campus = \<lparr>c_Code = ''a'', c_Name = ''A'', c_CreatedAt = of_unix 1, c_UpdatedAt = of_unix 1\<rparr>"

lemma sample_codes: "MatchString codePattern ''a''" "MatchString codePattern ''b''"
  unfolding codePattern_iff by (simp_all add: code_char_def is_lower_def code_def)

lemma sample_lookups:
  "originAllowed cfg sample_form" "\<not> ParseForm_fails sample_form"
  "ListCampuses no_faults (as_db sample_portal) = Inr [sample_campus]"
  "GetCampus ''a'' no_faults (as_db sample_portal) = Inr sample_campus"
  "\<exists>bd. GetBuilding ''b'' no_faults (as_db sample_portal) = Inr bd \<and> b_CampusCode bd = ''a'' \<and> b_Code bd = ''b''"
  "validateRegistration (form_of sample_form) no_faults (as_db sample_portal) = []"
proof -
  show "originAllowed cfg sample_form" by (simp add: originAllowed_def sample_form_def)
  show "\<not> ParseForm_fails sample_form"
    by (simp add: ParseForm_fails_def sample_form_parsed) (simp add: sample_form_def ParseQuery_def)
  show "ListCampuses no_faults (as_db sample_portal) = Inr [sample_campus]"
    "GetCampus ''a'' no_faults (as_db sample_portal) = Inr sample_campus"
    by (simp_all add: ListCampuses_def GetCampus_def sample_portal_def sample_db_def rows_by_def scanCampus_def sample_campus_def)
  show b: "\<exists>bd. GetBuilding ''b'' no_faults (as_db sample_portal) = Inr bd \<and> b_CampusCode bd = ''a'' \<and> b_Code bd = ''b''"
    by (simp add: GetBuilding_def sample_portal_def sample_db_def scanBuilding_def)
  then show "validateRegistration (form_of sample_form) no_faults (as_db sample_portal) = []"
    by (auto simp: validateRegistration_ok sample_form_of sample_codes networkTypes_def)
qed

lemma sample_register_runs:
  "\<exists>slot st'. handleRegister countdown_ops sample_cfg (\<lambda>_ _. True) 0 (\<lambda>_. no_faults) sample_rnd sample_form sample_portal =
     (Redirect (''/token/'' @ slot), st')"
proof -
  note origin = sample_lookups(1) and q = sample_lookups(2) and c = sample_lookups(3,4) and v = sample_lookups(6)
  obtain bd where bd: "GetBuilding ''b'' no_faults (as_db sample_portal) = Inr bd" "b_CampusCode bd = ''a''" "b_Code bd = ''b''"
    using sample_lookups(5) by blast
  have lim: "fst (register_allowed countdown_ops 0 ip sample_portal)" for ip
    by (simp add: register_allowed_def sample_portal_def register_Allow_def NewRegisterLimiter_def countdown_ops_def split_beta Let_def maxTrackedRegisterIPs_def)
  let ?st = "snd (register_allowed countdown_ops 0 (clientip_From (peer_info.truncate sample_form) []) sample_portal)"
  have db: "as_db ?st = as_db sample_portal" by (simp add: register_allowed_frame)
  have none: "db_probes (as_db sample_portal) = []" by (simp add: sample_portal_def)
  have made: "\<exists>p d. create_attempts (Suc n) 0 ca bu sample_rnd (\<lambda>_. no_faults) i q (as_db sample_portal) = (Some p, d)" for n ca bu i q
    by (simp add: generateProbeID_def sample_rnd_def CreateProbe_def Let_def none GetProbe_def select_probe_def new_probe_row_def)
  have made5: "\<exists>p d. create_attempts maxAttempts 0 ca bu sample_rnd (\<lambda>_. no_faults) i q (as_db sample_portal) = (Some p, d)" for ca bu i q
    using made [of 4] by (simp add: maxAttempts_def eval_nat_numeral del: create_attempts.simps)
  have room: "CountProbes no_faults (as_db sample_portal) = Inr 0" by (simp add: CountProbes_def none)
  have gen: "\<exists>tok. Generate (sample_rnd i) = Some tok" "\<exists>s. randomString 32 (sample_rnd i) = Some s" for i
    by (simp_all add: Generate_def sample_rnd_def randomString_def)
  have "\<exists>slot st'. admit_registration sample_cfg (\<lambda>_ _. True) 0 (\<lambda>_. no_faults) sample_rnd f ca bd ?st = (Redirect (''/token/'' @ slot), st')" for f ca
  proof -
    obtain tok where tok: "Generate (sample_rnd 0) = Some tok" using gen by blast
    obtain p d where pd: "create_attempts maxAttempts 0 (c_Code ca) (b_Code bd) sample_rnd (\<lambda>_. no_faults) 5
        (new_probe tok ca bd (f_networkType f) (f_description f) ''public'') (as_db sample_portal) = (Some p, d)"
      using made5 by blast
    obtain s where "randomString 32 (sample_rnd 10) = Some s" using gen by blast
    with tok pd room show ?thesis
      by (simp add: admit_registration_def db sample_cfg_def MintTokenSlot_def putPair_def del: create_attempts.simps) blast
  qed
  with origin q c v bd lim show ?thesis
    by (simp add: handleRegister_def form_of_def [symmetric] Let_def sample_form_of split_beta sample_cfg_def)
qed

section \<open>Registration\<close>

lemma admitted_row:
  assumes "create_attempts n now ca bu rnd io i (admitted_probe f campus building tok) d = (Some p, d')"
  obtains row where "d' = d\<lparr>db_probes := db_probes d @ [row], db_probe_seq := db_probe_seq d + 1\<rparr>"
    "pr_probe_id row = p_ProbeID p" "pr_enabled row \<noteq> 0" "pr_campus_code row = c_Code campus"
    "pr_building_code row = b_Code building" "pr_network_type row = f_networkType f" "pr_created_via row = ''public''"
    "ProbeByTokenHash (Hash tok) no_faults d' = Inr (scanProbe row)"
proof -
  from create_attempts_adds [OF assms] obtain row where
    row: "d' = d\<lparr>db_probes := db_probes d @ [row], db_probe_seq := db_probe_seq d + 1\<rparr>"
      "pr_probe_id row = p_ProbeID p" "pr_token_hash row = Hash tok" "pr_enabled row \<noteq> 0"
      "pr_campus_code row = c_Code campus" "pr_building_code row = b_Code building"
      "pr_network_type row = f_networkType f" "pr_created_via row = ''public''"
      "Hash tok \<notin> pr_token_hash ` set (db_probes d)"
    by (auto simp: adds_probe_def admitted_probe_def new_probe_def createdViaOrDefault_def)
  have "find (\<lambda>r. pr_token_hash r = Hash tok) (db_probes d @ [row]) = Some row"
    using row(3,9) by (subst find_append_last) (force, simp)
  then have "ProbeByTokenHash (Hash tok) no_faults d' = Inr (scanProbe row)"
    by (simp add: ProbeByTokenHash_def gw_results row(1))
  with row that show thesis by blast
qed

lemma putPair_root:
  "putPair rnd now pid tok ''/'' os = (Some slot, os') \<Longrightarrow> wf_map (os_slots os) \<Longrightarrow>
   slot_of os' slot = Some \<lparr>os_probeID = pid, os_value = tok, os_back = ''/'', os_expires = now + os_ttl os\<rparr>"
  by (drule putPair_issue) (simp add: safeBackPath_def backPath_iff site_path_def issue_slot_def slot_of_put_slot)

text \<open>What a redirected submission has done.\<close>

lemma registration_made:
  assumes run: "handleRegister ops cfg exec now io rnd rq st = (rs, st')" and status: "wp_Status rs = StatusSeeOther"
    and inv: "probes_inv (as_db st)" "wf_map (os_slots (ps_oneShot st))"
  shows "\<exists>tok slot row. rs = Redirect (''/token/'' @ slot) \<and>
           as_db st' = (as_db st)\<lparr>db_probes := db_probes (as_db st) @ [row], db_probe_seq := db_probe_seq (as_db st) + 1\<rparr> \<and>
           pr_enabled row \<noteq> 0 \<and> pr_created_via row = ''public'' \<and> pr_network_type row \<in> set networkTypes \<and>
           pr_campus_code row = trimmed_value rq ''campus_code'' \<and>
           pr_building_code row = trimmed_value rq ''building_code'' \<and>
           (\<exists>b \<in> set (db_buildings (as_db st)). br_code b = pr_building_code row \<and> br_campus_code b = pr_campus_code row) \<and>
           pr_campus_code row \<in> cr_code ` set (db_campuses (as_db st)) \<and>
           length (db_probes (as_db st)) < nat (MaxProbes cfg) \<and>
           slot_of (ps_oneShot st') slot = Some \<lparr>os_probeID = pr_probe_id row, os_value = tok, os_back = ''/'',
              os_expires = now + os_ttl (ps_oneShot st)\<rparr> \<and>
           randomString 32 (rnd 10) = Some slot \<and> as_limiter st' = as_limiter st \<and>
           has_prefix tok token_Prefix \<and> ProbeByTokenHash (Hash tok) no_faults (as_db st') = Inr (scanProbe row)"
  using run
proof (cases rule: handleRegister_cases)
  case early
  with status show ?thesis by (auto simp: web_status_defs)
next
  case throttled
  with status show ?thesis by (auto simp: web_status_defs)
next
  case (admitted building campus)
  let ?f = "form_of rq"
  note frame = register_allowed_frame [of ops now "clientip_From (peer_info.truncate rq) (TrustedProxyCIDRs cfg)" st]
  from admitted(3) have f: "f_networkType ?f \<in> set networkTypes"
    and b: "\<exists>b. GetBuilding (f_buildingCode ?f) (io 1) (as_db st) = Inr b \<and> b_CampusCode b = f_campusCode ?f"
    by (simp_all add: validateRegistration_ok)
  note bs = GetBuilding_sound [OF admitted(4)] and cs = GetCampus_sound [OF admitted(5)]
  have same: "b_CampusCode building = f_campusCode ?f"
    using b admitted(4) by (auto simp: GetBuilding_def split: if_splits option.splits)
  from admitted(7) show ?thesis
  proof (cases rule: admit_registration_cases)
    case (created tok p slot)
    note made = created(3) [simplified frame] and slot = putPair_root [OF created(4) [simplified frame] inv(2)]
    from made obtain row where
      row: "as_db st' = (as_db st)\<lparr>db_probes := db_probes (as_db st) @ [row], db_probe_seq := db_probe_seq (as_db st) + 1\<rparr>"
        "pr_probe_id row = p_ProbeID p" "pr_enabled row \<noteq> 0" "pr_campus_code row = c_Code campus"
        "pr_building_code row = b_Code building" "pr_network_type row = f_networkType ?f" "pr_created_via row = ''public''"
        "ProbeByTokenHash (Hash tok) no_faults (as_db st') = Inr (scanProbe row)"
      by (rule admitted_row)
    moreover have "has_prefix tok token_Prefix" using created(1) by (auto simp: Generate_def)
    moreover have "randomString 32 (rnd 10) = Some slot" using putPair_issue [OF created(4)] by simp
    moreover have "as_limiter st' = as_limiter st" by (subst created(6)) (simp add: frame)
    ultimately show ?thesis using created(2,5) slot bs cs f same
      by (intro exI [of _ tok] exI [of _ slot] exI [of _ row]) (auto simp: frame form_of_def scanBuilding_def)
  next
    case refused
    with status show ?thesis by (auto simp: web_status_defs)
  next
    case broken
    with status show ?thesis by (simp add: internal_error_def web_status_defs)
  qed
qed

text \<open>C8: A submission that ends in a redirect to a token page created exactly one probe, enabled
  and marked as self-registered, in a building of the catalog that belongs to the named
  campus, while the table was below its cap; the page's slot holds that probe's token, with the
  prefix of all tokens, whose hash is in the new row and in no other, so the token
  authenticates as that probe at once.\<close>

theorem registration_creates_probe:
  assumes run: "handleRegister ops cfg exec now io rnd rq st = (rs, st')" and status: "wp_Status rs = StatusSeeOther"
    and inv: "probes_inv (as_db st)" "wf_map (os_slots (ps_oneShot st))"
  shows "\<exists>tok slot row. rs = Redirect (''/token/'' @ slot) \<and>
           as_db st' = (as_db st)\<lparr>db_probes := db_probes (as_db st) @ [row], db_probe_seq := db_probe_seq (as_db st) + 1\<rparr> \<and>
           pr_enabled row \<noteq> 0 \<and> pr_created_via row = ''public'' \<and> pr_network_type row \<in> set networkTypes \<and>
           pr_campus_code row = trimmed_value rq ''campus_code'' \<and>
           pr_building_code row = trimmed_value rq ''building_code'' \<and>
           (\<exists>b \<in> set (db_buildings (as_db st)). br_code b = pr_building_code row \<and> br_campus_code b = pr_campus_code row) \<and>
           pr_campus_code row \<in> cr_code ` set (db_campuses (as_db st)) \<and>
           length (db_probes (as_db st)) < nat (MaxProbes cfg) \<and>
           slot_of (ps_oneShot st') slot = Some \<lparr>os_probeID = pr_probe_id row, os_value = tok, os_back = ''/'',
              os_expires = now + os_ttl (ps_oneShot st)\<rparr> \<and>
           has_prefix tok token_Prefix \<and> ProbeByTokenHash (Hash tok) no_faults (as_db st') = Inr (scanProbe row)"
  using registration_made [OF run status inv] by blast

theorem registration_creates_probe_witness:
  "\<exists>st' row tok. handleRegister countdown_ops sample_cfg (\<lambda>_ _. True) 0 (\<lambda>_. no_faults) sample_rnd sample_form
       sample_portal = (Redirect (''/token/'' @ tok), st') \<and>
     db_probes (as_db st') = [row] \<and> pr_building_code row = ''b'' \<and> pr_created_via row = ''public''"
proof -
  obtain slot st' where run: "handleRegister countdown_ops sample_cfg (\<lambda>_ _. True) 0 (\<lambda>_. no_faults) sample_rnd sample_form
      sample_portal = (Redirect (''/token/'' @ slot), st')" using sample_register_runs by blast
  have inv: "probes_inv (as_db sample_portal)" "wf_map (os_slots (ps_oneShot sample_portal))"
    by (simp_all add: sample_portal_def probes_inv_def newOneShotStore_def)
  have none: "db_probes (as_db sample_portal) = []" by (simp add: sample_portal_def)
  have "trimmed_value sample_form ''building_code'' = ''b''" using sample_form_of by (simp add: form_of_def)
  with registration_creates_probe [OF run _ inv] none run show ?thesis by auto
qed

text \<open>What the token page shows, within the time of its slot.\<close>

lemma token_page_shows:
  assumes "slot_of (ps_oneShot st) slot =
      Some \<lparr>os_probeID = pid, os_value = tok, os_back = back, os_expires = expires\<rparr>" "t \<le> expires"
    "exec ''token.html'' (portal_data title_token [] (TokenPage pid tok (trim_suffix (PublicBaseURL cfg) ''/'') back))"
  shows "\<exists>st'. handleTokenShow cfg exec t slot st =
     (\<lparr>wp_Status = StatusOK, wp_Location = None, wp_SetCookie = None,
       wp_Body = Page ''token.html'' (portal_data title_token []
         (TokenPage pid tok (trim_suffix (PublicBaseURL cfg) ''/'') back))\<rparr>, st') \<and>
     slot_of (ps_oneShot st') slot = None \<and> as_db st' = as_db st"
  using assms
  by (simp add: handleTokenShow_def takePair_def slot_of_def Render_def portalPages_def map_of_del)

text \<open>Within its minute the token page shows exactly what was registered: the probe's ID, its
  token, the base URL without a trailing slash, and a way back to the form.\<close>

theorem registered_token_is_shown:
  assumes "slot_of (ps_oneShot st) slot =
      Some \<lparr>os_probeID = pid, os_value = tok, os_back = back, os_expires = expires\<rparr>" "t \<le> expires"
    "exec ''token.html'' (portal_data title_token [] (TokenPage pid tok (trim_suffix (PublicBaseURL cfg) ''/'') back))"
  shows "\<exists>st'. handleTokenShow cfg exec t slot st =
     (\<lparr>wp_Status = StatusOK, wp_Location = None, wp_SetCookie = None,
       wp_Body = Page ''token.html'' (portal_data title_token []
         (TokenPage pid tok (trim_suffix (PublicBaseURL cfg) ''/'') back))\<rparr>, st') \<and>
     slot_of (ps_oneShot st') slot = None \<and> as_db st' = as_db st"
  using assms by (rule token_page_shows)

theorem registered_token_is_shown_witness:
  "wp_Status (fst (handleTokenShow sample_cfg (\<lambda>_ _. True) 5 ''s''
     (sample_portal\<lparr>ps_oneShot := \<lparr>os_slots = [(''s'', \<lparr>os_probeID = ''p'', os_value = ''tok'', os_back = ''/'',
        os_expires = 9\<rparr>)], os_ttl = oneShotTTL\<rparr>\<rparr>))) = StatusOK"
  using registered_token_is_shown [of "sample_portal\<lparr>ps_oneShot := \<lparr>os_slots = [(''s'', \<lparr>os_probeID = ''p'',
      os_value = ''tok'', os_back = ''/'', os_expires = 9\<rparr>)], os_ttl = oneShotTTL\<rparr>\<rparr>" "''s''" "''p''" "''tok''" "''/''" 9 5
      "\<lambda>_ _. True" sample_cfg]
  by (auto simp: slot_of_def)

text \<open>C9: A token is shown at most once, and only from the slot it was put in: whatever other
  tokens are minted and whatever slots are tried, in any order and at any time, the uses of
  one slot obtain nothing, or once the entry it held; and nothing at all once its time is
  over.\<close>

theorem token_shown_at_most_once:
  assumes "wf_map (os_slots store)" "list_all (\<lambda>(t, a). \<not> issues_of slot a) accesses"
  shows "(slots.gained slot accesses store = [] \<or>
            (\<exists>e. slots.gained slot accesses store = [e] \<and> slot_of store slot = Some e)) \<and>
         (\<forall>e. slot_of store slot = Some e \<and> list_all (\<lambda>(t, a). os_expires e < t) accesses \<longrightarrow>
            slots.gained slot accesses store = [])"
proof
  show "slots.gained slot accesses store = [] \<or>
      (\<exists>e. slots.gained slot accesses store = [e] \<and> slot_of store slot = Some e)"
    using assms by (rule slots.gained_at_most_once)
  have "slots.gained slot accesses store = []"
    if e: "slot_of store slot = Some e" "list_all (\<lambda>(t, a). os_expires e < t) accesses" for e
  proof -
    have "list_all (\<lambda>(t, a). os_expires e + 1 \<le> t \<and> \<not> issues_of slot a) accesses"
      using assms(2) e(2) by (auto simp: list_all_iff)
    with slots.expired_gains_nothing [OF assms(1) e(1), of "os_expires e + 1"] show ?thesis by simp
  qed
  then show "\<forall>e. slot_of store slot = Some e \<and> list_all (\<lambda>(t, a). os_expires e < t) accesses \<longrightarrow>
            slots.gained slot accesses store = []" by blast
qed

theorem token_shown_at_most_once_witness:
  "length (slots.gained ''s'' [(1, Redeem ''x''), (2, Redeem ''s''), (3, Redeem ''s'')]
     \<lparr>os_slots = [(''s'', \<lparr>os_probeID = ''p'', os_value = ''tok'', os_back = ''/'', os_expires = 9\<rparr>)],
      os_ttl = oneShotTTL\<rparr>) \<le> 1"
proof -
  let ?os = "\<lparr>os_slots = [(''s'', \<lparr>os_probeID = ''p'', os_value = ''tok'', os_back = ''/'', os_expires = 9\<rparr>)],
      os_ttl = oneShotTTL\<rparr>"
  have "wf_map (os_slots ?os)" "list_all (\<lambda>(t, a). \<not> issues_of ''s'' a) [(1, Redeem ''x''), (2, Redeem ''s''), (3, Redeem ''s'')]"
    by simp_all
  note once = token_shown_at_most_once [OF this, THEN conjunct1]
  then show ?thesis by (elim disjE exE) (simp_all del: slots.gained.simps)
qed

text \<open>A submission that is refused as malformed, invalid or foreign changes nothing at all: it
  spends no registration allowance, creates no probe and mints no slot.  One that is
  throttled spends its address's allowance only.  Public registration never fills the table
  beyond the cap.\<close>

theorem refused_registration_spends_nothing:
  assumes run: "handleRegister ops cfg exec now io rnd rq st = (rs, st')"
  shows "(wp_Status rs \<in> {StatusForbidden, StatusBadRequest} \<longrightarrow> st' = st) \<and>
         (wp_Status rs = StatusTooManyRequests \<longrightarrow> as_db st' = as_db st \<and> ps_oneShot st' = ps_oneShot st) \<and>
         length (db_probes (as_db st')) \<le> max (length (db_probes (as_db st))) (nat (MaxProbes cfg)) \<and>
         as_latest st' = as_latest st"
  using run
proof (cases rule: handleRegister_cases)
  case early
  then show ?thesis by (auto simp: web_status_defs)
next
  case throttled
  then show ?thesis by (auto simp: web_status_defs register_allowed_frame)
next
  case (admitted building campus)
  note frame = register_allowed_frame [of ops now "clientip_From (peer_info.truncate rq) (TrustedProxyCIDRs cfg)" st]
  from admitted(7) show ?thesis
  proof (cases rule: admit_registration_cases)
    case (created tok p slot)
    have "length (db_probes (as_db st')) = Suc (length (db_probes (as_db st)))"
      using create_attempts_adds [OF created(3)] by (auto simp: adds_probe_def frame)
    moreover have "as_latest st' = as_latest st" by (subst created(6)) (simp add: frame)
    ultimately show ?thesis using created(2,5) by (auto simp: frame web_status_defs)
  next
    case refused
    then show ?thesis by (auto simp: frame web_status_defs)
  next
    case broken
    have "length (db_probes (as_db st')) = Suc (length (db_probes (as_db st)))"
      using broken(3) by (auto simp: adds_probe_def frame)
    moreover have "as_latest st' = as_latest st" by (subst broken(4)) (simp add: frame)
    ultimately show ?thesis using broken(1,2) by (auto simp: frame internal_error_def web_status_defs)
  qed
qed

theorem refused_registration_spends_nothing_witness:
  "snd (handleRegister countdown_ops sample_cfg (\<lambda>_ _. True) 0 (\<lambda>_. no_faults) sample_rnd
     (sample_form\<lparr>wq_Origin := ''https://evil.example''\<rparr>) sample_portal) = sample_portal"
proof -
  have "\<not> originAllowed sample_cfg (sample_form\<lparr>wq_Origin := ''https://evil.example''\<rparr>)"
  proof -
    have "url_Host ''https://evil.example'' = Some ''evil.example''" "url_Host ''https://probe.cqu/'' = Some ''probe.cqu''"
      by code_simp+
    then show ?thesis by (simp add: originAllowed_def sample_form_def sample_cfg_def)
  qed
  then have "handleRegister countdown_ops sample_cfg (\<lambda>_ _. True) 0 (\<lambda>_. no_faults) sample_rnd
     (sample_form\<lparr>wq_Origin := ''https://evil.example''\<rparr>) sample_portal = (http_Error ''forbidden origin'' StatusForbidden, sample_portal)"
    by (simp add: handleRegister_def)
  from refused_registration_spends_nothing [OF this] show ?thesis
    using \<open>handleRegister _ _ _ _ _ _ _ _ = _\<close> by simp
qed

text \<open>A return link of the token page always stays on this site: the paths the code accepts
  are exactly those that start with one slash, hold only unreserved characters and slashes,
  and never have two slashes in a row; everything else becomes the registration page.\<close>

theorem return_path_stays_on_site:
  shows "safeBackPath p = (if site_path p then p else ''/'') \<and> site_path (safeBackPath p) \<and>
         (\<forall>rest. safeBackPath p \<noteq> ''//'' @ rest)"
proof -
  have "site_path (safeBackPath p)" by (rule safeBackPath_site_path)
  then have "safeBackPath p \<noteq> ''//'' @ rest" for rest by (auto simp: site_path_def)
  with safeBackPath_site_path [of p] show ?thesis by (simp add: safeBackPath_def backPath_iff)
qed

text \<open>When a submission is redirected.\<close>

lemma valid_registration_runs:
  assumes "originAllowed cfg rq" "\<not> ParseForm_fails rq" "db_campuses (as_db st) \<noteq> []"
    "validateRegistration (form_of rq) no_faults (as_db st) = []" "catalog_inv (as_db st)"
    and lim: "ps_limiter st = Some l" "rate_contract ops" "1 \<le> rg_burst l"
      "map_of (rg_buckets l) (clientip_From (peer_info.truncate rq) (TrustedProxyCIDRs cfg)) = None"
    and room: "length (db_probes (as_db st)) < nat (MaxProbes cfg)"
    and rnd: "\<forall>k n. rnd k n \<noteq> None" "Generate (rnd 0) = Some tok"
      "Hash tok \<notin> pr_token_hash ` set (db_probes (as_db st))"
      "j < 5" "rnd (5 + j) probeIDRandomBytes = Some buf"
      "f_campusCode (form_of rq) @ ''-'' @ f_buildingCode (form_of rq) @ ''-'' @ hex_encode buf
         \<notin> pr_probe_id ` set (db_probes (as_db st))"
  shows "wp_Status (fst (handleRegister ops cfg exec now (\<lambda>_. no_faults) rnd rq st)) = StatusSeeOther"
proof -
  let ?f = "form_of rq" and ?ip = "clientip_From (peer_info.truncate rq) (TrustedProxyCIDRs cfg)"
  let ?st = "snd (register_allowed ops now ?ip st)"
  obtain cs where cs: "ListCampuses no_faults (as_db st) = Inr cs" "cs \<noteq> []"
    using assms(3) by (auto simp: ListCampuses_def) (metis list.set_intros(1) neq_Nil_conv set_empty rows_by_simps(1))
  from assms(4) obtain b where b: "GetBuilding (f_buildingCode ?f) no_faults (as_db st) = Inr b"
    "b_CampusCode b = f_campusCode ?f" by (auto simp: validateRegistration_ok)
  from GetBuilding_sound [OF b(1)] assms(5) have "b_CampusCode b \<in> cr_code ` set (db_campuses (as_db st))"
    and code_b: "b_Code b = f_buildingCode ?f"
    by (auto simp: catalog_inv_def scanBuilding_def)
  then obtain c where c: "GetCampus (b_CampusCode b) no_faults (as_db st) = Inr c"
    using find_none [of "\<lambda>r. cr_code r = b_CampusCode b" "db_campuses (as_db st)"]
    by (fastforce simp: GetCampus_def split: option.splits)
  have code_c: "c_Code c = f_campusCode ?f" using GetCampus_sound [OF c] b(2) by simp
  have ok: "fst (register_allowed ops now ?ip st)"
    using register_Allow_fresh [OF lim(2,3,4)] lim(1) by (simp add: register_allowed_def split_beta)
  note frame = register_allowed_frame [of ops now ?ip st]
  obtain p d where made: "create_attempts maxAttempts now (c_Code c) (b_Code b) rnd (\<lambda>_. no_faults) 5
      (new_probe tok c b (f_networkType ?f) (f_description ?f) ''public'') (as_db st) = (Some p, d)"
    using create_attempts_succeeds [of j maxAttempts rnd 5 buf "c_Code c" "b_Code b" "as_db st"
        "new_probe tok c b (f_networkType ?f) (f_description ?f) ''public''" now] rnd code_b code_c
    by (auto simp: maxAttempts_def new_probe_def)
  have "rnd 10 32 \<noteq> None" using rnd(1) by blast
  then obtain slot where slot: "randomString 32 (rnd 10) = Some slot" by (auto simp: randomString_def)
  have "CountProbes no_faults (as_db st) = Inr (int (length (db_probes (as_db st))))" by (simp add: CountProbes_def)
  moreover from room have "\<not> MaxProbes cfg \<le> int (length (db_probes (as_db st)))" by linarith
  ultimately have "wp_Status (fst (admit_registration cfg exec now (\<lambda>_. no_faults) rnd ?f c b ?st)) = StatusSeeOther"
    using made rnd(2) slot by (simp add: admit_registration_def frame MintTokenSlot_def putPair_def)
  with assms(1,2,4) cs b c ok show ?thesis
    by (simp add: handleRegister_def form_of_def [symmetric] Let_def split_beta)
qed

text \<open>C10: A well-formed submission from this site, for a building of a configured campus, from an
  address that has not registered lately, is always served while the store answers and the
  table has room: it ends in the redirect to its token as soon as one of the five probe IDs
  drawn for it is unused.\<close>

theorem valid_registration_succeeds:
  assumes "originAllowed cfg rq" "\<not> ParseForm_fails rq" "db_campuses (as_db st) \<noteq> []"
    "validateRegistration (form_of rq) no_faults (as_db st) = []" "catalog_inv (as_db st)"
    and lim: "ps_limiter st = Some l" "rate_contract ops" "1 \<le> rg_burst l"
      "map_of (rg_buckets l) (clientip_From (peer_info.truncate rq) (TrustedProxyCIDRs cfg)) = None"
    and room: "length (db_probes (as_db st)) < nat (MaxProbes cfg)"
    and rnd: "\<forall>k n. rnd k n \<noteq> None" "Generate (rnd 0) = Some tok"
      "Hash tok \<notin> pr_token_hash ` set (db_probes (as_db st))"
      "j < 5" "rnd (5 + j) probeIDRandomBytes = Some buf"
      "f_campusCode (form_of rq) @ ''-'' @ f_buildingCode (form_of rq) @ ''-'' @ hex_encode buf
         \<notin> pr_probe_id ` set (db_probes (as_db st))"
  shows "wp_Status (fst (handleRegister ops cfg exec now (\<lambda>_. no_faults) rnd rq st)) = StatusSeeOther"
  using assms by (rule valid_registration_runs)

theorem valid_registration_succeeds_witness:
  "wp_Status (fst (handleRegister countdown_ops sample_cfg (\<lambda>_ _. True) 0 (\<lambda>_. no_faults) sample_rnd sample_form
     sample_portal)) = StatusSeeOther"
proof (rule valid_registration_succeeds [where l = "NewRegisterLimiter Hour 3" and j = 0
      and tok = "token_Prefix @ b64url (replicate 32 CHR ''x'')" and buf = "''xxx''"])
  show "originAllowed sample_cfg sample_form" "\<not> ParseForm_fails sample_form"
    "validateRegistration (form_of sample_form) no_faults (as_db sample_portal) = []" by (fact sample_lookups)+
  show "db_campuses (as_db sample_portal) \<noteq> []" by (simp add: sample_portal_def sample_db_def)
  show "catalog_inv (as_db sample_portal)"
    using sample_store_inv by (simp add: sample_portal_def store_inv_def catalog_inv_def)
  show "ps_limiter sample_portal = Some (NewRegisterLimiter Hour 3)" by (simp add: sample_portal_def)
  show "rate_contract countdown_ops" by (rule countdown_contract)
  show "sample_rnd (5 + 0) probeIDRandomBytes = Some ''xxx''"
    by (simp add: sample_rnd_def probeIDRandomBytes_def eval_nat_numeral)
qed (simp_all add: NewRegisterLimiter_def sample_portal_def sample_cfg_def sample_rnd_def Generate_def secretBytes_def)

text \<open>The map of registering addresses stays within its bound and keeps no address twice,
  whatever sequence of addresses registers, as long as no request arrives without an
  address; and an address the map does not know is never refused.\<close>

theorem register_map_bounded:
  fixes ops :: "'b rate_ops" and i n now :: int
  assumes "list_all (\<lambda>(t, ip). ip \<noteq> []) calls" "rate_contract ops" "1 \<le> n"
  defines "l \<equiv> fold (\<lambda>(t, ip) l. snd (register_Allow ops t ip l)) calls (NewRegisterLimiter i n)"
  shows "register_inv l \<and> (map_of (rg_buckets l) ip = None \<longrightarrow> fst (register_Allow ops now ip l))"
proof -
  have "register_inv (fold (\<lambda>(t, ip) l. snd (register_Allow ops t ip l)) calls l0) \<and>
      rg_burst (fold (\<lambda>(t, ip) l. snd (register_Allow ops t ip l)) calls l0) = rg_burst l0"
    if "register_inv l0" for l0
    using assms(1) that
  proof (induction calls arbitrary: l0)
    case (Cons c calls)
    obtain t a where c: "c = (t, a)" by (cases c)
    have "rg_burst (snd (register_Allow ops t a l0)) = rg_burst l0"
      by (simp add: register_Allow_def evictIdleLocked_def Let_def split_beta split: option.splits)
    with Cons c register_inv_Allow [of l0 a ops t] show ?case by auto
  qed simp
  then have "register_inv l \<and> rg_burst l = n"
    unfolding l_def using register_inv_new [of i n] by (auto simp: NewRegisterLimiter_def)
  with register_Allow_fresh [OF assms(2)] assms(3) show ?thesis by auto
qed

theorem register_map_bounded_witness:
  "register_inv (fold (\<lambda>(t, ip) l. snd (register_Allow countdown_ops t ip l)) [(0, ''10.0.0.1''), (1, ''10.0.0.2'')]
     (NewRegisterLimiter Hour 3))"
  by (rule register_map_bounded [THEN conjunct1]) (simp_all add: countdown_contract)

end
