(* ===== verification/Admin_Session.thy ===== *)
theory Admin_Session
  imports Expiring_Store Web_Base Store_Settings Go_Duration
begin

text \<open>
  \<open>internal/admin/session.go\<close>: the admin sessions in memory, and the password hashing.  Each
  operation of the store holds its lock, so it is one atomic step.  bcrypt is
  \<open>golang.org/x/crypto\<close>, outside the repository: it is the parameter \<open>bcrypt\<close>.
\<close>

section \<open>Random identifiers\<close>

text \<open>The package's own copy of \<open>randomString\<close>: the bytes of one draw, or its failure.\<close>

definition admin_randomString :: "nat \<Rightarrow> (nat \<Rightarrow> string option) \<Rightarrow> string option" where
  "admin_randomString n rnd = (case rnd n of None \<Rightarrow> None | Some buf \<Rightarrow> Some (b64url buf))"

lemma admin_randomString_shared [simp]: "admin_randomString n rnd = randomString n rnd"
  by (simp add: admin_randomString_def randomString_def map_option_case)

section \<open>Passwords\<close>

record bcrypt_ops =
  bc_generate :: "string \<Rightarrow> string option"
  bc_compare :: "string \<Rightarrow> string \<Rightarrow> bool"

text \<open>What the package documents: a hash it made matches the password it was made from.\<close>

definition bcrypt_contract :: "bcrypt_ops \<Rightarrow> bool" where
  "bcrypt_contract bcrypt \<longleftrightarrow> (\<forall>p h. bc_generate bcrypt p = Some h \<longrightarrow> bc_compare bcrypt h p)"

definition hashPassword :: "bcrypt_ops \<Rightarrow> string \<Rightarrow> string option" where
  "hashPassword bcrypt password = (if password = [] then None else bc_generate bcrypt password)"

definition verifyPassword :: "bcrypt_ops \<Rightarrow> string \<Rightarrow> string \<Rightarrow> bool" where
  "verifyPassword bcrypt hash password = bc_compare bcrypt hash password"

definition generateAdminPassword :: "bcrypt_ops \<Rightarrow> (nat \<Rightarrow> string option) \<Rightarrow> (string \<times> string) option" where
  "generateAdminPassword bcrypt rnd =
     Option.bind (admin_randomString 32 rnd) (\<lambda>password.
     Option.bind (hashPassword bcrypt password) (\<lambda>hash. Some (password, hash)))"

section \<open>The session store\<close>

definition sessionTTL :: int where "sessionTTL = 12 * Hour"
definition maxSessions :: nat where "maxSessions = 1000"

record session =
  ss_id :: string
  ss_username :: string
  ss_csrf :: string
  ss_expires :: int

record session_store =
  st_sessions :: "(string, session) gomap"
  st_ttl :: int

definition newSessionStore :: "int \<Rightarrow> session_store" where
  "newSessionStore ttl = \<lparr>st_sessions = [], st_ttl = ttl\<rparr>"

definition evictLocked :: "int \<Rightarrow> session_store \<Rightarrow> session_store" where
  "evictLocked now s = s\<lparr>st_sessions := filter (\<lambda>(k, v). \<not> ss_expires v < now) (st_sessions s)\<rparr>"

definition insert_session :: "int \<Rightarrow> string \<Rightarrow> session \<Rightarrow> session_store \<Rightarrow> bool \<times> session_store" where
  "insert_session now k e s =
     (let s = evictLocked now s in
      if length (st_sessions s) \<ge> maxSessions then (False, s)
      else (True, s\<lparr>st_sessions := map_put k e (st_sessions s)\<rparr>))"

text \<open>\<open>create\<close> draws the ID (0) and the CSRF token (1) before it takes the lock.\<close>

definition session_create :: "(nat \<Rightarrow> nat \<Rightarrow> string option) \<Rightarrow> int \<Rightarrow> string \<Rightarrow> session_store \<Rightarrow>
    session option \<times> session_store" where
  "session_create rnd now username s =
     (case (admin_randomString 32 (rnd 0), admin_randomString 32 (rnd 1)) of
        (Some sid, Some csrf) \<Rightarrow>
          (let sess = \<lparr>ss_id = sid, ss_username = username, ss_csrf = csrf, ss_expires = now + st_ttl s\<rparr>;
               (ok, s) = insert_session now sid sess s in
           (if ok then Some sess else None, s))
      | _ \<Rightarrow> (None, s))"

definition session_get :: "int \<Rightarrow> string \<Rightarrow> session_store \<Rightarrow> session option \<times> session_store" where
  "session_get now sid s =
     (if sid = [] then (None, s)
      else case map_of (st_sessions s) sid of
             None \<Rightarrow> (None, s)
           | Some sess \<Rightarrow>
               (if ss_expires sess < now then (None, s\<lparr>st_sessions := map_del sid (st_sessions s)\<rparr>)
                else (let sess = sess\<lparr>ss_expires := now + st_ttl s\<rparr> in
                      (Some sess, s\<lparr>st_sessions := map_put sid sess (st_sessions s)\<rparr>))))"

definition session_destroy :: "string \<Rightarrow> session_store \<Rightarrow> session_store" where
  "session_destroy sid s = s\<lparr>st_sessions := map_del sid (st_sessions s)\<rparr>"

section \<open>The contract\<close>

definition session_of :: "session_store \<Rightarrow> string \<Rightarrow> session option" where
  "session_of s = map_of (st_sessions s)"

definition sessions_inv :: "session_store \<Rightarrow> bool" where
  "sessions_inv s \<longleftrightarrow> wf_map (st_sessions s) \<and> length (st_sessions s) \<le> maxSessions"

lemma evictLocked_inv: "sessions_inv s \<Longrightarrow> sessions_inv (evictLocked now s)"
  by (auto simp: sessions_inv_def evictLocked_def gw_keys intro: order.trans [OF length_filter_le])

lemma insert_session_inv: "sessions_inv s \<Longrightarrow> sessions_inv (snd (insert_session now k e s))"
  using evictLocked_inv [of s now]
  by (auto simp: sessions_inv_def insert_session_def Let_def gw_keys length_map_put)

lemma session_get_inv: "sessions_inv s \<Longrightarrow> sessions_inv (snd (session_get now sid s))"
proof (cases "map_of (st_sessions s) sid")
  case (Some e)
  assume "sessions_inv s"
  moreover have "sid \<in> set (keys (st_sessions s))" using Some by (metis domI dom_map_of_conv_image_fst list.set_map)
  ultimately show ?thesis using Some length_map_del_le [of sid "st_sessions s"]
    by (auto simp: session_get_def sessions_inv_def gw_keys length_map_put Let_def)
qed (simp add: session_get_def)

lemma session_destroy_inv: "sessions_inv s \<Longrightarrow> sessions_inv (session_destroy sid s)"
  using length_map_del_le [of sid "st_sessions s"] by (simp add: session_destroy_def sessions_inv_def gw_keys)

lemma session_create_inv: "sessions_inv s \<Longrightarrow> sessions_inv (snd (session_create rnd now u s))"
  by (auto simp: session_create_def Let_def split_beta insert_session_inv split: option.splits)

interpretation sessions: expiring_store session_of ss_expires insert_session session_get "\<lambda>s. wf_map (st_sessions s)"
proof unfold_locales
  fix s :: session_store and t :: int and k k' :: string and e :: session
  assume wf: "wf_map (st_sessions s)"
  show "session_of (snd (insert_session t k e s)) k' =
      (if fst (insert_session t k e s) \<and> k' = k then Some e
       else case session_of s k' of Some x \<Rightarrow> if ss_expires x < t then None else Some x | None \<Rightarrow> None)"
    using wf by (simp add: insert_session_def Let_def session_of_def evictLocked_def map_of_put map_of_filter
        split: option.splits)
  show "wf_map (st_sessions (snd (insert_session t k e s)))"
    using wf by (simp add: insert_session_def Let_def evictLocked_def gw_keys)
  show "wf_map (st_sessions (snd (session_get t k s)))"
    using wf by (simp add: session_get_def Let_def gw_keys split: option.splits)
  show "\<exists>x. session_of s k = Some x \<and> t \<le> ss_expires x" if "fst (session_get t k s) = Some e"
    using that by (auto simp: session_get_def session_of_def Let_def split: option.splits if_splits)
  show "session_of (snd (session_get t k s)) k' = session_of s k'" if "k' \<noteq> k"
    using that by (auto simp: session_get_def session_of_def Let_def map_of_put map_of_del split: option.split)
  show "session_of (snd (session_get t k s)) k \<in> {None, session_of s k}" if "fst (session_get t k s) = None"
    using that by (cases "map_of (st_sessions s) k")
      (auto simp: session_get_def session_of_def Let_def map_of_del split: if_splits)
qed

text \<open>A use slides the window; nothing else about a session ever changes.\<close>

lemma session_get_Some:
  "session_get now sid s = (Some sess, s') \<longleftrightarrow>
     sid \<noteq> [] \<and> (\<exists>e. session_of s sid = Some e \<and> \<not> ss_expires e < now \<and> sess = e\<lparr>ss_expires := now + st_ttl s\<rparr> \<and>
        s' = s\<lparr>st_sessions := map_put sid sess (st_sessions s)\<rparr>)"
  by (auto simp: session_get_def session_of_def Let_def split: option.splits)

lemma session_get_again:
  "session_get now sid s = (Some sess, s') \<Longrightarrow> 0 \<le> st_ttl s \<Longrightarrow> session_get now sid s' = (Some sess, s')"
  by (auto simp: session_get_Some session_of_def map_of_put)

lemma session_destroyed: "session_of (session_destroy sid s) sid = None"
  by (simp add: session_of_def session_destroy_def map_of_del)

lemma session_create_Some:
  "session_create rnd now u s = (Some sess, s') \<Longrightarrow>
   randomString 32 (rnd 0) = Some (ss_id sess) \<and> randomString 32 (rnd 1) = Some (ss_csrf sess) \<and>
   ss_username sess = u \<and> ss_expires sess = now + st_ttl s \<and> session_of s' (ss_id sess) = Some sess"
  by (auto simp: session_create_def insert_session_def Let_def split_beta session_of_def map_of_put
      split: option.splits if_splits)

end
