(* ===== verification/Admin_Text.thy ===== *)
theory Admin_Text
  imports Web_Base
begin

text \<open>
  The messages, titles and labels of the management pages of \<open>internal/admin\<close>, as the bytes
  the code sends: the UTF-8 encodings of the source's literals.
\<close>

named_theorems admin_text \<open>the definitions of the messages\<close>

definition title_login :: string where
  "title_login = text_bytes
    [231, 153, 187, 229, 189, 149]"

definition amsg_bad_login :: string where
  "amsg_bad_login = text_bytes
    [231, 148, 168, 230, 136, 183, 229, 144, 141, 230, 136, 150, 229, 175, 134, 231, 160, 129, 233,
     148, 153, 232, 175, 175]"

definition title_probe_new :: string where
  "title_probe_new = text_bytes
    [230, 150, 176, 229, 187, 186, 32, 80, 114, 111, 98, 101]"

definition amsg_choose_campus :: string where
  "amsg_choose_campus = text_bytes
    [232, 175, 183, 233, 128, 137, 230, 139, 169, 230, 160, 161, 229, 140, 186]"

definition amsg_choose_building :: string where
  "amsg_choose_building = text_bytes
    [232, 175, 183, 233, 128, 137, 230, 139, 169, 230, 165, 188, 230, 160, 139]"

definition amsg_no_campus :: string where
  "amsg_no_campus = text_bytes
    [230, 160, 161, 229, 140, 186, 228, 184, 141, 229, 173, 152, 229, 156, 168, 239, 188, 140, 232,
     175, 183, 228, 187, 142, 229, 136, 151, 232, 161, 168, 228, 184, 173, 233, 128, 137, 230, 139,
     169]"

definition amsg_campus_check :: string where
  "amsg_campus_check = text_bytes
    [230, 151, 160, 230, 179, 149, 230, 160, 161, 233, 170, 140, 230, 160, 161, 229, 140, 186, 239,
     188, 140, 232, 175, 183, 231, 168, 141, 229, 144, 142, 233, 135, 141, 232, 175, 149]"

definition amsg_no_building :: string where
  "amsg_no_building = text_bytes
    [230, 165, 188, 230, 160, 139, 228, 184, 141, 229, 173, 152, 229, 156, 168, 239, 188, 140, 232,
     175, 183, 228, 187, 142, 229, 136, 151, 232, 161, 168, 228, 184, 173, 233, 128, 137, 230, 139,
     169]"

definition amsg_building_check :: string where
  "amsg_building_check = text_bytes
    [230, 151, 160, 230, 179, 149, 230, 160, 161, 233, 170, 140, 230, 165, 188, 230, 160, 139, 239,
     188, 140, 232, 175, 183, 231, 168, 141, 229, 144, 142, 233, 135, 141, 232, 175, 149]"

definition amsg_other_campus :: string where
  "amsg_other_campus = text_bytes
    [230, 137, 128, 233, 128, 137, 230, 165, 188, 230, 160, 139, 228, 184, 141, 229, 177, 158, 228,
     186, 142, 232, 175, 165, 230, 160, 161, 229, 140, 186]"

definition amsg_description :: string where
  "amsg_description = text_bytes
    [229, 164, 135, 230, 179, 168, 232, 191, 135, 233, 149, 191]"

definition amsg_network_type :: string where
  "amsg_network_type = text_bytes
    [231, 189, 145, 231, 187, 156, 231, 177, 187, 229, 158, 139, 229, 191, 133, 233, 161, 187, 230,
     152, 175, 32, 119, 105, 114, 101, 100, 32, 230, 136, 150, 32, 119, 105, 114, 101, 108, 101,
     115, 115]"

definition amsg_probe_type :: string where
  "amsg_probe_type = text_bytes
    [80, 114, 111, 98, 101, 32, 84, 121, 112, 101, 32, 229, 143, 170, 232, 131, 189, 230, 152, 175,
     32, 105, 99, 109, 112, 227, 128, 129, 100, 110, 115, 32, 230, 136, 150, 32, 104, 116, 116, 112]"

definition amsg_no_probe_type :: string where
  "amsg_no_probe_type = text_bytes
    [232, 135, 179, 229, 176, 145, 233, 128, 137, 230, 139, 169, 228, 184, 128, 231, 167, 141, 32,
     80, 114, 111, 98, 101, 32, 84, 121, 112, 101]"

definition amsg_field_length :: string where
  "amsg_field_length = text_bytes
    [229, 173, 151, 230, 174, 181, 232, 191, 135, 233, 149, 191]"

definition amsg_target_id :: string where
  "amsg_target_id = text_bytes
    [84, 97, 114, 103, 101, 116, 32, 73, 68, 32, 229, 143, 170, 232, 131, 189, 228, 189, 191, 231,
     148, 168, 32, 49, 45, 51, 50, 32, 228, 189, 141, 229, 176, 143, 229, 134, 153, 229, 173, 151,
     230, 175, 141, 227, 128, 129, 230, 149, 176, 229, 173, 151, 230, 136, 150, 228, 184, 139, 229,
     136, 146, 231, 186, 191]"

definition amsg_code :: string where
  "amsg_code = text_bytes
    [228, 187, 163, 229, 143, 183, 32]"

definition amsg_exists :: string where
  "amsg_exists = text_bytes
    [32, 229, 183, 178, 229, 173, 152, 229, 156, 168]"

definition amsg_campus :: string where
  "amsg_campus = text_bytes
    [230, 160, 161, 229, 140, 186, 32]"

definition amsg_campus_in_use :: string where
  "amsg_campus_in_use = text_bytes
    [32, 228, 187, 141, 232, 162, 171, 230, 142, 162, 233, 146, 136, 229, 188, 149, 231, 148, 168,
     239, 188, 136, 231, 155, 180, 230, 142, 165, 229, 188, 149, 231, 148, 168, 239, 188, 140, 230,
     136, 150, 229, 188, 149, 231, 148, 168, 228, 186, 134, 229, 174, 131, 229, 144, 141, 228, 184,
     139, 231, 154, 132, 230, 165, 188, 230, 160, 139, 239, 188, 137, 239, 188, 140, 232, 175, 183,
     229, 133, 136, 232, 191, 129, 231, 167, 187, 230, 136, 150, 229, 136, 160, 233, 153, 164, 232,
     191, 153, 228, 186, 155, 230, 142, 162, 233, 146, 136]"

definition title_campuses :: string where
  "title_campuses = text_bytes
    [230, 160, 161, 229, 140, 186]"

definition amsg_code_form :: string where
  "amsg_code_form = text_bytes
    [228, 187, 163, 229, 143, 183, 229, 143, 170, 232, 131, 189, 228, 189, 191, 231, 148, 168, 32,
     49, 45, 49, 54, 32, 228, 189, 141, 229, 176, 143, 229, 134, 153, 229, 173, 151, 230, 175, 141,
     227, 128, 129, 230, 149, 176, 229, 173, 151, 230, 136, 150, 228, 184, 139, 229, 136, 146, 231,
     186, 191]"

definition amsg_name_empty :: string where
  "amsg_name_empty = text_bytes
    [230, 152, 190, 231, 164, 186, 229, 144, 141, 228, 184, 141, 232, 131, 189, 228, 184, 186, 231,
     169, 186]"

definition amsg_name_long :: string where
  "amsg_name_long = text_bytes
    [230, 152, 190, 231, 164, 186, 229, 144, 141, 232, 191, 135, 233, 149, 191]"

definition amsg_no_group :: string where
  "amsg_no_group = text_bytes
    [229, 143, 170, 229, 134, 153, 228, 186, 134, 228, 187, 163, 229, 143, 183, 229, 146, 140, 230,
     152, 190, 231, 164, 186, 229, 144, 141, 239, 188, 140, 228, 189, 134, 228, 184, 138, 230, 150,
     185, 230, 178, 161, 230, 156, 137, 229, 161, 171, 231, 187, 159, 228, 184, 128, 230, 165, 188,
     230, 160, 139, 231, 190, 164]"

definition amsg_fields_before :: string where
  "amsg_fields_before = text_bytes
    [229, 173, 151, 230, 174, 181, 230, 149, 176, 228, 184, 141, 229, 175, 185, 239, 188, 136]"

definition amsg_fields_after :: string where
  "amsg_fields_after = text_bytes
    [32, 228, 184, 170, 239, 188, 137, 239, 188, 140, 233, 156, 128, 232, 166, 129, 32, 50, 32,
     228, 184, 170, 230, 136, 150, 32, 52, 32, 228, 184, 170]"

definition amsg_nothing :: string where
  "amsg_nothing = text_bytes
    [230, 178, 161, 230, 156, 137, 229, 143, 175, 229, 175, 188, 229, 133, 165, 231, 154, 132, 229,
     134, 133, 229, 174, 185, 239, 188, 154, 230, 175, 143, 232, 161, 140, 228, 184, 128, 230, 160,
     139, 239, 188, 140, 231, 148, 168, 233, 128, 151, 229, 143, 183, 230, 136, 150, 229, 136, 182,
     232, 161, 168, 231, 172, 166, 229, 136, 134, 233, 154, 148]"

definition amsg_line :: string where
  "amsg_line = text_bytes
    [231, 172, 172, 32]"

definition amsg_line_colon :: string where
  "amsg_line_colon = text_bytes
    [32, 232, 161, 140, 239, 188, 154]"

definition amsg_line_space :: string where
  "amsg_line_space = text_bytes
    [32, 232, 161, 140, 32]"

definition amsg_colon :: string where
  "amsg_colon = text_bytes
    [239, 188, 154]"

definition amsg_building_code :: string where
  "amsg_building_code = text_bytes
    [230, 165, 188, 230, 160, 139, 228, 187, 163, 229, 143, 183, 32]"

definition amsg_still :: string where
  "amsg_still = text_bytes
    [228, 187, 141, 230, 156, 137, 32]"

definition amsg_probes_use :: string where
  "amsg_probes_use = text_bytes
    [32, 228, 184, 170, 230, 142, 162, 233, 146, 136, 228, 189, 191, 231, 148, 168, 230, 165, 188,
     230, 160, 139, 32]"

definition amsg_move_first :: string where
  "amsg_move_first = text_bytes
    [239, 188, 140, 232, 175, 183, 229, 133, 136, 232, 191, 129, 231, 167, 187, 230, 136, 150, 229,
     136, 160, 233, 153, 164, 232, 191, 153, 228, 186, 155, 230, 142, 162, 233, 146, 136]"

definition amsg_building_code_form :: string where
  "amsg_building_code_form = text_bytes
    [230, 165, 188, 230, 160, 139, 228, 187, 163, 229, 143, 183, 229, 143, 170, 232, 131, 189, 228,
     189, 191, 231, 148, 168, 32, 49, 45, 49, 54, 32, 228, 189, 141, 229, 176, 143, 229, 134, 153,
     229, 173, 151, 230, 175, 141, 227, 128, 129, 230, 149, 176, 229, 173, 151, 230, 136, 150, 228,
     184, 139, 229, 136, 146, 231, 186, 191]"

definition amsg_not_exist :: string where
  "amsg_not_exist = text_bytes
    [32, 228, 184, 141, 229, 173, 152, 229, 156, 168, 239, 188, 140, 232, 175, 183, 228, 187, 142,
     229, 136, 151, 232, 161, 168, 228, 184, 173, 233, 128, 137, 230, 139, 169]"

definition amsg_group_code_form :: string where
  "amsg_group_code_form = text_bytes
    [230, 165, 188, 230, 160, 139, 231, 190, 164, 228, 187, 163, 229, 143, 183, 229, 143, 170, 232,
     131, 189, 228, 189, 191, 231, 148, 168, 32, 49, 45, 49, 54, 32, 228, 189, 141, 229, 176, 143,
     229, 134, 153, 229, 173, 151, 230, 175, 141, 227, 128, 129, 230, 149, 176, 229, 173, 151, 230,
     136, 150, 228, 184, 139, 229, 136, 146, 231, 186, 191]"

definition amsg_group_name :: string where
  "amsg_group_name = text_bytes
    [230, 165, 188, 230, 160, 139, 231, 190, 164, 230, 152, 190, 231, 164, 186, 229, 144, 141, 239,
     188, 154]"

definition title_buildings :: string where
  "title_buildings = text_bytes
    [230, 165, 188, 230, 160, 139]"

definition amsg_save_failed :: string where
  "amsg_save_failed = text_bytes
    [228, 191, 157, 229, 173, 152, 229, 164, 177, 232, 180, 165, 239, 188, 154]"

definition label_interval :: string where
  "label_interval = text_bytes
    [230, 181, 139, 233, 135, 143, 229, 145, 168, 230, 156, 159]"

definition label_icmp_count :: string where
  "label_icmp_count = text_bytes
    [73, 67, 77, 80, 32, 230, 175, 143, 232, 189, 174, 230, 172, 161, 230, 149, 176]"

definition label_icmp_interval :: string where
  "label_icmp_interval = text_bytes
    [73, 67, 77, 80, 32, 232, 175, 183, 230, 177, 130, 233, 151, 180, 233, 154, 148]"

definition label_icmp_timeout :: string where
  "label_icmp_timeout = text_bytes
    [73, 67, 77, 80, 32, 229, 141, 149, 230, 172, 161, 232, 182, 133, 230, 151, 182]"

definition label_http_timeout :: string where
  "label_http_timeout = text_bytes
    [72, 84, 84, 80, 32, 230, 149, 180, 228, 189, 147, 232, 182, 133, 230, 151, 182]"

definition label_dns_timeout :: string where
  "label_dns_timeout = text_bytes
    [68, 78, 83, 32, 230, 149, 180, 228, 189, 147, 232, 182, 133, 230, 151, 182]"

definition amsg_not_integer :: string where
  "amsg_not_integer = text_bytes
    [229, 191, 133, 233, 161, 187, 230, 152, 175, 230, 149, 180, 230, 149, 176]"

definition amsg_rate_before :: string where
  "amsg_rate_before = text_bytes
    [230, 181, 139, 233, 135, 143, 229, 145, 168, 230, 156, 159, 229, 191, 133, 233, 161, 187, 228,
     184, 141, 229, 176, 143, 228, 186, 142, 32]"

definition amsg_rate_after :: string where
  "amsg_rate_after = text_bytes
    [32, 230, 175, 171, 231, 167, 146, 239, 188, 154, 232, 191, 153, 230, 152, 175, 230, 156, 172,
     230, 156, 186, 230, 142, 168, 233, 128, 129, 233, 153, 144, 230, 181, 129, 32, 82, 65, 84, 69,
     95, 76, 73, 77, 73, 84, 32, 231, 154, 132, 233, 151, 180, 233, 154, 148, 239, 188, 140, 230,
     175, 148, 229, 174, 131, 230, 155, 180, 231, 159, 173, 231, 154, 132, 229, 145, 168, 230, 156,
     159, 228, 188, 154, 232, 174, 169, 230, 142, 162, 233, 146, 136, 230, 140, 129, 231, 187, 173,
     232, 162, 171, 233, 153, 144, 230, 181, 129]"

definition title_settings :: string where
  "title_settings = text_bytes
    [230, 181, 139, 233, 135, 143, 229, 143, 130, 230, 149, 176]"

lemmas admin_messages [admin_text] =
  title_login_def
  amsg_bad_login_def
  title_probe_new_def
  amsg_choose_campus_def
  amsg_choose_building_def
  amsg_no_campus_def
  amsg_campus_check_def
  amsg_no_building_def
  amsg_building_check_def
  amsg_other_campus_def
  amsg_description_def
  amsg_network_type_def
  amsg_probe_type_def
  amsg_no_probe_type_def
  amsg_field_length_def
  amsg_target_id_def
  amsg_code_def
  amsg_exists_def
  amsg_campus_def
  amsg_campus_in_use_def
  title_campuses_def
  amsg_code_form_def
  amsg_name_empty_def
  amsg_name_long_def
  amsg_no_group_def
  amsg_fields_before_def
  amsg_fields_after_def
  amsg_nothing_def
  amsg_line_def
  amsg_line_colon_def
  amsg_line_space_def
  amsg_colon_def
  amsg_building_code_def
  amsg_still_def
  amsg_probes_use_def
  amsg_move_first_def
  amsg_building_code_form_def
  amsg_not_exist_def
  amsg_group_code_form_def
  amsg_group_name_def
  title_buildings_def
  amsg_save_failed_def
  label_interval_def
  label_icmp_count_def
  label_icmp_interval_def
  label_icmp_timeout_def
  label_http_timeout_def
  label_dns_timeout_def
  amsg_not_integer_def
  amsg_rate_before_def
  amsg_rate_after_def
  title_settings_def

lemma admin_messages_nonempty [simp]:
  "amsg_bad_login \<noteq> []"
  "amsg_choose_campus \<noteq> []"
  "amsg_choose_building \<noteq> []"
  "amsg_no_campus \<noteq> []"
  "amsg_campus_check \<noteq> []"
  "amsg_no_building \<noteq> []"
  "amsg_building_check \<noteq> []"
  "amsg_other_campus \<noteq> []"
  "amsg_description \<noteq> []"
  "amsg_network_type \<noteq> []"
  "amsg_probe_type \<noteq> []"
  "amsg_no_probe_type \<noteq> []"
  "amsg_field_length \<noteq> []"
  "amsg_target_id \<noteq> []"
  "amsg_code \<noteq> []"
  "amsg_exists \<noteq> []"
  "amsg_campus \<noteq> []"
  "amsg_campus_in_use \<noteq> []"
  "amsg_code_form \<noteq> []"
  "amsg_name_empty \<noteq> []"
  "amsg_name_long \<noteq> []"
  "amsg_no_group \<noteq> []"
  "amsg_fields_before \<noteq> []"
  "amsg_fields_after \<noteq> []"
  "amsg_nothing \<noteq> []"
  "amsg_line \<noteq> []"
  "amsg_line_colon \<noteq> []"
  "amsg_line_space \<noteq> []"
  "amsg_colon \<noteq> []"
  "amsg_building_code \<noteq> []"
  "amsg_still \<noteq> []"
  "amsg_probes_use \<noteq> []"
  "amsg_move_first \<noteq> []"
  "amsg_building_code_form \<noteq> []"
  "amsg_not_exist \<noteq> []"
  "amsg_group_code_form \<noteq> []"
  "amsg_group_name \<noteq> []"
  "amsg_save_failed \<noteq> []"
  "label_interval \<noteq> []"
  "label_icmp_count \<noteq> []"
  "label_icmp_interval \<noteq> []"
  "label_icmp_timeout \<noteq> []"
  "label_http_timeout \<noteq> []"
  "label_dns_timeout \<noteq> []"
  "amsg_not_integer \<noteq> []"
  "amsg_rate_before \<noteq> []"
  "amsg_rate_after \<noteq> []"
  by (simp_all add: admin_text)

end
