(* ===== verification/Admin_Base.thy ===== *)
theory Admin_Base
  imports Admin_Session Admin_Text Portal_Register Store_Targets
begin

text \<open>
  \<open>internal/admin/server.go\<close> and \<open>internal/admin/auth.go\<close>: the management server's state and
  pages, the resolution of the admin password, and the session and CSRF guards every
  management route goes through.
\<close>

section \<open>Pages\<close>

record probe_view =
  v_Probe :: probe
  v_Online :: bool
  v_LastSeen :: gotime

record probe_form =
  pf_campusCode :: string
  pf_buildingCode :: string
  pf_networkType :: string
  pf_description :: string

record campus_view =
  cv_Campus :: campus
  cv_Buildings :: nat

record building_view_row =
  bv_Building :: building
  bv_CampusName :: string

record building_block =
  bb_CampusCode :: string
  bb_CampusName :: string
  bb_Rows :: "building_view_row list"

record campus_count =
  cc_Code :: string
  cc_Name :: string
  cc_Count :: nat

record import_report =
  ir_Added :: nat
  ir_Skipped :: "string list"
  ir_Failed :: "string list"

record building_view =
  selectedCampus :: string
  filterCampus :: string
  view_report :: "import_report option"

record buildings_page =
  bp_blocks :: "building_block list"
  bp_total :: nat
  bp_campusCounts :: "campus_count list"
  bp_campuses :: "campus list"
  bp_groups :: "building_group list"
  bp_selectedCampus :: string
  bp_filterCampus :: string
  bp_report :: "import_report option"

record measurement_form =
  mf_IntervalMS :: string
  mf_ICMPCount :: string
  mf_ICMPIntervalMS :: string
  mf_ICMPTimeoutMS :: string
  mf_HTTPTimeoutMS :: string
  mf_DNSTimeoutMS :: string
  mf_FollowRedirects :: bool
  mf_VerifyTLS :: bool

datatype admin_page =
    LoginPage
  | ProbesPage "probe_view list" int string "(string \<times> nat) list"
  | ProbeNewPage "campus list" bool "(string \<times> string) list" "building list" string
  | ProbeDetailPage probe_view
  | TargetsPage "target list"
  | CampusesPage "campus_view list"
  | BuildingsPage buildings_page
  | SettingsPage measurement_form bool

definition adminPages :: "string list" where
  "adminPages =
     [''login.html'', ''probes.html'', ''probe_new.html'', ''probe_detail.html'', ''targets.html'',
      ''campuses.html'', ''buildings.html'', ''settings.html'']"

section \<open>Codes\<close>

text \<open>
  \<open>probes.go\<close> has its own copies of what the portal checks and draws; the two interfaces agree.
\<close>

definition admin_codePattern :: rx where
  "admin_codePattern = rx_repeat (RClass [(97, 122), (48, 57), (95, 95)]) 1 16"

definition validCode :: "string \<Rightarrow> bool" where
  "validCode s \<longleftrightarrow> MatchString admin_codePattern s"

definition admin_networkTypes :: "string list" where
  "admin_networkTypes = [''wired'', ''wireless'']"

definition admin_probeIDRandomBytes :: nat where "admin_probeIDRandomBytes = 3"

definition probeIDSource :: "string \<Rightarrow> string \<Rightarrow> (nat \<Rightarrow> string option) \<Rightarrow> string option" where
  "probeIDSource campusCode buildingCode rnd =
     (case rnd admin_probeIDRandomBytes of
        None \<Rightarrow> None
      | Some buf \<Rightarrow> Some (campusCode @ ''-'' @ buildingCode @ ''-'' @ hex_encode buf))"

definition admin_generateProbeID :: "string \<Rightarrow> string \<Rightarrow> (nat \<Rightarrow> string option) \<Rightarrow> string option" where
  "admin_generateProbeID campusCode buildingCode = probeIDSource campusCode buildingCode"

lemma admin_codes [simp]:
  "validCode s \<longleftrightarrow> MatchString codePattern s" "admin_networkTypes = networkTypes"
  "admin_generateProbeID campusCode buildingCode rnd = generateProbeID campusCode buildingCode rnd"
  by (simp_all add: validCode_def admin_codePattern_def codePattern_def admin_networkTypes_def networkTypes_def
      admin_generateProbeID_def probeIDSource_def admin_probeIDRandomBytes_def generateProbeID_def probeIDRandomBytes_def
      split: option.split)

section \<open>The server\<close>

definition sessionCookieName :: string where "sessionCookieName = ''netprobe_admin_session''"
definition adminPasswordSettingKey :: string where "adminPasswordSettingKey = ''admin_password_hash''"
definition defaultOnlineThreshold :: int where "defaultOnlineThreshold = 30 * Second"

text \<open>
  What does not change while the server runs: its configuration, the outcome of
  \<open>resolvePassword\<close>, and the parameters for template execution, bcrypt and the text of a store error.
\<close>

record admin_env =
  ae_cfg :: config
  ae_exec :: "string \<Rightarrow> admin_page page_data \<Rightarrow> bool"
  ae_bcrypt :: bcrypt_ops
  ae_errorText :: "store_error \<Rightarrow> string"
  ae_username :: string
  ae_passwordHash :: string
  ae_onlineThreshold :: int

record 'b gateway_state = "'b portal_state" +
  gs_sessions :: session_store

definition resolve_threshold :: "int \<Rightarrow> int" where
  "resolve_threshold t = (if t \<le> 0 then defaultOnlineThreshold else t)"

text \<open>
  The password hash to compare against and the plaintext, which is empty unless this
  process generated it; \<open>None\<close> when the server does not start.  A generated password is
  stored before it is used, so the next start finds it.
\<close>

definition resolvePassword :: "bcrypt_ops \<Rightarrow> config \<Rightarrow> (nat \<Rightarrow> string option) \<Rightarrow> int \<Rightarrow> (nat \<Rightarrow> faults) \<Rightarrow> db \<Rightarrow>
    (string \<times> string) option \<times> db" where
  "resolvePassword bcrypt cfg rnd now io d =
     (if AdminPassword cfg \<noteq> [] then (map_option (\<lambda>h. (h, [])) (hashPassword bcrypt (AdminPassword cfg)), d)
      else case Setting adminPasswordSettingKey (io 0) d of
             Inl _ \<Rightarrow> (None, d)
           | Inr (stored, ok) \<Rightarrow>
               (if ok then (Some (stored, []), d)
                else case generateAdminPassword bcrypt rnd of
                       None \<Rightarrow> (None, d)
                     | Some (password, hash) \<Rightarrow>
                         (case SetSetting now adminPasswordSettingKey hash (io 1) d of
                            (Inl _, d') \<Rightarrow> (None, d')
                          | (Inr _, d') \<Rightarrow> (Some (hash, password), d'))))"

definition PasswordGeneration :: "string \<times> string \<Rightarrow> string \<times> bool" where
  "PasswordGeneration r = (snd r, snd r \<noteq> [])"

definition admin_NewServer :: "bool \<Rightarrow> bcrypt_ops \<Rightarrow> (store_error \<Rightarrow> string) \<Rightarrow> (string \<Rightarrow> admin_page page_data \<Rightarrow> bool) \<Rightarrow> config \<Rightarrow> int \<Rightarrow>
    (nat \<Rightarrow> string option) \<Rightarrow> int \<Rightarrow> (nat \<Rightarrow> faults) \<Rightarrow> db \<Rightarrow>
    (admin_env \<times> session_store \<times> string) option \<times> db" where
  "admin_NewServer hasOneShot bcrypt errorText exec cfg threshold rnd now io d =
     (if \<not> hasOneShot then (None, d)
      else case resolvePassword bcrypt cfg rnd now io d of
             (None, d') \<Rightarrow> (None, d')
           | (Some (hash, generated), d') \<Rightarrow>
               (Some (\<lparr>ae_cfg = cfg, ae_exec = exec, ae_bcrypt = bcrypt, ae_errorText = errorText,
                       ae_username = AdminUsername cfg,
                       ae_passwordHash = hash, ae_onlineThreshold = resolve_threshold threshold\<rparr>,
                      newSessionStore sessionTTL, generated), d'))"

definition admin_render :: "admin_env \<Rightarrow> int \<Rightarrow> string \<Rightarrow> string \<Rightarrow> session \<Rightarrow> string \<Rightarrow> admin_page \<Rightarrow>
    admin_page web_response" where
  "admin_render env status page title sess err pages =
     Render adminPages (ae_exec env) status page
       \<lparr>pd_Title = title, pd_Username = ss_username sess, pd_CSRF = ss_csrf sess, pd_Error = err, pd_Pages = pages\<rparr>"

section \<open>Guards\<close>

type_synonym ('b, 'm) admin_result = "admin_page web_response \<times> ('b, 'm) gateway_state_scheme"
type_synonym ('b, 'm) admin_handler = "web_request \<Rightarrow> ('b, 'm) gateway_state_scheme \<Rightarrow> ('b, 'm) admin_result"

definition sessionFromRequest :: "int \<Rightarrow> web_request \<Rightarrow> ('b, 'm) gateway_state_scheme \<Rightarrow>
    session option \<times> ('b, 'm) gateway_state_scheme" where
  "sessionFromRequest now rq st =
     (case Cookie sessionCookieName rq of
        None \<Rightarrow> (None, st)
      | Some sid \<Rightarrow>
          (let (sess, ss) = session_get now sid (gs_sessions st) in (sess, st\<lparr>gs_sessions := ss\<rparr>)))"

definition to_login :: "admin_page web_response" where
  "to_login = Redirect ''/admin/login''"

definition requireSession :: "int \<Rightarrow> ('b, 'm) admin_handler \<Rightarrow> ('b, 'm) admin_handler" where
  "requireSession now next_handler rq st =
     (case sessionFromRequest now rq st of
        (None, st) \<Rightarrow> (to_login, st)
      | (Some sess, st) \<Rightarrow> next_handler rq st)"

definition requireCSRF :: "int \<Rightarrow> ('b, 'm) admin_handler \<Rightarrow> ('b, 'm) admin_handler" where
  "requireCSRF now next_handler rq st =
     (case sessionFromRequest now rq st of
        (None, st) \<Rightarrow> (to_login, st)
      | (Some sess, st) \<Rightarrow>
          (if ParseForm_fails rq then (http_Error ''invalid form'' StatusBadRequest, st)
           else if PostFormValue rq ''csrf'' \<noteq> ss_csrf sess
           then (http_Error ''invalid CSRF token'' StatusForbidden, st)
           else next_handler rq st))"

text \<open>
  A handler starts by looking its session up again.  Behind the guards it is there; the
  code ignores a missing one and would fail on its first use, which closes the connection.
\<close>

definition aborted :: "admin_page web_response" where
  "aborted = \<lparr>wp_Status = StatusInternalServerError, wp_Location = None, wp_SetCookie = None, wp_Body = NoBody\<rparr>"

definition with_session :: "int \<Rightarrow> (session \<Rightarrow> ('b, 'm) admin_handler) \<Rightarrow> ('b, 'm) admin_handler" where
  "with_session now h rq st =
     (case sessionFromRequest now rq st of
        (None, st) \<Rightarrow> (aborted, st)
      | (Some sess, st) \<Rightarrow> h sess rq st)"

section \<open>Login and logout\<close>

definition isHTTPS :: "string \<Rightarrow> bool" where
  "isHTTPS baseURL \<longleftrightarrow> length baseURL \<ge> 8 \<and> take 8 baseURL = ''https://''"

definition session_cookie_of :: "admin_env \<Rightarrow> string \<Rightarrow> int \<Rightarrow> session_cookie" where
  "session_cookie_of env value age =
     \<lparr>ck_Name = sessionCookieName, ck_Value = value, ck_Path = ''/admin'', ck_MaxAge = age, ck_HttpOnly = True,
      ck_Lax = True, ck_Secure = isHTTPS (PublicBaseURL (ae_cfg env))\<rparr>"

definition setSessionCookie :: "admin_env \<Rightarrow> string \<Rightarrow> admin_page web_response \<Rightarrow> admin_page web_response" where
  "setSessionCookie env sid rs = rs\<lparr>wp_SetCookie := Some (session_cookie_of env sid 0)\<rparr>"

definition clearSessionCookie :: "admin_env \<Rightarrow> admin_page web_response \<Rightarrow> admin_page web_response" where
  "clearSessionCookie env rs = rs\<lparr>wp_SetCookie := Some (session_cookie_of env [] (- 1))\<rparr>"

definition login_page :: "admin_env \<Rightarrow> int \<Rightarrow> string \<Rightarrow> admin_page web_response" where
  "login_page env status err =
     Render adminPages (ae_exec env) status ''login.html''
       \<lparr>pd_Title = title_login, pd_Username = [], pd_CSRF = [], pd_Error = err, pd_Pages = LoginPage\<rparr>"

definition handleLoginPage :: "admin_env \<Rightarrow> int \<Rightarrow> ('b, 'm) admin_handler" where
  "handleLoginPage env now rq st =
     (case sessionFromRequest now rq st of
        (Some _, st) \<Rightarrow> (Redirect ''/admin'', st)
      | (None, st) \<Rightarrow> (login_page env StatusOK [], st))"

definition handleLogin :: "admin_env \<Rightarrow> int \<Rightarrow> (nat \<Rightarrow> nat \<Rightarrow> string option) \<Rightarrow> ('b, 'm) admin_handler" where
  "handleLogin env now rnd rq st =
     (if ParseForm_fails rq then (http_Error ''invalid form'' StatusBadRequest, st)
      else
        (let username = PostFormValue rq ''username''; password = PostFormValue rq ''password'';
             passwordOK = verifyPassword (ae_bcrypt env) (ae_passwordHash env) password in
         if username \<noteq> ae_username env \<or> \<not> passwordOK
         then (login_page env StatusUnauthorized amsg_bad_login, st)
         else
           (case session_create rnd now username (gs_sessions st) of
              (None, ss) \<Rightarrow> (internal_error, st\<lparr>gs_sessions := ss\<rparr>)
            | (Some sess, ss) \<Rightarrow>
                (setSessionCookie env (ss_id sess) (Redirect ''/admin''), st\<lparr>gs_sessions := ss\<rparr>))))"

definition handleLogout :: "admin_env \<Rightarrow> ('b, 'm) admin_handler" where
  "handleLogout env rq st =
     (let st = (case Cookie sessionCookieName rq of
                  None \<Rightarrow> st
                | Some sid \<Rightarrow> st\<lparr>gs_sessions := session_destroy sid (gs_sessions st)\<rparr>) in
      (clearSessionCookie env to_login, st))"

section \<open>What the guards guarantee\<close>

definition session_for :: "int \<Rightarrow> web_request \<Rightarrow> ('b, 'm) gateway_state_scheme \<Rightarrow> session option" where
  "session_for now rq st = fst (sessionFromRequest now rq st)"

text \<open>A lookup changes the sessions only.\<close>

lemma sessionFromRequest_frame:
  "as_db (snd (sessionFromRequest now rq st)) = as_db st"
  "as_latest (snd (sessionFromRequest now rq st)) = as_latest st"
  "as_limiter (snd (sessionFromRequest now rq st)) = as_limiter st"
  "as_self (snd (sessionFromRequest now rq st)) = as_self st"
  "ps_oneShot (snd (sessionFromRequest now rq st)) = ps_oneShot st"
  "ps_limiter (snd (sessionFromRequest now rq st)) = ps_limiter st"
  by (simp_all add: sessionFromRequest_def split_beta split: option.split)

lemma sessionFromRequest_get:
  "sessionFromRequest now rq st = (Some sess, st') \<longleftrightarrow>
     (\<exists>sid ss. Cookie sessionCookieName rq = Some sid \<and> session_get now sid (gs_sessions st) = (Some sess, ss) \<and>
        st' = st\<lparr>gs_sessions := ss\<rparr>)"
  by (auto simp: sessionFromRequest_def split_beta prod_eq_iff split: option.splits)

lemma sessionFromRequest_Some:
  assumes "sessionFromRequest now rq st = (Some sess, st')"
  shows "\<exists>sid e. Cookie sessionCookieName rq = Some sid \<and> sid \<noteq> [] \<and> session_of (gs_sessions st) sid = Some e \<and>
     now \<le> ss_expires e \<and> ss_csrf sess = ss_csrf e \<and> ss_username sess = ss_username e"
  using assms by (auto simp: sessionFromRequest_get session_get_Some)

lemma sessionFromRequest_again:
  "sessionFromRequest now rq st = (Some sess, st') \<Longrightarrow> 0 \<le> st_ttl (gs_sessions st) \<Longrightarrow>
   sessionFromRequest now rq st' = (Some sess, st')"
  by (auto simp: sessionFromRequest_get dest: session_get_again)

end
