(* ===== verification/Metrics_Collector.thy ===== *)
theory Metrics_Collector
  imports Api_Base
begin

text \<open>
  \<open>internal/metrics/collector.go\<close> and \<open>internal/metrics/names.go\<close>: what a scrape renders.
  The Prometheus client is not modelled: a scrape is the list of samples sent to its channel,
  in order, each with its metric name, label values and value.
\<close>

section \<open>Names and labels\<close>

definition IdentityLabelNames :: "string list" where
  "IdentityLabelNames = [''probe_id'', ''campus'', ''building_group'', ''building'', ''network_type'']"

definition MeasurementLabelNames :: "string list" where
  "MeasurementLabelNames = IdentityLabelNames @ [''target'']"

definition NameOnline :: string where "NameOnline = ''campus_probe_online''"
definition NameLastSeen :: string where "NameLastSeen = ''campus_probe_last_seen_timestamp_seconds''"
definition NameICMPSuccess :: string where "NameICMPSuccess = ''campus_probe_icmp_success''"
definition NameICMPLossRatio :: string where "NameICMPLossRatio = ''campus_probe_icmp_loss_ratio''"
definition NameICMPRTT :: string where "NameICMPRTT = ''campus_probe_icmp_rtt_seconds''"
definition NameICMPRTTMin :: string where "NameICMPRTTMin = ''campus_probe_icmp_rtt_min_seconds''"
definition NameICMPRTTMax :: string where "NameICMPRTTMax = ''campus_probe_icmp_rtt_max_seconds''"
definition NameICMPJitter :: string where "NameICMPJitter = ''campus_probe_icmp_jitter_seconds''"
definition NameDNSSuccess :: string where "NameDNSSuccess = ''campus_probe_dns_success''"
definition NameDNSDuration :: string where "NameDNSDuration = ''campus_probe_dns_duration_seconds''"
definition NameHTTPSuccess :: string where "NameHTTPSuccess = ''campus_probe_http_success''"
definition NameHTTPDuration :: string where "NameHTTPDuration = ''campus_probe_http_duration_seconds''"
definition NameHTTPStatusCode :: string where "NameHTTPStatusCode = ''campus_probe_http_status_code''"
definition NameRegisteredProbes :: string where
  "NameRegisteredProbes = ''cqu_netprobe_gateway_registered_probes''"
definition NameOnlineProbes :: string where "NameOnlineProbes = ''cqu_netprobe_gateway_online_probes''"

lemmas metric_names = NameOnline_def NameLastSeen_def NameICMPSuccess_def NameICMPLossRatio_def
  NameICMPRTT_def NameICMPRTTMin_def NameICMPRTTMax_def NameICMPJitter_def NameDNSSuccess_def
  NameDNSDuration_def NameHTTPSuccess_def NameHTTPDuration_def NameHTTPStatusCode_def
  NameRegisteredProbes_def NameOnlineProbes_def

record sample =
  s_Name :: string
  s_Labels :: "string list"
  s_Value :: float64

definition millisecondsToSeconds :: "float64 \<Rightarrow> float64" where
  "millisecondsToSeconds ms = float_div ms (Fin 1000)"

definition boolValue :: "bool \<Rightarrow> float64" where
  "boolValue b = (if b then Fin 1 else Fin 0)"

definition identityLabels :: "probe \<Rightarrow> string list" where
  "identityLabels p =
     [p_ProbeID p, p_CampusCode p, p_BuildingGroupCode p, p_BuildingCode p, p_NetworkType p]"

section \<open>Measurements\<close>

definition metric :: "string \<Rightarrow> float64 \<Rightarrow> string list \<Rightarrow> sample" where
  "metric name v labels = \<lparr>s_Name = name, s_Labels = labels, s_Value = v\<rparr>"

definition emit_ms :: "string \<Rightarrow> float64 option \<Rightarrow> string list \<Rightarrow> sample list" where
  "emit_ms name v labels =
     (case v of None \<Rightarrow> [] | Some ms \<Rightarrow> [metric name (millisecondsToSeconds ms) labels])"

definition emitICMP :: "icmp_result option \<Rightarrow> string list \<Rightarrow> sample list" where
  "emitICMP m labels =
     (case m of
        None \<Rightarrow> []
      | Some r \<Rightarrow>
          [metric NameICMPSuccess (boolValue (icmp_Success r)) labels,
           metric NameICMPLossRatio (icmp_LossRatio r) labels] @
          emit_ms NameICMPRTTMin (icmp_MinRTTMS r) labels @ emit_ms NameICMPRTT (icmp_AvgRTTMS r) labels @
          emit_ms NameICMPRTTMax (icmp_MaxRTTMS r) labels @ emit_ms NameICMPJitter (icmp_JitterMS r) labels)"

definition emitDNS :: "dns_result option \<Rightarrow> string list \<Rightarrow> sample list" where
  "emitDNS m labels =
     (case m of
        None \<Rightarrow> []
      | Some r \<Rightarrow> metric NameDNSSuccess (boolValue (dns_Success r)) labels #
                  emit_ms NameDNSDuration (dns_DurationMS r) labels)"

definition emitHTTP :: "http_result option \<Rightarrow> string list \<Rightarrow> sample list" where
  "emitHTTP m labels =
     (case m of
        None \<Rightarrow> []
      | Some r \<Rightarrow> [metric NameHTTPSuccess (boolValue (http_Success r)) labels] @
          (case http_StatusCode r of None \<Rightarrow> [] | Some c \<Rightarrow> [metric NameHTTPStatusCode (float_of_int c) labels]) @
          emit_ms NameHTTPDuration (http_DurationMS r) labels)"

definition emit_type :: "(probe_type, measurement) gomap \<Rightarrow> string list \<Rightarrow> probe_type \<Rightarrow> sample list" where
  "emit_type byType labels pt =
     (let m = or_zero (map_of byType pt) no_measurement in
      if pt = ProbeICMP then emitICMP (m_ICMP m) labels
      else if pt = ProbeDNS then emitDNS (m_DNS m) labels
      else if pt = ProbeHTTP then emitHTTP (m_HTTP m) labels
      else [])"

definition emit_target :: "results \<Rightarrow> string list \<Rightarrow> string \<Rightarrow> sample list" where
  "emit_target rs ident target =
     (let byType = or_zero (map_of rs target) [] in
      concat (map (emit_type byType (ident @ [target])) (sorted_keys byType)))"

definition emitMeasurements :: "results \<Rightarrow> string list \<Rightarrow> sample list" where
  "emitMeasurements rs ident = concat (map (emit_target rs ident) (sorted_keys rs))"

section \<open>A scrape\<close>

text \<open>\<open>Time.Sub\<close> saturates at the ends of a 64-bit duration.\<close>

definition time_Sub :: "int \<Rightarrow> int \<Rightarrow> int" where
  "time_Sub t u = max (- (2 ^ 63)) (min (2 ^ 63 - 1) (t - u))"

text \<open>
  The loop over the probes: what it sends and the two counters it keeps.  The counters are
  floats in the code; they count rows, so they stay far below where a float stops being exact.
\<close>

fun collect_loop :: "int \<Rightarrow> int \<Rightarrow> latest_store \<Rightarrow> probe list \<Rightarrow> int \<Rightarrow> int \<Rightarrow> sample list \<times> int \<times> int" where
  "collect_loop now threshold l [] registered online = ([], registered, online)"
| "collect_loop now threshold l (p # ps) registered online =
     (if \<not> p_Enabled p then collect_loop now threshold l ps (registered + 1) online
      else
        (let ident = identityLabels p in
         case latest_Get l (p_ProbeID p) of
           None \<Rightarrow>
             (let (out, r, n) = collect_loop now threshold l ps (registered + 1) online in
              (metric NameOnline (Fin 0) ident # out, r, n))
         | Some e \<Rightarrow>
             (let isOnline = time_Sub now (e_ServerReceivedAt e) \<le> threshold;
                  (out, r, n) = collect_loop now threshold l ps (registered + 1)
                                  (if isOnline then online + 1 else online) in
              ((if isOnline then metric NameOnline (Fin 1) ident # emitMeasurements (e_Results e) ident
                else [metric NameOnline (Fin 0) ident]) @
               metric NameLastSeen (float_of_int (unix_seconds (e_ServerReceivedAt e))) ident # out, r, n))))"

definition Collect :: "int \<Rightarrow> int \<Rightarrow> faults \<Rightarrow> ('b, 'm) api_state_scheme \<Rightarrow>
    sample list \<times> ('b, 'm) api_state_scheme" where
  "Collect threshold now io st =
     (case ListProbes io (as_db st) of
        Inl _ \<Rightarrow> ([], on_self (\<lambda>s. s\<lparr>CollectErrors := Suc (CollectErrors s)\<rparr>) st)
      | Inr probes \<Rightarrow>
          (let (out, registered, online) = collect_loop now threshold (as_latest st) probes 0 0 in
           (out @ [metric NameRegisteredProbes (float_of_int registered) [],
                   metric NameOnlineProbes (float_of_int online) []], st)))"

text \<open>The descriptors: a metric name and its label names each (the help texts are left out).\<close>

type_synonym desc = "string \<times> string list"

record collector_descs =
  online_desc :: desc
  lastSeen_desc :: desc
  icmpSuccess_desc :: desc
  icmpLossRatio_desc :: desc
  icmpRTT_desc :: desc
  icmpRTTMin_desc :: desc
  icmpRTTMax_desc :: desc
  icmpJitter_desc :: desc
  dnsSuccess_desc :: desc
  dnsDuration_desc :: desc
  httpSuccess_desc :: desc
  httpDuration_desc :: desc
  httpStatusCode_desc :: desc
  registeredProbes_desc :: desc
  onlineProbes_desc :: desc

definition NewCollector :: collector_descs where
  "NewCollector =
     \<lparr>online_desc = (NameOnline, IdentityLabelNames),
      lastSeen_desc = (NameLastSeen, IdentityLabelNames),
      icmpSuccess_desc = (NameICMPSuccess, MeasurementLabelNames),
      icmpLossRatio_desc = (NameICMPLossRatio, MeasurementLabelNames),
      icmpRTT_desc = (NameICMPRTT, MeasurementLabelNames),
      icmpRTTMin_desc = (NameICMPRTTMin, MeasurementLabelNames),
      icmpRTTMax_desc = (NameICMPRTTMax, MeasurementLabelNames),
      icmpJitter_desc = (NameICMPJitter, MeasurementLabelNames),
      dnsSuccess_desc = (NameDNSSuccess, MeasurementLabelNames),
      dnsDuration_desc = (NameDNSDuration, MeasurementLabelNames),
      httpSuccess_desc = (NameHTTPSuccess, MeasurementLabelNames),
      httpDuration_desc = (NameHTTPDuration, MeasurementLabelNames),
      httpStatusCode_desc = (NameHTTPStatusCode, MeasurementLabelNames),
      registeredProbes_desc = (NameRegisteredProbes, []),
      onlineProbes_desc = (NameOnlineProbes, [])\<rparr>"

definition Describe :: "collector_descs \<Rightarrow> desc list" where
  "Describe c =
     [online_desc c, lastSeen_desc c, icmpSuccess_desc c,
      icmpLossRatio_desc c, icmpRTT_desc c, icmpRTTMin_desc c,
      icmpRTTMax_desc c, icmpJitter_desc c, dnsSuccess_desc c,
      dnsDuration_desc c, httpSuccess_desc c, httpDuration_desc c,
      httpStatusCode_desc c, registeredProbes_desc c, onlineProbes_desc c]"

section \<open>What a scrape says of each probe\<close>

definition probe_online :: "int \<Rightarrow> int \<Rightarrow> latest_store \<Rightarrow> probe \<Rightarrow> bool" where
  "probe_online now threshold l p \<longleftrightarrow>
     p_Enabled p \<and> (\<exists>e. latest_Get l (p_ProbeID p) = Some e \<and> time_Sub now (e_ServerReceivedAt e) \<le> threshold)"

definition probe_samples :: "int \<Rightarrow> int \<Rightarrow> latest_store \<Rightarrow> probe \<Rightarrow> sample list" where
  "probe_samples now threshold l p =
     (if \<not> p_Enabled p then []
      else [metric NameOnline (boolValue (probe_online now threshold l p)) (identityLabels p)] @
        (case latest_Get l (p_ProbeID p) of
           None \<Rightarrow> []
         | Some e \<Rightarrow>
             (if probe_online now threshold l p then emitMeasurements (e_Results e) (identityLabels p) else []) @
             [metric NameLastSeen (float_of_int (unix_seconds (e_ServerReceivedAt e))) (identityLabels p)]))"

lemma collect_loop_spec:
  "collect_loop now threshold l ps registered online =
     (concat (map (probe_samples now threshold l) ps), registered + int (length ps),
      online + int (length (filter (probe_online now threshold l) ps)))"
proof (induction ps arbitrary: registered online)
  case (Cons p ps)
  show ?case
    by (cases "latest_Get l (p_ProbeID p)")
      (auto simp: Cons.IH Let_def probe_samples_def probe_online_def boolValue_def)
qed simp

definition scrape_of :: "int \<Rightarrow> int \<Rightarrow> latest_store \<Rightarrow> probe list \<Rightarrow> sample list" where
  "scrape_of threshold now l ps =
     concat (map (probe_samples now threshold l) ps) @
     [metric NameRegisteredProbes (float_of_int (int (length ps))) [],
      metric NameOnlineProbes (float_of_int (int (length (filter (probe_online now threshold l) ps)))) []]"

lemma Collect_ok:
  "ListProbes io (as_db st) = Inr ps \<Longrightarrow> Collect threshold now io st = (scrape_of threshold now (as_latest st) ps, st)"
  by (simp add: Collect_def collect_loop_spec scrape_of_def)

lemma Collect_fails:
  "ListProbes io (as_db st) = Inl e \<Longrightarrow> fst (Collect threshold now io st) = [] \<and>
   as_self (snd (Collect threshold now io st)) =
     map_option (\<lambda>s. s\<lparr>CollectErrors := Suc (CollectErrors s)\<rparr>) (as_self st)"
  by (simp add: Collect_def on_self_def)

section \<open>Measurements carry the probe's own identity\<close>

lemma emit_ms_labels: "x \<in> set (emit_ms name v labels) \<Longrightarrow> s_Labels x = labels \<and> s_Name x = name"
  by (auto simp: emit_ms_def metric_def split: option.splits)

lemma emit_type_labels: "x \<in> set (emit_type byType labels pt) \<Longrightarrow> s_Labels x = labels"
  by (auto simp: emit_type_def Let_def emitICMP_def emitDNS_def emitHTTP_def metric_def
      dest: emit_ms_labels split: if_splits option.splits)

lemma emitMeasurements_labels:
  "x \<in> set (emitMeasurements rs ident) \<Longrightarrow> \<exists>target \<in> set (keys rs). s_Labels x = ident @ [target]"
  by (auto simp: emitMeasurements_def emit_target_def Let_def dest: emit_type_labels)

lemma probe_samples_labels:
  "x \<in> set (probe_samples now threshold l p) \<Longrightarrow>
   p_Enabled p \<and> take 5 (s_Labels x) = identityLabels p"
  by (auto simp: probe_samples_def metric_def identityLabels_def dest!: emitMeasurements_labels
      split: if_splits option.splits)

lemma emit_type_names:
  "x \<in> set (emit_type byType labels pt) \<Longrightarrow> (s_Name x, MeasurementLabelNames) \<in> set (Describe NewCollector)"
  by (auto simp: emit_type_def Let_def emitICMP_def emitDNS_def emitHTTP_def metric_def Describe_def NewCollector_def
      dest: emit_ms_labels split: if_splits option.splits)

text \<open>Every sample has a descriptor with its name and as many labels as it carries.\<close>

lemma probe_samples_described:
  assumes "x \<in> set (probe_samples now threshold l p)"
  shows "\<exists>names. (s_Name x, names) \<in> set (Describe NewCollector) \<and> length names = length (s_Labels x)"
proof -
  have m: "\<exists>names. (s_Name x, names) \<in> set (Describe NewCollector) \<and> length names = length (s_Labels x)"
    if "x \<in> set (emitMeasurements rs (identityLabels p))" for rs
  proof -
    from that obtain byType target pt where e: "x \<in> set (emit_type byType (identityLabels p @ [target]) pt)"
      by (auto simp: emitMeasurements_def emit_target_def Let_def)
    from emit_type_names [OF e] emit_type_labels [OF e] show ?thesis
      by (intro exI [of _ MeasurementLabelNames])
        (simp add: MeasurementLabelNames_def IdentityLabelNames_def identityLabels_def)
  qed
  have i: "(NameOnline, IdentityLabelNames) \<in> set (Describe NewCollector)" "(NameLastSeen, IdentityLabelNames) \<in> set (Describe NewCollector)"
    by (simp_all add: Describe_def NewCollector_def)
  have l: "length IdentityLabelNames = length (identityLabels p)"
    by (simp add: IdentityLabelNames_def identityLabels_def)
  from assms m i l show ?thesis
    by (auto simp: probe_samples_def metric_def split: if_splits option.splits)
qed

section \<open>Seconds keep the order of milliseconds\<close>

lemma millisecondsToSeconds_mono:
  "a \<le> b \<Longrightarrow> float_le (millisecondsToSeconds (Fin a)) (millisecondsToSeconds (Fin b))"
  by (simp add: millisecondsToSeconds_def to_float_mono divide_right_mono)

lemma millisecondsToSeconds_nonneg: "0 \<le> a \<Longrightarrow> float_le (Fin 0) (millisecondsToSeconds (Fin a))"
  by (simp add: millisecondsToSeconds_def to_float_nonneg)

lemma valid_rtt_seconds:
  assumes "validateICMP r = Inr ()" "icmp_Success r"
  shows "\<exists>a b c. icmp_MinRTTMS r = Some a \<and> icmp_AvgRTTMS r = Some b \<and> icmp_MaxRTTMS r = Some c \<and>
           float_le (Fin 0) (millisecondsToSeconds a) \<and>
           float_le (millisecondsToSeconds a) (millisecondsToSeconds b) \<and>
           float_le (millisecondsToSeconds b) (millisecondsToSeconds c)"
proof -
  from assms have "rtt_ok r" by (auto simp: validateICMP_iff icmp_ok_def split: if_splits)
  then show ?thesis
    by (auto simp: rtt_ok_def millisecondsToSeconds_mono millisecondsToSeconds_nonneg)
qed

end
