(* ===== verification/Admin_Probes.thy ===== *)
theory Admin_Probes
  imports Admin_Base Metrics_Collector
begin

text \<open>
  \<open>internal/admin/probes.go\<close>: the probe list, the creation of a probe by an operator, and
  the toggle, rotation and deletion of one.  A handler takes the server, the clock, the
  faults \<open>io i\<close> of its \<open>i\<close>-th store call, the random draws and, behind the guards, its session.
\<close>

section \<open>The list\<close>

text \<open>The same rule as the metrics collector's, for an enabled probe with an entry.\<close>

definition onlineState :: "admin_env \<Rightarrow> latest_store \<Rightarrow> int \<Rightarrow> probe \<Rightarrow> bool \<times> gotime" where
  "onlineState env l now p =
     (if \<not> p_Enabled p then (False, None)
      else case latest_Get l (p_ProbeID p) of
             None \<Rightarrow> (False, None)
           | Some e \<Rightarrow>
               (time_Sub now (e_ServerReceivedAt e) \<le> ae_onlineThreshold env, Some (e_ServerReceivedAt e)))"

definition probeFilters :: "string list" where
  "probeFilters = [''all'', ''online'', ''offline'', ''disabled'']"

definition matchesProbeFilter :: "string \<Rightarrow> probe_view \<Rightarrow> bool" where
  "matchesProbeFilter f row =
     (if f = ''disabled'' then \<not> p_Enabled (v_Probe row)
      else if f = ''online'' then p_Enabled (v_Probe row) \<and> v_Online row
      else if f = ''offline'' then p_Enabled (v_Probe row) \<and> \<not> v_Online row
      else True)"

definition probe_row_view :: "admin_env \<Rightarrow> latest_store \<Rightarrow> int \<Rightarrow> probe \<Rightarrow> probe_view" where
  "probe_row_view env l now p =
     (let (online, lastSeen) = onlineState env l now p in \<lparr>v_Probe = p, v_Online = online, v_LastSeen = lastSeen\<rparr>)"

fun bump :: "string list \<Rightarrow> probe_view \<Rightarrow> (string, nat) gomap \<Rightarrow> (string, nat) gomap" where
  "bump [] row counts = counts"
| "bump (f # fs) row counts =
     bump fs row (if matchesProbeFilter f row
                  then map_put f (Suc (case map_of counts f of Some n \<Rightarrow> n | None \<Rightarrow> 0)) counts else counts)"

fun count_rows_into :: "admin_env \<Rightarrow> latest_store \<Rightarrow> int \<Rightarrow> probe list \<Rightarrow> (string, nat) gomap \<Rightarrow> (string, nat) gomap" where
  "count_rows_into env l now [] counts = counts"
| "count_rows_into env l now (p # ps) counts =
     count_rows_into env l now ps
       (bump [''disabled'', ''online'', ''offline'']
          \<lparr>v_Probe = p, v_Online = fst (onlineState env l now p), v_LastSeen = None\<rparr> counts)"

definition countProbeFilters :: "admin_env \<Rightarrow> latest_store \<Rightarrow> int \<Rightarrow> probe list \<Rightarrow> (string, nat) gomap" where
  "countProbeFilters env l now ps = count_rows_into env l now ps [(''all'', length ps)]"

definition handleProbeList :: "admin_env \<Rightarrow> int \<Rightarrow> (nat \<Rightarrow> faults) \<Rightarrow> session \<Rightarrow> ('b, 'm) admin_handler" where
  "handleProbeList env now io sess rq st =
     (case ListProbes (io 0) (as_db st) of
        Inl _ \<Rightarrow> (internal_error, st)
      | Inr probes \<Rightarrow>
          (let q = QueryValue rq ''filter''; f = (if q \<in> set probeFilters then q else ''all'');
               rows = filter (matchesProbeFilter f) (map (probe_row_view env (as_latest st) now) probes) in
           (admin_render env StatusOK ''probes.html'' ''Probes'' sess []
              (ProbesPage rows now f (countProbeFilters env (as_latest st) now probes)), st)))"

section \<open>Creation\<close>

definition readProbeForm :: "web_request \<Rightarrow> probe_form" where
  "readProbeForm rq =
     \<lparr>pf_campusCode = trimmed_value rq ''campus_code'', pf_buildingCode = trimmed_value rq ''building_code'',
       pf_networkType = trimmed_value rq ''network_type'', pf_description = trimmed_value rq ''description''\<rparr>"

text \<open>The submitted values by field name, for the template.\<close>

definition probe_form_view :: "probe_form \<Rightarrow> (string \<times> string) list" where
  "probe_form_view v =
     [(''campus_code'', pf_campusCode v), (''building_code'', pf_buildingCode v),
      (''network_type'', pf_networkType v), (''description'', pf_description v)]"

text \<open>The location a probe row stores, from store calls \<open>io1\<close> (the campus) and \<open>io2\<close> (the building).\<close>

definition resolveLocation :: "string \<Rightarrow> string \<Rightarrow> faults \<Rightarrow> faults \<Rightarrow> db \<Rightarrow> string + (campus \<times> building)" where
  "resolveLocation campusCode buildingCode io1 io2 d =
     (if \<not> validCode campusCode then Inl amsg_choose_campus
      else if \<not> validCode buildingCode then Inl amsg_choose_building
      else case GetCampus campusCode io1 d of
             Inl ErrNotFound \<Rightarrow> Inl amsg_no_campus
           | Inl _ \<Rightarrow> Inl amsg_campus_check
           | Inr campus \<Rightarrow>
               (case GetBuilding buildingCode io2 d of
                  Inl ErrNotFound \<Rightarrow> Inl amsg_no_building
                | Inl _ \<Rightarrow> Inl amsg_building_check
                | Inr building \<Rightarrow>
                    (if b_CampusCode building \<noteq> c_Code campus then Inl amsg_other_campus
                     else Inr (campus, building))))"

definition renderProbeNew :: "admin_env \<Rightarrow> faults \<Rightarrow> faults \<Rightarrow> session \<Rightarrow> probe_form \<Rightarrow> string \<Rightarrow> int \<Rightarrow> db \<Rightarrow>
    admin_page web_response" where
  "renderProbeNew env io1 io2 sess f errMsg status d =
     (case ListCampuses io1 d of
        Inl _ \<Rightarrow> internal_error
      | Inr campuses \<Rightarrow>
          (let selected = (if pf_campusCode f = [] \<and> campuses \<noteq> [] then c_Code (hd campuses) else pf_campusCode f);
               page = (\<lambda>buildings campus. admin_render env status ''probe_new.html'' title_probe_new sess errMsg
                         (ProbeNewPage campuses (campuses = []) (probe_form_view f) buildings campus)) in
           if selected = [] then page [] []
           else (case ListBuildingsByCampus selected io2 d of
                   Inl _ \<Rightarrow> internal_error
                 | Inr buildings \<Rightarrow> page buildings selected)))"

definition handleProbeNewForm :: "admin_env \<Rightarrow> (nat \<Rightarrow> faults) \<Rightarrow> session \<Rightarrow> ('b, 'm) admin_handler" where
  "handleProbeNewForm env io sess rq st =
     (renderProbeNew env (io 0) (io 1) sess
        \<lparr>pf_campusCode = [], pf_buildingCode = [], pf_networkType = ''wired'', pf_description = []\<rparr> [] StatusOK
        (as_db st), st)"

text \<open>What is wrong with a submission, or the location it resolves to.\<close>

definition check_probe_form :: "probe_form \<Rightarrow> faults \<Rightarrow> faults \<Rightarrow> db \<Rightarrow> string + (campus \<times> building)" where
  "check_probe_form f io1 io2 d =
     (case resolveLocation (pf_campusCode f) (pf_buildingCode f) io1 io2 d of
        Inl msg \<Rightarrow> Inl msg
      | Inr loc \<Rightarrow>
          (if rune_count (pf_description f) > 256 then Inl amsg_description
           else if pf_networkType f \<notin> set admin_networkTypes then Inl amsg_network_type
           else Inr loc))"

text \<open>
  Store calls 0 and 1 resolve the location and 2 to 6 are the attempts; the form is rendered
  with 10 and 11.  The attempts are the same loop as the portal's registration (and
  \<open>admin_generateProbeID\<close> is its \<open>generateProbeID\<close>), which only differs in recording \<open>public\<close>: here \<open>CreatedVia\<close> is empty, which the store takes as
  \<open>admin\<close>.
\<close>

definition handleProbeCreate :: "admin_env \<Rightarrow> int \<Rightarrow> (nat \<Rightarrow> faults) \<Rightarrow> (nat \<Rightarrow> nat \<Rightarrow> string option) \<Rightarrow> session \<Rightarrow>
    ('b, 'm) admin_handler" where
  "handleProbeCreate env now io rnd sess rq st =
     (let f = readProbeForm rq in
      case check_probe_form f (io 0) (io 1) (as_db st) of
        Inl msg \<Rightarrow> (renderProbeNew env (io 10) (io 11) sess f msg StatusBadRequest (as_db st), st)
      | Inr (campus, building) \<Rightarrow>
          (case Generate (rnd 0) of
             None \<Rightarrow> (internal_error, st)
           | Some rawToken \<Rightarrow>
               (case create_attempts maxAttempts now (pf_campusCode f) (pf_buildingCode f) rnd io 2
                       (new_probe rawToken campus building (pf_networkType f) (pf_description f) [])
                       (as_db st) of
                  (None, d) \<Rightarrow> (internal_error, st\<lparr>as_db := d\<rparr>)
                | (Some probe, d) \<Rightarrow>
                    (case MintTokenSlot (rnd 10) now (p_ProbeID probe) rawToken ''/admin'' (st\<lparr>as_db := d\<rparr>) of
                       (None, st') \<Rightarrow> (internal_error, st')
                     | (Some slot, st') \<Rightarrow> (Redirect (''/token/'' @ slot), st')))))"

section \<open>One probe\<close>

definition handleProbeDetail :: "admin_env \<Rightarrow> int \<Rightarrow> (nat \<Rightarrow> faults) \<Rightarrow> string \<Rightarrow> session \<Rightarrow> ('b, 'm) admin_handler" where
  "handleProbeDetail env now io pid sess rq st =
     (case GetProbe pid (io 0) (as_db st) of
        Inl ErrNotFound \<Rightarrow> (NotFound, st)
      | Inl _ \<Rightarrow> (internal_error, st)
      | Inr probe \<Rightarrow>
          (admin_render env StatusOK ''probe_detail.html'' pid sess []
             (ProbeDetailPage (probe_row_view env (as_latest st) now probe)), st))"

text \<open>
  Drops what the gateway holds in memory for a probe.  \<open>main\<close> always supplies the limiter; a
  server built without one would panic here.
\<close>

definition forget_probe :: "string \<Rightarrow> ('b, 'm) gateway_state_scheme \<Rightarrow> ('b, 'm) gateway_state_scheme" where
  "forget_probe pid st =
     st\<lparr>as_limiter := map_option (lim_Remove pid) (as_limiter st), as_latest := latest_Delete pid (as_latest st)\<rparr>"

definition handleProbeToggle :: "int \<Rightarrow> (nat \<Rightarrow> faults) \<Rightarrow> string \<Rightarrow> ('b, 'm) admin_handler" where
  "handleProbeToggle now io pid rq st =
     (case GetProbe pid (io 0) (as_db st) of
        Inl ErrNotFound \<Rightarrow> (NotFound, st)
      | Inl _ \<Rightarrow> (internal_error, st)
      | Inr probe \<Rightarrow>
          (case SetProbeEnabled now pid (\<not> p_Enabled probe) (io 1) (as_db st) of
             (Inl _, d) \<Rightarrow> (internal_error, st\<lparr>as_db := d\<rparr>)
           | (Inr _, d) \<Rightarrow>
               (let st = st\<lparr>as_db := d\<rparr> in
                (Redirect ''/admin'', if p_Enabled probe then forget_probe pid st else st))))"

definition handleProbeRotate :: "int \<Rightarrow> (nat \<Rightarrow> faults) \<Rightarrow> (nat \<Rightarrow> nat \<Rightarrow> string option) \<Rightarrow> string \<Rightarrow>
    ('b, 'm) admin_handler" where
  "handleProbeRotate now io rnd pid rq st =
     (case GetProbe pid (io 0) (as_db st) of
        Inl ErrNotFound \<Rightarrow> (NotFound, st)
      | Inl _ \<Rightarrow> (internal_error, st)
      | Inr _ \<Rightarrow>
          (case Generate (rnd 0) of
             None \<Rightarrow> (internal_error, st)
           | Some rawToken \<Rightarrow>
               (case UpdateProbeToken now pid (Hash rawToken) (io 1) (as_db st) of
                  (Inl _, d) \<Rightarrow> (internal_error, st\<lparr>as_db := d\<rparr>)
                | (Inr _, d) \<Rightarrow>
                    (case MintTokenSlot (rnd 10) now pid rawToken (''/admin/probes/'' @ pid) (st\<lparr>as_db := d\<rparr>) of
                       (None, st') \<Rightarrow> (internal_error, st')
                     | (Some slot, st') \<Rightarrow> (Redirect (''/token/'' @ slot), st')))))"

definition handleProbeDelete :: "(nat \<Rightarrow> faults) \<Rightarrow> string \<Rightarrow> ('b, 'm) admin_handler" where
  "handleProbeDelete io pid rq st =
     (case DeleteProbe pid (io 0) (as_db st) of
        (Inl ErrNotFound, d) \<Rightarrow> (NotFound, st\<lparr>as_db := d\<rparr>)
      | (Inl _, d) \<Rightarrow> (internal_error, st\<lparr>as_db := d\<rparr>)
      | (Inr _, d) \<Rightarrow> (Redirect ''/admin'', forget_probe pid (st\<lparr>as_db := d\<rparr>)))"

section \<open>The list agrees with the metrics\<close>

text \<open>The list and \<open>/metrics\<close> call the same probes online, given the same threshold.\<close>

lemma onlineState_probe_online:
  "ae_onlineThreshold env = threshold \<Longrightarrow> p_Enabled p \<Longrightarrow>
   fst (onlineState env l now p) = probe_online now threshold l p"
  by (simp add: onlineState_def probe_online_def split: option.split)

text \<open>Each of the three counts is the number of rows its filter selects.\<close>

definition count_of :: "(string, nat) gomap \<Rightarrow> string \<Rightarrow> nat" where
  "count_of m f = (case map_of m f of Some n \<Rightarrow> n | None \<Rightarrow> 0)"

lemma count_of_put: "count_of (map_put k v m) f = (if f = k then v else count_of m f)"
  by (simp add: count_of_def map_of_put)

lemma bump_count:
  "distinct fs \<Longrightarrow> count_of (bump fs row m) f = count_of m f + (if f \<in> set fs \<and> matchesProbeFilter f row then 1 else 0)"
  by (induction fs arbitrary: m) (auto simp: count_of_put count_of_def [symmetric])

lemma matches_view: "matchesProbeFilter f (probe_row_view env l now p) =
    matchesProbeFilter f \<lparr>v_Probe = p, v_Online = fst (onlineState env l now p), v_LastSeen = None\<rparr>"
  by (simp add: matchesProbeFilter_def probe_row_view_def split_beta Let_def)

lemma count_rows_into_count:
  "f \<in> {''disabled'', ''online'', ''offline''} \<Longrightarrow>
   count_of (count_rows_into env l now ps m) f =
     count_of m f + length (filter (matchesProbeFilter f) (map (probe_row_view env l now) ps))"
proof (induction ps arbitrary: m)
  case (Cons p ps)
  then show ?case by (auto simp: bump_count matches_view simp del: bump.simps)
qed simp

lemma count_rows_into_all:
  "f \<notin> {''disabled'', ''online'', ''offline''} \<Longrightarrow> count_of (count_rows_into env l now ps m) f = count_of m f"
  by (induction ps arbitrary: m) (simp_all add: bump_count del: bump.simps)

lemma countProbeFilters_rows:
  assumes "f \<in> set probeFilters"
  shows "count_of (countProbeFilters env l now ps) f =
    length (filter (matchesProbeFilter f) (map (probe_row_view env l now) ps))"
proof (cases "f = ''all''")
  case True
  then have "count_of (countProbeFilters env l now ps) f = count_of [(''all'', length ps)] ''all''"
    by (simp only: countProbeFilters_def) (rule count_rows_into_all, simp)
  with True show ?thesis by (simp add: count_of_def matchesProbeFilter_def)
next
  case False
  with assms have "f \<in> {''disabled'', ''online'', ''offline''}" by (auto simp: probeFilters_def)
  with False show ?thesis
    by (simp only: countProbeFilters_def count_rows_into_count) (simp add: count_of_def)
qed

end
