(* ===== verification/Admin_Targets.thy ===== *)
theory Admin_Targets
  imports Admin_Base
begin

text \<open>\<open>internal/admin/targets.go\<close>: the measurement targets, edited from one form.\<close>

section \<open>The form\<close>

definition targetIDPattern :: rx where
  "targetIDPattern = rx_repeat (RClass [(97, 122), (48, 57), (95, 95)]) 1 32"

definition validTargetID :: "string \<Rightarrow> bool" where
  "validTargetID s = MatchString targetIDPattern s"

definition validProbeType :: "string \<Rightarrow> bool" where
  "validProbeType s \<longleftrightarrow> s \<in> {ProbeICMP, ProbeDNS, ProbeHTTP}"

text \<open>The ticked types without repetitions, in the order submitted; \<open>None\<close> at an unknown one.\<close>

fun read_types :: "string list \<Rightarrow> string list \<Rightarrow> string list option" where
  "read_types [] out = Some out"
| "read_types (pt # pts) out =
     (if \<not> validProbeType pt then None
      else read_types pts (if pt \<in> set out then out else out @ [pt]))"

definition values_of :: "url_values \<Rightarrow> string \<Rightarrow> string list" where
  "values_of vs k = (case map_of vs k of None \<Rightarrow> [] | Some xs \<Rightarrow> xs)"

definition readTargetForm :: "web_request \<Rightarrow> string + target" where
  "readTargetForm rq =
     (let targetID = trimmed_value rq ''target_id''; displayName = trimmed_value rq ''display_name'';
          address = trimmed_value rq ''address''; description = trimmed_value rq ''description'';
          enabled = PostFormValue rq ''enabled'' \<noteq> [] in
      case read_types (values_of (PostForm rq) ''probe_types'') [] of
        None \<Rightarrow> Inl amsg_probe_type
      | Some probeTypes \<Rightarrow>
          (if probeTypes = [] then Inl amsg_no_probe_type
           else if rune_count displayName > 64 \<or> rune_count address > 256 \<or> rune_count description > 256
           then Inl amsg_field_length
           else Inr \<lparr>t_ID = 0, t_TargetID = targetID, t_DisplayName = displayName, t_Address = address,
                     t_Description = description, t_Enabled = enabled, t_ProbeTypes = ProbeTypesSorted probeTypes,
                     t_CreatedAt = None, t_UpdatedAt = None\<rparr>))"

section \<open>Handlers\<close>

definition renderTargetsWithError :: "admin_env \<Rightarrow> session \<Rightarrow> string \<Rightarrow> int \<Rightarrow> faults \<Rightarrow> db \<Rightarrow> admin_page web_response" where
  "renderTargetsWithError env sess msg status io d =
     (case ListTargets io d of
        Inl _ \<Rightarrow> internal_error
      | Inr targets \<Rightarrow> admin_render env status ''targets.html'' ''Targets'' sess msg (TargetsPage targets))"

definition handleTargetList :: "admin_env \<Rightarrow> (nat \<Rightarrow> faults) \<Rightarrow> session \<Rightarrow> ('b, 'm) admin_handler" where
  "handleTargetList env io sess rq st = (renderTargetsWithError env sess [] StatusOK (io 0) (as_db st), st)"

definition handleTargetCreate :: "admin_env \<Rightarrow> int \<Rightarrow> (nat \<Rightarrow> faults) \<Rightarrow> session \<Rightarrow> ('b, 'm) admin_handler" where
  "handleTargetCreate env now io sess rq st =
     (let refuse = (\<lambda>msg. (renderTargetsWithError env sess msg StatusBadRequest (io 2) (as_db st), st)) in
      case readTargetForm rq of
        Inl msg \<Rightarrow> refuse msg
      | Inr target \<Rightarrow>
          (if \<not> validTargetID (t_TargetID target) then refuse amsg_target_id
           else
             (let (err, d) = (case CreateTarget now target (io 0) (as_db st) of
                                (Inl ErrDuplicate, d) \<Rightarrow> UpdateTarget now target (io 1) d
                              | r \<Rightarrow> r) in
              (case err of Inl _ \<Rightarrow> internal_error | Inr _ \<Rightarrow> Redirect ''/admin/targets'', st\<lparr>as_db := d\<rparr>))))"

definition handleTargetUpdate :: "admin_env \<Rightarrow> int \<Rightarrow> (nat \<Rightarrow> faults) \<Rightarrow> string \<Rightarrow> session \<Rightarrow> ('b, 'm) admin_handler" where
  "handleTargetUpdate env now io tid sess rq st =
     (case readTargetForm rq of
        Inl msg \<Rightarrow> (renderTargetsWithError env sess msg StatusBadRequest (io 1) (as_db st), st)
      | Inr target \<Rightarrow>
          (case UpdateTarget now (target\<lparr>t_TargetID := tid\<rparr>) (io 0) (as_db st) of
             (Inl ErrNotFound, d) \<Rightarrow> (NotFound, st\<lparr>as_db := d\<rparr>)
           | (Inl _, d) \<Rightarrow> (internal_error, st\<lparr>as_db := d\<rparr>)
           | (Inr _, d) \<Rightarrow> (Redirect ''/admin/targets'', st\<lparr>as_db := d\<rparr>)))"

definition handleTargetDelete :: "(nat \<Rightarrow> faults) \<Rightarrow> string \<Rightarrow> ('b, 'm) admin_handler" where
  "handleTargetDelete io tid rq st =
     (case DeleteTarget tid (io 0) (as_db st) of
        (Inl ErrNotFound, d) \<Rightarrow> (NotFound, st\<lparr>as_db := d\<rparr>)
      | (Inl _, d) \<Rightarrow> (internal_error, st\<lparr>as_db := d\<rparr>)
      | (Inr _, d) \<Rightarrow> (Redirect ''/admin/targets'', st\<lparr>as_db := d\<rparr>))"

section \<open>What the form lets through\<close>

lemma targetIDPattern_iff:
  "validTargetID s \<longleftrightarrow> 1 \<le> length s \<and> length s \<le> 32 \<and> list_all code_char s"
proof -
  have "in_class [(97, 122), (48, 57), (95, 95)] c \<longleftrightarrow> code_char c" for c
    using code_inject [of c "CHR ''_''"] by (auto simp: in_class_def code_char_def is_lower_def is_digit_def code_def)
  then have "in_class [(97, 122), (48, 57), (95, 95)] = code_char" by (rule ext)
  then show ?thesis by (simp add: validTargetID_def targetIDPattern_def MatchString_iff lang_repeat_class)
qed

lemma read_types_set:
  "read_types pts out = Some ts \<Longrightarrow> set ts = set out \<union> set pts \<and> list_all validProbeType pts \<and>
     (distinct out \<longrightarrow> distinct ts)"
  by (induction pts arbitrary: out) (auto split: if_splits)

lemma readTargetForm_ok:
  assumes "readTargetForm rq = Inr t"
  shows "t_ProbeTypes t \<noteq> []" "list_all validProbeType (t_ProbeTypes t)" "distinct (t_ProbeTypes t)"
    "rune_count (t_DisplayName t) \<le> 64" "rune_count (t_Address t) \<le> 256" "rune_count (t_Description t) \<le> 256"
proof -
  from assms obtain ts where ts: "read_types (values_of (PostForm rq) ''probe_types'') [] = Some ts" "ts \<noteq> []"
    "t_ProbeTypes t = sort ts"
    by (auto simp: readTargetForm_def ProbeTypesSorted_def Let_def split: option.splits if_splits)
  have "sort ts \<noteq> []" using ts(2) by (metis set_empty set_sort)
  with read_types_set [OF ts(1)] ts(3)
  show "t_ProbeTypes t \<noteq> []" "list_all validProbeType (t_ProbeTypes t)" "distinct (t_ProbeTypes t)"
    by (auto simp: list_all_iff)
  from assms show "rune_count (t_DisplayName t) \<le> 64" "rune_count (t_Address t) \<le> 256" "rune_count (t_Description t) \<le> 256"
    by (auto simp: readTargetForm_def Let_def split: option.splits if_splits)
qed

end
