(* ===== verification/Admin_Catalog.thy ===== *)
theory Admin_Catalog
  imports Admin_Base
begin

text \<open>
  \<open>internal/admin/campuses.go\<close> and the checks and pages of \<open>internal/admin/buildings.go\<close>:
  the catalog of campuses and buildings.
\<close>

section \<open>Checks\<close>

definition validateName :: "string \<Rightarrow> string" where
  "validateName name =
     (if name = [] then amsg_name_empty else if rune_count name > 64 then amsg_name_long else [])"

definition validateCatalogNames :: "string \<Rightarrow> string \<Rightarrow> string" where
  "validateCatalogNames cd name = (if \<not> validCode cd then amsg_code_form else validateName name)"

definition validateCampus :: "string \<Rightarrow> faults \<Rightarrow> db \<Rightarrow> string" where
  "validateCampus campusCode io d =
     (if campusCode = [] then amsg_choose_campus
      else case GetCampus campusCode io d of
             Inl ErrNotFound \<Rightarrow> amsg_campus @ campusCode @ amsg_not_exist
           | Inl _ \<Rightarrow> amsg_campus_check
           | Inr _ \<Rightarrow> [])"

definition validateBuildingGroup :: "string \<Rightarrow> string \<Rightarrow> string \<Rightarrow> string" where
  "validateBuildingGroup groupCode groupName name =
     (if \<not> validCode groupCode then amsg_group_code_form
      else (let msg = validateName groupName in if msg \<noteq> [] then amsg_group_name @ msg else validateName name))"

definition validateBuilding :: "string \<Rightarrow> string \<Rightarrow> string \<Rightarrow> string \<Rightarrow> string \<Rightarrow> faults \<Rightarrow> db \<Rightarrow> string" where
  "validateBuilding cd campusCode groupCode groupName name io d =
     (if cd \<noteq> [] \<and> \<not> validCode cd then amsg_building_code_form
      else (let msg = validateCampus campusCode io d in
            if msg \<noteq> [] then msg else validateBuildingGroup groupCode groupName name))"

definition validateBuildingFields :: "string \<Rightarrow> string \<Rightarrow> string \<Rightarrow> string \<Rightarrow> string" where
  "validateBuildingFields cd groupCode groupName name =
     (if \<not> validCode cd then amsg_building_code_form
      else validateBuildingGroup groupCode groupName name)"

section \<open>Campuses\<close>

definition renderCampuses :: "admin_env \<Rightarrow> faults \<Rightarrow> faults \<Rightarrow> session \<Rightarrow> int \<Rightarrow> string \<Rightarrow> db \<Rightarrow>
    admin_page web_response" where
  "renderCampuses env io1 io2 sess status errMsg d =
     (case ListCampuses io1 d of
        Inl _ \<Rightarrow> internal_error
      | Inr campuses \<Rightarrow>
          (case ListBuildings io2 d of
             Inl _ \<Rightarrow> internal_error
           | Inr buildings \<Rightarrow>
               admin_render env status ''campuses.html'' title_campuses sess errMsg
                 (CampusesPage
                    (map (\<lambda>c. \<lparr>cv_Campus = c,
                               cv_Buildings = length (filter (\<lambda>b. b_CampusCode b = c_Code c) buildings)\<rparr>) campuses))))"

definition handleCampusList :: "admin_env \<Rightarrow> (nat \<Rightarrow> faults) \<Rightarrow> session \<Rightarrow> ('b, 'm) admin_handler" where
  "handleCampusList env io sess rq st = (renderCampuses env (io 0) (io 1) sess StatusOK [] (as_db st), st)"

text \<open>Pages are rendered with store calls 10 and 11.\<close>

definition handleCampusCreate :: "admin_env \<Rightarrow> int \<Rightarrow> (nat \<Rightarrow> faults) \<Rightarrow> session \<Rightarrow> ('b, 'm) admin_handler" where
  "handleCampusCreate env now io sess rq st =
     (let cd = trimmed_value rq ''code''; name = trimmed_value rq ''name'';
          refuse = (\<lambda>msg. (renderCampuses env (io 10) (io 11) sess StatusBadRequest msg (as_db st), st));
          msg = validateCatalogNames cd name in
      if msg \<noteq> [] then refuse msg
      else case CreateCampus now \<lparr>c_Code = cd, c_Name = name, c_CreatedAt = None, c_UpdatedAt = None\<rparr>
                  (io 0) (as_db st) of
             (Inl ErrDuplicate, d) \<Rightarrow> refuse (amsg_code @ cd @ amsg_exists)
           | (Inl _, d) \<Rightarrow> (internal_error, st\<lparr>as_db := d\<rparr>)
           | (Inr _, d) \<Rightarrow> (Redirect ''/admin/campuses'', st\<lparr>as_db := d\<rparr>))"

definition handleCampusUpdate :: "admin_env \<Rightarrow> int \<Rightarrow> (nat \<Rightarrow> faults) \<Rightarrow> string \<Rightarrow> session \<Rightarrow> ('b, 'm) admin_handler" where
  "handleCampusUpdate env now io cd sess rq st =
     (let name = trimmed_value rq ''name''; msg = validateName name in
      if \<not> validCode cd then (NotFound, st)
      else if msg \<noteq> [] then (renderCampuses env (io 10) (io 11) sess StatusBadRequest msg (as_db st), st)
      else case UpdateCampusName now cd name (io 0) (as_db st) of
             (Inl ErrNotFound, d) \<Rightarrow> (NotFound, st\<lparr>as_db := d\<rparr>)
           | (Inl _, d) \<Rightarrow> (internal_error, st\<lparr>as_db := d\<rparr>)
           | (Inr _, d) \<Rightarrow> (Redirect ''/admin/campuses'', st\<lparr>as_db := d\<rparr>))"

definition handleCampusDelete :: "admin_env \<Rightarrow> (nat \<Rightarrow> faults) \<Rightarrow> string \<Rightarrow> session \<Rightarrow> ('b, 'm) admin_handler" where
  "handleCampusDelete env io cd sess rq st =
     (case DeleteCampus cd (io 0) (as_db st) of
        (Inl ErrNotFound, d) \<Rightarrow> (NotFound, st\<lparr>as_db := d\<rparr>)
      | (Inl ErrInUse, d) \<Rightarrow>
          (renderCampuses env (io 10) (io 11) sess StatusConflict (amsg_campus @ cd @ amsg_campus_in_use) d,
           st\<lparr>as_db := d\<rparr>)
      | (Inl _, d) \<Rightarrow> (internal_error, st\<lparr>as_db := d\<rparr>)
      | (Inr _, d) \<Rightarrow> (Redirect ''/admin/campuses'', st\<lparr>as_db := d\<rparr>))"

section \<open>The building page\<close>

text \<open>One row into the block of its campus, which the first of its rows opens.\<close>

definition add_row :: "building_view_row \<Rightarrow> building_block list \<Rightarrow> building_block list" where
  "add_row row blocks =
     (let cd = b_CampusCode (bv_Building row) in
      if cd \<in> bb_CampusCode ` set blocks
      then map (\<lambda>b. if bb_CampusCode b = cd then b\<lparr>bb_Rows := bb_Rows b @ [row]\<rparr> else b) blocks
      else blocks @ [\<lparr>bb_CampusCode = cd, bb_CampusName = bv_CampusName row, bb_Rows = [row]\<rparr>])"

definition building_page :: "campus list \<Rightarrow> building list \<Rightarrow> building_group list \<Rightarrow> building_view \<Rightarrow> buildings_page" where
  "building_page campuses buildings groups view =
     (let name_of = (\<lambda>cd. case map_of (rev (map (\<lambda>c. (c_Code c, c_Name c)) campuses)) cd of
                            Some n \<Rightarrow> n | None \<Rightarrow> []);
          all = map (\<lambda>b. \<lparr>bv_Building = b, bv_CampusName = name_of (b_CampusCode b)\<rparr>) buildings;
          visible = (if filterCampus view \<noteq> []
                     then filter (\<lambda>row. b_CampusCode (bv_Building row) = filterCampus view) all else all)
      in \<lparr>bp_blocks = fold add_row visible [],
          bp_total = length all,
          bp_campusCounts = map (\<lambda>c. \<lparr>cc_Code = c_Code c, cc_Name = c_Name c,
             cc_Count = length (filter (\<lambda>b. b_CampusCode b = c_Code c) buildings)\<rparr>) campuses,
          bp_campuses = campuses,
          bp_groups = groups,
          bp_selectedCampus = (if selectedCampus view = [] \<and> campuses \<noteq> [] then c_Code (hd campuses)
                               else selectedCampus view),
          bp_filterCampus = filterCampus view,
          bp_report = view_report view\<rparr>)"

definition renderBuildings :: "admin_env \<Rightarrow> (nat \<Rightarrow> faults) \<Rightarrow> session \<Rightarrow> int \<Rightarrow> string \<Rightarrow> building_view \<Rightarrow> db \<Rightarrow>
    admin_page web_response" where
  "renderBuildings env io sess status errMsg view d =
     (case ListCampuses (io 0) d of
        Inl _ \<Rightarrow> internal_error
      | Inr campuses \<Rightarrow>
          (case ListBuildings (io 1) d of
             Inl _ \<Rightarrow> internal_error
           | Inr buildings \<Rightarrow>
               (case BuildingGroups (io 2) d of
                  Inl _ \<Rightarrow> internal_error
                | Inr groups \<Rightarrow>
                    admin_render env status ''buildings.html'' title_buildings sess errMsg
                      (BuildingsPage (building_page campuses buildings groups view)))))"

definition building_view_of :: "string \<Rightarrow> string \<Rightarrow> import_report option \<Rightarrow> building_view" where
  "building_view_of selected shown report =
     \<lparr>selectedCampus = selected, filterCampus = shown, view_report = report\<rparr>"

definition handleBuildingList :: "admin_env \<Rightarrow> (nat \<Rightarrow> faults) \<Rightarrow> session \<Rightarrow> ('b, 'm) admin_handler" where
  "handleBuildingList env io sess rq st =
     (let campus = trim_space (QueryValue rq ''campus'') in
      (renderBuildings env io sess StatusOK [] (building_view_of campus campus None) (as_db st), st))"

section \<open>The page shows every building once\<close>

lemma add_row_rows:
  "mset (concat (map bb_Rows (add_row row bs))) = add_mset row (mset (concat (map bb_Rows bs)))"
  if "distinct (map bb_CampusCode bs)"
  using that
proof (induction bs)
  case (Cons b bs)
  show ?case
  proof (cases "bb_CampusCode b = b_CampusCode (bv_Building row)")
    case True
    with Cons.prems have "\<forall>x \<in> set bs. bb_CampusCode x \<noteq> b_CampusCode (bv_Building row)" by (simp, metis image_eqI)
    then have "map (\<lambda>b. if bb_CampusCode b = b_CampusCode (bv_Building row) then b\<lparr>bb_Rows := bb_Rows b @ [row]\<rparr> else b) bs = bs"
      by (intro map_idI) auto
    with True show ?thesis by (simp add: add_row_def Let_def)
  next
    case False
    with Cons show ?thesis by (auto simp: add_row_def Let_def split: if_splits)
  qed
qed (simp add: add_row_def Let_def)

lemma add_row_codes: "distinct (map bb_CampusCode bs) \<Longrightarrow> distinct (map bb_CampusCode (add_row row bs))"
proof -
  have "map bb_CampusCode (map (\<lambda>b. if bb_CampusCode b = cd then b\<lparr>bb_Rows := bb_Rows b @ [row]\<rparr> else b) bs) =
      map bb_CampusCode bs" for cd
    by simp
  then show "distinct (map bb_CampusCode bs) \<Longrightarrow> distinct (map bb_CampusCode (add_row row bs))"
    by (simp add: add_row_def Let_def del: map_map)
qed

lemma fold_add_row:
  "distinct (map bb_CampusCode bs) \<Longrightarrow>
   distinct (map bb_CampusCode (fold add_row rows bs)) \<and>
   mset (concat (map bb_Rows (fold add_row rows bs))) = mset (concat (map bb_Rows bs)) + mset rows"
  by (induction rows arbitrary: bs) (simp_all add: add_row_codes add_row_rows)

end
