(* ===== verification/Admin_Buildings.thy ===== *)
theory Admin_Buildings
  imports Admin_Catalog
begin

text \<open>
  \<open>internal/admin/buildings.go\<close>: the batch import of buildings, its line format and its
  report, and the creation, change and deletion of one building.
\<close>

section \<open>The import format\<close>

record import_line =
  il_line :: nat
  il_code :: string
  il_name :: string
  il_groupCode :: string
  il_groupName :: string
  il_problem :: string

definition field_separator :: "char \<Rightarrow> bool" where
  "field_separator c \<longleftrightarrow> c = CHR '','' \<or> c = CHR 0x09"

text \<open>\<open>strings.FieldsFunc\<close>: the maximal runs without a separator, so no field is empty.\<close>

fun fields_func :: "string \<Rightarrow> string \<Rightarrow> string list" where
  "fields_func acc [] = (if acc = [] then [] else [acc])"
| "fields_func acc (c # cs) =
     (if field_separator c then (if acc = [] then [] else [acc]) @ fields_func [] cs
      else fields_func (acc @ [c]) cs)"

definition parse_import_line :: "nat \<Rightarrow> string \<Rightarrow> string \<Rightarrow> string \<Rightarrow> import_line" where
  "parse_import_line number line defaultCode defaultName =
     (let fields = map trim_space (fields_func [] line);
          entry = (\<lambda>cd name gc gn problem. \<lparr>il_line = number, il_code = cd, il_name = name, il_groupCode = gc,
                     il_groupName = gn, il_problem = problem\<rparr>) in
      case fields of
        [cd, name] \<Rightarrow>
          entry cd name defaultCode defaultName
            (if defaultCode = [] \<or> defaultName = [] then amsg_no_group else [])
      | [cd, name, gc, gn] \<Rightarrow> entry cd name gc gn []
      | _ \<Rightarrow> entry [] [] [] [] (amsg_fields_before @ itoa (int (length fields)) @ amsg_fields_after))"

fun parse_lines :: "nat \<Rightarrow> string list \<Rightarrow> string \<Rightarrow> string \<Rightarrow> import_line list" where
  "parse_lines i [] defaultCode defaultName = []"
| "parse_lines i (raw # raws) defaultCode defaultName =
     (let line = trim_space raw in
      (if line = [] \<or> has_prefix line ''#'' then []
       else [parse_import_line (Suc i) line defaultCode defaultName]) @
      parse_lines (Suc i) raws defaultCode defaultName)"

definition parseBuildingImport :: "string \<Rightarrow> string \<Rightarrow> string \<Rightarrow> import_line list" where
  "parseBuildingImport txt defaultCode defaultName =
     parse_lines 0 (split_on CHR 0x0A txt) defaultCode defaultName"

section \<open>The import\<close>

definition line_building :: "string \<Rightarrow> import_line \<Rightarrow> building" where
  "line_building campusCode e =
     \<lparr>b_Code = il_code e, b_CampusCode = campusCode, b_BuildingGroupCode = il_groupCode e,
      b_BuildingGroupName = il_groupName e, b_Name = il_name e, b_CreatedAt = None, b_UpdatedAt = None\<rparr>"

text \<open>What is wrong with a line before the store sees it; empty when nothing is.\<close>

definition line_failure :: "import_line \<Rightarrow> string" where
  "line_failure e =
     (if il_problem e \<noteq> [] then amsg_line @ itoa (int (il_line e)) @ amsg_line_colon @ il_problem e
      else (let msg = validateBuildingFields (il_code e) (il_groupCode e) (il_groupName e) (il_name e) in
            if msg \<noteq> [] then amsg_line @ itoa (int (il_line e)) @ amsg_line_space @ il_code e @ amsg_colon @ msg
            else []))"

text \<open>
  The loop over the lines, each its own transaction; \<open>None\<close> when the store fails, with the
  lines before it imported.
\<close>

fun import_lines :: "int \<Rightarrow> string \<Rightarrow> (nat \<Rightarrow> faults) \<Rightarrow> nat \<Rightarrow> import_line list \<Rightarrow> import_report \<Rightarrow> db \<Rightarrow>
    import_report option \<times> db" where
  "import_lines now campus io i [] report d = (Some report, d)"
| "import_lines now campus io i (e # es) report d =
     (if line_failure e \<noteq> []
      then import_lines now campus io (Suc i) es (report\<lparr>ir_Failed := ir_Failed report @ [line_failure e]\<rparr>) d
      else case CreateBuilding now (line_building campus e) (io i) d of
             (Inl ErrDuplicate, d') \<Rightarrow>
               import_lines now campus io (Suc i) es (report\<lparr>ir_Skipped := ir_Skipped report @ [il_code e]\<rparr>) d'
           | (Inl _, d') \<Rightarrow> (None, d')
           | (Inr _, d') \<Rightarrow> import_lines now campus io (Suc i) es (report\<lparr>ir_Added := Suc (ir_Added report)\<rparr>) d')"

definition empty_report :: import_report where
  "empty_report = \<lparr>ir_Added = 0, ir_Skipped = [], ir_Failed = []\<rparr>"

text \<open>Store call 0 checks the campus, 1 to 3 render the page and 4 on import the lines.\<close>

definition handleBuildingImport :: "admin_env \<Rightarrow> int \<Rightarrow> (nat \<Rightarrow> faults) \<Rightarrow> session \<Rightarrow> ('b, 'm) admin_handler" where
  "handleBuildingImport env now io sess rq st =
     (let campusCode = trimmed_value rq ''campus_code''; groupCode = trimmed_value rq ''building_group_code'';
          groupName = trimmed_value rq ''building_group_name'';
          show_page = (\<lambda>status msg report d. renderBuildings env (\<lambda>i. io (Suc i)) sess status msg
                         (building_view_of campusCode campusCode report) d);
          msg = validateCampus campusCode (io 0) (as_db st);
          lines = parseBuildingImport (PostFormValue rq ''lines'') groupCode groupName in
      if msg \<noteq> [] then (show_page StatusBadRequest msg None (as_db st), st)
      else if lines = [] then (show_page StatusBadRequest amsg_nothing None (as_db st), st)
      else case import_lines now campusCode (\<lambda>i. io (4 + i)) 0 lines empty_report (as_db st) of
             (None, d) \<Rightarrow> (internal_error, st\<lparr>as_db := d\<rparr>)
           | (Some report, d) \<Rightarrow> (show_page StatusOK [] (Some report) d, st\<lparr>as_db := d\<rparr>))"

section \<open>One building\<close>

definition handleBuildingCreate :: "admin_env \<Rightarrow> int \<Rightarrow> (nat \<Rightarrow> faults) \<Rightarrow> session \<Rightarrow> ('b, 'm) admin_handler" where
  "handleBuildingCreate env now io sess rq st =
     (let cd = trimmed_value rq ''code''; campusCode = trimmed_value rq ''campus_code'';
          groupCode = trimmed_value rq ''building_group_code''; groupName = trimmed_value rq ''building_group_name'';
          name = trimmed_value rq ''name'';
          refuse = (\<lambda>msg. (renderBuildings env (\<lambda>i. io (2 + i)) sess StatusBadRequest msg
                             (building_view_of campusCode campusCode None) (as_db st), st));
          msg = validateBuilding cd campusCode groupCode groupName name (io 0) (as_db st) in
      if msg \<noteq> [] then refuse msg
      else case CreateBuilding now
                  \<lparr>b_Code = cd, b_CampusCode = campusCode, b_BuildingGroupCode = groupCode,
                   b_BuildingGroupName = groupName, b_Name = name, b_CreatedAt = None, b_UpdatedAt = None\<rparr>
                  (io 1) (as_db st) of
             (Inl ErrDuplicate, d) \<Rightarrow> refuse (amsg_building_code @ cd @ amsg_exists)
           | (Inl _, d) \<Rightarrow> (internal_error, st\<lparr>as_db := d\<rparr>)
           | (Inr _, d) \<Rightarrow> (Redirect ''/admin/buildings'', st\<lparr>as_db := d\<rparr>))"

definition handleBuildingUpdate :: "admin_env \<Rightarrow> int \<Rightarrow> (nat \<Rightarrow> faults) \<Rightarrow> string \<Rightarrow> session \<Rightarrow>
    ('b, 'm) admin_handler" where
  "handleBuildingUpdate env now io cd sess rq st =
     (case GetBuilding cd (io 0) (as_db st) of
        Inl ErrNotFound \<Rightarrow> (NotFound, st)
      | Inl _ \<Rightarrow> (internal_error, st)
      | Inr existing \<Rightarrow>
          (let groupCode = trimmed_value rq ''building_group_code'';
               groupName = trimmed_value rq ''building_group_name''; name = trimmed_value rq ''name'';
               msg = validateBuilding [] (b_CampusCode existing) groupCode groupName name (io 1) (as_db st) in
           if msg \<noteq> []
           then (renderBuildings env (\<lambda>i. io (3 + i)) sess StatusBadRequest msg
                   (building_view_of (b_CampusCode existing) (trimmed_value rq ''filter'') None) (as_db st), st)
           else case UpdateBuilding now
                       \<lparr>b_Code = cd, b_CampusCode = b_CampusCode existing, b_BuildingGroupCode = groupCode,
                        b_BuildingGroupName = groupName, b_Name = name, b_CreatedAt = None, b_UpdatedAt = None\<rparr>
                       (io 2) (as_db st) of
                  (Inl _, d) \<Rightarrow> (internal_error, st\<lparr>as_db := d\<rparr>)
                | (Inr _, d) \<Rightarrow> (Redirect ''/admin/buildings'', st\<lparr>as_db := d\<rparr>)))"

text \<open>The count in the message ignores a failure to count, which leaves it 0.\<close>

definition handleBuildingDelete :: "admin_env \<Rightarrow> (nat \<Rightarrow> faults) \<Rightarrow> string \<Rightarrow> session \<Rightarrow> ('b, 'm) admin_handler" where
  "handleBuildingDelete env io cd sess rq st =
     (case DeleteBuilding cd (io 0) (as_db st) of
        (Inl ErrNotFound, d) \<Rightarrow> (NotFound, st\<lparr>as_db := d\<rparr>)
      | (Inl ErrInUse, d) \<Rightarrow>
          (let n = (case BuildingProbeCount cd (io 1 0) d of Inl _ \<Rightarrow> 0 | Inr n \<Rightarrow> n) in
           (renderBuildings env (\<lambda>i. io (2 + i)) sess StatusConflict
              (amsg_still @ itoa n @ amsg_probes_use @ cd @ amsg_move_first)
              (building_view_of [] (trimmed_value rq ''filter'') None) d, st\<lparr>as_db := d\<rparr>))
      | (Inl _, d) \<Rightarrow> (internal_error, st\<lparr>as_db := d\<rparr>)
      | (Inr _, d) \<Rightarrow> (Redirect ''/admin/buildings'', st\<lparr>as_db := d\<rparr>))"

section \<open>What an import does\<close>

definition importable :: "import_line \<Rightarrow> bool" where
  "importable e \<longleftrightarrow> line_failure e = []"

text \<open>The row a building becomes.\<close>

definition row_matches :: "building \<Rightarrow> building_row \<Rightarrow> bool" where
  "row_matches b row \<longleftrightarrow> br_code row = b_Code b \<and> br_campus_code row = b_CampusCode b \<and>
     br_group_code row = b_BuildingGroupCode b \<and> br_group_name row = b_BuildingGroupName b \<and> br_name row = b_Name b"

lemma CreateBuilding_cases:
  obtains (fault) "CreateBuilding now b io d = (Inl ErrDB, d)"
  | (dup) "CreateBuilding now b io d = (Inl ErrDuplicate, d)" "b_Code b \<in> br_code ` set (db_buildings d)"
  | (new) made row where "CreateBuilding now b io d = (Inr made, d\<lparr>db_buildings := db_buildings d @ [row]\<rparr>)"
      "b_Code b \<notin> br_code ` set (db_buildings d)" "row_matches b row"
proof -
  let ?known = "b_Code b \<in> br_code ` set (db_buildings d)" and ?campus = "b_CampusCode b \<in> cr_code ` set (db_campuses d)"
  consider "io 0 \<or> \<not> ?known \<and> \<not> ?campus" | "\<not> io 0" "?known" | "\<not> io 0" "\<not> ?known" "?campus" by blast
  then show thesis
  proof cases
    case 1
    then show ?thesis by (intro fault) (auto simp: CreateBuilding_def Let_def)
  next
    case 2
    then show ?thesis by (intro dup) (simp_all add: CreateBuilding_def Let_def)
  next
    case 3
    from 3 show ?thesis by (intro new) (simp add: CreateBuilding_def Let_def, simp_all add: row_matches_def)
  qed
qed

text \<open>The rows an import adds are those of importable lines, and none replaces another.\<close>

definition import_rows :: "string \<Rightarrow> import_line list \<Rightarrow> building_row list \<Rightarrow> db \<Rightarrow> bool" where
  "import_rows campus es rows d \<longleftrightarrow>
     distinct (map br_code rows) \<and> br_code ` set rows \<inter> br_code ` set (db_buildings d) = {} \<and>
     (\<forall>row \<in> set rows. \<exists>e \<in> set es. importable e \<and> row_matches (line_building campus e) row)"

lemma import_rows_later: "import_rows campus es rows d \<Longrightarrow> import_rows campus (e # es) rows d"
  by (auto simp: import_rows_def)

lemma import_rows_Cons:
  assumes "import_rows campus es rows (d\<lparr>db_buildings := db_buildings d @ [row]\<rparr>)" "importable e"
    "row_matches (line_building campus e) row" "il_code e \<notin> br_code ` set (db_buildings d)"
  shows "import_rows campus (e # es) (row # rows) d"
  using assms by (auto simp: import_rows_def row_matches_def line_building_def)

lemma import_lines_rows:
  "import_lines now campus io i es report d = (r, d') \<Longrightarrow>
   \<exists>rows. d' = d\<lparr>db_buildings := db_buildings d @ rows\<rparr> \<and> import_rows campus es rows d"
proof (induction es arbitrary: i report d)
  case Nil
  then show ?case by (intro exI [of _ "[]"]) (auto simp: import_rows_def)
next
  case (Cons e es)
  show ?case
  proof (cases "line_failure e = []")
    case False
    with Cons.prems Cons.IH show ?thesis by (simp, blast intro: import_rows_later)
  next
    case ok: True
    show ?thesis
    proof (cases rule: CreateBuilding_cases [of now "line_building campus e" "io i" d])
      case fault
      with ok Cons.prems show ?thesis by (intro exI [of _ "[]"]) (auto simp: import_rows_def)
    next
      case dup
      with ok Cons.prems Cons.IH show ?thesis by (simp, blast intro: import_rows_later)
    next
      case (new made row)
      with ok Cons.prems obtain rows where rows: "d' = d\<lparr>db_buildings := db_buildings d @ row # rows\<rparr>"
        "import_rows campus es rows (d\<lparr>db_buildings := db_buildings d @ [row]\<rparr>)"
        by (simp, drule_tac Cons.IH, auto)
      with new ok have "import_rows campus (e # es) (row # rows) d"
        by (intro import_rows_Cons) (simp_all add: importable_def line_building_def)
      with rows(1) show ?thesis by blast
    qed
  qed
qed

lemma import_lines_mono:
  "import_lines now campus io i es report d = (r, d') \<Longrightarrow>
   br_code ` set (db_buildings d) \<subseteq> br_code ` set (db_buildings d')"
  using import_lines_rows [of now campus io i es report d r d'] by auto

definition report_size :: "import_report \<Rightarrow> nat" where
  "report_size r = ir_Added r + length (ir_Skipped r) + length (ir_Failed r)"

text \<open>A report accounts for every line once, and what it counts as added is what was added.\<close>

lemma import_lines_report:
  "import_lines now campus io i es report d = (Some report', d') \<Longrightarrow>
   report_size report' = report_size report + length es \<and>
   ir_Added report' + length (db_buildings d) = ir_Added report + length (db_buildings d') \<and>
   (\<forall>e \<in> set es. importable e \<longrightarrow> il_code e \<in> br_code ` set (db_buildings d'))"
proof (induction es arbitrary: i report d)
  case Nil
  then show ?case by simp
next
  case (Cons e es)
  show ?case
  proof (cases "line_failure e = []")
    case False
    with Cons.prems Cons.IH [of "Suc i" "report\<lparr>ir_Failed := ir_Failed report @ [line_failure e]\<rparr>" d]
    show ?thesis by (simp add: report_size_def importable_def)
  next
    case ok: True
    show ?thesis
    proof (cases rule: CreateBuilding_cases [of now "line_building campus e" "io i" d])
      case fault
      with ok Cons.prems show ?thesis by simp
    next
      case dup
      with ok Cons.prems have run: "import_lines now campus io (Suc i) es (report\<lparr>ir_Skipped := ir_Skipped report @ [il_code e]\<rparr>) d = (Some report', d')"
        by simp
      from dup import_lines_mono [OF run] have "il_code e \<in> br_code ` set (db_buildings d')"
        by (auto simp: line_building_def)
      with Cons.IH [OF run] show ?thesis by (simp add: report_size_def)
    next
      case (new made row)
      with ok Cons.prems have run: "import_lines now campus io (Suc i) es (report\<lparr>ir_Added := Suc (ir_Added report)\<rparr>)
          (d\<lparr>db_buildings := db_buildings d @ [row]\<rparr>) = (Some report', d')"
        by simp
      from new import_lines_mono [OF run] have "il_code e \<in> br_code ` set (db_buildings d')"
        by (auto simp: line_building_def row_matches_def)
      with Cons.IH [OF run] show ?thesis by (simp add: report_size_def)
    qed
  qed
qed

text \<open>Nothing new to add: the import skips every importable line and changes nothing.\<close>

lemma import_lines_known:
  "\<forall>e \<in> set es. importable e \<longrightarrow> il_code e \<in> br_code ` set (db_buildings d) \<Longrightarrow>
   import_lines now campus (\<lambda>_. no_faults) i es report d =
     (Some (report\<lparr>ir_Skipped := ir_Skipped report @ map il_code (filter importable es),
        ir_Failed := ir_Failed report @ map line_failure (filter (\<lambda>e. \<not> importable e) es)\<rparr>), d)"
  by (induction es arbitrary: i report) (simp_all add: importable_def CreateBuilding_def Let_def line_building_def)

end
