(* ===== verification/Admin_Settings.thy ===== *)
theory Admin_Settings
  imports Admin_Base
begin

text \<open>
  \<open>internal/admin/settings.go\<close>: the form for the measurement parameters, and the texts of
  \<open>MeasurementConfig.Validate\<close> (\<open>internal/protocol/dispatch.go\<close>) it shows.
\<close>

section \<open>The texts of the validator\<close>

definition cmsg_interval_short :: string where
  "cmsg_interval_short = text_bytes
    [230, 181, 139, 233, 135, 143, 229, 145, 168, 230, 156, 159, 229, 191, 133, 233, 161, 187, 228,
     184, 141, 229, 176, 143, 228, 186, 142, 32]"

definition cmsg_ms :: string where
  "cmsg_ms = text_bytes
    [32, 230, 175, 171, 231, 167, 146]"

definition cmsg_count :: string where
  "cmsg_count = text_bytes
    [73, 67, 77, 80, 32, 230, 175, 143, 232, 189, 174, 230, 172, 161, 230, 149, 176, 229, 191, 133,
     233, 161, 187, 229, 164, 167, 228, 186, 142, 32, 48]"

definition cmsg_icmp_interval :: string where
  "cmsg_icmp_interval = text_bytes
    [73, 67, 77, 80, 32, 232, 175, 183, 230, 177, 130, 233, 151, 180, 233, 154, 148, 229, 191, 133,
     233, 161, 187, 229, 164, 167, 228, 186, 142, 32, 48]"

definition cmsg_icmp_timeout :: string where
  "cmsg_icmp_timeout = text_bytes
    [73, 67, 77, 80, 32, 229, 141, 149, 230, 172, 161, 232, 182, 133, 230, 151, 182, 229, 191, 133,
     233, 161, 187, 229, 164, 167, 228, 186, 142, 32, 48]"

definition cmsg_round_1 :: string where
  "cmsg_round_1 = text_bytes
    [73, 67, 77, 80, 32, 230, 149, 180, 232, 189, 174, 230, 156, 128, 229, 157, 143, 232, 128, 151,
     230, 151, 182, 32]"

definition cmsg_round_2 :: string where
  "cmsg_round_2 = text_bytes
    [32, 230, 175, 171, 231, 167, 146, 239, 188, 136]"

definition cmsg_round_3 :: string where
  "cmsg_round_3 = text_bytes
    [32, 230, 172, 161, 32, 195, 151, 32]"

definition cmsg_round_4 :: string where
  "cmsg_round_4 = text_bytes
    [32, 230, 175, 171, 231, 167, 146, 233, 151, 180, 233, 154, 148, 32, 43, 32]"

definition cmsg_round_5 :: string where
  "cmsg_round_5 = text_bytes
    [32, 230, 175, 171, 231, 167, 146, 232, 182, 133, 230, 151, 182, 239, 188, 137, 229, 191, 133,
     233, 161, 187, 229, 176, 143, 228, 186, 142, 230, 181, 139, 233, 135, 143, 229, 145, 168, 230,
     156, 159, 32]"

definition cmsg_method :: string where
  "cmsg_method = text_bytes
    [72, 84, 84, 80, 32, 230, 150, 185, 230, 179, 149, 229, 156, 168, 229, 141, 143, 232, 174, 174,
     32, 118, 49, 32, 228, 184, 173, 229, 155, 186, 229, 174, 154, 228, 184, 186, 32]"

definition cmsg_transport :: string where
  "cmsg_transport = text_bytes
    [68, 78, 83, 32, 228, 188, 160, 232, 190, 147, 229, 177, 130, 229, 156, 168, 229, 141, 143,
     232, 174, 174, 32, 118, 49, 32, 228, 184, 173, 229, 155, 186, 229, 174, 154, 228, 184, 186, 32]"

definition cmsg_http_positive :: string where
  "cmsg_http_positive = text_bytes
    [72, 84, 84, 80, 32, 232, 182, 133, 230, 151, 182, 229, 191, 133, 233, 161, 187, 229, 164, 167,
     228, 186, 142, 32, 48]"

definition cmsg_http_timeout :: string where
  "cmsg_http_timeout = text_bytes
    [72, 84, 84, 80, 32, 232, 182, 133, 230, 151, 182, 32]"

definition cmsg_below_interval :: string where
  "cmsg_below_interval = text_bytes
    [32, 230, 175, 171, 231, 167, 146, 229, 191, 133, 233, 161, 187, 229, 176, 143, 228, 186, 142,
     230, 181, 139, 233, 135, 143, 229, 145, 168, 230, 156, 159, 32]"

definition cmsg_dns_positive :: string where
  "cmsg_dns_positive = text_bytes
    [68, 78, 83, 32, 232, 182, 133, 230, 151, 182, 229, 191, 133, 233, 161, 187, 229, 164, 167,
     228, 186, 142, 32, 48]"

definition cmsg_dns_timeout :: string where
  "cmsg_dns_timeout = text_bytes
    [68, 78, 83, 32, 232, 182, 133, 230, 151, 182, 32]"

lemmas config_messages [admin_text] =
  cmsg_interval_short_def cmsg_ms_def cmsg_count_def cmsg_icmp_interval_def cmsg_icmp_timeout_def cmsg_round_1_def cmsg_round_2_def cmsg_round_3_def cmsg_round_4_def cmsg_round_5_def cmsg_method_def cmsg_transport_def cmsg_http_positive_def cmsg_http_timeout_def cmsg_below_interval_def cmsg_dns_positive_def cmsg_dns_timeout_def

fun config_error_text :: "config_error \<Rightarrow> string" where
  "config_error_text (IntervalTooShort m) = cmsg_interval_short @ itoa m @ cmsg_ms"
| "config_error_text CountNotPositive = cmsg_count"
| "config_error_text IcmpIntervalNotPositive = cmsg_icmp_interval"
| "config_error_text IcmpTimeoutNotPositive = cmsg_icmp_timeout"
| "config_error_text (RoundTooLong r n i t c) =
     cmsg_round_1 @ itoa r @ cmsg_round_2 @ itoa n @ cmsg_round_3 @ itoa i @ cmsg_round_4 @ itoa t @
     cmsg_round_5 @ itoa c @ cmsg_ms"
| "config_error_text MethodFixed = cmsg_method @ HTTPMethod"
| "config_error_text TransportFixed = cmsg_transport @ DNSTransport"
| "config_error_text HttpTimeoutNotPositive = cmsg_http_positive"
| "config_error_text (HttpTimeoutTooLong t c) = cmsg_http_timeout @ itoa t @ cmsg_below_interval @ itoa c @ cmsg_ms"
| "config_error_text DnsTimeoutNotPositive = cmsg_dns_positive"
| "config_error_text (DnsTimeoutTooLong t c) = cmsg_dns_timeout @ itoa t @ cmsg_below_interval @ itoa c @ cmsg_ms"

lemma config_error_text_nonempty [simp]: "config_error_text e \<noteq> []"
  by (cases e) (simp_all add: config_messages)

section \<open>The form\<close>

definition formFromConfig :: "measurement_config \<Rightarrow> measurement_form" where
  "formFromConfig c =
     \<lparr>mf_IntervalMS = itoa (mc_IntervalMS c), mf_ICMPCount = itoa (ic_Count (mc_ICMP c)),
      mf_ICMPIntervalMS = itoa (ic_IntervalMS (mc_ICMP c)), mf_ICMPTimeoutMS = itoa (ic_TimeoutMS (mc_ICMP c)),
      mf_HTTPTimeoutMS = itoa (hc_TimeoutMS (mc_HTTP c)), mf_DNSTimeoutMS = itoa (dc_TimeoutMS (mc_DNS c)),
      mf_FollowRedirects = hc_FollowRedirects (mc_HTTP c), mf_VerifyTLS = hc_VerifyTLS (mc_HTTP c)\<rparr>"

definition formFromRequest :: "web_request \<Rightarrow> measurement_form" where
  "formFromRequest rq =
     \<lparr>mf_IntervalMS = trimmed_value rq ''interval_ms'', mf_ICMPCount = trimmed_value rq ''icmp_count'',
      mf_ICMPIntervalMS = trimmed_value rq ''icmp_interval_ms'', mf_ICMPTimeoutMS = trimmed_value rq ''icmp_timeout_ms'',
      mf_HTTPTimeoutMS = trimmed_value rq ''http_timeout_ms'', mf_DNSTimeoutMS = trimmed_value rq ''dns_timeout_ms'',
      mf_FollowRedirects = (PostFormValue rq ''http_follow_redirects'' = ''on''),
      mf_VerifyTLS = (PostFormValue rq ''http_verify_tls'' = ''on'')\<rparr>"

text \<open>The integers of the labelled fields, or the complaint about the first that is none.\<close>

fun read_fields :: "(string \<times> string) list \<Rightarrow> string + int list" where
  "read_fields [] = Inr []"
| "read_fields ((label, raw) # more_fields) =
     (case atoi raw of
        None \<Rightarrow> Inl (label @ amsg_not_integer)
      | Some v \<Rightarrow> (case read_fields more_fields of Inl msg \<Rightarrow> Inl msg | Inr vs \<Rightarrow> Inr (v # vs)))"

text \<open>\<open>Duration.Milliseconds\<close>: whole milliseconds, towards zero.\<close>

definition Milliseconds :: "int \<Rightarrow> int" where
  "Milliseconds d = (if d < 0 then - ((- d) div 1000000) else d div 1000000)"

definition form_fields :: "measurement_form \<Rightarrow> (string \<times> string) list" where
  "form_fields f =
     [(label_interval, mf_IntervalMS f), (label_icmp_count, mf_ICMPCount f),
      (label_icmp_interval, mf_ICMPIntervalMS f), (label_icmp_timeout, mf_ICMPTimeoutMS f),
      (label_http_timeout, mf_HTTPTimeoutMS f), (label_dns_timeout, mf_DNSTimeoutMS f)]"

definition configFromForm :: "config \<Rightarrow> measurement_form \<Rightarrow> string + measurement_config" where
  "configFromForm cfg f =
     (case read_fields (form_fields f) of
        Inl msg \<Rightarrow> Inl msg
      | Inr values \<Rightarrow>
          (let c = \<lparr>mc_IntervalMS = values ! 0,
                    mc_ICMP = \<lparr>ic_Count = values ! 1, ic_IntervalMS = values ! 2, ic_TimeoutMS = values ! 3\<rparr>,
                    mc_HTTP = \<lparr>hc_Method = HTTPMethod, hc_FollowRedirects = mf_FollowRedirects f,
                               hc_VerifyTLS = mf_VerifyTLS f, hc_TimeoutMS = values ! 4\<rparr>,
                    mc_DNS = \<lparr>dc_Transport = DNSTransport, dc_TimeoutMS = values ! 5\<rparr>\<rparr>;
               limit = Milliseconds (RateLimit cfg) in
           case config_Validate c of
             Inl e \<Rightarrow> Inl (config_error_text e)
           | Inr _ \<Rightarrow>
               (if mc_IntervalMS c < limit then Inl (amsg_rate_before @ itoa limit @ amsg_rate_after)
                else Inr c)))"

section \<open>Handlers\<close>

definition renderMeasurementSettings :: "admin_env \<Rightarrow> session \<Rightarrow> int \<Rightarrow> string \<Rightarrow> measurement_form \<Rightarrow> bool \<Rightarrow>
    admin_page web_response" where
  "renderMeasurementSettings env sess status errMsg f custom =
     admin_render env status ''settings.html'' title_settings sess errMsg (SettingsPage f custom)"

definition storedConfigIsCustom :: "faults \<Rightarrow> db \<Rightarrow> bool" where
  "storedConfigIsCustom io d = (case MeasurementConfig io d of Inl _ \<Rightarrow> False | Inr (_, custom) \<Rightarrow> custom)"

definition handleMeasurementSettings :: "admin_env \<Rightarrow> (nat \<Rightarrow> faults) \<Rightarrow> session \<Rightarrow> ('b, 'm) admin_handler" where
  "handleMeasurementSettings env io sess rq st =
     (case MeasurementConfig (io 0) (as_db st) of
        Inl _ \<Rightarrow> (internal_error, st)
      | Inr (cfg, custom) \<Rightarrow>
          (renderMeasurementSettings env sess StatusOK [] (formFromConfig cfg) custom, st))"

definition handleMeasurementSettingsSave :: "admin_env \<Rightarrow> int \<Rightarrow> (nat \<Rightarrow> faults) \<Rightarrow> session \<Rightarrow>
    ('b, 'm) admin_handler" where
  "handleMeasurementSettingsSave env now io sess rq st =
     (let f = formFromRequest rq;
          refuse = (\<lambda>msg d. (renderMeasurementSettings env sess StatusBadRequest msg f
                               (storedConfigIsCustom (io 1) d), st\<lparr>as_db := d\<rparr>)) in
      case configFromForm (ae_cfg env) f of
        Inl msg \<Rightarrow> refuse msg (as_db st)
      | Inr cfg \<Rightarrow>
          (case SetMeasurementConfig now cfg (io 0) (as_db st) of
             (Inl e, d) \<Rightarrow> refuse (amsg_save_failed @ ae_errorText env e) d
           | (Inr _, d) \<Rightarrow> (Redirect ''/admin/settings'', st\<lparr>as_db := d\<rparr>)))"

definition handleMeasurementSettingsReset :: "(nat \<Rightarrow> faults) \<Rightarrow> ('b, 'm) admin_handler" where
  "handleMeasurementSettingsReset io rq st =
     (case ResetMeasurementConfig (io 0) (as_db st) of
        (Inl _, d) \<Rightarrow> (internal_error, st\<lparr>as_db := d\<rparr>)
      | (Inr _, d) \<Rightarrow> (Redirect ''/admin/settings'', st\<lparr>as_db := d\<rparr>))"

section \<open>What the form can store\<close>

lemma configFromForm_ok:
  assumes "configFromForm cfg f = Inr c"
  shows "config_ok c" "config_typed c" "Milliseconds (RateLimit cfg) \<le> mc_IntervalMS c"
    "hc_FollowRedirects (mc_HTTP c) = mf_FollowRedirects f" "hc_VerifyTLS (mc_HTTP c) = mf_VerifyTLS f"
    "atoi (mf_IntervalMS f) = Some (mc_IntervalMS c)" "atoi (mf_ICMPCount f) = Some (ic_Count (mc_ICMP c))"
    "atoi (mf_ICMPIntervalMS f) = Some (ic_IntervalMS (mc_ICMP c))"
    "atoi (mf_ICMPTimeoutMS f) = Some (ic_TimeoutMS (mc_ICMP c))"
    "atoi (mf_HTTPTimeoutMS f) = Some (hc_TimeoutMS (mc_HTTP c))"
    "atoi (mf_DNSTimeoutMS f) = Some (dc_TimeoutMS (mc_DNS c))"
proof -
  from assms obtain a b c' d e g where r: "atoi (mf_IntervalMS f) = Some a" "atoi (mf_ICMPCount f) = Some b"
    "atoi (mf_ICMPIntervalMS f) = Some c'" "atoi (mf_ICMPTimeoutMS f) = Some d"
    "atoi (mf_HTTPTimeoutMS f) = Some e" "atoi (mf_DNSTimeoutMS f) = Some g"
    by (auto simp: configFromForm_def form_fields_def split: option.splits sum.splits)
  let ?c = "\<lparr>mc_IntervalMS = a, mc_ICMP = \<lparr>ic_Count = b, ic_IntervalMS = c', ic_TimeoutMS = d\<rparr>,
     mc_HTTP = \<lparr>hc_Method = HTTPMethod, hc_FollowRedirects = mf_FollowRedirects f, hc_VerifyTLS = mf_VerifyTLS f,
                hc_TimeoutMS = e\<rparr>,
     mc_DNS = \<lparr>dc_Transport = DNSTransport, dc_TimeoutMS = g\<rparr>\<rparr>"
  have c: "c = ?c" "config_Validate ?c = Inr ()" "Milliseconds (RateLimit cfg) \<le> a"
    using assms by (auto simp: configFromForm_def form_fields_def r Let_def numeral_nat split: sum.splits if_splits)
  with r show "config_ok c" "config_typed c" "Milliseconds (RateLimit cfg) \<le> mc_IntervalMS c"
    "hc_FollowRedirects (mc_HTTP c) = mf_FollowRedirects f" "hc_VerifyTLS (mc_HTTP c) = mf_VerifyTLS f"
    "atoi (mf_IntervalMS f) = Some (mc_IntervalMS c)" "atoi (mf_ICMPCount f) = Some (ic_Count (mc_ICMP c))"
    "atoi (mf_ICMPIntervalMS f) = Some (ic_IntervalMS (mc_ICMP c))"
    "atoi (mf_ICMPTimeoutMS f) = Some (ic_TimeoutMS (mc_ICMP c))"
    "atoi (mf_HTTPTimeoutMS f) = Some (hc_TimeoutMS (mc_HTTP c))"
    "atoi (mf_DNSTimeoutMS f) = Some (dc_TimeoutMS (mc_DNS c))"
    by (auto simp: gw_results config_typed_def dest: atoi_int64)
qed

text \<open>The form of a valid config, submitted as it is shown, is that config again.\<close>

lemma configFromForm_formFromConfig:
  assumes "config_ok c" "config_typed c" "Milliseconds (RateLimit cfg) \<le> mc_IntervalMS c"
  shows "configFromForm cfg (formFromConfig c) = Inr c"
proof -
  have "config_Validate c = Inr ()" using assms(1) by (simp add: gw_results)
  moreover have "hc_Method (mc_HTTP c) = HTTPMethod" "dc_Transport (mc_DNS c) = DNSTransport"
    using assms(1) by (simp_all add: config_ok_def)
  ultimately show ?thesis using assms(2,3)
    by (cases c, cases "mc_ICMP c", cases "mc_HTTP c", cases "mc_DNS c")
      (simp add: configFromForm_def formFromConfig_def form_fields_def config_typed_def atoi_itoa Let_def numeral_nat)
qed

end
