(* ===== verification/Admin_Routes.thy ===== *)
theory Admin_Routes
  imports Admin_Probes Admin_Targets Admin_Buildings Admin_Settings
begin

text \<open>
  \<open>Server.Routes\<close> of \<open>internal/admin/server.go\<close>: which handler answers a request, and behind
  which guards.  A \<open>GET\<close> pattern of \<open>http.ServeMux\<close> also answers \<open>HEAD\<close>, a wildcard is one
  non-empty segment, and a literal segment wins over a wildcard.
\<close>

section \<open>The route table\<close>

datatype admin_view =
    ProbeList | ProbeNewForm | ProbeDetail string | TargetList | CampusList | BuildingList | SettingsForm

datatype admin_action =
    ProbeCreate | ProbeToggle string | ProbeRotate string | ProbeDelete string
  | TargetCreate | TargetUpdate string | TargetDelete string
  | CampusCreate | CampusUpdate string | CampusDelete string
  | BuildingCreate | BuildingImport | BuildingUpdate string | BuildingDelete string
  | SettingsSave | SettingsReset

datatype admin_route = LoginForm | Login | Logout | View admin_view | Action admin_action

text \<open>The segment a pattern with one wildcard binds.\<close>

definition path_value :: "string \<Rightarrow> string \<Rightarrow> string \<Rightarrow> string option" where
  "path_value before after path =
     (let n = length path - length before - length after; seg = take n (drop (length before) path) in
      if path = before @ seg @ after \<and> seg \<noteq> [] \<and> CHR ''/'' \<notin> set seg then Some seg else None)"

fun first_some :: "'a option list \<Rightarrow> 'a option" where
  "first_some [] = None"
| "first_some (x # xs) = (case x of None \<Rightarrow> first_some xs | Some y \<Rightarrow> Some y)"

definition literal :: "string \<Rightarrow> string \<Rightarrow> 'r \<Rightarrow> 'r option" where
  "literal pattern path r = (if path = pattern then Some r else None)"

definition get_route :: "string \<Rightarrow> admin_route option" where
  "get_route path =
     first_some
       [literal ''/admin/login'' path LoginForm,
        literal ''/admin'' path (View ProbeList),
        literal ''/admin/probes/new'' path (View ProbeNewForm),
        map_option (View \<circ> ProbeDetail) (path_value ''/admin/probes/'' [] path),
        literal ''/admin/targets'' path (View TargetList),
        literal ''/admin/campuses'' path (View CampusList),
        literal ''/admin/buildings'' path (View BuildingList),
        literal ''/admin/settings'' path (View SettingsForm)]"

definition post_action :: "string \<Rightarrow> admin_action option" where
  "post_action path =
     first_some
       [literal ''/admin/probes/new'' path ProbeCreate,
        map_option ProbeToggle (path_value ''/admin/probes/'' ''/toggle'' path),
        map_option ProbeRotate (path_value ''/admin/probes/'' ''/rotate'' path),
        map_option ProbeDelete (path_value ''/admin/probes/'' ''/delete'' path),
        literal ''/admin/targets/new'' path TargetCreate,
        map_option TargetUpdate (path_value ''/admin/targets/'' ''/update'' path),
        map_option TargetDelete (path_value ''/admin/targets/'' ''/delete'' path),
        literal ''/admin/campuses/new'' path CampusCreate,
        map_option CampusUpdate (path_value ''/admin/campuses/'' ''/update'' path),
        map_option CampusDelete (path_value ''/admin/campuses/'' ''/delete'' path),
        literal ''/admin/buildings/new'' path BuildingCreate,
        literal ''/admin/buildings/import'' path BuildingImport,
        map_option BuildingUpdate (path_value ''/admin/buildings/'' ''/update'' path),
        map_option BuildingDelete (path_value ''/admin/buildings/'' ''/delete'' path),
        literal ''/admin/settings'' path SettingsSave,
        literal ''/admin/settings/reset'' path SettingsReset]"

definition post_route :: "string \<Rightarrow> admin_route option" where
  "post_route path =
     first_some
       [literal ''/admin/login'' path Login, literal ''/admin/logout'' path Logout,
        map_option Action (post_action path)]"

definition admin_route_of :: "web_request \<Rightarrow> admin_route option" where
  "admin_route_of rq =
     (if rq_Method rq \<in> {''GET'', ''HEAD''} then get_route (rq_Path rq)
      else if rq_Method rq = ''POST'' then post_route (rq_Path rq) else None)"

section \<open>Serving\<close>

text \<open>
  What one request draws on: the clock, the faults of its store calls and its random bytes.
  Random draws 20 and 21 are the session's.
\<close>

record draws =
  dw_now :: int
  dw_io :: "nat \<Rightarrow> faults"
  dw_rnd :: "nat \<Rightarrow> nat \<Rightarrow> string option"

fun run_view :: "admin_env \<Rightarrow> draws \<Rightarrow> admin_view \<Rightarrow> session \<Rightarrow> ('b, 'm) admin_handler" where
  "run_view env dw ProbeList sess = handleProbeList env (dw_now dw) (dw_io dw) sess"
| "run_view env dw ProbeNewForm sess = handleProbeNewForm env (dw_io dw) sess"
| "run_view env dw (ProbeDetail pid) sess = handleProbeDetail env (dw_now dw) (dw_io dw) pid sess"
| "run_view env dw TargetList sess = handleTargetList env (dw_io dw) sess"
| "run_view env dw CampusList sess = handleCampusList env (dw_io dw) sess"
| "run_view env dw BuildingList sess = handleBuildingList env (dw_io dw) sess"
| "run_view env dw SettingsForm sess = handleMeasurementSettings env (dw_io dw) sess"

fun run_action :: "admin_env \<Rightarrow> draws \<Rightarrow> admin_action \<Rightarrow> session \<Rightarrow> ('b, 'm) admin_handler" where
  "run_action env dw ProbeCreate sess = handleProbeCreate env (dw_now dw) (dw_io dw) (dw_rnd dw) sess"
| "run_action env dw (ProbeToggle pid) sess = handleProbeToggle (dw_now dw) (dw_io dw) pid"
| "run_action env dw (ProbeRotate pid) sess = handleProbeRotate (dw_now dw) (dw_io dw) (dw_rnd dw) pid"
| "run_action env dw (ProbeDelete pid) sess = handleProbeDelete (dw_io dw) pid"
| "run_action env dw TargetCreate sess = handleTargetCreate env (dw_now dw) (dw_io dw) sess"
| "run_action env dw (TargetUpdate tid) sess = handleTargetUpdate env (dw_now dw) (dw_io dw) tid sess"
| "run_action env dw (TargetDelete tid) sess = handleTargetDelete (dw_io dw) tid"
| "run_action env dw CampusCreate sess = handleCampusCreate env (dw_now dw) (dw_io dw) sess"
| "run_action env dw (CampusUpdate cd) sess = handleCampusUpdate env (dw_now dw) (dw_io dw) cd sess"
| "run_action env dw (CampusDelete cd) sess = handleCampusDelete env (dw_io dw) cd sess"
| "run_action env dw BuildingCreate sess = handleBuildingCreate env (dw_now dw) (dw_io dw) sess"
| "run_action env dw BuildingImport sess = handleBuildingImport env (dw_now dw) (dw_io dw) sess"
| "run_action env dw (BuildingUpdate cd) sess = handleBuildingUpdate env (dw_now dw) (dw_io dw) cd sess"
| "run_action env dw (BuildingDelete cd) sess = handleBuildingDelete env (dw_io dw) cd sess"
| "run_action env dw SettingsSave sess = handleMeasurementSettingsSave env (dw_now dw) (dw_io dw) sess"
| "run_action env dw SettingsReset sess = handleMeasurementSettingsReset (dw_io dw)"

fun run_route :: "admin_env \<Rightarrow> draws \<Rightarrow> admin_route \<Rightarrow> ('b, 'm) admin_handler" where
  "run_route env dw LoginForm = handleLoginPage env (dw_now dw)"
| "run_route env dw Login = handleLogin env (dw_now dw) (\<lambda>i. dw_rnd dw (20 + i))"
| "run_route env dw Logout = requireSession (dw_now dw) (handleLogout env)"
| "run_route env dw (View v) = requireSession (dw_now dw) (with_session (dw_now dw) (run_view env dw v))"
| "run_route env dw (Action a) =
     requireSession (dw_now dw) (requireCSRF (dw_now dw) (with_session (dw_now dw) (run_action env dw a)))"

definition serve_admin :: "admin_env \<Rightarrow> draws \<Rightarrow> web_request \<Rightarrow> ('b, 'm) gateway_state_scheme \<Rightarrow>
    ('b, 'm) admin_result option" where
  "serve_admin env dw rq st = map_option (\<lambda>r. run_route env dw r rq st) (admin_route_of rq)"

section \<open>The guards over the whole table\<close>

text \<open>Everything but the sessions.\<close>

definition beyond_sessions :: "('b, 'm) gateway_state_scheme \<Rightarrow> ('b, 'm) gateway_state_scheme \<Rightarrow> bool" where
  "beyond_sessions st st' \<longleftrightarrow> (\<exists>ss. st' = st\<lparr>gs_sessions := ss\<rparr>)"

lemma beyond_sessions_refl [simp]: "beyond_sessions st st"
  unfolding beyond_sessions_def by (intro exI [of _ "gs_sessions st"]) simp

lemma beyond_sessions_trans: "beyond_sessions st st' \<Longrightarrow> beyond_sessions st' st'' \<Longrightarrow> beyond_sessions st st''"
  by (auto simp: beyond_sessions_def)

lemma beyond_sessions_lookup: "beyond_sessions st (snd (sessionFromRequest now rq st))"
  unfolding beyond_sessions_def by (cases "Cookie sessionCookieName rq")
    (auto simp: sessionFromRequest_def split_beta intro: exI [of _ "gs_sessions st"])

lemma beyond_sessions_eq:
  "beyond_sessions st st' \<Longrightarrow> as_db st' = as_db st \<and> as_latest st' = as_latest st \<and> as_limiter st' = as_limiter st \<and>
     as_self st' = as_self st \<and> ps_oneShot st' = ps_oneShot st \<and> ps_limiter st' = ps_limiter st"
  by (auto simp: beyond_sessions_def)

lemma sessionFromRequest_beyond:
  "sessionFromRequest now rq st = (r, st') \<Longrightarrow> beyond_sessions st st'"
  using beyond_sessions_lookup [of st now rq] by simp

text \<open>The views change nothing.\<close>

lemma run_view_state: "snd (run_view env dw v sess rq st) = st"
  by (cases v) (auto simp: handleProbeList_def handleProbeNewForm_def handleProbeDetail_def handleTargetList_def
      handleCampusList_def handleBuildingList_def handleMeasurementSettings_def Let_def
      split: sum.split store_error.split)

text \<open>The session a request carries, when it is live.\<close>

definition live_session :: "int \<Rightarrow> web_request \<Rightarrow> ('b, 'm) gateway_state_scheme \<Rightarrow> session option" where
  "live_session now rq st =
     (case Cookie sessionCookieName rq of
        None \<Rightarrow> None
      | Some sid \<Rightarrow> (if sid = [] then None
                     else case session_of (gs_sessions st) sid of
                            None \<Rightarrow> None | Some e \<Rightarrow> if ss_expires e < now then None else Some e))"

lemma sessionFromRequest_live:
  assumes "sessionFromRequest now rq st = (Some sess, st')"
  obtains e where "live_session now rq st = Some e" "ss_csrf sess = ss_csrf e" "ss_username sess = ss_username e"
    "ss_id sess = ss_id e"
  using assms by (fastforce simp: sessionFromRequest_get session_get_Some live_session_def)

lemma sessionFromRequest_none:
  "live_session now rq st = None \<Longrightarrow> fst (sessionFromRequest now rq st) = None"
  by (cases "sessionFromRequest now rq st", cases "fst (sessionFromRequest now rq st)")
    (auto elim: sessionFromRequest_live)

lemma requireSession_refused:
  "live_session now rq st = None \<Longrightarrow> requireSession now h rq st = (to_login, snd (sessionFromRequest now rq st))"
  using sessionFromRequest_none [of now rq st] by (simp add: requireSession_def split_beta)

text \<open>What an action needs: a live session, a form that parses and the session's token.\<close>

definition csrf_ok :: "int \<Rightarrow> web_request \<Rightarrow> ('b, 'm) gateway_state_scheme \<Rightarrow> bool" where
  "csrf_ok now rq st \<longleftrightarrow> \<not> ParseForm_fails rq \<and>
     (\<exists>e. live_session now rq st = Some e \<and> PostFormValue rq ''csrf'' = ss_csrf e)"

lemma lookup_keeps_live:
  assumes "sessionFromRequest now rq st = (Some sess, st')"
  shows "\<exists>e. live_session now rq st = Some e \<and> ss_csrf sess = ss_csrf e \<and> ss_username sess = ss_username e"
  using assms by (auto elim: sessionFromRequest_live)

lemma guarded_action_refused:
  assumes "\<not> csrf_ok now rq st" "0 \<le> st_ttl (gs_sessions st)"
  shows "beyond_sessions st (snd (requireSession now (requireCSRF now h) rq st))"
    "wp_Status (fst (requireSession now (requireCSRF now h) rq st)) \<in> {StatusSeeOther, StatusBadRequest, StatusForbidden}"
proof -
  obtain r st1 where l: "sessionFromRequest now rq st = (r, st1)" by fastforce
  from l have b: "beyond_sessions st st1" by (rule sessionFromRequest_beyond)
  have "beyond_sessions st (snd (requireSession now (requireCSRF now h) rq st)) \<and>
    wp_Status (fst (requireSession now (requireCSRF now h) rq st)) \<in> {StatusSeeOther, StatusBadRequest, StatusForbidden}"
  proof (cases r)
    case None
    with l b show ?thesis by (simp add: requireSession_def to_login_def)
  next
    case (Some sess)
    with l assms(2) have again: "sessionFromRequest now rq st1 = (Some sess, st1)"
      by (simp add: sessionFromRequest_again)
    from assms(1) lookup_keeps_live [OF l [unfolded Some]]
    have "ParseForm_fails rq \<or> PostFormValue rq ''csrf'' \<noteq> ss_csrf sess" by (auto simp: csrf_ok_def)
    with l Some again b show ?thesis by (auto simp: requireSession_def requireCSRF_def)
  qed
  then show "beyond_sessions st (snd (requireSession now (requireCSRF now h) rq st))"
    "wp_Status (fst (requireSession now (requireCSRF now h) rq st)) \<in> {StatusSeeOther, StatusBadRequest, StatusForbidden}"
    by blast+
qed

text \<open>Behind the guards the handler runs with the request's own session.\<close>

lemma guarded_action_runs:
  assumes "csrf_ok now rq st" "0 \<le> st_ttl (gs_sessions st)"
  obtains sess st1 where "sessionFromRequest now rq st = (Some sess, st1)" "beyond_sessions st st1"
    "\<And>h. requireSession now (requireCSRF now (with_session now h)) rq st = h sess rq st1"
proof -
  from assms(1) obtain e where e: "\<not> ParseForm_fails rq" "live_session now rq st = Some e"
    "PostFormValue rq ''csrf'' = ss_csrf e" by (auto simp: csrf_ok_def)
  then obtain sess st1 where l: "sessionFromRequest now rq st = (Some sess, st1)"
    by (fastforce simp: live_session_def sessionFromRequest_get session_get_Some split: option.splits if_splits)
  with assms(2) have again: "sessionFromRequest now rq st1 = (Some sess, st1)" by (simp add: sessionFromRequest_again)
  from lookup_keeps_live [OF l] e have "PostFormValue rq ''csrf'' = ss_csrf sess" by simp
  with l again e(1) have "requireSession now (requireCSRF now (with_session now h)) rq st = h sess rq st1" for h
    by (simp add: requireSession_def requireCSRF_def with_session_def)
  with l sessionFromRequest_beyond [OF l] show thesis by (intro that) auto
qed

end
