(* ===== verification/Store_Load.thy ===== *)
theory Store_Load
  imports Go_Strconv "HOL-Library.Multiset"
begin

text \<open>
  \<open>loadMigrations\<close> of \<open>internal/store/migrate.go\<close>: the embedded directory read into a list of
  migrations.  A directory entry is a name and whether it is a directory; the text of a file is
  not kept, because \<open>Store_Migrate\<close> writes out what it does.
\<close>

section \<open>Reading a version\<close>

text \<open>
  \<open>fmt.Sscanf(name, "%03d_", &version)\<close>: blanks are skipped, then a sign and digits are read, three
  characters of them at most, and an underscore must follow; what comes after it is not looked
  at.  (The name of an embedded file holds no white space but blanks.)
\<close>

definition read_sign :: "string \<Rightarrow> int \<times> string" where
  "read_sign s =
     (case s of
        c # cs \<Rightarrow> if c = CHR ''-'' then (- 1, cs) else if c = CHR ''+'' then (1, cs) else (1, s)
      | [] \<Rightarrow> (1, s))"

definition scan_version :: "string \<Rightarrow> int option" where
  "scan_version name =
     (let s = dropWhile (\<lambda>c. c = CHR '' '') name; (sign, r) = read_sign s;
          ds = takeWhile is_digit (take (3 - (length s - length r)) r); rest = drop (length ds) r in
      case read_nat ds of
        None \<Rightarrow> None
      | Some v \<Rightarrow> if take 1 rest = ''_'' then Some (sign * int v) else None)"

section \<open>Reading the directory\<close>

record migration =
  mg_version :: int
  mg_name :: string

record dir_entry =
  de_name :: string
  de_dir :: bool

datatype load_failure = NoMigrationsDir | BadVersion string | UnreadableMigration string

text \<open>\<open>io\<close> says which reads fail: the directory's (0), and then each file's.\<close>

fun load_entries :: "dir_entry list \<Rightarrow> (nat \<Rightarrow> bool) \<Rightarrow> nat \<Rightarrow> load_failure + migration list" where
  "load_entries [] io i = Inr []"
| "load_entries (e # es) io i =
     (if de_dir e then load_entries es io i
      else case scan_version (de_name e) of
             None \<Rightarrow> Inl (BadVersion (de_name e))
           | Some v \<Rightarrow>
               (if io i then Inl (UnreadableMigration (de_name e))
                else case load_entries es io (Suc i) of
                       Inl f \<Rightarrow> Inl f
                     | Inr ms \<Rightarrow> Inr (\<lparr>mg_version = v, mg_name = de_name e\<rparr> # ms)))"

text \<open>\<open>sort.Slice\<close> leaves the order of equal versions open; here they keep their order.\<close>

definition loadMigrations :: "dir_entry list \<Rightarrow> (nat \<Rightarrow> bool) \<Rightarrow> load_failure + migration list" where
  "loadMigrations entries io =
     (if io 0 then Inl NoMigrationsDir
      else case load_entries entries io 1 of
             Inl f \<Rightarrow> Inl f
           | Inr ms \<Rightarrow> Inr (sort_key mg_version ms))"

section \<open>What is loaded\<close>

text \<open>The files in the directory with the versions their names begin with.\<close>

definition entry_of :: "dir_entry \<Rightarrow> migration" where
  "entry_of e = \<lparr>mg_version = the (scan_version (de_name e)), mg_name = de_name e\<rparr>"

lemma load_entries_ok:
  "load_entries es io i = Inr ms \<longleftrightarrow>
     ms = map entry_of (filter (\<lambda>e. \<not> de_dir e) es) \<and> (\<forall>e \<in> set es. de_dir e \<or> scan_version (de_name e) \<noteq> None) \<and>
     (\<forall>k < length (filter (\<lambda>e. \<not> de_dir e) es). \<not> io (i + k))"
proof (induction es arbitrary: i ms)
  case (Cons e es)
  have split: "(\<forall>k < Suc n. \<not> io (i + k)) \<longleftrightarrow> \<not> io i \<and> (\<forall>k < n. \<not> io (Suc i + k))" for n
    by (auto simp: less_Suc_eq_0_disj)
  show ?case
  proof (cases "de_dir e")
    case True
    then show ?thesis by (simp add: Cons.IH)
  next
    case False
    then show ?thesis
      using Cons.IH [of "Suc i"] split [of "length (filter (\<lambda>e. \<not> de_dir e) es)"]
      by (auto simp: entry_of_def split: option.split sum.splits simp del: All_less_Suc All_less_Suc2)
  qed
qed auto

text \<open>Sorting cannot be told from any other sort when the versions differ.\<close>

lemma sorted_by_version_unique:
  assumes "distinct (map mg_version ms)" "mset ms' = mset ms" "sorted (map mg_version ms')"
  shows "ms' = sort_key mg_version ms"
proof -
  have "inj_on mg_version (set ms)" using assms(1) by (simp add: distinct_map)
  with assms(2,3) have "sort_key mg_version ms = ms'" by (intro sort_key_inj_key_eq) simp_all
  then show ?thesis by simp
qed

text \<open>Three characters are read at most, not exactly: shorter and signed versions load as well.\<close>

lemma short_version_loads:
  "loadMigrations [\<lparr>de_name = ''1_init.sql'', de_dir = False\<rparr>, \<lparr>de_name = ''-1_undo.sql'', de_dir = False\<rparr>] (\<lambda>_. False) =
     Inr [\<lparr>mg_version = - 1, mg_name = ''-1_undo.sql''\<rparr>, \<lparr>mg_version = 1, mg_name = ''1_init.sql''\<rparr>]"
proof -
  have "scan_version ''1_init.sql'' = Some 1" "scan_version ''-1_undo.sql'' = Some (- 1)" by code_simp+
  then show ?thesis by (simp add: loadMigrations_def)
qed

text \<open>What is loaded is the directory's files, in the order of their versions.\<close>

lemma loaded_in_order:
  assumes "loadMigrations es io = Inr ms"
  shows "sorted (map mg_version ms)" "mset (map mg_name ms) = mset (map de_name (filter (\<lambda>e. \<not> de_dir e) es))"
    "m \<in> set ms \<Longrightarrow> scan_version (mg_name m) = Some (mg_version m)"
proof -
  obtain raw where raw: "load_entries es io 1 = Inr raw" "ms = sort_key mg_version raw"
    using assms by (auto simp: loadMigrations_def split: if_splits sum.splits)
  note entries = raw(1) [unfolded load_entries_ok]
  show "sorted (map mg_version ms)" by (simp add: raw(2))
  have "mset (map mg_name ms) = mset (map mg_name raw)" by (simp add: raw(2))
  also have "map mg_name raw = map de_name (filter (\<lambda>e. \<not> de_dir e) es)"
    using entries by (simp add: entry_of_def comp_def)
  finally show "mset (map mg_name ms) = mset (map de_name (filter (\<lambda>e. \<not> de_dir e) es))" .
  show "m \<in> set ms \<Longrightarrow> scan_version (mg_name m) = Some (mg_version m)"
    using entries by (auto simp: raw(2) entry_of_def)
qed

end
