(* ===== verification/Store_Migrate.thy ===== *)
theory Store_Migrate
  imports Store_Targets Store_Catalog Store_Settings Store_Load Web_Base
begin

text \<open>
  \<open>internal/store/migrate.go\<close> and \<open>Open\<close> of \<open>internal/store/store.go\<close>: bringing a database
  up to date at every start.  The tables of the model always exist; what a migration does to
  the rows is written out from \<open>internal/store/migrations\<close>.  A stage takes its own faults.

  SQLite fills the bare columns of a \<open>GROUP BY\<close> from one row of the group, which it does not
  promise: \<open>pick\<close> is its choice.
\<close>

section \<open>Migrations\<close>

text \<open>The embedded directory, and what \<open>loadMigrations\<close> makes of it.\<close>

definition migrationFS :: "dir_entry list" where
  "migrationFS = [\<lparr>de_name = ''001_init.sql'', de_dir = False\<rparr>, \<lparr>de_name = ''002_catalog.sql'', de_dir = False\<rparr>]"

definition migrations :: "migration list" where
  "migrations = [\<lparr>mg_version = 1, mg_name = ''001_init.sql''\<rparr>, \<lparr>mg_version = 2, mg_name = ''002_catalog.sql''\<rparr>]"

lemma embedded_versions: "scan_version ''001_init.sql'' = Some 1" "scan_version ''002_catalog.sql'' = Some 2"
  by code_simp+

lemma load_embedded [simp]: "loadMigrations migrationFS no_faults = Inr migrations"
  by (simp add: loadMigrations_def migrationFS_def migrations_def embedded_versions)

lemma load_embedded_only [dest!]: "loadMigrations migrationFS io = Inr ms \<Longrightarrow> ms = migrations"
  by (auto simp: loadMigrations_def migrationFS_def migrations_def embedded_versions split: if_splits)

text \<open>The first only creates tables; the second adds two columns to the probes, with their defaults.\<close>

definition run_sql :: "int \<Rightarrow> db \<Rightarrow> db" where
  "run_sql v d =
     (if v = 2 then d\<lparr>db_probes := map (\<lambda>r. r\<lparr>pr_rotated_at := 0, pr_created_via := ''admin''\<rparr>) (db_probes d)\<rparr>
      else d)"

text \<open>
  Begin, run, record and commit, for every version not yet recorded.  The versions on record are
  read once, before the loop; a version is the primary key of its record.
\<close>

fun apply_migrations :: "migration list \<Rightarrow> int list \<Rightarrow> nat \<Rightarrow> faults \<Rightarrow> db \<Rightarrow> (store_error + unit) \<times> db" where
  "apply_migrations [] applied i io d = (Inr (), d)"
| "apply_migrations (m # ms) applied i io d =
     (if mg_version m \<in> set applied then apply_migrations ms applied i io d
      else if io i \<or> io (i + 1) \<or> io (i + 2) \<or> mg_version m \<in> set (db_versions d) \<or> io (i + 3) then (Inl ErrDB, d)
      else apply_migrations ms applied (i + 4) io
             ((run_sql (mg_version m) d)\<lparr>db_versions := db_versions d @ [mg_version m]\<rparr>))"

section \<open>The catalog of an older database\<close>

definition group_rows :: "(probe_row list \<Rightarrow> probe_row) \<Rightarrow> (probe_row \<Rightarrow> string) \<Rightarrow> probe_row list \<Rightarrow> probe_row list" where
  "group_rows pick key rows = map (\<lambda>k. pick (filter (\<lambda>r. key r = k) rows)) (sort (remdups (map key rows)))"

definition backfill_campuses :: "(probe_row list \<Rightarrow> probe_row) \<Rightarrow> int \<Rightarrow> db \<Rightarrow> campus_row list" where
  "backfill_campuses pick now d =
     filter (\<lambda>c. cr_code c \<notin> cr_code ` set (db_campuses d))
       (map (\<lambda>r. \<lparr>cr_code = pr_campus_code r, cr_name = pr_campus_name r, cr_created_at = unix_seconds now,
                  cr_updated_at = unix_seconds now\<rparr>) (group_rows pick pr_campus_code (db_probes d)))"

definition backfill_buildings :: "(probe_row list \<Rightarrow> probe_row) \<Rightarrow> int \<Rightarrow> db \<Rightarrow> building_row list" where
  "backfill_buildings pick now d =
     filter (\<lambda>b. br_code b \<notin> br_code ` set (db_buildings d))
       (map (\<lambda>r. \<lparr>br_code = pr_building_code r, br_campus_code = pr_campus_code r,
                  br_group_code = pr_building_group_code r, br_group_name = pr_building_group_name r,
                  br_name = pr_building_name r, br_created_at = unix_seconds now, br_updated_at = unix_seconds now\<rparr>)
          (group_rows pick pr_building_code (db_probes d)))"

text \<open>Count, begin, insert the campuses, insert the buildings (under their foreign key), commit.\<close>

definition backfillCatalog :: "(probe_row list \<Rightarrow> probe_row) \<Rightarrow> int \<Rightarrow> faults \<Rightarrow> db \<Rightarrow> (store_error + unit) \<times> db" where
  "backfillCatalog pick now io d =
     (if io 0 then (Inl ErrDB, d)
      else if db_campuses d \<noteq> [] then (Inr (), d)
      else if io 1 \<or> io 2 \<or> io 3 then (Inl ErrDB, d)
      else
        (let campuses = db_campuses d @ backfill_campuses pick now d; buildings = backfill_buildings pick now d in
         if \<exists>b \<in> set buildings. br_campus_code b \<notin> cr_code ` set campuses then (Inl ErrDB, d)
         else if io 4 then (Inl ErrDB, d)
         else (Inr (), d\<lparr>db_campuses := campuses, db_buildings := db_buildings d @ buildings\<rparr>)))"

section \<open>The default targets\<close>

definition name_campus_dns :: string where
  "name_campus_dns = text_bytes
    [230, 160, 161, 229, 155, 173, 32, 68, 78, 83]"

definition desc_campus_dns :: string where
  "desc_campus_dns = text_bytes
    [229, 156, 176, 229, 157, 128, 229, 190, 133, 231, 174, 161, 231, 144, 134, 229, 145, 152, 229,
     161, 171, 229, 134, 153]"

definition name_aliyun_dns :: string where
  "name_aliyun_dns = text_bytes
    [233, 152, 191, 233, 135, 140, 32, 68, 78, 83]"

definition name_cqu_mirror :: string where
  "name_cqu_mirror = text_bytes
    [67, 81, 85, 32, 233, 149, 156, 229, 131, 143, 231, 171, 153]"

definition default_target :: "string \<Rightarrow> string \<Rightarrow> string \<Rightarrow> string list \<Rightarrow> string \<Rightarrow> target" where
  "default_target tid name address types description =
     \<lparr>t_ID = 0, t_TargetID = tid, t_DisplayName = name, t_Address = address, t_Description = description,
      t_Enabled = True, t_ProbeTypes = types, t_CreatedAt = None, t_UpdatedAt = None\<rparr>"

definition defaultTargets :: "target list" where
  "defaultTargets =
     [default_target ''campus_dns'' name_campus_dns [] [ProbeICMP, ProbeDNS] desc_campus_dns,
      default_target ''aliyun_dns'' name_aliyun_dns ''223.5.5.5'' [ProbeICMP] [],
      default_target ''dnspod_dns'' ''DNSPod DNS'' ''119.29.29.29'' [ProbeICMP] [],
      default_target ''cloudflare_dns'' ''Cloudflare DNS'' ''1.1.1.1'' [ProbeICMP] [],
      default_target ''cqu_mirror'' name_cqu_mirror ''https://mirrors.cqu.edu.cn/'' [ProbeHTTP] []]"

fun create_all :: "int \<Rightarrow> target list \<Rightarrow> nat \<Rightarrow> faults \<Rightarrow> db \<Rightarrow> store_error + (nat \<times> db)" where
  "create_all now [] i io d = Inr (i, d)"
| "create_all now (t # ts) i io d =
     (case createTargetTx now t i io d of Inl e \<Rightarrow> Inl e | Inr (j, d') \<Rightarrow> create_all now ts j io d')"

definition seed :: "int \<Rightarrow> faults \<Rightarrow> db \<Rightarrow> (store_error + unit) \<times> db" where
  "seed now io d =
     (if io 0 then (Inl ErrDB, d)
      else if db_targets d \<noteq> [] then (Inr (), d)
      else if io 1 then (Inl ErrDB, d)
      else commit_tx io d (create_all now defaultTargets 2 io d))"

section \<open>Opening the store\<close>

text \<open>The bookkeeping table, its rows and the embedded files are \<open>io 0\<close>, then one fault function per stage.\<close>

definition migrate :: "(probe_row list \<Rightarrow> probe_row) \<Rightarrow> int \<Rightarrow> (nat \<Rightarrow> faults) \<Rightarrow> db \<Rightarrow> (store_error + unit) \<times> db" where
  "migrate pick now io d =
     (if io 0 0 \<or> io 0 1 then (Inl ErrDB, d)
      else case loadMigrations migrationFS (\<lambda>k. io 0 (k + 2)) of
             Inl _ \<Rightarrow> (Inl ErrDB, d)
           | Inr ms \<Rightarrow>
               (case apply_migrations ms (db_versions d) 0 (io 1) d of
                  (Inl e, d) \<Rightarrow> (Inl e, d)
                | (Inr _, d) \<Rightarrow>
                    (case backfillCatalog pick now (io 2) d of
                       (Inl e, d) \<Rightarrow> (Inl e, d)
                     | (Inr _, d) \<Rightarrow> seed now (io 3) d)))"

definition store_Open :: "(probe_row list \<Rightarrow> probe_row) \<Rightarrow> int \<Rightarrow> bool \<Rightarrow> (nat \<Rightarrow> faults) \<Rightarrow> db \<Rightarrow>
    (store_error + unit) \<times> db" where
  "store_Open pick now ping_fails io d = (if ping_fails then (Inl ErrDB, d) else migrate pick now io d)"

section \<open>Every stage is all or nothing\<close>

lemma insertProbeTypes_no_faults:
  "insertProbeTypes tid pts seen i io d = Inr r \<Longrightarrow> insertProbeTypes tid pts seen i no_faults d = Inr r"
  by (induction tid pts seen i io d rule: insertProbeTypes.induct) (auto split: if_splits)

lemma create_all_no_faults: "create_all now ts i io d = Inr r \<Longrightarrow> create_all now ts i no_faults d = Inr r"
proof (induction now ts i io d rule: create_all.induct)
  case (2 now t ts i io d)
  then obtain j d1 where c: "createTargetTx now t i io d = Inr (j, d1)" by (auto split: sum.splits)
  then have "createTargetTx now t i no_faults d = Inr (j, d1)"
    by (auto simp: createTargetTx_def Let_def insertProbeTypes_no_faults split: if_splits)
  with 2 c show ?case by simp
qed simp

lemma insertProbeTypes_keeps:
  "insertProbeTypes tid pts seen i io d = Inr (j, d') \<Longrightarrow> db_targets d' = db_targets d \<and>
     db_versions d' = db_versions d \<and> db_campuses d' = db_campuses d \<and> db_probes d' = db_probes d \<and>
     db_buildings d' = db_buildings d \<and> db_settings d' = db_settings d \<and> db_probe_seq d' = db_probe_seq d"
  by (induction tid pts seen i io d rule: insertProbeTypes.induct) (auto split: if_splits)

text \<open>What the seeding leaves alone.\<close>

definition same_but_targets :: "db \<Rightarrow> db \<Rightarrow> bool" where
  "same_but_targets d d' \<longleftrightarrow> db_versions d' = db_versions d \<and> db_campuses d' = db_campuses d \<and>
     db_probes d' = db_probes d \<and> db_buildings d' = db_buildings d \<and> db_settings d' = db_settings d \<and>
     db_probe_seq d' = db_probe_seq d"

lemma createTargetTx_keeps:
  "createTargetTx now t i io d = Inr (j, d') \<Longrightarrow> db_targets d' \<noteq> [] \<and> same_but_targets d d'"
  by (auto simp: createTargetTx_def Let_def same_but_targets_def dest!: insertProbeTypes_keeps split: if_splits)

lemma create_all_keeps:
  "create_all now ts i io d = Inr (j, d') \<Longrightarrow> ts \<noteq> [] \<or> db_targets d \<noteq> [] \<Longrightarrow>
   db_targets d' \<noteq> [] \<and> same_but_targets d d'"
proof (induction now ts i io d rule: create_all.induct)
  case (1 now i io d)
  then show ?case by (simp add: same_but_targets_def)
next
  case (2 now t ts i io d)
  from "2.prems"(1) obtain k d1 where c: "createTargetTx now t i io d = Inr (k, d1)" "create_all now ts k io d1 = Inr (j, d')"
    by (auto split: sum.splits)
  from createTargetTx_keeps [OF c(1)] "2.IH" [OF c(1) refl c(2)] show ?case by (simp add: same_but_targets_def)
qed

lemma create_all_inv:
  "create_all now ts i io d = Inr (j, d') \<Longrightarrow> targets_inv d \<Longrightarrow> targets_inv d'"
  by (induction now ts i io d rule: create_all.induct) (auto dest: createTargetTx_inv split: sum.splits)

lemma defaultTargets_nonempty: "defaultTargets \<noteq> []"
  by (simp add: defaultTargets_def)

section \<open>A start resumes where the last one stopped\<close>

lemma migrations_resume:
  assumes "apply_migrations migrations (db_versions d) 0 io d = (r, d1)"
  shows "apply_migrations migrations (db_versions d1) 0 no_faults d1 = apply_migrations migrations (db_versions d) 0 no_faults d"
    "r = Inr () \<Longrightarrow> apply_migrations migrations (db_versions d) 0 no_faults d = (Inr (), d1)"
    "r = Inr () \<Longrightarrow> {1, 2} \<subseteq> set (db_versions d1)"
  using assms by (auto simp: migrations_def run_sql_def split: if_splits)

lemma migrations_done:
  "{1, 2} \<subseteq> set (db_versions d) \<Longrightarrow> apply_migrations migrations (db_versions d) 0 io d = (Inr (), d)"
  by (simp add: migrations_def)

text \<open>Nothing to backfill: there is a catalog, or nothing to make one from.\<close>

definition settled :: "db \<Rightarrow> bool" where
  "settled d \<longleftrightarrow> db_campuses d \<noteq> [] \<or> db_probes d = []"

lemma group_rows_empty: "group_rows pick key rows = [] \<longleftrightarrow> rows = []"
  by (simp add: group_rows_def) (metis map_is_Nil_conv remdups_eq_nil_iff set_empty set_sort)

lemma backfill_settled: "settled d \<Longrightarrow> backfillCatalog pick now no_faults d = (Inr (), d)"
  by (auto simp: settled_def backfillCatalog_def backfill_campuses_def backfill_buildings_def group_rows_def)

lemma backfill_resume:
  assumes "backfillCatalog pick now io d = (r, d1)"
  shows "backfillCatalog pick now no_faults d1 = backfillCatalog pick now no_faults d"
    "r = Inr () \<Longrightarrow> backfillCatalog pick now no_faults d = (Inr (), d1)"
    "r = Inr () \<Longrightarrow> settled d1" "db_versions d1 = db_versions d"
proof -
  show ok: "backfillCatalog pick now no_faults d = (Inr (), d1)" if "r = Inr ()"
    using assms that by (auto simp: backfillCatalog_def Let_def split: if_splits)
  show settled: "settled d1" if "r = Inr ()"
    using assms that by (auto simp: backfillCatalog_def Let_def settled_def backfill_campuses_def group_rows_empty split: if_splits)
  have "r \<noteq> Inr () \<Longrightarrow> d1 = d" using assms by (auto simp: backfillCatalog_def Let_def split: if_splits)
  with ok backfill_settled [OF settled]
  show "backfillCatalog pick now no_faults d1 = backfillCatalog pick now no_faults d" by (cases "r = Inr ()") auto
  show "db_versions d1 = db_versions d" using assms by (auto simp: backfillCatalog_def Let_def split: if_splits)
qed

lemma seed_resume:
  assumes "seed now io d = (r, d1)"
  shows "seed now no_faults d1 = seed now no_faults d" "r = Inr () \<Longrightarrow> db_targets d1 \<noteq> []" "same_but_targets d d1"
proof -
  have err: "d1 = d" if "r \<noteq> Inr ()"
    using assms that by (auto simp: seed_def dest: commit_tx_error split: if_splits) (metis (full_types) commit_tx_error old.unit.exhaust sum.exhaust)
  have ok: "db_targets d \<noteq> [] \<and> d1 = d \<or> (\<exists>i. create_all now defaultTargets 2 io d = Inr (i, d1)) \<and> db_targets d = []" if "r = Inr ()"
    using assms that by (auto simp: seed_def commit_tx_ok split: if_splits)
  show ne: "db_targets d1 \<noteq> []" if "r = Inr ()"
    using ok [OF that] create_all_keeps defaultTargets_nonempty by blast
  show "same_but_targets d d1"
    using err ok create_all_keeps [of now defaultTargets 2 io d _ d1] defaultTargets_nonempty
    by (cases "r = Inr ()") (auto simp: same_but_targets_def)
  show "seed now no_faults d1 = seed now no_faults d"
  proof (cases "r = Inr ()")
    case True
    have "seed now no_faults d = (Inr (), d1)"
      using ok [OF True] create_all_no_faults [of now defaultTargets 2 io d] by (auto simp: seed_def commit_tx_def)
    with ne [OF True] show ?thesis by (simp add: seed_def)
  qed (simp add: err)
qed

lemma settled_same: "same_but_targets d d' \<Longrightarrow> settled d' \<longleftrightarrow> settled d"
  by (simp add: same_but_targets_def settled_def)

text \<open>After any interrupted start, a start without faults ends where it would have ended before.\<close>

lemma migrate_cases:
  assumes "migrate pick now io d = (r, d1)"
  obtains (early) "d1 = d" "r \<noteq> Inr ()"
  | (migrations) e where "apply_migrations migrations (db_versions d) 0 (io 1) d = (Inl e, d1)" "r = Inl e"
  | (backfill) e d2 where "apply_migrations migrations (db_versions d) 0 (io 1) d = (Inr (), d2)"
      "backfillCatalog pick now (io 2) d2 = (Inl e, d1)" "r = Inl e"
  | (seed) d2 d3 where "apply_migrations migrations (db_versions d) 0 (io 1) d = (Inr (), d2)"
      "backfillCatalog pick now (io 2) d2 = (Inr (), d3)" "seed now (io 3) d3 = (r, d1)"
  using assms by (auto simp: migrate_def split: if_splits prod.splits sum.splits)

lemma migrate_stages:
  "migrate pick now (\<lambda>_. no_faults) d =
     (case apply_migrations migrations (db_versions d) 0 no_faults d of
        (Inl e, d) \<Rightarrow> (Inl e, d)
      | (Inr _, d) \<Rightarrow> (case backfillCatalog pick now no_faults d of
          (Inl e, d) \<Rightarrow> (Inl e, d) | (Inr _, d) \<Rightarrow> seed now no_faults d))"
  by (simp add: migrate_def)

lemma migrate_resumes:
  assumes "migrate pick now io d = (r, d1)"
  shows "migrate pick now (\<lambda>_. no_faults) d1 = migrate pick now (\<lambda>_. no_faults) d"
  using assms
proof (cases rule: migrate_cases)
  case (migrations e)
  show ?thesis by (simp add: migrate_stages migrations_resume(1) [OF migrations(1)])
next
  case (backfill e d2)
  note m = migrations_resume [OF backfill(1)] and b = backfill_resume [OF backfill(2)]
  have "{1, 2} \<subseteq> set (db_versions d1)" using m(3) b(4) by simp
  then show ?thesis by (simp add: migrate_stages m(2) migrations_done b(1))
next
  case (seed d2 d3)
  note m = migrations_resume [OF seed(1)] and b = backfill_resume [OF seed(2)] and s = seed_resume [OF seed(3)]
  have v: "{1, 2} \<subseteq> set (db_versions d1)" using m(3) b(4) s(3) by (simp add: same_but_targets_def)
  have "settled d1" using b(3) s(3) settled_same by blast
  with v show ?thesis by (simp add: migrate_stages m(2) b(2) migrations_done backfill_settled s(1))
qed simp

lemma migrate_done:
  assumes "migrate pick now io d = (Inr (), d1)"
  shows "migrate pick' now' (\<lambda>_. no_faults) d1 = (Inr (), d1)" "{1, 2} \<subseteq> set (db_versions d1)" "db_targets d1 \<noteq> []" "settled d1"
proof -
  from assms obtain d2 d3 where seed: "apply_migrations migrations (db_versions d) 0 (io 1) d = (Inr (), d2)"
    "backfillCatalog pick now (io 2) d2 = (Inr (), d3)" "seed now (io 3) d3 = (Inr (), d1)"
    by (cases rule: migrate_cases) auto
  note m = migrations_resume [OF seed(1)] and b = backfill_resume [OF seed(2)] and s = seed_resume [OF seed(3)]
  show v: "{1, 2} \<subseteq> set (db_versions d1)" using m(3) b(4) s(3) by (simp add: same_but_targets_def)
  show t: "db_targets d1 \<noteq> []" using s(2) by simp
  show st: "settled d1" using b(3) s(3) settled_same by blast
  from t have "seed now' no_faults d1 = (Inr (), d1)" by (simp add: seed_def)
  with v st show "migrate pick' now' (\<lambda>_. no_faults) d1 = (Inr (), d1)"
    by (simp add: migrate_stages migrations_done backfill_settled)
qed

section \<open>The constraints hold throughout\<close>

text \<open>What SQLite does promise of a group's bare columns.\<close>

definition picks :: "(probe_row list \<Rightarrow> probe_row) \<Rightarrow> bool" where
  "picks pick \<longleftrightarrow> (\<forall>rows. rows \<noteq> [] \<longrightarrow> pick rows \<in> set rows)"

lemma group_rows_keys:
  assumes "picks pick"
  shows "map key (group_rows pick key rows) = sort (remdups (map key rows))" "set (group_rows pick key rows) \<subseteq> set rows"
proof -
  have p: "key (pick (filter (\<lambda>r. key r = k) rows)) = k \<and> pick (filter (\<lambda>r. key r = k) rows) \<in> set rows" if "k \<in> key ` set rows" for k
  proof -
    have "filter (\<lambda>r. key r = k) rows \<noteq> []" using that by (auto simp: filter_empty_conv)
    then have "pick (filter (\<lambda>r. key r = k) rows) \<in> set (filter (\<lambda>r. key r = k) rows)"
      using assms unfolding picks_def by blast
    then show ?thesis by auto
  qed
  show "map key (group_rows pick key rows) = sort (remdups (map key rows))"
    unfolding group_rows_def map_map by (rule map_idI) (use p in auto)
  show "set (group_rows pick key rows) \<subseteq> set rows" using p by (auto simp: group_rows_def)
qed

lemma apply_migrations_inv: "store_inv d \<Longrightarrow> store_inv (snd (apply_migrations ms applied i io d))"
proof (induction ms applied i io d rule: apply_migrations.induct)
  case (2 m ms applied i io d)
  have "store_inv ((run_sql (mg_version m) d)\<lparr>db_versions := db_versions d @ [mg_version m]\<rparr>)"
    using "2.prems" by (auto simp: store_inv_defs run_sql_def comp_def)
  with 2 show ?case by simp
qed simp

lemma seed_inv: "store_inv d \<Longrightarrow> store_inv (snd (seed now io d))"
  using seed_resume(3) [of now io d "fst (seed now io d)" "snd (seed now io d)"]
  by (auto simp: store_inv_def probes_inv_def catalog_inv_def settings_inv_def same_but_targets_def seed_def commit_tx_def
      dest: create_all_inv split: sum.splits prod.splits)

lemma distinct_append_new:
  assumes "distinct (map f ys)" "distinct (map f xs)"
  shows "distinct (map f (ys @ filter (\<lambda>x. f x \<notin> f ` set ys) xs))"
proof -
  have "f ` set ys \<inter> f ` set (filter (\<lambda>x. f x \<notin> f ` set ys) xs) = {}" by (auto, metis image_eqI)
  with assms show ?thesis by (simp add: distinct_map_filter)
qed

lemma backfill_inv:
  assumes "picks pick" "store_inv d"
  shows "store_inv (snd (backfillCatalog pick now io d))"
proof -
  have c: "map cr_code (map (\<lambda>r. \<lparr>cr_code = pr_campus_code r, cr_name = pr_campus_name r, cr_created_at = s,
      cr_updated_at = s\<rparr>) (group_rows pick pr_campus_code (db_probes d))) = map pr_campus_code (group_rows pick pr_campus_code (db_probes d))" for s
    by (simp add: comp_def)
  have b: "map br_code (map (\<lambda>r. \<lparr>br_code = pr_building_code r, br_campus_code = pr_campus_code r,
      br_group_code = pr_building_group_code r, br_group_name = pr_building_group_name r,
      br_name = pr_building_name r, br_created_at = s, br_updated_at = s\<rparr>) (group_rows pick pr_building_code (db_probes d))) =
      map pr_building_code (group_rows pick pr_building_code (db_probes d))" for s
    by (simp add: comp_def)
  have dc: "distinct (map cr_code (db_campuses d @ backfill_campuses pick now d))" unfolding backfill_campuses_def
    by (rule distinct_append_new, use assms(2) in \<open>simp add: store_inv_defs\<close>)
      (simp only: c group_rows_keys(1) [OF assms(1)], simp)
  have db: "distinct (map br_code (db_buildings d @ backfill_buildings pick now d))" unfolding backfill_buildings_def
    by (rule distinct_append_new, use assms(2) in \<open>simp add: store_inv_defs\<close>)
      (simp only: b group_rows_keys(1) [OF assms(1)], simp)
  from assms(2) dc db show ?thesis
    by (auto simp: backfillCatalog_def Let_def store_inv_def probes_inv_def targets_inv_def catalog_inv_def settings_inv_def)
qed

lemma migrate_inv:
  assumes "picks pick" "store_inv d"
  shows "store_inv (snd (migrate pick now io d))"
  using assms by (auto simp: migrate_def dest: apply_migrations_inv [of d migrations "db_versions d" 0 "io 1"]
      split: prod.split sum.split) (metis apply_migrations_inv backfill_inv seed_inv snd_conv)+

text \<open>An upgraded gateway offers every location a probe already has.\<close>

lemma backfill_places:
  assumes "picks pick" "db_campuses d = []" "db_buildings d = []" "backfillCatalog pick now io d = (Inr (), d')"
  shows "probes_placed d'"
proof -
  have c: "cr_code ` set (backfill_campuses pick now d) = pr_campus_code ` set (db_probes d)"
    using group_rows_keys(1) [OF assms(1), of pr_campus_code "db_probes d"] assms(2)
    by (simp add: backfill_campuses_def image_image) (metis image_set set_remdups set_sort)
  have b: "br_code ` set (backfill_buildings pick now d) = pr_building_code ` set (db_probes d)"
    using group_rows_keys(1) [OF assms(1), of pr_building_code "db_probes d"] assms(3)
    by (simp add: backfill_buildings_def image_image) (metis image_set set_remdups set_sort)
  from assms c b show ?thesis by (auto simp: probes_placed_def backfillCatalog_def Let_def split: if_splits)
qed

lemma backfill_keeps_placed:
  assumes "picks pick" "probes_placed d \<or> db_campuses d = [] \<and> db_buildings d = []"
    "backfillCatalog pick now io d = (Inr u, d')"
  shows "probes_placed d'"
proof (cases "db_campuses d = [] \<and> db_buildings d = []")
  case True
  with backfill_places [OF assms(1), of d now io d'] assms(3) show ?thesis by simp
next
  case False
  with assms(2) have placed: "probes_placed d" by blast
  show ?thesis
  proof (cases "db_campuses d = []")
    case True
    with placed have "db_probes d = []" by (cases "db_probes d") (auto simp: probes_placed_def)
    with assms(3) have "db_probes d' = []" by (auto simp: backfillCatalog_def Let_def split: if_splits)
    then show ?thesis by (simp add: probes_placed_def)
  next
    case False
    with assms(3) placed show ?thesis by (auto simp: backfillCatalog_def split: if_splits)
  qed
qed

lemma run_sql_placed:
  "db_campuses (run_sql v d) = db_campuses d" "db_buildings (run_sql v d) = db_buildings d"
  "probes_placed ((run_sql v d)\<lparr>db_versions := vs\<rparr>) \<longleftrightarrow> probes_placed d"
  by (simp_all add: run_sql_def probes_placed_def)

lemma migrations_keep_placed:
  "apply_migrations ms applied i io d = (r, d') \<Longrightarrow> db_campuses d' = db_campuses d \<and> db_buildings d' = db_buildings d \<and>
     (probes_placed d' \<longleftrightarrow> probes_placed d)"
proof (induction ms applied i io d rule: apply_migrations.induct)
  case (2 m ms applied i io d)
  show ?case
  proof (cases "mg_version m \<notin> set applied \<and> \<not> (io i \<or> io (i + 1) \<or> io (i + 2) \<or> mg_version m \<in> set (db_versions d) \<or> io (i + 3))")
    case True
    with "2.prems" "2.IH"(2) show ?thesis by (simp add: run_sql_placed)
  next
    case False
    with "2.prems" "2.IH"(1) show ?thesis by (simp split: if_splits)
  qed
qed simp

text \<open>A database that opens has every probe in the catalog, if it had or if it had no catalog.\<close>

lemma migrate_placed:
  assumes "picks pick" "probes_placed d \<or> db_campuses d = [] \<and> db_buildings d = []"
    "migrate pick now io d = (Inr u, d1)"
  shows "probes_placed d1"
proof -
  from assms(3) obtain d2 d3 where stages: "apply_migrations migrations (db_versions d) 0 (io 1) d = (Inr (), d2)"
    "backfillCatalog pick now (io 2) d2 = (Inr (), d3)" "seed now (io 3) d3 = (Inr u, d1)"
    by (cases rule: migrate_cases) auto
  have "probes_placed d2 \<or> db_campuses d2 = [] \<and> db_buildings d2 = []"
    using migrations_keep_placed [OF stages(1)] assms(2) by simp
  then have "probes_placed d3" by (rule backfill_keeps_placed [OF assms(1) _ stages(2)])
  with seed_resume(3) [OF stages(3)] show ?thesis by (simp add: same_but_targets_def probes_placed_def)
qed

end
