(* ===== verification/Store_Ops.thy ===== *)
theory Store_Ops
  imports Store_Migrate
begin

text \<open>
  What can happen to the database: the store's operations as a step relation.  The servers
  change the database through these operations only, so an invariant of every step is one of
  the program.  A probe is created for a location of the catalog, which is what both creating
  handlers check.
\<close>

inductive store_op :: "db \<Rightarrow> db \<Rightarrow> bool" where
  create_probe: "p_CampusCode p \<in> cr_code ` set (db_campuses d) \<Longrightarrow> p_BuildingCode p \<in> br_code ` set (db_buildings d) \<Longrightarrow>
     store_op d (snd (CreateProbe now p io d))"
| set_enabled: "store_op d (snd (SetProbeEnabled now pid b io d))"
| update_token: "store_op d (snd (UpdateProbeToken now pid hash io d))"
| delete_probe: "store_op d (snd (DeleteProbe pid io d))"
| create_target: "store_op d (snd (CreateTarget now t io d))"
| update_target: "store_op d (snd (UpdateTarget now t io d))"
| delete_target: "store_op d (snd (DeleteTarget tid io d))"
| create_campus: "store_op d (snd (CreateCampus now c io d))"
| rename_campus: "store_op d (snd (UpdateCampusName now cd name io d))"
| delete_campus: "store_op d (snd (DeleteCampus cd io d))"
| create_building: "store_op d (snd (CreateBuilding now b io d))"
| update_building: "store_op d (snd (UpdateBuilding now b io d))"
| delete_building: "store_op d (snd (DeleteBuilding cd io d))"
| save_parameters: "store_op d (snd (SetMeasurementConfig now cfg io d))"
| reset_parameters: "store_op d (snd (ResetMeasurementConfig io d))"

abbreviation store_ops :: "db \<Rightarrow> db \<Rightarrow> bool" where
  "store_ops \<equiv> store_op\<^sup>*\<^sup>*"

section \<open>What an operation leaves alone\<close>

named_theorems store_frame \<open>the tables an operation does not touch\<close>

definition same_catalog :: "db \<Rightarrow> db \<Rightarrow> bool" where
  "same_catalog d d' \<longleftrightarrow> db_campuses d' = db_campuses d \<and> db_buildings d' = db_buildings d"

definition same_probes :: "db \<Rightarrow> db \<Rightarrow> bool" where
  "same_probes d d' \<longleftrightarrow> db_probes d' = db_probes d \<and> db_probe_seq d' = db_probe_seq d"

definition same_targets :: "db \<Rightarrow> db \<Rightarrow> bool" where
  "same_targets d d' \<longleftrightarrow> db_targets d' = db_targets d \<and> db_target_seq d' = db_target_seq d \<and> db_types d' = db_types d"

definition same_settings :: "db \<Rightarrow> db \<Rightarrow> bool" where
  "same_settings d d' \<longleftrightarrow> db_settings d' = db_settings d"

lemmas same_defs = same_catalog_def same_probes_def same_targets_def same_settings_def

lemma inv_from_same:
  "same_probes d d' \<Longrightarrow> probes_inv d \<Longrightarrow> probes_inv d'" "same_targets d d' \<Longrightarrow> targets_inv d \<Longrightarrow> targets_inv d'"
  "same_catalog d d' \<Longrightarrow> catalog_inv d \<Longrightarrow> catalog_inv d'" "same_settings d d' \<Longrightarrow> settings_inv d \<Longrightarrow> settings_inv d'"
  by (simp_all add: same_defs probes_inv_def targets_inv_def catalog_inv_def settings_inv_def)

lemma probe_ops_frame [store_frame]:
  "same_catalog d (snd (CreateProbe now p io d))" "same_targets d (snd (CreateProbe now p io d))" "same_settings d (snd (CreateProbe now p io d))"
  "same_catalog d (snd (SetProbeEnabled now pid b io d))" "same_targets d (snd (SetProbeEnabled now pid b io d))" "same_settings d (snd (SetProbeEnabled now pid b io d))"
  "same_catalog d (snd (UpdateProbeToken now pid h io d))" "same_targets d (snd (UpdateProbeToken now pid h io d))" "same_settings d (snd (UpdateProbeToken now pid h io d))"
  "same_catalog d (snd (DeleteProbe pid io d))" "same_targets d (snd (DeleteProbe pid io d))" "same_settings d (snd (DeleteProbe pid io d))"
  by (simp_all add: same_defs CreateProbe_def SetProbeEnabled_def UpdateProbeToken_def DeleteProbe_def Let_def split: sum.split)

lemma catalog_ops_frame [store_frame]:
  "same_probes d (snd (CreateCampus now c io d))" "same_targets d (snd (CreateCampus now c io d))" "same_settings d (snd (CreateCampus now c io d))"
  "same_probes d (snd (UpdateCampusName now cd nm io d))" "same_targets d (snd (UpdateCampusName now cd nm io d))" "same_settings d (snd (UpdateCampusName now cd nm io d))"
  "same_probes d (snd (DeleteCampus cd io d))" "same_targets d (snd (DeleteCampus cd io d))" "same_settings d (snd (DeleteCampus cd io d))"
  "same_probes d (snd (CreateBuilding now b io d))" "same_targets d (snd (CreateBuilding now b io d))" "same_settings d (snd (CreateBuilding now b io d))"
  "same_probes d (snd (UpdateBuilding now b io d))" "same_targets d (snd (UpdateBuilding now b io d))" "same_settings d (snd (UpdateBuilding now b io d))"
  "same_probes d (snd (DeleteBuilding cd io d))" "same_targets d (snd (DeleteBuilding cd io d))" "same_settings d (snd (DeleteBuilding cd io d))"
  by (simp_all add: same_defs CreateCampus_def UpdateCampusName_def DeleteCampus_def CreateBuilding_def UpdateBuilding_def
      DeleteBuilding_def Let_def split: sum.split)

lemma target_tx_frame:
  "createTargetTx now t i io d = Inr (j, d') \<Longrightarrow> same_probes d d' \<and> same_catalog d d' \<and> same_settings d d'"
  "update_target_tx now t io d = Inr (j, d') \<Longrightarrow> same_probes d d' \<and> same_catalog d d' \<and> same_settings d d'"
  by (auto simp: createTargetTx_def update_target_tx_def Let_def same_defs dest!: insertProbeTypes_keeps split: if_splits)

definition same_but_target_tables :: "db \<Rightarrow> db \<Rightarrow> bool" where
  "same_but_target_tables d d' \<longleftrightarrow> same_probes d d' \<and> same_catalog d d' \<and> same_settings d d'"

lemma same_refl [simp]: "same_but_target_tables d d" "same_probes d d" "same_catalog d d" "same_settings d d"
  by (simp_all add: same_but_target_tables_def same_defs)

lemma commit_tx_same:
  "(\<And>j d'. r = Inr (j, d') \<Longrightarrow> same_but_target_tables d d') \<Longrightarrow> same_but_target_tables d (snd (commit_tx io d r))"
  by (simp add: commit_tx_def split: sum.split prod.split)

lemma target_ops_same:
  "same_but_target_tables d (snd (CreateTarget now t io d))" "same_but_target_tables d (snd (UpdateTarget now t io d))"
  "same_but_target_tables d (snd (DeleteTarget tid io d))"
proof -
  have "same_but_target_tables d (snd (commit_tx io d (createTargetTx now t 1 io d)))"
    by (rule commit_tx_same) (simp add: same_but_target_tables_def target_tx_frame(1))
  then show "same_but_target_tables d (snd (CreateTarget now t io d))" by (simp add: CreateTarget_def)
  have "same_but_target_tables d (snd (commit_tx io d (update_target_tx now t io d)))"
    by (rule commit_tx_same) (simp add: same_but_target_tables_def target_tx_frame(2))
  then show "same_but_target_tables d (snd (UpdateTarget now t io d))" by (simp add: UpdateTarget_def)
  show "same_but_target_tables d (snd (DeleteTarget tid io d))"
    by (simp add: DeleteTarget_def same_but_target_tables_def same_defs)
qed

lemma target_ops_frame [store_frame]:
  "same_probes d (snd (CreateTarget now t io d))" "same_catalog d (snd (CreateTarget now t io d))" "same_settings d (snd (CreateTarget now t io d))"
  "same_probes d (snd (UpdateTarget now t io d))" "same_catalog d (snd (UpdateTarget now t io d))" "same_settings d (snd (UpdateTarget now t io d))"
  "same_probes d (snd (DeleteTarget tid io d))" "same_catalog d (snd (DeleteTarget tid io d))" "same_settings d (snd (DeleteTarget tid io d))"
  using target_ops_same unfolding same_but_target_tables_def by blast+

lemma setting_ops_frame [store_frame]:
  "same_probes d (snd (SetSetting now k v io d))" "same_catalog d (snd (SetSetting now k v io d))" "same_targets d (snd (SetSetting now k v io d))"
  "same_probes d (snd (DeleteSetting k io d))" "same_catalog d (snd (DeleteSetting k io d))" "same_targets d (snd (DeleteSetting k io d))"
  by (simp_all add: same_defs SetSetting_def DeleteSetting_def)

lemma parameter_ops_frame [store_frame]:
  "same_probes d (snd (SetMeasurementConfig now c io d))" "same_catalog d (snd (SetMeasurementConfig now c io d))" "same_targets d (snd (SetMeasurementConfig now c io d))"
  "same_probes d (snd (ResetMeasurementConfig io d))" "same_catalog d (snd (ResetMeasurementConfig io d))" "same_targets d (snd (ResetMeasurementConfig io d))"
  using setting_ops_frame
  by (auto simp: SetMeasurementConfig_def ResetMeasurementConfig_def same_defs split: sum.split)

section \<open>The constraints\<close>

lemma SetMeasurementConfig_inv: "settings_inv d \<Longrightarrow> settings_inv (snd (SetMeasurementConfig now c io d))"
  by (simp add: SetMeasurementConfig_def SetSetting_inv split: sum.split)

lemma ResetMeasurementConfig_inv: "settings_inv d \<Longrightarrow> settings_inv (snd (ResetMeasurementConfig io d))"
  by (simp add: ResetMeasurementConfig_def DeleteSetting_inv)

lemmas store_op_invs = CreateProbe_inv SetProbeEnabled_inv UpdateProbeToken_inv DeleteProbe_inv
  CreateTarget_inv UpdateTarget_inv DeleteTarget_inv CreateCampus_inv UpdateCampusName_inv DeleteCampus_inv
  CreateBuilding_inv UpdateBuilding_inv DeleteBuilding_inv SetMeasurementConfig_inv ResetMeasurementConfig_inv

lemma store_op_inv: "store_op d d' \<Longrightarrow> store_inv d \<Longrightarrow> store_inv d'"
  by (induction rule: store_op.induct) (unfold store_inv_def, (blast intro: inv_from_same store_frame store_op_invs)+)

lemma store_ops_inv: "store_ops d d' \<Longrightarrow> store_inv d \<Longrightarrow> store_inv d'"
  by (induction rule: rtranclp_induct) (auto intro: store_op_inv)

section \<open>Every probe stays in the catalog\<close>

lemma probes_placed_mono:
  assumes "probes_placed d" "\<And>p. p \<in> set (db_probes d') \<Longrightarrow> \<exists>q \<in> set (db_probes d). pr_campus_code p = pr_campus_code q \<and> pr_building_code p = pr_building_code q"
    "cr_code ` set (db_campuses d) \<subseteq> cr_code ` set (db_campuses d')" "br_code ` set (db_buildings d) \<subseteq> br_code ` set (db_buildings d')"
  shows "probes_placed d'"
  unfolding probes_placed_def using assms by (metis (no_types, lifting) probes_placed_def subsetD)

lemma CreateProbe_placed:
  assumes "probes_placed d" "p_CampusCode p \<in> cr_code ` set (db_campuses d)" "p_BuildingCode p \<in> br_code ` set (db_buildings d)"
  shows "probes_placed (snd (CreateProbe now p io d))"
  using assms by (auto simp: CreateProbe_def Let_def new_probe_row_def probes_placed_def split: sum.split)

lemma probe_ops_placed:
  assumes "probes_placed d"
  shows "probes_placed (snd (SetProbeEnabled now pid b io d))" "probes_placed (snd (UpdateProbeToken now pid h io d))"
    "probes_placed (snd (DeleteProbe pid io d))"
  using assms
  by (auto simp: SetProbeEnabled_def UpdateProbeToken_def DeleteProbe_def probes_placed_def update_rows_set)

lemma catalog_grows_placed:
  assumes "probes_placed d"
  shows "probes_placed (snd (CreateCampus now c io d))" "probes_placed (snd (CreateBuilding now b io d))"
  using assms by (auto simp: CreateCampus_def CreateBuilding_def Let_def probes_placed_def)

lemma same_placed: "same_probes d d' \<Longrightarrow> same_catalog d d' \<Longrightarrow> probes_placed d \<Longrightarrow> probes_placed d'"
  by (simp add: same_defs probes_placed_def)

lemma store_op_placed: "store_op d d' \<Longrightarrow> probes_placed d \<Longrightarrow> probes_placed d'"
  by (induction rule: store_op.induct)
    (blast intro: CreateProbe_placed probe_ops_placed catalog_grows_placed DeleteCampus_placed DeleteBuilding_placed
      UpdateBuilding_placed UpdateCampusName_placed store_frame same_placed)+

lemma store_ops_placed: "store_ops d d' \<Longrightarrow> probes_placed d \<Longrightarrow> probes_placed d'"
  by (induction rule: rtranclp_induct) (auto intro: store_op_placed)

end
