(* ===== verification/Gateway.thy ===== *)
theory Gateway
  imports Admin_Routes Store_Ops Api_Push
begin

text \<open>
  \<open>cmd/gateway/main.go\<close>: the servers built over one state, the public listener's
  multiplexer and the metrics listener's, and the program as a transition system whose steps
  are the requests they serve.
\<close>

section \<open>Wiring\<close>

datatype public_answer =
    ApiAnswer response
  | PortalAnswer "portal_page web_response"
  | AdminAnswer "admin_page web_response"
  | StaticFile
  | MuxAnswer

text \<open>
  What stays fixed while the program runs: its configuration, the admin server, whether the
  portal's templates execute, the rate limiter parameter, and the proxies the push server trusts.
\<close>

record 'b gateway_env =
  ge_cfg :: config
  ge_admin :: admin_env
  ge_portal :: portal_exec
  ge_rate :: "'b rate_ops"
  ge_trusted :: "ip_net list"

text \<open>
  One store, one latest store, one limiter and one one-shot store are shared by the servers.
  The result is the fixed part, the first state and the password to log, if one was generated.
\<close>

definition buildHandler :: "'b rate_ops \<Rightarrow> bcrypt_ops \<Rightarrow> (store_error \<Rightarrow> string) \<Rightarrow>
    (string \<Rightarrow> admin_page page_data \<Rightarrow> bool) \<Rightarrow> portal_exec \<Rightarrow> config \<Rightarrow> draws \<Rightarrow> db \<Rightarrow>
    ('b gateway_env \<times> 'b gateway_state \<times> string \<times> bool) option \<times> db" where
  "buildHandler ops bcrypt errorText adminExec portalExec cfg dw d =
     (case portal_NewServer (Some cfg) (Some (NewRegisterLimiter (RegisterLimit cfg) (RegisterLimitBurst cfg))) of
        None \<Rightarrow> (None, d)
      | Some (oneShot, registerLimiter) \<Rightarrow>
          (case admin_NewServer True bcrypt errorText adminExec cfg (OnlineThreshold cfg) (dw_rnd dw 0) (dw_now dw)
                  (dw_io dw) d of
             (None, d) \<Rightarrow> (None, d)
           | (Some (env, sessions, generated), d) \<Rightarrow>
               (let (push, trusted) = api_NewServer \<lparr>dp_Store = d, dp_Latest = latest_New, dp_Self = Some NewSelf,
                      dp_Limiter = Some (NewLimiter (RateLimit cfg) (RateLimitBurst cfg)),
                      dp_TrustedProxies = TrustedProxyCIDRs cfg\<rparr> in
                (Some (\<lparr>ge_cfg = cfg, ge_admin = env, ge_portal = portalExec, ge_rate = ops, ge_trusted = trusted\<rparr>,
                       \<lparr>as_db = as_db push, as_latest = as_latest push, as_self = as_self push,
                        as_limiter = as_limiter push, ps_oneShot = oneShot, ps_limiter = registerLimiter,
                        gs_sessions = sessions\<rparr>,
                       PasswordGeneration (ae_passwordHash env, generated)), d))))"

text \<open>
  The public multiplexer picks the most specific pattern.  \<open>MuxAnswer\<close> stands for what a
  multiplexer answers itself (404, 405 or a redirect to the clean path).
\<close>

definition serve_public :: "'b gateway_env \<Rightarrow> draws \<Rightarrow> web_request \<Rightarrow> 'b gateway_state \<Rightarrow>
    public_answer \<times> 'b gateway_state" where
  "serve_public env dw rq st =
     (let path = rq_Path rq; cfg = ge_cfg env in
      if has_prefix path ''/api/v1/'' then
        (case serve_api (ge_rate env) (ge_trusted env) (dw_now dw) (dw_io dw) (http_request.truncate rq) st of
           None \<Rightarrow> (MuxAnswer, st) | Some (rs, st') \<Rightarrow> (ApiAnswer rs, st'))
      else if path = ''/admin'' \<or> has_prefix path ''/admin/'' then
        (case serve_admin (ge_admin env) dw rq st of None \<Rightarrow> (MuxAnswer, st) | Some (rs, st') \<Rightarrow> (AdminAnswer rs, st'))
      else if has_prefix path ''/static/'' \<and> rq_Method rq \<in> {''GET'', ''HEAD''} then (StaticFile, st)
      else
        (case serve_portal (ge_rate env) cfg (ge_portal env) (dw_now dw) (dw_io dw) (dw_rnd dw) rq st of
           None \<Rightarrow> (MuxAnswer, st) | Some (rs, st') \<Rightarrow> (PortalAnswer rs, st')))"

text \<open>
  The metrics listener has one route, behind its own allowlist.  The samples are the part of
  the answer the gateway makes; \<open>promhttp\<close> writes them out.
\<close>

definition metricsHandler :: "config \<Rightarrow> draws \<Rightarrow> http_request \<Rightarrow> sample list \<times> 'b gateway_state \<Rightarrow>
    response \<times> (sample list \<times> 'b gateway_state)" where
  "metricsHandler cfg dw rq s =
     (\<lparr>rs_Status = StatusOK, rs_Body = None\<rparr>, Collect (OnlineThreshold cfg) (dw_now dw) (dw_io dw 0) (snd s))"

definition metricsMux :: "config \<Rightarrow> draws \<Rightarrow> http_request \<Rightarrow> 'b gateway_state \<Rightarrow>
    (response \<times> (sample list \<times> 'b gateway_state)) option" where
  "metricsMux cfg dw rq st =
     (if rq_Path rq = ''/metrics'' \<and> rq_Method rq \<in> {''GET'', ''HEAD''}
      then Some (CIDRAllowlist (MetricsAllowedCIDRs cfg) (TrustedProxyCIDRs cfg) (metricsHandler cfg dw) rq ([], st))
      else None)"

section \<open>The program as a transition system\<close>

text \<open>\<open>net/http\<close> gives every request the address its connection came from.\<close>

inductive gateway_step :: "'b gateway_env \<Rightarrow> 'b gateway_state \<Rightarrow> 'b gateway_state \<Rightarrow> bool"
  for env :: "'b gateway_env" where
  public_request: "serve_public env dw rq st = (answer, st') \<Longrightarrow> hostOnly (RemoteAddr rq) \<noteq> [] \<Longrightarrow>
     gateway_step env st st'"
| metrics_request: "metricsMux (ge_cfg env) dw rq st = Some (rs, samples, st') \<Longrightarrow> gateway_step env st st'"

inductive_cases gateway_step_cases [elim!]: "gateway_step env st st'"

text \<open>
  \<open>run\<close> up to the point where it listens: the environment, the data directory, the database
  and the servers.  The store opens with the draws \<open>dwo\<close> and \<open>pick\<close>, the choice of SQLite's
  \<open>migrate\<close> takes.
\<close>

datatype start_error = LoadFailed load_error | NoDataDir | OpenFailed store_error | BuildFailed

definition run_start :: "'b rate_ops \<Rightarrow> bcrypt_ops \<Rightarrow> (store_error \<Rightarrow> string) \<Rightarrow>
    (string \<Rightarrow> admin_page page_data \<Rightarrow> bool) \<Rightarrow> portal_exec \<Rightarrow> (probe_row list \<Rightarrow> probe_row) \<Rightarrow>
    (string \<Rightarrow> string) \<Rightarrow> bool \<Rightarrow> bool \<Rightarrow> draws \<Rightarrow> draws \<Rightarrow> db \<Rightarrow>
    (start_error + 'b gateway_env \<times> 'b gateway_state \<times> string \<times> bool) \<times> db" where
  "run_start ops bcrypt errorText adminExec portalExec pick vars mkdir_fails ping_fails dwo dw d =
     (case Load vars of
        Inl e \<Rightarrow> (Inl (LoadFailed e), d)
      | Inr cfg \<Rightarrow>
          (if mkdir_fails then (Inl NoDataDir, d)
           else case store_Open pick (dw_now dwo) ping_fails (dw_io dwo) d of
                  (Inl e, d) \<Rightarrow> (Inl (OpenFailed e), d)
                | (Inr _, d) \<Rightarrow>
                    (case buildHandler ops bcrypt errorText adminExec portalExec cfg dw d of
                       (None, d) \<Rightarrow> (Inl BuildFailed, d)
                     | (Some r, d) \<Rightarrow> (Inr r, d))))"

text \<open>The states of a run, from a start over the database file \<open>d\<close>.\<close>

inductive reachable :: "'b gateway_env \<Rightarrow> db \<Rightarrow> 'b gateway_state \<Rightarrow> bool"
  for env :: "'b gateway_env" and d :: db where
  started: "run_start ops bcrypt errorText adminExec portalExec pick vars False False dwo dw d =
     (Inr (env, st, generated), d') \<Longrightarrow> picks pick \<Longrightarrow> reachable env d st"
| stepped: "reachable env d st \<Longrightarrow> gateway_step env st st' \<Longrightarrow> reachable env d st'"

end
