(* ===== verification/Gateway_Invariants.thy ===== *)
theory Gateway_Invariants
  imports Gateway
begin

text \<open>
  What every request keeps: the database changes through the store's operations only, and the
  maps in memory stay well-formed and within their bounds.
\<close>

section \<open>The push API\<close>

text \<open>What is stored for a probe is what a valid request carries.\<close>

definition results_ok :: "results \<Rightarrow> bool" where
  "results_ok rs \<longleftrightarrow> (\<forall>(t, byType) \<in> set rs. \<forall>(pt, m) \<in> set byType. measurement_ok pt m)"

definition entries_ok :: "latest_store \<Rightarrow> bool" where
  "entries_ok l \<longleftrightarrow> (\<forall>pid e. latest_Get l pid = Some e \<longrightarrow> results_ok (e_Results e))"

lemma entries_ok_ops [simp]:
  "entries_ok latest_New" "entries_ok l \<Longrightarrow> results_ok rs \<Longrightarrow> entries_ok (latest_Put pid rs now l)"
  "entries_ok l \<Longrightarrow> entries_ok (latest_Delete pid l)"
  by (auto simp: entries_ok_def latest_Get_Put latest_Get_Delete) (simp add: latest_New_def latest_Get_def)

lemma request_results_ok: "request_ok r al cid \<Longrightarrow> results_ok (req_Results r)"
  by (fastforce simp: request_ok_def target_ok_def results_ok_def)

definition api_inv :: "('b, 'm) api_state_scheme \<Rightarrow> bool" where
  "api_inv st \<longleftrightarrow> latest_inv (as_latest st) \<and> entries_ok (as_latest st) \<and>
     (\<forall>l. as_limiter st = Some l \<longrightarrow> limiter_inv l)"

text \<open>What an API request never touches: the database and the other servers' state.\<close>

definition api_kept :: "('b, 'm) api_state_scheme \<Rightarrow> ('b, 'm) api_state_scheme \<Rightarrow> bool" where
  "api_kept st st' \<longleftrightarrow> as_db st' = as_db st \<and> api_state.more st' = api_state.more st \<and> (api_inv st \<longrightarrow> api_inv st')"

lemma api_kept_refl [simp]: "api_kept st st"
  by (simp add: api_kept_def)

lemma api_kept_trans: "api_kept st st' \<Longrightarrow> api_kept st' st'' \<Longrightarrow> api_kept st st''"
  by (simp add: api_kept_def)

lemma api_kept_on_self [simp]: "api_kept st (on_self f st')  = api_kept st st'"
  by (simp add: api_kept_def on_self_def api_inv_def)

lemma api_kept_rejections [simp]:
  "api_kept st (snd (protocol_rejection e st')) = api_kept st st'" "api_kept st (snd (unavailable st')) = api_kept st st'"
  "api_kept st (snd (rate_limited st')) = api_kept st st'" "api_kept st (snd (unauthorized r st')) = api_kept st st'"
  "api_kept st (snd (disabled_probe st')) = api_kept st st'" "api_kept st (authFailed r st') = api_kept st st'"
  "api_kept st (reject r st') = api_kept st st'"
  by (simp_all add: protocol_rejection_def unavailable_def rate_limited_def unauthorized_def disabled_probe_def
      reject_def authFailed_def)

lemma with_limiter_kept:
  "(\<And>l. limiter_inv l \<Longrightarrow> limiter_inv (snd (f l))) \<Longrightarrow> api_kept st (snd (with_limiter b f st))"
  by (auto simp: api_kept_def api_inv_def with_limiter_def split_beta split: option.split)

lemma with_limiter_ops_kept [simp]:
  "api_kept st (snd (with_limiter b (AuthFailureBlocked ops now ip) st))"
  "api_kept st (snd (with_limiter b (AllowAuthFailure ops now ip) st))"
  "api_kept st (snd (with_limiter b (Allow ops now p) st))"
  by (rule with_limiter_kept, erule limiter_inv_AuthFailureBlocked limiter_inv_AllowAuthFailure limiter_inv_Allow)+

lemma authenticate_kept: "api_kept st (snd (authenticate ops tp now io rq st))"
proof -
  let ?st1 = "snd (with_limiter False (AuthFailureBlocked ops now (client_ip rq tp)) st)"
  have "api_kept st (snd (with_limiter True (AllowAuthFailure ops now (client_ip rq tp)) ?st1))"
    by (rule api_kept_trans [of _ ?st1]) simp_all
  then show ?thesis by (simp add: authenticate_def Let_def split_beta split: sum.split store_error.split)
qed

lemma accept_push_kept: "results_ok (req_Results req) \<Longrightarrow> api_kept st (snd (accept_push now pid req st))"
  by (auto simp: accept_push_def api_kept_def api_inv_def on_self_def)

lemma judged_results_ok: "Decode body = Inr req \<Longrightarrow> judge_push io req d = Inr (Inr ()) \<Longrightarrow> results_ok (req_Results req)"
  using judge_push_ok [of io req d] Decode_wf [of body req] request_results_ok by blast

lemma handle_body_kept: "api_kept st (snd (handle_body now io pid body st))"
  by (auto simp: handle_body_def dest!: judged_results_ok intro: accept_push_kept split: sum.split)

lemma handlePush_kept: "api_kept st (snd (handlePush ops tp now io rq st))"
proof -
  obtain r st1 where a: "authenticate ops tp now (io 0) rq st = (r, st1)" by fastforce
  let ?st2 = "snd (with_limiter True (Allow ops now (p_ProbeID (projr r))) st1)"
  have k: "api_kept st st1" using authenticate_kept [of st ops tp now "io 0" rq] a by simp
  then have k2: "api_kept st ?st2" by (rule api_kept_trans) simp
  from api_kept_trans [OF k2 handle_body_kept]
  have "api_kept st (snd (handle_body now io (p_ProbeID (projr r)) body ?st2))" for body .
  with k k2 a show ?thesis by (cases r) (simp_all add: handlePush_def split_beta Let_def split: body_read.split)
qed

lemma handleTargets_kept: "api_kept st (snd (handleTargets ops tp now io rq st))"
proof -
  obtain r st1 where a: "authenticate ops tp now (io 0) rq st = (r, st1)" by fastforce
  have "api_kept st st1" using authenticate_kept [of st ops tp now "io 0" rq] a by simp
  with a show ?thesis by (cases r) (auto simp: handleTargets_def split: sum.split)
qed

lemma serve_api_kept: "serve_api ops tp now io rq st = Some (rs, st') \<Longrightarrow> api_kept st st'"
  using handlePush_kept [of st ops tp now io rq] handleTargets_kept [of st ops tp now io rq]
  by (auto simp: serve_api_def api_routes_def RouteMetrics_def split_beta BodyLimit_def RequireJSON_def notAllowed_def
      split: if_splits)

section \<open>All servers\<close>

definition memory_inv :: "('b, 'm) gateway_state_scheme \<Rightarrow> bool" where
  "memory_inv st \<longleftrightarrow> api_inv st \<and> slots_inv (ps_oneShot st) \<and> (\<forall>l. ps_limiter st = Some l \<longrightarrow> register_inv l) \<and>
     sessions_inv (gs_sessions st) \<and> st_ttl (gs_sessions st) = sessionTTL"

definition kept :: "('b, 'm) gateway_state_scheme \<Rightarrow> ('b, 'm) gateway_state_scheme \<Rightarrow> bool" where
  "kept st st' \<longleftrightarrow> store_ops (as_db st) (as_db st') \<and> (memory_inv st \<longrightarrow> memory_inv st')"

lemma kept_refl [simp]: "kept st st"
  by (simp add: kept_def)

lemma kept_trans [trans]: "kept st st' \<Longrightarrow> kept st' st'' \<Longrightarrow> kept st st''"
  by (auto simp: kept_def)

lemma kept_db: "store_ops (as_db st) d \<Longrightarrow> kept st (st\<lparr>as_db := d\<rparr>)"
  by (simp add: kept_def memory_inv_def api_inv_def)

lemma kept_op: "store_op (as_db st) d \<Longrightarrow> kept st (st\<lparr>as_db := d\<rparr>)"
  by (rule kept_db) blast

lemma kept_sessions:
  "(sessions_inv (gs_sessions st) \<Longrightarrow> sessions_inv ss) \<Longrightarrow> st_ttl ss = st_ttl (gs_sessions st) \<Longrightarrow>
   kept st (st\<lparr>gs_sessions := ss\<rparr>)"
  by (simp add: kept_def memory_inv_def api_inv_def)

lemma kept_slots:
  "(slots_inv (ps_oneShot st) \<Longrightarrow> slots_inv os) \<Longrightarrow> kept st (st\<lparr>ps_oneShot := os\<rparr>)"
  by (simp add: kept_def memory_inv_def api_inv_def)

lemma same_extension:
  fixes st st' :: "('b, 'm) gateway_state_scheme"
  assumes "api_state.more st' = api_state.more st"
  shows "ps_oneShot st' = ps_oneShot st \<and> ps_limiter st' = ps_limiter st \<and> gs_sessions st' = gs_sessions st"
  using assms by (cases st, cases st') auto

lemma api_kept_kept:
  fixes st st' :: "('b, 'm) gateway_state_scheme"
  shows "api_kept st st' \<Longrightarrow> kept st st'"
  using same_extension [of st' st] by (simp add: api_kept_def kept_def memory_inv_def)

section \<open>The portal\<close>

lemma create_attempts_ops:
  "p_CampusCode p \<in> cr_code ` set (db_campuses d) \<Longrightarrow> p_BuildingCode p \<in> br_code ` set (db_buildings d) \<Longrightarrow>
   store_ops d (snd (create_attempts n now campus building rnd io i p d))"
proof (induction n arbitrary: i d)
  case (Suc n)
  show ?case
  proof (cases "generateProbeID campus building (rnd i)")
    case (Some pid)
    let ?c = "CreateProbe now (p\<lparr>p_ProbeID := pid\<rparr>) (io i) d"
    have one: "store_op d (snd ?c)" using Suc.prems by (intro store_op.create_probe) simp_all
    have "same_catalog d (snd ?c)" by (rule store_frame)
    then have "store_ops (snd ?c) (snd (create_attempts n now campus building rnd io (Suc i) p (snd ?c)))"
      using Suc by (simp add: same_catalog_def)
    with one have more: "store_ops d (snd (create_attempts n now campus building rnd io (Suc i) p (snd ?c)))"
      by (rule converse_rtranclp_into_rtranclp)
    from one more Some show ?thesis
      by (cases ?c, cases "fst ?c") (auto split: store_error.split)
  qed simp
qed simp

lemma putPair_inv: "putPair rnd now pid v bk os = (r, os') \<Longrightarrow> slots_inv os \<Longrightarrow> slots_inv os'"
  using slots_inv_putPair [of os rnd now pid v bk] by simp

lemma takePair_inv: "takePair now slot os = (r, os') \<Longrightarrow> slots_inv os \<Longrightarrow> slots_inv os'"
  using slots_inv_takePair [of os now slot] by simp

lemma MintTokenSlot_kept:
  fixes st :: "('b, 'm) gateway_state_scheme"
  shows "kept st (snd (MintTokenSlot rnd now pid tok bk st))"
  by (auto simp: MintTokenSlot_def split: prod.split intro!: kept_slots dest: putPair_inv)

lemma register_allowed_kept:
  fixes st :: "('b, 'm) gateway_state_scheme"
  shows "ip \<noteq> [] \<Longrightarrow> kept st (snd (register_allowed ops now ip st))"
  using register_inv_Allow [of _ ip ops now]
  by (auto simp: register_allowed_def split_beta kept_def memory_inv_def api_inv_def split: option.split)

lemma admit_registration_kept:
  fixes st :: "('b, 'm) gateway_state_scheme"
  assumes "c_Code campus \<in> cr_code ` set (db_campuses (as_db st))" "b_Code building \<in> br_code ` set (db_buildings (as_db st))"
  shows "kept st (snd (admit_registration cfg exec now io rnd f campus building st))"
proof -
  let ?p = "\<lambda>tok. new_probe tok campus building (f_networkType f) (f_description f) ''public''"
  let ?c = "\<lambda>tok. create_attempts maxAttempts now (c_Code campus) (b_Code building) rnd io 5 (?p tok) (as_db st)"
  have made: "kept st (st\<lparr>as_db := snd (?c tok)\<rparr>)" for tok
    by (intro kept_db create_attempts_ops) (simp_all add: new_probe_def assms)
  have minted: "kept st (snd (MintTokenSlot r now pid tok bk (st\<lparr>as_db := snd (?c tok)\<rparr>)))" for r pid tok bk
    by (rule kept_trans [OF made MintTokenSlot_kept])
  show ?thesis
  proof (cases "CountProbes (io 4) (as_db st)")
    case (Inr n)
    show ?thesis
    proof (cases "n \<ge> MaxProbes cfg \<or> Generate (rnd 0) = None")
      case True
      with Inr show ?thesis by (auto simp: admit_registration_def)
    next
      case False
      then obtain tok where tok: "Generate (rnd 0) = Some tok" "\<not> n \<ge> MaxProbes cfg" by auto
      obtain r d where c: "?c tok = (r, d)" by fastforce
      have "kept st (st\<lparr>as_db := d\<rparr>)" using made [of tok] by (simp add: c)
      moreover have "kept st (snd (MintTokenSlot (rnd 10) now pid tok ''/'' (st\<lparr>as_db := d\<rparr>)))" for pid
        using minted [of "rnd 10" pid tok "''/''"] by (simp add: c)
      ultimately show ?thesis using Inr tok
        by (simp add: admit_registration_def c split_beta split: option.split)
    qed
  qed (simp add: admit_registration_def)
qed

lemma clientip_nonempty:
  assumes "hostOnly (RemoteAddr r) \<noteq> []"
  shows "clientip_From r trusted \<noteq> []"
proof -
  have "addr \<noteq> []" if "first_untrusted trusted es = Some addr" for es addr
    using first_untrusted_addr [OF that] by (simp add: is_addr_def)
  moreover have "addr \<noteq> []" if "first_addr es = Some addr" for es addr
    using that find_Some_sat [of is_addr] unfolding first_addr_find is_addr_def by metis
  ultimately show ?thesis using assms by (auto simp: clientip_From_def Let_def split: option.split)
qed

lemma handleRegister_kept:
  fixes st :: "('b, 'm) gateway_state_scheme"
  assumes "hostOnly (RemoteAddr rq) \<noteq> []"
  shows "kept st (snd (handleRegister ops cfg exec now io rnd rq st))"
proof -
  let ?ip = "clientip_From (peer_info.truncate rq) (TrustedProxyCIDRs cfg)"
  obtain rs st' where run: "handleRegister ops cfg exec now io rnd rq st = (rs, st')" by fastforce
  have "hostOnly (RemoteAddr (peer_info.truncate rq)) \<noteq> []" using assms by (simp add: peer_info.truncate_def)
  then have ip: "?ip \<noteq> []" by (rule clientip_nonempty)
  from run have "kept st st'"
  proof (cases rule: handleRegister_cases)
    case throttled
    with register_allowed_kept [OF ip] show ?thesis by metis
  next
    case (admitted building campus)
    from GetBuilding_sound [OF admitted(4)] have b: "b_Code building \<in> br_code ` set (db_buildings (as_db st))"
      by (metis imageI)
    from GetCampus_sound [OF admitted(5)] have c: "c_Code campus \<in> cr_code ` set (db_campuses (as_db st))" by metis
    from admit_registration_kept [of campus "snd (register_allowed ops now ?ip st)" building cfg exec now io rnd "form_of rq"] b c
    have "kept (snd (register_allowed ops now ?ip st)) st'"
      by (simp add: register_allowed_frame admitted(7))
    with register_allowed_kept [OF ip] show ?thesis by (rule kept_trans)
  qed simp
  with run show ?thesis by simp
qed

lemma handleTokenShow_kept:
  fixes st :: "('b, 'm) gateway_state_scheme"
  shows "kept st (snd (handleTokenShow cfg exec now slot st))"
  using takePair_inv [of now slot "ps_oneShot st"]
  by (auto simp: handleTokenShow_def split: prod.split option.split intro!: kept_slots)

lemma serve_portal_kept:
  fixes st :: "('b, 'm) gateway_state_scheme"
  shows "serve_portal ops cfg exec now io rnd rq st = Some (rs, st') \<Longrightarrow> hostOnly (RemoteAddr rq) \<noteq> [] \<Longrightarrow> kept st st'"
  using handleRegister_kept [of rq st ops cfg exec now io rnd] handleTokenShow_kept [of st cfg exec now]
  by (auto simp: serve_portal_def split: if_splits) (metis snd_conv)+

section \<open>The management pages\<close>

lemma sessionFromRequest_kept:
  fixes st :: "('b, 'm) gateway_state_scheme"
  shows "kept st (snd (sessionFromRequest now rq st))"
proof -
  have "st_ttl (snd (session_get now sid s)) = st_ttl s" for sid s
    by (simp add: session_get_def Let_def split: option.split)
  then show ?thesis
    by (auto simp: sessionFromRequest_def split_beta session_get_inv intro!: kept_sessions split: option.split)
qed

lemma handleLogin_kept:
  fixes st :: "('b, 'm) gateway_state_scheme"
  shows "kept st (snd (handleLogin env now rnd rq st))"
proof -
  have "st_ttl (snd (session_create rnd now u s)) = st_ttl s" for u s
    by (simp add: session_create_def insert_session_def evictLocked_def Let_def split: option.split)
  then have "kept st (st\<lparr>gs_sessions := snd (session_create rnd now u (gs_sessions st))\<rparr>)" for u
    by (intro kept_sessions session_create_inv)
  then show ?thesis by (auto simp: handleLogin_def Let_def split_beta split: option.split)
qed

lemma handleLogout_kept:
  fixes st :: "('b, 'm) gateway_state_scheme"
  shows "kept st (snd (handleLogout env rq st))"
  by (auto simp: handleLogout_def Let_def session_destroy_inv split: option.split intro!: kept_sessions)
    (simp add: session_destroy_def)

lemma handleLoginPage_kept:
  fixes st :: "('b, 'm) gateway_state_scheme"
  shows "kept st (snd (handleLoginPage env now rq st))"
  using sessionFromRequest_kept [of st now rq] by (simp add: handleLoginPage_def split_beta split: option.split)

lemma requireSession_kept:
  fixes st :: "('b, 'm) gateway_state_scheme"
  assumes "\<And>st. kept st (snd (h rq st))"
  shows "kept st (snd (requireSession now h rq st))"
  using sessionFromRequest_kept [of st now rq] kept_trans [OF sessionFromRequest_kept [of st now rq] assms]
  by (auto simp: requireSession_def split_beta split: option.split)

lemma requireCSRF_kept:
  fixes st :: "('b, 'm) gateway_state_scheme"
  assumes "\<And>st. kept st (snd (h rq st))"
  shows "kept st (snd (requireCSRF now h rq st))"
  using sessionFromRequest_kept [of st now rq] kept_trans [OF sessionFromRequest_kept [of st now rq] assms]
  by (auto simp: requireCSRF_def split_beta split: option.split)

lemma with_session_kept:
  fixes st :: "('b, 'm) gateway_state_scheme"
  assumes "\<And>sess st. kept st (snd (h sess rq st))"
  shows "kept st (snd (with_session now h rq st))"
  using sessionFromRequest_kept [of st now rq] kept_trans [OF sessionFromRequest_kept [of st now rq] assms]
  by (auto simp: with_session_def split_beta split: option.split)

lemma forget_probe_kept:
  fixes st :: "('b, 'm) gateway_state_scheme"
  shows "kept st (forget_probe pid st)"
  by (auto simp: forget_probe_def kept_def memory_inv_def api_inv_def limiter_inv_Remove)

lemma handleProbeCreate_kept:
  fixes st :: "('b, 'm) gateway_state_scheme"
  shows "kept st (snd (handleProbeCreate env now io rnd sess rq st))"
proof (cases "check_probe_form (readProbeForm rq) (io 0) (io 1) (as_db st)")
  case (Inr loc)
  obtain campus building where loc: "loc = (campus, building)" by (cases loc)
  from Inr loc have l: "GetCampus (pf_campusCode (readProbeForm rq)) (io 0) (as_db st) = Inr campus"
    "GetBuilding (pf_buildingCode (readProbeForm rq)) (io 1) (as_db st) = Inr building"
    by (auto simp: check_probe_form_def resolveLocation_def split: sum.splits store_error.splits if_splits)
  have placed: "c_Code campus \<in> cr_code ` set (db_campuses (as_db st))" "b_Code building \<in> br_code ` set (db_buildings (as_db st))"
    using GetCampus_sound [OF l(1)] GetBuilding_sound [OF l(2)] by (metis imageI)+
  let ?f = "readProbeForm rq"
  let ?c = "\<lambda>tok. create_attempts maxAttempts now (pf_campusCode ?f) (pf_buildingCode ?f) rnd io 2
      (new_probe tok campus building (pf_networkType ?f) (pf_description ?f) []) (as_db st)"
  have made: "kept st (st\<lparr>as_db := snd (?c tok)\<rparr>)" for tok
    by (intro kept_db create_attempts_ops) (simp_all add: new_probe_def placed)
  show ?thesis
  proof (cases "Generate (rnd 0)")
    case None
    with Inr loc show ?thesis by (simp add: handleProbeCreate_def)
  next
    case (Some tok)
    obtain r d where c: "?c tok = (r, d)" by fastforce
    have "kept st (st\<lparr>as_db := d\<rparr>)" using made [of tok] by (simp add: c)
    moreover from this have "kept st (snd (MintTokenSlot (rnd 10) now pid tok ''/admin'' (st\<lparr>as_db := d\<rparr>)))" for pid
      by (rule kept_trans [OF _ MintTokenSlot_kept])
    ultimately show ?thesis using Inr loc Some
      by (simp add: handleProbeCreate_def Let_def c split_beta split: option.split)
  qed
qed (simp add: handleProbeCreate_def Let_def)

lemma handleProbeToggle_kept:
  fixes st :: "('b, 'm) gateway_state_scheme"
  shows "kept st (snd (handleProbeToggle now io pid rq st))"
proof -
  have s: "kept st (st\<lparr>as_db := snd (SetProbeEnabled now pid b (io 1) (as_db st))\<rparr>)" for b
    by (rule kept_op) (rule store_op.set_enabled)
  from kept_trans [OF s forget_probe_kept]
  have "kept st (forget_probe pid (st\<lparr>as_db := snd (SetProbeEnabled now pid b (io 1) (as_db st))\<rparr>))" for b .
  with s show ?thesis
    by (auto simp: handleProbeToggle_def split_beta Let_def split: sum.split store_error.split)
qed

lemma handleProbeRotate_kept:
  fixes st :: "('b, 'm) gateway_state_scheme"
  shows "kept st (snd (handleProbeRotate now io rnd pid rq st))"
proof -
  have s: "kept st (st\<lparr>as_db := snd (UpdateProbeToken now pid h (io 1) (as_db st))\<rparr>)" for h
    by (rule kept_op) (rule store_op.update_token)
  from kept_trans [OF s MintTokenSlot_kept]
  have "kept st (snd (MintTokenSlot (rnd 10) now pid tok bk (st\<lparr>as_db := snd (UpdateProbeToken now pid h (io 1) (as_db st))\<rparr>)))" for h tok bk .
  with s show ?thesis
    by (simp add: handleProbeRotate_def split_beta split: sum.split store_error.split option.split)
qed

lemma handleProbeDelete_kept:
  fixes st :: "('b, 'm) gateway_state_scheme"
  shows "kept st (snd (handleProbeDelete io pid rq st))"
proof -
  have s: "kept st (st\<lparr>as_db := snd (DeleteProbe pid (io 0) (as_db st))\<rparr>)"
    by (rule kept_op) (rule store_op.delete_probe)
  from s kept_trans [OF s forget_probe_kept] show ?thesis
    by (simp add: handleProbeDelete_def split_beta split: sum.split store_error.split)
qed

lemma handleTargetCreate_kept:
  fixes st :: "('b, 'm) gateway_state_scheme"
  shows "kept st (snd (handleTargetCreate env now io sess rq st))"
proof (cases "readTargetForm rq")
  case (Inr t)
  have c: "store_op (as_db st) (snd (CreateTarget now t (io 0) (as_db st)))" by (rule store_op.create_target)
  have u: "store_op d (snd (UpdateTarget now t (io 1) d))" for d by (rule store_op.update_target)
  from c u have "store_ops (as_db st) (snd (UpdateTarget now t (io 1) (snd (CreateTarget now t (io 0) (as_db st)))))"
    by (meson converse_rtranclp_into_rtranclp r_into_rtranclp)
  with c kept_db [of st] Inr show ?thesis
    by (auto simp: handleTargetCreate_def split_beta Let_def split: sum.split store_error.split)
qed (simp add: handleTargetCreate_def)

lemma handleTargetUpdate_kept:
  fixes st :: "('b, 'm) gateway_state_scheme"
  shows "kept st (snd (handleTargetUpdate env now io tid sess rq st))"
  by (auto simp: handleTargetUpdate_def split_beta intro!: kept_op store_op.update_target
      split: sum.split store_error.split)

lemma handleTargetDelete_kept:
  fixes st :: "('b, 'm) gateway_state_scheme"
  shows "kept st (snd (handleTargetDelete io tid rq st))"
  by (auto simp: handleTargetDelete_def split_beta intro!: kept_op store_op.delete_target
      split: sum.split store_error.split)

lemma campus_handlers_kept:
  fixes st :: "('b, 'm) gateway_state_scheme"
  shows "kept st (snd (handleCampusCreate env now io sess rq st))" "kept st (snd (handleCampusUpdate env now io cd sess rq st))"
    "kept st (snd (handleCampusDelete env io cd sess rq st))"
  by (auto simp: handleCampusCreate_def handleCampusUpdate_def handleCampusDelete_def split_beta Let_def
      intro!: kept_op store_op.create_campus store_op.rename_campus store_op.delete_campus
      split: sum.split store_error.split)

lemma building_handlers_kept:
  fixes st :: "('b, 'm) gateway_state_scheme"
  shows "kept st (snd (handleBuildingCreate env now io sess rq st))" "kept st (snd (handleBuildingUpdate env now io cd sess rq st))"
    "kept st (snd (handleBuildingDelete env io cd sess rq st))"
  by (auto simp: handleBuildingCreate_def handleBuildingUpdate_def handleBuildingDelete_def split_beta Let_def
      intro!: kept_op store_op.create_building store_op.update_building store_op.delete_building
      split: sum.split store_error.split)

lemma import_lines_ops: "store_ops d (snd (import_lines now campus io i es report d))"
proof (induction es arbitrary: i report d)
  case (Cons e es)
  have c: "store_op d (snd (CreateBuilding now (line_building campus e) (io i) d))" by (rule store_op.create_building)
  then have "store_ops d (snd (import_lines now campus io j es r (snd (CreateBuilding now (line_building campus e) (io i) d))))" for j r
    using Cons.IH by (rule converse_rtranclp_into_rtranclp)
  with c Cons.IH show ?case by (auto simp: split_beta split: sum.split store_error.split)
qed simp

lemma handleBuildingImport_kept:
  fixes st :: "('b, 'm) gateway_state_scheme"
  shows "kept st (snd (handleBuildingImport env now io sess rq st))"
  by (auto simp: handleBuildingImport_def split_beta Let_def intro!: kept_db import_lines_ops split: option.split)

lemma settings_handlers_kept:
  fixes st :: "('b, 'm) gateway_state_scheme"
  shows "kept st (snd (handleMeasurementSettingsSave env now io sess rq st))" "kept st (snd (handleMeasurementSettingsReset io rq st))"
  by (auto simp: handleMeasurementSettingsSave_def handleMeasurementSettingsReset_def split_beta Let_def
      intro!: kept_op store_op.save_parameters store_op.reset_parameters split: sum.split)

lemma run_action_kept:
  fixes st :: "('b, 'm) gateway_state_scheme"
  shows "kept st (snd (run_action env dw a sess rq st))"
  by (cases a) (simp_all add: handleProbeCreate_kept handleProbeToggle_kept handleProbeRotate_kept handleProbeDelete_kept
      handleTargetCreate_kept handleTargetUpdate_kept handleTargetDelete_kept campus_handlers_kept
      building_handlers_kept handleBuildingImport_kept settings_handlers_kept)

lemma serve_admin_kept:
  fixes st :: "('b, 'm) gateway_state_scheme"
  shows "serve_admin env dw rq st = Some (rs, st') \<Longrightarrow> kept st st'"
proof -
  have "kept st (snd (run_route env dw r rq st))" for r
    by (cases r) (simp_all add: handleLoginPage_kept handleLogin_kept requireSession_kept requireCSRF_kept
        with_session_kept handleLogout_kept run_view_state run_action_kept)
  then show "serve_admin env dw rq st = Some (rs, st') \<Longrightarrow> kept st st'"
    by (auto simp: serve_admin_def) (metis snd_conv)
qed

section \<open>Runs\<close>

lemma Collect_kept:
  fixes st :: "('b, 'm) gateway_state_scheme"
  shows "kept st (snd (Collect threshold now io st))"
  by (auto simp: Collect_def split_beta Let_def on_self_def kept_def memory_inv_def api_inv_def split: sum.split)

lemma gateway_step_kept: "gateway_step env st st' \<Longrightarrow> kept st st'"
proof (induction rule: gateway_step.induct)
  case (public_request dw rq st answer st')
  then show ?case
    by (auto simp: serve_public_def Let_def split: if_splits option.splits prod.splits
        dest: serve_api_kept api_kept_kept serve_admin_kept serve_portal_kept)
next
  case (metrics_request dw rq st rs samples st')
  then show ?case
    using Collect_kept [of st "OnlineThreshold (ge_cfg env)" "dw_now dw" "dw_io dw 0"]
    by (auto simp: metricsMux_def CIDRAllowlist_def metricsHandler_def split: if_splits option.splits)
qed

lemma resolvePassword_settings:
  "resolvePassword bcrypt cfg rnd now io d = (r, d') \<Longrightarrow> d' = d \<or> (\<exists>h. d' = snd (SetSetting now adminPasswordSettingKey h (io 1) d))"
  by (auto simp: resolvePassword_def split: sum.splits option.splits if_splits prod.splits) (metis snd_conv)+

lemma buildHandler_db:
  assumes "buildHandler ops bcrypt et ex pe cfg dw d = (Some (env, st, g), d')"
  shows "as_db st = d'" "same_probes d d'" "same_catalog d d'" "store_inv d \<Longrightarrow> store_inv d'" "memory_inv st"
proof -
  from assms obtain os rl sessions generated where p: "portal_NewServer (Some cfg) (Some (NewRegisterLimiter (RegisterLimit cfg) (RegisterLimitBurst cfg))) = Some (os, rl)"
    and a: "admin_NewServer True bcrypt et ex cfg (OnlineThreshold cfg) (dw_rnd dw 0) (dw_now dw) (dw_io dw) d = (Some (ge_admin env, sessions, generated), d')"
    and st: "st = \<lparr>as_db = d', as_latest = latest_New, as_self = Some NewSelf,
        as_limiter = Some (NewLimiter (RateLimit cfg) (RateLimitBurst cfg)), ps_oneShot = os, ps_limiter = rl, gs_sessions = sessions\<rparr>"
    by (auto simp: buildHandler_def api_NewServer_def split: option.splits prod.splits)
  from a obtain r where r: "resolvePassword bcrypt cfg (dw_rnd dw 0) (dw_now dw) (dw_io dw) d = (r, d')" "sessions = newSessionStore sessionTTL"
    by (auto simp: admin_NewServer_def split: option.splits prod.splits)
  show "as_db st = d'" by (simp add: st)
  show "same_probes d d'" "same_catalog d d'"
    using resolvePassword_settings [OF r(1)] by (auto simp: store_frame)
  show "store_inv d \<Longrightarrow> store_inv d'"
    using resolvePassword_settings [OF r(1)]
    by (auto simp: store_inv_def intro: inv_from_same store_frame SetSetting_inv)
  show "memory_inv st"
    using p by (auto simp: st memory_inv_def api_inv_def latest_inv_ops limiter_inv_new portal_NewServer_def slots_inv_new
        register_inv_new r sessions_inv_def newSessionStore_def split: if_splits)
qed

lemma run_start_stages:
  assumes "run_start ops bcrypt et ex pe pick vars False False dwo dw d = (Inr (env, st, g), d')"
  obtains cfg d1 where "Load vars = Inr cfg" "migrate pick (dw_now dwo) (dw_io dwo) d = (Inr (), d1)"
    "buildHandler ops bcrypt et ex pe cfg dw d1 = (Some (env, st, g), d')" "ge_cfg env = cfg"
  using assms by (auto simp: run_start_def store_Open_def split: sum.splits prod.splits option.splits)
    (auto simp: buildHandler_def api_NewServer_def split: option.splits prod.splits)

definition sound_state :: "'b gateway_env \<Rightarrow> db \<Rightarrow> ('b, 'm) gateway_state_scheme \<Rightarrow> bool" where
  "sound_state env d st \<longleftrightarrow> config_inv (ge_cfg env) \<and> store_inv (as_db st) \<and> memory_inv st \<and>
     (probes_placed d \<or> db_campuses d = [] \<and> db_buildings d = [] \<longrightarrow> probes_placed (as_db st))"

lemma run_start_sound:
  assumes "run_start ops bcrypt et ex pe pick vars False False dwo dw d = (Inr (env, st, g), d')" "picks pick" "store_inv d"
  shows "sound_state env d st"
  using assms(1)
proof (cases rule: run_start_stages)
  case (1 cfg d1)
  note b = buildHandler_db [OF 1(3)]
  have "store_inv d1" using migrate_inv [OF assms(2,3)] 1(2) by (metis snd_conv)
  moreover have "probes_placed (as_db st)" if "probes_placed d \<or> db_campuses d = [] \<and> db_buildings d = []"
    using migrate_placed [OF assms(2) that 1(2)] b(1) same_placed [OF b(2,3)] by simp
  ultimately show ?thesis using b Load_inv [OF 1(1)] 1(4) by (simp add: sound_state_def)
qed

lemma gateway_steps_ops: "(gateway_step env)\<^sup>*\<^sup>* st st' \<Longrightarrow> store_ops (as_db st) (as_db st')"
proof (induction rule: rtranclp_induct)
  case (step st1 st2)
  from gateway_step_kept [OF step(2)] have "store_ops (as_db st1) (as_db st2)" by (simp add: kept_def)
  with step.IH show ?case by (rule rtranclp_trans)
qed simp

lemma gateway_step_sound: "gateway_step env st st' \<Longrightarrow> sound_state env d st \<Longrightarrow> sound_state env d st'"
  using gateway_step_kept [of env st st'] store_ops_inv store_ops_placed
  by (auto simp: sound_state_def kept_def)

lemma reachable_sound: "reachable env d st \<Longrightarrow> store_inv d \<Longrightarrow> sound_state env d st"
proof (induction rule: reachable.induct)
  case (started ops bcrypt errorText adminExec portalExec pick vars dwo dw st generated d')
  then show ?case by (rule run_start_sound)
next
  case (stepped st st')
  from gateway_step_sound [OF stepped(2) stepped.IH [OF stepped.prems]] show ?case .
qed

end
