(* ===== verification/Admin_Properties.thy ===== *)
theory Admin_Properties
  imports Portal_Properties Gateway_Invariants
begin

text \<open>
  The properties of the management pages: who may change anything, how long a session lives,
  what an operator's actions leave behind, and what the forms store.
\<close>

section \<open>Concrete inputs\<close>

definition sample_bcrypt :: bcrypt_ops where
  "sample_bcrypt = \<lparr>bc_generate = (\<lambda>p. Some (''#'' @ p)), bc_compare = (\<lambda>h p. h = ''#'' @ p)\<rparr>"

definition sample_admin :: admin_env where
  "sample_admin =
     \<lparr>ae_cfg = sample_cfg, ae_exec = (\<lambda>_ _. True), ae_bcrypt = sample_bcrypt, ae_errorText = (\<lambda>_. ''error''),
      ae_username = ''admin'', ae_passwordHash = ''#secret'', ae_onlineThreshold = 30 * Second\<rparr>"

definition sample_session :: session where
  "sample_session = \<lparr>ss_id = ''sid'', ss_username = ''admin'', ss_csrf = ''c'', ss_expires = 100\<rparr>"

definition sample_gateway :: "int gateway_state" where
  "sample_gateway =
     \<lparr>as_db = sample_db, as_latest = [(''p1'', \<lparr>e_Results = [], e_ServerReceivedAt = 0\<rparr>)], as_self = Some NewSelf,
      as_limiter = Some ((NewLimiter 5 3)\<lparr>lim_buckets := [(''p1'', 1)]\<rparr>), ps_oneShot = newOneShotStore oneShotTTL,
      ps_limiter = None,
      gs_sessions = \<lparr>st_sessions = [(''sid'', sample_session)], st_ttl = sessionTTL\<rparr>\<rparr>"

definition sample_click :: web_request where
  "sample_click = sample_form
     \<lparr>rq_Path := ''/admin/probes/p1/delete'', rq_Body := ''csrf=c'', wq_Cookies := [(sessionCookieName, ''sid'')]\<rparr>"

definition sample_draws :: draws where
  "sample_draws = \<lparr>dw_now = 1, dw_io = (\<lambda>_. no_faults), dw_rnd = sample_rnd\<rparr>"

lemma sample_gateway_inv: "store_inv (as_db sample_gateway)" "memory_inv sample_gateway"
  using sample_store_inv
  by (simp_all add: sample_gateway_def memory_inv_def api_inv_def latest_inv_def limiter_inv_def NewLimiter_def
      slots_inv_new sessions_inv_def entries_ok_def results_ok_def latest_Get_def maxSessions_def maxTrackedAuthFailures_def)

lemma sample_click_form: "parsePostForm sample_click = ([(''csrf'', [''c''])], False)"
proof -
  have "ParseQuery ''csrf=c'' = ([(''csrf'', [''c''])], False)" by code_simp
  then show ?thesis
    by (simp add: parsePostForm_def sample_click_def sample_form_def sample_form_media maxFormSize_def)
qed

lemma sample_click_fails: "\<not> ParseForm_fails sample_click"
  by (simp add: ParseForm_fails_def sample_click_form) (simp add: sample_click_def sample_form_def ParseQuery_def)

lemma sample_live: "live_session 1 sample_click sample_gateway = Some sample_session"
  by (simp add: live_session_def Cookie_def sample_click_def sample_gateway_def session_of_def sample_session_def)

section \<open>Who may change anything\<close>

lemma MintTokenSlot_sessions [simp]:
  fixes st :: "('b, 'm) gateway_state_scheme"
  shows "gs_sessions (snd (MintTokenSlot rnd now pid tok bk st)) = gs_sessions st"
  by (simp add: MintTokenSlot_def split: prod.split)

lemma run_action_sessions:
  fixes st :: "('b, 'm) gateway_state_scheme"
  shows "gs_sessions (snd (run_action env dw a sess rq st)) = gs_sessions st"
proof (cases a)
  case ProbeCreate
  then show ?thesis
    by (auto simp: handleProbeCreate_def Let_def split_beta split: sum.split option.split)
next
  case ProbeToggle
  then show ?thesis
    by (auto simp: handleProbeToggle_def forget_probe_def Let_def split_beta split: sum.split store_error.split)
next
  case ProbeRotate
  then show ?thesis
    by (auto simp: handleProbeRotate_def split_beta split: sum.split store_error.split option.split)
next
  case ProbeDelete
  then show ?thesis
    by (auto simp: handleProbeDelete_def forget_probe_def split_beta split: sum.split store_error.split)
next
  case TargetCreate
  then show ?thesis
    by (auto simp: handleTargetCreate_def Let_def split_beta split: sum.split)
next
  case TargetUpdate
  then show ?thesis by (auto simp: handleTargetUpdate_def split_beta split: sum.split store_error.split)
next
  case TargetDelete
  then show ?thesis by (auto simp: handleTargetDelete_def split_beta split: sum.split store_error.split)
next
  case CampusCreate
  then show ?thesis by (auto simp: handleCampusCreate_def Let_def split_beta split: sum.split store_error.split)
next
  case CampusUpdate
  then show ?thesis by (auto simp: handleCampusUpdate_def Let_def split_beta split: sum.split store_error.split)
next
  case CampusDelete
  then show ?thesis by (auto simp: handleCampusDelete_def split_beta split: sum.split store_error.split)
next
  case BuildingCreate
  then show ?thesis by (auto simp: handleBuildingCreate_def Let_def split_beta split: sum.split store_error.split)
next
  case BuildingImport
  then show ?thesis by (auto simp: handleBuildingImport_def Let_def split_beta split: option.split)
next
  case BuildingUpdate
  then show ?thesis by (auto simp: handleBuildingUpdate_def Let_def split_beta split: sum.split store_error.split)
next
  case BuildingDelete
  then show ?thesis by (auto simp: handleBuildingDelete_def Let_def split_beta split: sum.split store_error.split)
next
  case SettingsSave
  then show ?thesis by (auto simp: handleMeasurementSettingsSave_def Let_def split_beta split: sum.split)
next
  case SettingsReset
  then show ?thesis by (auto simp: handleMeasurementSettingsReset_def split_beta split: sum.split)
qed

text \<open>No lookup opens a session.\<close>

definition opens_none :: "('b, 'm) gateway_state_scheme \<Rightarrow> ('b, 'm) gateway_state_scheme \<Rightarrow> bool" where
  "opens_none st st' \<longleftrightarrow> (\<forall>sid. session_of (gs_sessions st') sid \<noteq> None \<longrightarrow> session_of (gs_sessions st) sid \<noteq> None)"

lemma opens_none_refl [simp]: "opens_none st st"
  by (simp add: opens_none_def)

lemma opens_none_trans: "opens_none st st' \<Longrightarrow> opens_none st' st'' \<Longrightarrow> opens_none st st''"
  by (simp add: opens_none_def)

lemma lookup_opens_none:
  fixes st :: "('b, 'm) gateway_state_scheme"
  shows "opens_none st (snd (sessionFromRequest now rq st))"
proof -
  have "session_of s sid' \<noteq> None" if "session_of (snd (session_get now sid s)) sid' \<noteq> None" for s sid sid'
    using that by (auto simp: session_get_def session_of_def Let_def map_of_put map_of_del split: option.splits if_splits)
  then show ?thesis
    by (auto simp: opens_none_def sessionFromRequest_def split_beta split: option.split)
qed

lemma guards_open_none:
  fixes st :: "('b, 'm) gateway_state_scheme"
  assumes "\<And>sess st. opens_none st (snd (h sess rq st))"
  shows "opens_none st (snd (requireSession now (with_session now h) rq st))"
    "opens_none st (snd (requireSession now (requireCSRF now (with_session now h)) rq st))"
proof -
  have w: "opens_none st (snd (with_session now h rq st))" for st :: "('b, 'm) gateway_state_scheme"
    using lookup_opens_none [of st now rq] opens_none_trans [OF lookup_opens_none assms]
    by (auto simp: with_session_def split_beta split: option.split)
  have c: "opens_none st (snd (requireCSRF now (with_session now h) rq st))" for st :: "('b, 'm) gateway_state_scheme"
    using lookup_opens_none [of st now rq] opens_none_trans [OF lookup_opens_none w]
    by (auto simp: requireCSRF_def split_beta split: option.split)
  show "opens_none st (snd (requireSession now (with_session now h) rq st))"
    "opens_none st (snd (requireSession now (requireCSRF now (with_session now h)) rq st))"
    using lookup_opens_none [of st now rq] opens_none_trans [OF lookup_opens_none w] opens_none_trans [OF lookup_opens_none c]
    by (auto simp: requireSession_def split_beta split: option.split)
qed

lemma login_page_body: "wp_Body (login_page env status err) = Page p d \<Longrightarrow> p = ''login.html''"
  by (auto simp: login_page_def Render_body)

lemma logout_opens_none:
  fixes st :: "('b, 'm) gateway_state_scheme"
  shows "opens_none st (snd (requireSession now (handleLogout env) rq st))"
proof -
  have "opens_none st (snd (handleLogout env rq st))" for st :: "('b, 'm) gateway_state_scheme"
    by (auto simp: opens_none_def handleLogout_def session_destroy_def session_of_def map_of_del split: option.splits if_splits)
  from opens_none_trans [OF lookup_opens_none this] lookup_opens_none [of st now rq] show ?thesis
    by (auto simp: requireSession_def split_beta split: option.split)
qed

lemma requireSession_body:
  fixes st :: "('b, 'm) gateway_state_scheme"
  shows "live_session now rq st = None \<Longrightarrow> wp_Body (fst (requireSession now h rq st)) = NoBody"
  by (simp add: requireSession_refused to_login_def)

lemma login_opens:
  fixes st :: "('b, 'm) gateway_state_scheme"
  assumes "handleLogin env now rnd rq st = (rs, st')"
  shows "opens_none st st' \<or> (PostFormValue rq ''username'' = ae_username env \<and>
      verifyPassword (ae_bcrypt env) (ae_passwordHash env) (PostFormValue rq ''password''))"
    "beyond_sessions st st'" "wp_Body rs = Page p d \<Longrightarrow> p = ''login.html''"
proof -
  from assms show "opens_none st st' \<or> (PostFormValue rq ''username'' = ae_username env \<and>
      verifyPassword (ae_bcrypt env) (ae_passwordHash env) (PostFormValue rq ''password''))"
    by (auto simp: handleLogin_def Let_def split: if_splits)
  from assms show "beyond_sessions st st'"
    by (auto simp: handleLogin_def Let_def beyond_sessions_def split_beta split: if_splits option.splits
        intro: exI [of _ "gs_sessions st"])
  from assms show "wp_Body rs = Page p d \<Longrightarrow> p = ''login.html''"
    by (auto simp: handleLogin_def Let_def internal_error_def setSessionCookie_def split_beta
        dest: login_page_body split: if_splits option.splits)
qed

lemma views_beyond:
  fixes st :: "('b, 'm) gateway_state_scheme"
  shows "beyond_sessions st (snd (requireSession now (with_session now (run_view env dw v)) rq st))"
proof -
  have w: "beyond_sessions st (snd (with_session now (run_view env dw v) rq st))" for st :: "('b, 'm) gateway_state_scheme"
    using beyond_sessions_lookup [of st now rq]
    by (auto simp: with_session_def split_beta run_view_state split: option.split)
  show ?thesis
    using beyond_sessions_lookup [of st now rq] beyond_sessions_trans [OF beyond_sessions_lookup w]
    by (auto simp: requireSession_def split_beta split: option.split)
qed

lemma logout_beyond:
  fixes st :: "('b, 'm) gateway_state_scheme"
  shows "beyond_sessions st (snd (requireSession now (handleLogout env) rq st))"
proof -
  have w: "beyond_sessions st (snd (handleLogout env rq st))" for st :: "('b, 'm) gateway_state_scheme"
    by (auto simp: handleLogout_def Let_def beyond_sessions_def split: option.split intro: exI [of _ "gs_sessions st"])
  show ?thesis
    using beyond_sessions_lookup [of st now rq] beyond_sessions_trans [OF beyond_sessions_lookup w]
    by (auto simp: requireSession_def split_beta split: option.split)
qed

text \<open>A route other than the login changes sessions only, opens none and shows a stranger no page.\<close>

definition shows_login_only :: "admin_page web_response \<Rightarrow> bool" where
  "shows_login_only rs \<longleftrightarrow> (\<forall>page d. wp_Body rs = Page page d \<longrightarrow> page = ''login.html'')"

lemma reading_route:
  fixes st :: "('b, 'm) gateway_state_scheme"
  assumes "run_route env dw r rq st = (rs, st')" "r = LoginForm \<or> r = Logout \<or> (\<exists>v. r = View v)"
  shows "beyond_sessions st st'" "opens_none st st'" "live_session (dw_now dw) rq st = None \<longrightarrow> shows_login_only rs"
proof -
  have "beyond_sessions st st' \<and> opens_none st st' \<and> (live_session (dw_now dw) rq st = None \<longrightarrow> shows_login_only rs)"
  proof (cases r)
    case LoginForm
    with assms(1) have p: "handleLoginPage env (dw_now dw) rq st = (rs, st')" by simp
    then have "beyond_sessions st st'" "opens_none st st'"
      using sessionFromRequest_beyond [of "dw_now dw" rq st] lookup_opens_none [of st "dw_now dw" rq]
      by (auto simp: handleLoginPage_def split: prod.splits option.splits)
    with p show ?thesis
      by (auto simp: handleLoginPage_def shows_login_only_def dest: login_page_body split: prod.splits option.splits)
  next
    case Logout
    with assms(1) logout_beyond [of st "dw_now dw" env rq] logout_opens_none [of st "dw_now dw" env rq]
      requireSession_body [of "dw_now dw" rq st "handleLogout env"]
    show ?thesis by (simp add: shows_login_only_def)
  next
    case (View v)
    let ?h = "with_session (dw_now dw) (run_view env dw v)"
    have "opens_none st (snd (requireSession (dw_now dw) ?h rq st))"
      by (rule guards_open_none(1)) (simp add: run_view_state)
    with View assms(1) views_beyond [of st "dw_now dw" env dw v rq] requireSession_body [of "dw_now dw" rq st ?h]
    show ?thesis by (simp add: shows_login_only_def)
  qed (use assms(2) in simp_all)
  then show "beyond_sessions st st'" "opens_none st st'" "live_session (dw_now dw) rq st = None \<longrightarrow> shows_login_only rs"
    by blast+
qed

lemma action_route:
  fixes st :: "('b, 'm) gateway_state_scheme"
  assumes "run_route env dw (Action a) rq st = (rs, st')" "0 \<le> st_ttl (gs_sessions st)"
  shows "\<not> csrf_ok (dw_now dw) rq st \<longrightarrow> beyond_sessions st st'" "opens_none st st'"
    "live_session (dw_now dw) rq st = None \<longrightarrow> shows_login_only rs"
proof -
  let ?h = "with_session (dw_now dw) (run_action env dw a)"
  from assms(1) have run: "requireSession (dw_now dw) (requireCSRF (dw_now dw) ?h) rq st = (rs, st')" by simp
  have "opens_none st (snd (requireSession (dw_now dw) (requireCSRF (dw_now dw) ?h) rq st))"
    by (rule guards_open_none(2)) (simp add: opens_none_def run_action_sessions)
  then show "opens_none st st'" by (simp add: run)
  show "\<not> csrf_ok (dw_now dw) rq st \<longrightarrow> beyond_sessions st st'"
    using guarded_action_refused(1) [OF _ assms(2), of "dw_now dw" rq ?h] run by simp
  show "live_session (dw_now dw) rq st = None \<longrightarrow> shows_login_only rs"
    using requireSession_body [of "dw_now dw" rq st "requireCSRF (dw_now dw) ?h"] run by (simp add: shows_login_only_def)
qed

text \<open>C26: Nothing behind \<open>/admin\<close> works without a login.  A request that does not carry a live
  session together with that session's CSRF token changes nothing but the session table,
  whatever its route; a request without a live session gets no page but the login form; and
  no request opens a session except a login with the configured name and a password that
  matches the hash.\<close>

theorem management_needs_login:
  assumes served: "serve_admin env dw rq st = Some (rs, st')" and ttl: "0 \<le> st_ttl (gs_sessions st)"
  shows "(\<not> csrf_ok (dw_now dw) rq st \<longrightarrow> beyond_sessions st st') \<and>
         (live_session (dw_now dw) rq st = None \<and> wp_Body rs = Page page d \<longrightarrow> page = ''login.html'') \<and>
         (session_of (gs_sessions st') sid \<noteq> None \<longrightarrow>
            session_of (gs_sessions st) sid \<noteq> None \<or>
            (admin_route_of rq = Some Login \<and> PostFormValue rq ''username'' = ae_username env \<and>
             verifyPassword (ae_bcrypt env) (ae_passwordHash env) (PostFormValue rq ''password'')))"
proof -
  from served obtain r where r: "admin_route_of rq = Some r" "run_route env dw r rq st = (rs, st')"
    by (auto simp: serve_admin_def)
  consider "r = Login" | a where "r = Action a" | "r = LoginForm \<or> r = Logout \<or> (\<exists>v. r = View v)"
    by (cases r) auto
  then show ?thesis
  proof cases
    case 1
    with r have "handleLogin env (dw_now dw) (\<lambda>i. dw_rnd dw (20 + i)) rq st = (rs, st')" by simp
    from login_opens [OF this] r(1) 1 show ?thesis by (auto simp: opens_none_def)
  next
    case 2
    from action_route [OF r(2) [unfolded 2] ttl] show ?thesis by (auto simp: opens_none_def shows_login_only_def)
  next
    case 3
    from reading_route [OF r(2) 3] show ?thesis by (auto simp: opens_none_def shows_login_only_def)
  qed
qed

theorem management_needs_login_witness:
  "\<exists>rs st'. serve_admin sample_admin sample_draws (sample_click\<lparr>wq_Cookies := []\<rparr>) sample_gateway = Some (rs, st') \<and>
     as_db st' = sample_db"
proof -
  let ?rq = "sample_click\<lparr>wq_Cookies := []\<rparr>"
  have "admin_route_of ?rq = Some (Action (ProbeDelete ''p1''))"
    by (simp add: sample_click_def sample_form_def) (code_simp)
  then obtain rs st' where s: "serve_admin sample_admin sample_draws ?rq sample_gateway = Some (rs, st')"
    by (cases "run_route sample_admin sample_draws (Action (ProbeDelete ''p1'')) ?rq sample_gateway")
      (simp add: serve_admin_def)
  have "\<not> csrf_ok (dw_now sample_draws) ?rq sample_gateway" by (simp add: csrf_ok_def live_session_def Cookie_def)
  moreover have "0 \<le> st_ttl (gs_sessions sample_gateway)" by (simp add: sample_gateway_def sessionTTL_def Hour_def Second_def)
  ultimately have "beyond_sessions sample_gateway st'" using management_needs_login [OF s] by blast
  from beyond_sessions_eq [OF this] s show ?thesis by (simp add: sample_gateway_def)
qed

end
