(* ===== verification/Gateway_Properties.thy ===== *)
theory Gateway_Properties
  imports Admin_Properties
begin

text \<open>
  The properties of the program as a whole: what holds in every state it can reach, how its
  starts build on one another, and what its configuration and its retries are worth.
\<close>

section \<open>Concrete starts\<close>

definition sample_pick :: "probe_row list \<Rightarrow> probe_row" where
  "sample_pick rows = hd rows"

lemma sample_picks: "picks sample_pick"
  by (simp add: picks_def sample_pick_def)

lemma sample_Load: "\<exists>cfg. Load (\<lambda>_. []) = Inr cfg \<and> AdminPassword cfg = []"
proof -
  have "atoi ''3'' = Some 3" "atoi ''500'' = Some 500" by code_simp+
  moreover have "parseLevel ''info'' = Inr LevelInfo" by code_simp
  ultimately show ?thesis
    by (simp add: Load_def positive_duration_def durationEnv_def count_env_def envOr_def Let_def Hour_def Second_def
        parseCIDRs_def)
qed

text \<open>A start over a database with a catalog and targets, without faults.\<close>

definition calm_draws :: draws where
  "calm_draws = \<lparr>dw_now = 0, dw_io = (\<lambda>_. no_faults), dw_rnd = sample_rnd\<rparr>"

definition settled_db :: "db \<Rightarrow> bool" where
  "settled_db d \<longleftrightarrow> {1, 2} \<subseteq> set (db_versions d) \<and> db_campuses d \<noteq> [] \<and> db_targets d \<noteq> []"

lemma migrate_settled: "settled_db d \<Longrightarrow> migrate pick now (\<lambda>_. no_faults) d = (Inr (), d)"
  by (simp add: settled_db_def migrate_def migrations_done backfillCatalog_def seed_def)

lemma start_settled:
  assumes "Load vars = Inr cfg" "settled_db d"
    "resolvePassword bcrypt cfg (dw_rnd dw 0) (dw_now dw) (dw_io dw) d = (Some (hash, password), d')"
  obtains env st where
    "run_start ops bcrypt et ex pe pick vars False False calm_draws dw d = (Inr (env, st, password, password \<noteq> []), d')"
    "ae_passwordHash (ge_admin env) = hash" "ae_bcrypt (ge_admin env) = bcrypt" "as_db st = d'" "ge_cfg env = cfg"
    "ge_rate env = ops" "ge_portal env = pe" "ps_oneShot st = newOneShotStore oneShotTTL"
    "as_limiter st = Some (NewLimiter (RateLimit cfg) (RateLimitBurst cfg))"
    "ps_limiter st = Some (NewRegisterLimiter (RegisterLimit cfg) (RegisterLimitBurst cfg))"
proof -
  have m: "migrate pick (dw_now calm_draws) (dw_io calm_draws) d = (Inr (), d)"
    using migrate_settled [OF assms(2)] by (simp add: calm_draws_def)
  have room: "\<not> MaxProbes cfg \<le> 0" using Load_inv [OF assms(1)] by (simp add: config_inv_def)
  show thesis
    by (rule that [of "\<lparr>ge_cfg = cfg, ge_admin = \<lparr>ae_cfg = cfg, ae_exec = ex, ae_bcrypt = bcrypt, ae_errorText = et,
            ae_username = AdminUsername cfg, ae_passwordHash = hash,
            ae_onlineThreshold = resolve_threshold (OnlineThreshold cfg)\<rparr>, ge_portal = pe, ge_rate = ops, ge_trusted = TrustedProxyCIDRs cfg\<rparr>"
          "\<lparr>as_db = d', as_latest = latest_New, as_self = Some NewSelf,
            as_limiter = Some (NewLimiter (RateLimit cfg) (RateLimitBurst cfg)),
            ps_oneShot = newOneShotStore oneShotTTL,
            ps_limiter = Some (NewRegisterLimiter (RegisterLimit cfg) (RegisterLimitBurst cfg)),
            gs_sessions = newSessionStore sessionTTL\<rparr>"])
      (simp_all add: run_start_def assms store_Open_def m buildHandler_def api_NewServer_def portal_NewServer_def admin_NewServer_def
        PasswordGeneration_def room)
qed

definition sample_file :: db where
  "sample_file = sample_db\<lparr>db_versions := [1, 2]\<rparr>"

lemma sample_file_settled: "settled_db sample_file" "store_inv sample_file" "probes_placed sample_file"
  using sample_store_inv
  by (simp_all add: settled_db_def sample_file_def sample_db_def store_inv_defs probes_placed_def sample_probe_row_def)

lemma sample_generates:
  "\<exists>password hash. password \<noteq> [] \<and> generateAdminPassword sample_bcrypt (sample_rnd 0) = Some (password, hash)"
proof -
  have "b64url (replicate 32 CHR ''x'') \<noteq> []" by code_simp
  then obtain s where s: "randomString 32 (sample_rnd 0) = Some s" "s \<noteq> []"
    by (simp add: randomString_def sample_rnd_def)
  then show ?thesis by (auto simp: generateAdminPassword_def hashPassword_def sample_bcrypt_def)
qed

lemma sample_start:
  "\<exists>(env :: int gateway_env) st password d'.
     run_start countdown_ops sample_bcrypt (\<lambda>_. []) (\<lambda>_ _. True) (\<lambda>_ _. True) sample_pick (\<lambda>_. []) False False
       calm_draws calm_draws sample_file = (Inr (env, st, password, password \<noteq> []), d') \<and>
     as_db st = d' \<and> db_probes d' = [sample_probe_row] \<and> as_latest st = latest_New"
proof -
  obtain cfg where cfg: "Load (\<lambda>_. []) = Inr cfg" "AdminPassword cfg = []" using sample_Load by blast
  have "setting_value sample_file adminPasswordSettingKey = None"
    by (simp add: setting_value_def sample_file_def sample_db_def empty_db_def)
  then obtain hash password d' where r: "resolvePassword sample_bcrypt cfg (dw_rnd calm_draws 0) (dw_now calm_draws) (dw_io calm_draws) sample_file =
      (Some (hash, password), d')" and d': "db_probes d' = db_probes sample_file"
    using sample_generates by (auto simp: resolvePassword_def cfg Setting_def SetSetting_def calm_draws_def)
  from start_settled [OF cfg(1) sample_file_settled(1) r, of countdown_ops "\<lambda>_. []" "\<lambda>_ _. True" "\<lambda>_ _. True" sample_pick]
  obtain env :: "int gateway_env" and st where start: "run_start countdown_ops sample_bcrypt (\<lambda>_. []) (\<lambda>_ _. True) (\<lambda>_ _. True) sample_pick (\<lambda>_. []) False False
      calm_draws calm_draws sample_file = (Inr (env, st, password, password \<noteq> []), d')" "as_db st = d'" by metis
  then obtain d1 cfg' where "buildHandler countdown_ops sample_bcrypt (\<lambda>_. []) (\<lambda>_ _. True) (\<lambda>_ _. True) cfg' calm_draws d1 =
      (Some (env, st, password, password \<noteq> []), d')"
    by (auto elim: run_start_stages)
  then have "as_latest st = latest_New" by (auto simp: buildHandler_def split: option.splits prod.splits)
  moreover have "db_probes d' = [sample_probe_row]" using d' by (simp add: sample_file_def sample_db_def)
  ultimately show ?thesis using start by blast
qed

lemma sample_started:
  "\<exists>(env :: int gateway_env) st. reachable env sample_file st \<and> db_probes (as_db st) = [sample_probe_row] \<and> as_latest st = latest_New"
  using sample_start sample_picks reachable.started by metis

section \<open>Every reachable state\<close>

text \<open>C18: Whatever requests arrive in whatever order at either listener, with whatever store
  faults and random draws, after a start over any database that satisfies the schema's
  constraints: the constraints still hold, every map in memory is well-formed and within its
  cap, the configuration is one the loader accepts, and every probe sits in a campus and a
  building of the catalog, if that was so before the start or if there was no catalog yet.\<close>

theorem reachable_states_sound:
  assumes "reachable env d st" "store_inv d"
  shows "store_inv (as_db st) \<and> memory_inv st \<and> config_inv (ge_cfg env) \<and>
    length (st_sessions (gs_sessions st)) \<le> maxSessions \<and>
    (\<forall>l \<in> set_option (as_limiter st). length (lim_failures l) \<le> maxTrackedAuthFailures) \<and>
    (probes_placed d \<or> db_campuses d = [] \<and> db_buildings d = [] \<longrightarrow> probes_placed (as_db st))"
  using reachable_sound [OF assms]
  by (auto simp: sound_state_def memory_inv_def sessions_inv_def api_inv_def limiter_inv_def)

theorem reachable_states_sound_witness:
  "\<exists>(env :: int gateway_env) st. reachable env sample_file st \<and> probes_placed (as_db st)"
proof -
  obtain env :: "int gateway_env" and st where "reachable env sample_file st" using sample_started by blast
  with reachable_states_sound [OF this sample_file_settled(2)] sample_file_settled(3) show ?thesis by blast
qed

section \<open>Starts\<close>

lemma store_op_keeps_setting:
  "store_op d d' \<Longrightarrow> settings_inv d \<Longrightarrow> k \<noteq> measurementConfigKey \<Longrightarrow> setting_value d' k = setting_value d k"
proof (induction rule: store_op.induct)
  case (save_parameters d now cfg io)
  then show ?case
    by (simp add: SetMeasurementConfig_def SetSetting_def setting_value_def map_of_put split: sum.split)
next
  case (reset_parameters d io)
  then show ?case
    by (simp add: ResetMeasurementConfig_def DeleteSetting_def setting_value_def map_of_del)
qed (use store_frame(3) store_frame in \<open>simp_all add: setting_value_def same_settings_def\<close>)

lemma store_ops_keep_setting:
  "store_ops d d' \<Longrightarrow> store_inv d \<Longrightarrow> k \<noteq> measurementConfigKey \<Longrightarrow> setting_value d' k = setting_value d k"
proof (induction rule: rtranclp_induct)
  case (step d1 d2)
  then have "store_inv d1" using store_ops_inv by blast
  with step show ?case using store_op_keeps_setting [of d1 d2 k] by (simp add: store_inv_def)
qed simp

lemma migrate_settings:
  assumes "migrate pick now io d = (Inr u, d1)"
  shows "db_settings d1 = db_settings d"
proof -
  from assms obtain d2 d3 where stages: "apply_migrations migrations (db_versions d) 0 (io 1) d = (Inr (), d2)"
    "backfillCatalog pick now (io 2) d2 = (Inr (), d3)" "seed now (io 3) d3 = (Inr u, d1)"
    by (cases rule: migrate_cases) auto
  have "db_settings d2 = db_settings d"
    using stages(1) by (auto simp: migrations_def run_sql_def split: if_splits)
  moreover have "db_settings d3 = db_settings d2"
    using stages(2) by (auto simp: backfillCatalog_def Let_def split: if_splits)
  ultimately show ?thesis using seed_resume(3) [OF stages(3)] by (simp add: same_but_targets_def)
qed

lemma buildHandler_password:
  assumes "buildHandler ops bcrypt et ex pe cfg dw d = (Some (env, st, g), d')"
  obtains hash password where "resolvePassword bcrypt cfg (dw_rnd dw 0) (dw_now dw) (dw_io dw) d = (Some (hash, password), d')"
    "ae_passwordHash (ge_admin env) = hash" "ae_bcrypt (ge_admin env) = bcrypt" "g = (password, password \<noteq> [])"
    "as_db st = d'" "ge_cfg env = cfg"
  using assms by (auto simp: buildHandler_def admin_NewServer_def PasswordGeneration_def split: option.splits prod.splits)

text \<open>C19: A password that a start generated and logged is the administrator's from then on: after
  any requests, the next start over the same database that is not given one generates
  nothing, logs nothing and accepts it.\<close>

theorem generated_password_survives_restart:
  assumes first: "run_start ops bcrypt et ex pe pick vars False False dwo dw d = (Inr (env, st, password, True), d')"
    and between: "(gateway_step env)\<^sup>*\<^sup>* st st'"
    and second: "run_start ops bcrypt et ex pe pick vars' False False dwo' dw' (as_db st') = (Inr (env', st'', logged, again), d'')"
    and unset: "AdminPassword (ge_cfg env') = []"
    and laws: "bcrypt_contract bcrypt" "picks pick" "store_inv d"
  shows "verifyPassword (ae_bcrypt (ge_admin env')) (ae_passwordHash (ge_admin env')) password \<and> \<not> again \<and> logged = []"
proof -
  from first obtain cfg d1 where m1: "migrate pick (dw_now dwo) (dw_io dwo) d = (Inr (), d1)"
    and b1: "buildHandler ops bcrypt et ex pe cfg dw d1 = (Some (env, st, password, True), d')"
    by (cases rule: run_start_stages) auto
  from b1 obtain hash where r1: "resolvePassword bcrypt cfg (dw_rnd dw 0) (dw_now dw) (dw_io dw) d1 = (Some (hash, password), d')"
    and p1: "password \<noteq> []" and db1: "as_db st = d'"
    by (cases rule: buildHandler_password) auto
  have inv1: "store_inv d1" using migrate_inv [OF laws(2,3)] m1 by (metis snd_conv)
  from buildHandler_db(4) [OF b1 inv1] have inv: "store_inv d'" .
  from r1 p1 have gen: "generateAdminPassword bcrypt (dw_rnd dw 0) = Some (password, hash)"
    and set: "SetSetting (dw_now dw) adminPasswordSettingKey hash (dw_io dw 1) d1 = (Inr (), d')"
    by (auto simp: resolvePassword_def split: if_splits sum.splits option.splits prod.splits)
  from gen laws(1) have good: "verifyPassword bcrypt hash password"
    by (auto simp: generateAdminPassword_def hashPassword_def bcrypt_contract_def verifyPassword_def split: if_splits
        option.splits bind_splits)
  have key: "adminPasswordSettingKey \<noteq> measurementConfigKey"
    by (simp add: adminPasswordSettingKey_def measurementConfigKey_def)
  from set have "setting_value d' adminPasswordSettingKey = Some hash"
    by (auto simp: SetSetting_def setting_value_def map_of_put split: if_splits)
  with store_ops_keep_setting [OF gateway_steps_ops [OF between] _ key] inv db1
  have kept: "setting_value (as_db st') adminPasswordSettingKey = Some hash" by simp
  from second obtain cfg' d2 where m2: "migrate pick (dw_now dwo') (dw_io dwo') (as_db st') = (Inr (), d2)"
    and b2: "buildHandler ops bcrypt et ex pe cfg' dw' d2 = (Some (env', st'', logged, again), d'')" "ge_cfg env' = cfg'"
    by (cases rule: run_start_stages) auto
  from b2(1) obtain hash2 where r2: "resolvePassword bcrypt cfg' (dw_rnd dw' 0) (dw_now dw') (dw_io dw') d2 = (Some (hash2, logged), d'')"
    and out: "ae_passwordHash (ge_admin env') = hash2" "ae_bcrypt (ge_admin env') = bcrypt" "again = (logged \<noteq> [])"
    by (cases rule: buildHandler_password) auto
  have "setting_value d2 adminPasswordSettingKey = Some hash"
    using kept migrate_settings [OF m2] by (simp add: setting_value_def)
  with r2 unset b2(2) have "hash2 = hash" "logged = []"
    by (auto simp: resolvePassword_def Setting_def split: if_splits)
  with good out show ?thesis by simp
qed

theorem generated_password_survives_restart_witness:
  "\<exists>password d1 (env :: int gateway_env) st d'. password \<noteq> [] \<and>
     run_start countdown_ops sample_bcrypt (\<lambda>_. []) (\<lambda>_ _. True) (\<lambda>_ _. True) sample_pick (\<lambda>_. []) False False
       calm_draws calm_draws d1 = (Inr (env, st, [], False), d') \<and>
     verifyPassword sample_bcrypt (ae_passwordHash (ge_admin env)) password"
proof -
  let ?start = "run_start countdown_ops sample_bcrypt (\<lambda>_. []) (\<lambda>_ _. True) (\<lambda>_ _. True) sample_pick (\<lambda>_. []) False False
       calm_draws calm_draws :: db \<Rightarrow> (start_error + int gateway_env \<times> int gateway_state \<times> string \<times> bool) \<times> db"
  obtain cfg where cfg: "Load (\<lambda>_. []) = Inr cfg" "AdminPassword cfg = []" using sample_Load by blast
  obtain password hash where gen: "password \<noteq> []" "generateAdminPassword sample_bcrypt (sample_rnd 0) = Some (password, hash)"
    using sample_generates by blast
  let ?d = "set_setting 0 adminPasswordSettingKey hash sample_file"
  have "setting_value sample_file adminPasswordSettingKey = None"
    by (simp add: setting_value_def sample_file_def sample_db_def empty_db_def)
  with gen have r1: "resolvePassword sample_bcrypt cfg (dw_rnd calm_draws 0) (dw_now calm_draws) (dw_io calm_draws) sample_file =
      (Some (hash, password), ?d)"
    by (simp add: resolvePassword_def cfg Setting_def SetSetting_def set_setting_def calm_draws_def)
  from start_settled [OF cfg(1) sample_file_settled(1) r1, of countdown_ops "\<lambda>_. []" "\<lambda>_ _. True" "\<lambda>_ _. True" sample_pick]
  obtain env st where "?start sample_file = (Inr (env, st, password, password \<noteq> []), ?d)" and db: "as_db st = ?d" by metis
  with gen(1) have first: "?start sample_file = (Inr (env, st, password, True), ?d)" by simp
  have settled: "settled_db ?d"
    using sample_file_settled(1) by (simp add: settled_db_def set_setting_def SetSetting_def)
  have "setting_value ?d adminPasswordSettingKey = Some hash"
    by (simp add: setting_value_def set_setting_def SetSetting_def map_of_put)
  then have r2: "resolvePassword sample_bcrypt cfg (dw_rnd calm_draws 0) (dw_now calm_draws) (dw_io calm_draws) ?d = (Some (hash, []), ?d)"
    by (simp add: resolvePassword_def cfg Setting_def calm_draws_def)
  from start_settled [OF cfg(1) settled r2, of countdown_ops "\<lambda>_. []" "\<lambda>_ _. True" "\<lambda>_ _. True" sample_pick]
  obtain env' st' where s2: "?start ?d = (Inr (env', st', [], [] \<noteq> ([] :: string)), ?d)" and
    env: "ge_cfg env' = cfg" "ae_bcrypt (ge_admin env') = sample_bcrypt" by metis
  then have second: "?start ?d = (Inr (env', st', [], False), ?d)" by simp
  have "bcrypt_contract sample_bcrypt" by (simp add: bcrypt_contract_def sample_bcrypt_def)
  from generated_password_survives_restart [OF first rtranclp.rtrancl_refl second [folded db] _ this sample_picks sample_file_settled(2)]
  have "verifyPassword sample_bcrypt (ae_passwordHash (ge_admin env')) password" by (simp add: env cfg(2))
  with second gen(1) show ?thesis by blast
qed



section \<open>Retries\<close>

definition attempt :: "int \<Rightarrow> string \<Rightarrow> string \<Rightarrow> (nat \<Rightarrow> nat \<Rightarrow> string option) \<Rightarrow> (nat \<Rightarrow> faults) \<Rightarrow> nat \<Rightarrow> probe \<Rightarrow> db \<Rightarrow>
    ((store_error + probe) \<times> db) option" where
  "attempt now campus building rnd io i p d =
     map_option (\<lambda>pid. CreateProbe now (p\<lparr>p_ProbeID := pid\<rparr>) (io i) d) (generateProbeID campus building (rnd i))"

text \<open>C21: Creating a probe ends: of its \<open>n\<close> attempts (five, in both servers) it makes them one after
  the other while the row would be a duplicate, each leaving the database as it was, and stops
  with the first that is not, whose outcome is the result; it gives up by itself only when
  all \<open>n\<close> were duplicates.\<close>

theorem creation_attempts_end:
  "\<exists>k \<le> n. (\<forall>j < k. attempt now campus building rnd io (i + j) p d = Some (Inl ErrDuplicate, d)) \<and>
     create_attempts n now campus building rnd io i p d =
       (if k = n then (None, d)
        else case attempt now campus building rnd io (i + k) p d of
               None \<Rightarrow> (None, d)
             | Some (r, d') \<Rightarrow> (case r of Inl _ \<Rightarrow> None | Inr made \<Rightarrow> Some made, d')) \<and>
     (k < n \<longrightarrow> (\<forall>d'. attempt now campus building rnd io (i + k) p d \<noteq> Some (Inl ErrDuplicate, d')))"
proof (induction n arbitrary: i)
  case 0
  show ?case by simp
next
  case (Suc n)
  show ?case
  proof (cases "attempt now campus building rnd io i p d")
    case None
    then show ?thesis by (intro exI [of _ 0]) (auto simp: attempt_def)
  next
    case (Some x)
    obtain r d' where x: "x = (r, d')" by (cases x)
    with Some obtain pid where pid: "generateProbeID campus building (rnd i) = Some pid"
      "CreateProbe now (p\<lparr>p_ProbeID := pid\<rparr>) (io i) d = (r, d')"
      by (auto simp: attempt_def)
    show ?thesis
    proof (cases "r = Inl ErrDuplicate")
      case True
      with pid have d': "d' = d" using CreateProbe_duplicate by simp
      with pid True have step: "create_attempts (Suc n) now campus building rnd io i p d =
          create_attempts n now campus building rnd io (Suc i) p d" by simp
      from Suc.IH [of "Suc i"] obtain k where k: "k \<le> n"
        "\<forall>j < k. attempt now campus building rnd io (Suc i + j) p d = Some (Inl ErrDuplicate, d)"
        "create_attempts n now campus building rnd io (Suc i) p d =
          (if k = n then (None, d)
           else case attempt now campus building rnd io (Suc i + k) p d of
                  None \<Rightarrow> (None, d)
                | Some (r, d') \<Rightarrow> (case r of Inl _ \<Rightarrow> None | Inr made \<Rightarrow> Some made, d'))"
        "k < n \<longrightarrow> (\<forall>d'. attempt now campus building rnd io (Suc i + k) p d \<noteq> Some (Inl ErrDuplicate, d'))"
        by blast
      have "attempt now campus building rnd io (i + j) p d = Some (Inl ErrDuplicate, d)" if "j < Suc k" for j
        using that k(2) Some x True d' by (cases j) auto
      with k step show ?thesis by (intro exI [of _ "Suc k"]) auto
    next
      case False
      with pid Some x show ?thesis
        by (intro exI [of _ 0]) (auto simp: attempt_def split: sum.splits store_error.splits)
    qed
  qed
qed

theorem creation_attempts_end_witness:
  "create_attempts 5 0 ''a'' ''b'' (\<lambda>_ _. None) (\<lambda>_. no_faults) 0 (scanProbe sample_probe_row) sample_db = (None, sample_db)"
proof -
  have none: "attempt 0 ''a'' ''b'' (\<lambda>_ _. None) (\<lambda>_. no_faults) i (scanProbe sample_probe_row) sample_db = None" for i
    by (simp add: attempt_def generateProbeID_def)
  show ?thesis
    using creation_attempts_end [of 5 0 "''a''" "''b''" "\<lambda>_ _. None" "\<lambda>_. no_faults" 0 "scanProbe sample_probe_row" sample_db]
    by (simp only: none) (auto split: if_splits)
qed

section \<open>The catch-all check\<close>

definition v4_text :: "string \<Rightarrow> bool" where
  "v4_text s \<longleftrightarrow> s \<noteq> [] \<and> (\<exists>a. ParseIP s = Some (v4_prefix @ a) \<and> length a = 4 \<and> list_all (\<lambda>b. b < 256) a)"

lemma v4_text_trusted: "v4_text s \<Longrightarrow> nets_contain [mapped_v4_net] s"
  by (auto simp: v4_text_def nets_contain_def mapped_v4_contains)

lemma split_on_none: "sep \<notin> set s \<Longrightarrow> split_on sep s = [s]"
  by (induction s) auto

text \<open>C22: The guard against trusting every proxy can be passed: a configuration that the loader
  accepts trusts \<open>X-Forwarded-For\<close> from every IPv4 peer, so that each of them is attributed to
  whatever IPv4 address it writes there.\<close>

theorem catch_all_check_bypassed:
  "\<exists>vars c. Load vars = Inr c \<and>
     (\<forall>r claimed. v4_text (hostOnly (RemoteAddr r)) \<and> v4_text claimed \<and> CHR '','' \<notin> set claimed \<and> entry_addr claimed = claimed \<longrightarrow>
        clientip_From (r\<lparr>XForwardedFor := claimed\<rparr>) (TrustedProxyCIDRs c) = claimed)"
proof -
  let ?vars = "\<lambda>k. if k = ''TRUSTED_PROXY_CIDRS'' then ''::ffff:0:0/96'' else []"
  have "atoi ''3'' = Some 3" "atoi ''500'' = Some 500" "parseLevel ''info'' = Inr LevelInfo" by code_simp+
  moreover have "trim_space ''::ffff:0:0/96'' = ''::ffff:0:0/96''"
    by (simp add: trim_space_def trim_left.simps trim_end_rev.simps space_width_def space_width_end_def code_def)
  moreover have "parseCIDRs [] = Inr []" by (simp add: parseCIDRs_def)
  ultimately obtain c where c: "Load ?vars = Inr c" "TrustedProxyCIDRs c = [mapped_v4_net]"
    using mapped_v4_parsed mapped_v4_not_catch_all
    by (auto simp: Load_def positive_duration_def durationEnv_def count_env_def envOr_def Let_def Hour_def Second_def)
  have spoof: "clientip_From (r\<lparr>XForwardedFor := claimed\<rparr>) [mapped_v4_net] = claimed"
    if "v4_text (hostOnly (RemoteAddr r))" "v4_text claimed" "CHR '','' \<notin> set claimed" "entry_addr claimed = claimed"
    for r :: peer_info and claimed
    using that v4_text_trusted [OF that(1)] v4_text_trusted [OF that(2)]
    by (auto simp: clientip_From_def Let_def split_on_none v4_text_def)
  show ?thesis by (intro exI conjI, rule c(1)) (simp add: c(2) spoof)
qed

theorem catch_all_check_bypassed_witness:
  "\<exists>vars c. Load vars = Inr c \<and>
     clientip_From \<lparr>RemoteAddr = ''203.0.113.7:5000'', XForwardedFor = ''198.51.100.1''\<rparr> (TrustedProxyCIDRs c) = ''198.51.100.1''"
proof -
  obtain vars c where c: "Load vars = Inr c" and spoof:
    "\<And>r claimed. v4_text (hostOnly (RemoteAddr (r :: peer_info))) \<Longrightarrow> v4_text claimed \<Longrightarrow> CHR '','' \<notin> set claimed \<Longrightarrow>
       entry_addr claimed = claimed \<Longrightarrow> clientip_From (r\<lparr>XForwardedFor := claimed\<rparr>) (TrustedProxyCIDRs c) = claimed"
    using catch_all_check_bypassed by blast
  have p: "hostOnly ''203.0.113.7:5000'' = ''203.0.113.7''" "entry_addr ''198.51.100.1'' = ''198.51.100.1''"
    "ParseIP ''203.0.113.7'' = Some (v4_prefix @ [203, 0, 113, 7])" "ParseIP ''198.51.100.1'' = Some (v4_prefix @ [198, 51, 100, 1])"
    by code_simp+
  have "v4_text ''203.0.113.7''" "v4_text ''198.51.100.1''" by (simp_all add: v4_text_def p(3,4))
  with spoof [of "\<lparr>RemoteAddr = ''203.0.113.7:5000'', XForwardedFor = []\<rparr>" "''198.51.100.1''"] c p(1,2) show ?thesis
    by auto
qed

end
