(* ===== verification/Push_Concurrent.thy ===== *)
theory Push_Concurrent
  imports Api_Push
begin

text \<open>
  The push handler of \<open>internal/api/push.go\<close> as the server runs it: one goroutine per request, and
  between two of a handler's calls to the store, to the limiter or to the latest store any other
  request may be served.  Each of those calls is one step, with what the handler computes by
  itself until the next one; \<open>Api_Push\<close> runs them in one go, and the steps of a handler that
  nothing interrupts are shown to come to the same.
\<close>

section \<open>One handler, step by step\<close>

text \<open>Where a handler is, with the variables it holds there.\<close>

datatype push_pc =
    PushStart
  | AtLookup string
  | AtCharge
  | AtLimit probe
  | AtAllowlist probe push_request
  | AtConfig probe push_request allowlist
  | AtTargets probe push_request allowlist measurement_config
  | AtPut probe push_request
  | Answered response

record push_call =
  pl_io :: "nat \<Rightarrow> faults"
  pl_rq :: http_request
  pl_pc :: push_pc

text \<open>An answer that ends the handler.\<close>

definition answer :: "response \<times> ('b, 'm) api_state_scheme \<Rightarrow> push_pc \<times> ('b, 'm) api_state_scheme" where
  "answer r = (Answered (fst r), snd r)"

fun push_step :: "'b rate_ops \<Rightarrow> ip_net list \<Rightarrow> int \<Rightarrow> push_call \<Rightarrow> push_pc \<Rightarrow> ('b, 'm) api_state_scheme \<Rightarrow>
    push_pc \<times> ('b, 'm) api_state_scheme" where
  "push_step ops tp now t PushStart st =
     (let header = rq_Authorization (pl_rq t); raw = trim_prefix header bearerPrefix in
      if \<not> has_prefix header bearerPrefix then answer (unauthorized ''missing_or_malformed'' st)
      else if raw = [] then answer (unauthorized ''missing_or_malformed'' st)
      else
        (let (blocked, st) = with_limiter False (AuthFailureBlocked ops now (client_ip (pl_rq t) tp)) st in
         if blocked then answer (rate_limited st) else (AtLookup raw, st)))"
| "push_step ops tp now t (AtLookup raw) st =
     (case ProbeByTokenHash (Hash raw) (pl_io t 0) (as_db st) of
        Inr probe \<Rightarrow> (if \<not> p_Enabled probe then answer (disabled_probe st) else (AtLimit probe, st))
      | Inl ErrNotFound \<Rightarrow> (AtCharge, st)
      | Inl _ \<Rightarrow> answer (unavailable st))"
| "push_step ops tp now t AtCharge st =
     (let (ok, st) = with_limiter True (AllowAuthFailure ops now (client_ip (pl_rq t) tp)) st in
      if \<not> ok then answer (rate_limited (authFailed ''invalid_token'' st))
      else answer (unauthorized ''invalid_token'' st))"
| "push_step ops tp now t (AtLimit probe) st =
     (let (ok, st) = with_limiter True (Allow ops now (p_ProbeID probe)) st in
      if \<not> ok then answer (rate_limited st)
      else
        (case ReadAll (pl_rq t) of
           BodyTooLarge \<Rightarrow>
             answer (writeError StatusRequestEntityTooLarge CodeInvalidRequest msgTooLarge, reject CodeInvalidRequest st)
         | BodyFailed \<Rightarrow> answer (writeError StatusBadRequest CodeInvalidRequest msgBadRequest, reject CodeInvalidRequest st)
         | BodyRead body \<Rightarrow>
             (case Decode body of
                Inl e \<Rightarrow> answer (protocol_rejection e st)
              | Inr req \<Rightarrow> (AtAllowlist probe req, st))))"
| "push_step ops tp now t (AtAllowlist probe req) st =
     (case Allowlist (pl_io t 1) (as_db st) of
        Inl _ \<Rightarrow> answer (unavailable st) | Inr al \<Rightarrow> (AtConfig probe req al, st))"
| "push_step ops tp now t (AtConfig probe req al) st =
     (case MeasurementConfig (pl_io t 2) (as_db st) of
        Inl _ \<Rightarrow> answer (unavailable st) | Inr (cfg, _) \<Rightarrow> (AtTargets probe req al cfg, st))"
| "push_step ops tp now t (AtTargets probe req al cfg) st =
     (case DispatchTargets (pl_io t 3) (as_db st) of
        Inl _ \<Rightarrow> answer (unavailable st)
      | Inr targets \<Rightarrow>
          (case Validate req al (ConfigID cfg (dispatchEntries targets)) of
             Inl e \<Rightarrow> answer (protocol_rejection e st)
           | Inr _ \<Rightarrow> (AtPut probe req, st)))"
| "push_step ops tp now t (AtPut probe req) st = answer (accept_push now (p_ProbeID probe) req st)"
| "push_step ops tp now t (Answered rs) st = (Answered rs, st)"

text \<open>The steps of one handler in a row, at one instant.\<close>

fun push_run :: "nat \<Rightarrow> 'b rate_ops \<Rightarrow> ip_net list \<Rightarrow> int \<Rightarrow> push_call \<Rightarrow> push_pc \<Rightarrow> ('b, 'm) api_state_scheme \<Rightarrow>
    push_pc \<times> ('b, 'm) api_state_scheme" where
  "push_run 0 ops tp now t pc st = (pc, st)"
| "push_run (Suc k) ops tp now t pc st =
     (let (pc', st') = push_step ops tp now t pc st in push_run k ops tp now t pc' st')"

section \<open>Uninterrupted, the steps are the handler\<close>

lemma push_run_answered [simp]: "push_run k ops tp now t (Answered rs) st = (Answered rs, st)"
  by (induction k) auto

lemma push_run_answer [simp]:
  "(case answer r of (pc, st) \<Rightarrow> push_run k ops tp now t pc st) = answer r"
  "push_run k ops tp now t (fst (answer r)) (snd (answer r)) = answer r"
  by (simp_all add: answer_def)

lemmas push_run_at =
  push_run.simps(2) [where pc = PushStart]
  push_run.simps(2) [where pc = "AtLookup raw" for raw]
  push_run.simps(2) [where pc = AtCharge]
  push_run.simps(2) [where pc = "AtLimit p" for p]
  push_run.simps(2) [where pc = "AtAllowlist p req" for p req]
  push_run.simps(2) [where pc = "AtConfig p req al" for p req al]
  push_run.simps(2) [where pc = "AtTargets p req al cfg" for p req al cfg]
  push_run.simps(2) [where pc = "AtPut p req" for p req]

lemma judge_run:
  assumes "Decode body = Inr req"
  shows "push_run (Suc (Suc (Suc (Suc k)))) ops tp now t (AtAllowlist probe req) st =
     answer (handle_body now (pl_io t) (p_ProbeID probe) body st)"
  using assms
  by (simp add: push_run_at handle_body_def judge_push_def Let_def del: push_run.simps(2)
      split: sum.split prod.split)

lemma limit_run:
  "push_run (Suc (Suc (Suc (Suc (Suc k))))) ops tp now t (AtLimit probe) st =
     (let (ok, st) = with_limiter True (Allow ops now (p_ProbeID probe)) st in
      if \<not> ok then answer (rate_limited st)
      else answer (case ReadAll (pl_rq t) of
           BodyTooLarge \<Rightarrow>
             (writeError StatusRequestEntityTooLarge CodeInvalidRequest msgTooLarge, reject CodeInvalidRequest st)
         | BodyFailed \<Rightarrow> (writeError StatusBadRequest CodeInvalidRequest msgBadRequest, reject CodeInvalidRequest st)
         | BodyRead body \<Rightarrow> handle_body now (pl_io t) (p_ProbeID probe) body st))"
proof -
  obtain ok st1 where l: "with_limiter True (Allow ops now (p_ProbeID probe)) st = (ok, st1)" by fastforce
  show ?thesis
  proof (cases "ok \<and> (\<exists>body req. ReadAll (pl_rq t) = BodyRead body \<and> Decode body = Inr req)")
    case True
    then obtain body req where "ok" "ReadAll (pl_rq t) = BodyRead body" "Decode body = Inr req" by blast
    with judge_run [of body req k ops tp now t probe st1] l show ?thesis
      by (simp add: push_run_at [where k = "Suc (Suc (Suc (Suc k)))"] del: push_run.simps(2))
  next
    case False
    with l show ?thesis
      by (auto simp: push_run_at [where k = "Suc (Suc (Suc (Suc k)))"] handle_body_def simp del: push_run.simps(2)
          split: body_read.split sum.split)
  qed
qed

lemma lookup_run:
  "push_run (Suc (Suc (Suc (Suc (Suc (Suc k)))))) ops tp now t (AtLookup raw) st =
     (case ProbeByTokenHash (Hash raw) (pl_io t 0) (as_db st) of
        Inr probe \<Rightarrow> (if \<not> p_Enabled probe then answer (disabled_probe st)
          else push_run (Suc (Suc (Suc (Suc (Suc k))))) ops tp now t (AtLimit probe) st)
      | Inl ErrNotFound \<Rightarrow> push_step ops tp now t AtCharge st
      | Inl _ \<Rightarrow> answer (unavailable st))"
  by (simp add: push_run_at(2,3) Let_def split_beta del: push_run.simps(2) split: sum.split store_error.split)

lemma handler_run:
  "push_run (Suc (Suc (Suc (Suc (Suc (Suc (Suc k))))))) ops tp now t PushStart st =
     answer (handlePush ops tp now (pl_io t) (pl_rq t) st)"
proof -
  let ?h = "rq_Authorization (pl_rq t)"
  obtain blocked st1 where b: "with_limiter False (AuthFailureBlocked ops now (client_ip (pl_rq t) tp)) st = (blocked, st1)"
    by fastforce
  show ?thesis
  proof (cases "has_prefix ?h bearerPrefix \<and> trim_prefix ?h bearerPrefix \<noteq> [] \<and> \<not> blocked")
    case False
    with b show ?thesis
      by (auto simp: push_run_at(1) handlePush_def authenticate_def Let_def split_beta simp del: push_run.simps(2))
  next
    case True
    with b have "push_run (Suc (Suc (Suc (Suc (Suc (Suc (Suc k))))))) ops tp now t PushStart st =
        push_run (Suc (Suc (Suc (Suc (Suc (Suc k)))))) ops tp now t (AtLookup (trim_prefix ?h bearerPrefix)) st1"
      by (simp add: push_run_at(1) Let_def del: push_run.simps(2))
    with True b show ?thesis
      unfolding lookup_run limit_run
      by (simp add: handlePush_def authenticate_def Let_def split_beta split: sum.split store_error.split body_read.split)
  qed
qed

text \<open>The program counter of a call is where it is, not what it does next.\<close>

lemma push_step_pc [simp]: "push_step ops tp now (t\<lparr>pl_pc := x\<rparr>) pc st = push_step ops tp now t pc st"
  by (cases pc) (simp_all add: Let_def split_beta split: body_read.split)

section \<open>What a step changes\<close>

lemma rejection_not_204 [simp]: "statusForCode cd \<noteq> 204"
  by (simp add: statusForCode_def status_defs)

text \<open>Only the last step of an accepted push changes the latest results.\<close>

lemma push_step_db: "push_step ops tp now t pc st = (pc', st') \<Longrightarrow> as_db st' = as_db st"
  by (cases pc) (auto simp: answer_def Let_def split_beta api_frame accept_push_def
      split: sum.splits store_error.splits body_read.splits if_splits)

lemma push_step_latest:
  assumes "push_step ops tp now t pc st = (pc', st')"
  shows "as_latest st' = as_latest st \<and> (\<forall>rs. pc' = Answered rs \<and> pc \<noteq> Answered rs \<longrightarrow> rs_Status rs \<noteq> StatusNoContent) \<or>
    (\<exists>probe req. pc = AtPut probe req \<and> as_latest st' = latest_Put (p_ProbeID probe) (req_Results req) now (as_latest st) \<and>
       pc' = Answered \<lparr>rs_Status = StatusNoContent, rs_Body = None\<rparr>)"
  using assms
  by (cases pc) (auto simp: answer_def Let_def split_beta api_frame accept_push_def status_defs
      split: sum.splits store_error.splits body_read.splits if_splits)

end
