(* ===== verification/Portal_Concurrent.thy ===== *)
theory Portal_Concurrent
  imports Portal_Register
begin

text \<open>
  The registration handler of \<open>internal/portal/register.go\<close> as the server runs it: one goroutine per
  request, and between two of a handler's calls to the store, to the limiter or to the token slots
  any other request may be served.  Each of those calls is one step; \<open>Portal_Register\<close> runs them in
  one go, and the steps of a handler that nothing interrupts are shown to come to the same.
\<close>

section \<open>One handler, step by step\<close>

text \<open>Where a handler is, with the variables it holds there.\<close>

datatype reg_pc =
    AtStart
  | AtListCampuses registration_form
  | AtValidate registration_form
  | AtGetBuilding registration_form
  | AtGetCampus registration_form building
  | AtAllow registration_form building campus
  | AtCount registration_form building campus
  | AtCreate nat nat string campus building probe
  | AtMint string probe
  | AtRender int string string
  | Finished "portal_page web_response"

record reg_call =
  rc_exec :: portal_exec
  rc_io :: "nat \<Rightarrow> faults"
  rc_rnd :: "nat \<Rightarrow> nat \<Rightarrow> string option"
  rc_rq :: web_request
  rc_pc :: reg_pc

fun reg_step :: "'b rate_ops \<Rightarrow> config \<Rightarrow> int \<Rightarrow> reg_call \<Rightarrow> reg_pc \<Rightarrow> ('b, 'm) portal_state_scheme \<Rightarrow>
    reg_pc \<times> ('b, 'm) portal_state_scheme" where
  "reg_step ops cfg now t AtStart st =
     (if \<not> originAllowed cfg (rc_rq t) then (Finished (http_Error ''forbidden origin'' StatusForbidden), st)
      else if ParseForm_fails (rc_rq t) then (Finished (http_Error ''invalid form'' StatusBadRequest), st)
      else (AtListCampuses (form_of (rc_rq t)), st))"
| "reg_step ops cfg now t (AtListCampuses f) st =
     (case ListCampuses (rc_io t 0) (as_db st) of
        Inl _ \<Rightarrow> (Finished internal_error, st)
      | Inr campuses \<Rightarrow>
          (if campuses = [] then (AtRender StatusServiceUnavailable msg_no_campus [], st) else (AtValidate f, st)))"
| "reg_step ops cfg now t (AtValidate f) st =
     (let msg = validateRegistration f (rc_io t 1) (as_db st) in
      if msg \<noteq> [] then (AtRender StatusBadRequest msg (f_campusCode f), st) else (AtGetBuilding f, st))"
| "reg_step ops cfg now t (AtGetBuilding f) st =
     (case GetBuilding (f_buildingCode f) (rc_io t 2) (as_db st) of
        Inl _ \<Rightarrow> (AtRender StatusBadRequest msg_no_building (f_campusCode f), st)
      | Inr building \<Rightarrow> (AtGetCampus f building, st))"
| "reg_step ops cfg now t (AtGetCampus f building) st =
     (case GetCampus (b_CampusCode building) (rc_io t 3) (as_db st) of
        Inl _ \<Rightarrow> (AtRender StatusBadRequest msg_campus_gone (f_campusCode f), st)
      | Inr campus \<Rightarrow> (AtAllow f building campus, st))"
| "reg_step ops cfg now t (AtAllow f building campus) st =
     (let (ok, st) = register_allowed ops now
            (clientip_From (peer_info.truncate (rc_rq t)) (TrustedProxyCIDRs cfg)) st in
      if \<not> ok then (AtRender StatusTooManyRequests msg_too_often (f_campusCode f), st)
      else (AtCount f building campus, st))"
| "reg_step ops cfg now t (AtCount f building campus) st =
     (case CountProbes (rc_io t 4) (as_db st) of
        Inl _ \<Rightarrow> (Finished internal_error, st)
      | Inr n \<Rightarrow>
          (if n \<ge> MaxProbes cfg
           then (AtRender StatusServiceUnavailable (cap_message cfg) (f_campusCode f), st)
           else case Generate (rc_rnd t 0) of
             None \<Rightarrow> (Finished internal_error, st)
           | Some rawToken \<Rightarrow>
               (AtCreate maxAttempts 5 rawToken campus building
                  (new_probe rawToken campus building (f_networkType f) (f_description f) ''public''), st)))"
| "reg_step ops cfg now t (AtCreate 0 i rawToken campus building p) st = (Finished internal_error, st)"
| "reg_step ops cfg now t (AtCreate (Suc n) i rawToken campus building p) st =
     (case generateProbeID (c_Code campus) (b_Code building) (rc_rnd t i) of
        None \<Rightarrow> (Finished internal_error, st)
      | Some pid \<Rightarrow>
          (case CreateProbe now (p\<lparr>p_ProbeID := pid\<rparr>) (rc_io t i) (as_db st) of
             (Inr made, d) \<Rightarrow> (AtMint rawToken made, st\<lparr>as_db := d\<rparr>)
           | (Inl ErrDuplicate, d) \<Rightarrow>
               (if n = 0 then (Finished internal_error, st\<lparr>as_db := d\<rparr>)
                else (AtCreate n (Suc i) rawToken campus building p, st\<lparr>as_db := d\<rparr>))
           | (Inl _, d) \<Rightarrow> (Finished internal_error, st\<lparr>as_db := d\<rparr>)))"
| "reg_step ops cfg now t (AtMint rawToken p) st =
     (case MintTokenSlot (rc_rnd t 10) now (p_ProbeID p) rawToken ''/'' st of
        (None, st') \<Rightarrow> (Finished internal_error, st')
      | (Some slot, st') \<Rightarrow> (Finished (Redirect (''/token/'' @ slot)), st'))"
| "reg_step ops cfg now t (AtRender status msg campus) st =
     (Finished (renderForm (rc_exec t) (rc_io t 10) (rc_io t 11) status msg campus (as_db st)), st)"
| "reg_step ops cfg now t (Finished rs) st = (Finished rs, st)"

text \<open>The steps of one handler in a row, at one instant.\<close>

fun reg_run :: "nat \<Rightarrow> 'b rate_ops \<Rightarrow> config \<Rightarrow> int \<Rightarrow> reg_call \<Rightarrow> reg_pc \<Rightarrow> ('b, 'm) portal_state_scheme \<Rightarrow>
    reg_pc \<times> ('b, 'm) portal_state_scheme" where
  "reg_run 0 ops cfg now t pc st = (pc, st)"
| "reg_run (Suc k) ops cfg now t pc st =
     (let (pc', st') = reg_step ops cfg now t pc st in reg_run k ops cfg now t pc' st')"

section \<open>Uninterrupted, the steps are the handler\<close>

lemma reg_run_finished [simp]: "reg_run k ops cfg now t (Finished rs) st = (Finished rs, st)"
  by (induction k) auto

lemma reg_run_render [simp]:
  "reg_run (Suc k) ops cfg now t (AtRender status msg campus) st =
     (Finished (renderForm (rc_exec t) (rc_io t 10) (rc_io t 11) status msg campus (as_db st)), st)"
  by simp

lemma reg_run_mint:
  "reg_run (Suc k) ops cfg now t (AtMint tok p) st =
     (case MintTokenSlot (rc_rnd t 10) now (p_ProbeID p) tok ''/'' st of
        (None, st') \<Rightarrow> (Finished internal_error, st')
      | (Some slot, st') \<Rightarrow> (Finished (Redirect (''/token/'' @ slot)), st'))"
  by (auto split: option.split prod.split)

lemma reg_run_create:
  "reg_run (Suc (Suc (n + k))) ops cfg now t (AtCreate n i tok campus building p) st =
     (case create_attempts n now (c_Code campus) (b_Code building) (rc_rnd t) (rc_io t) i p (as_db st) of
        (None, d) \<Rightarrow> (Finished internal_error, st\<lparr>as_db := d\<rparr>)
      | (Some probe, d) \<Rightarrow>
          (case MintTokenSlot (rc_rnd t 10) now (p_ProbeID probe) tok ''/'' (st\<lparr>as_db := d\<rparr>) of
             (None, st') \<Rightarrow> (Finished internal_error, st')
           | (Some slot, st') \<Rightarrow> (Finished (Redirect (''/token/'' @ slot)), st')))"
proof (induction n arbitrary: i st)
  case (Suc n)
  note step = reg_run.simps(2) [of "Suc (Suc (n + k))" ops cfg now t "AtCreate (Suc n) i tok campus building p" st]
  show ?case
  proof (cases "generateProbeID (c_Code campus) (b_Code building) (rc_rnd t i)")
    case None
    then show ?thesis by (simp add: step del: reg_run.simps)
  next
    case (Some pid)
    obtain r d where c: "CreateProbe now (p\<lparr>p_ProbeID := pid\<rparr>) (rc_io t i) (as_db st) = (r, d)" by fastforce
    consider (made) q where "r = Inr q" | (again) "r = Inl ErrDuplicate" | (failed) e where "r = Inl e" "e \<noteq> ErrDuplicate"
      by (cases r) auto
    then show ?thesis
    proof cases
      case made
      with Some c show ?thesis by (simp add: step reg_run_mint del: reg_run.simps)
    next
      case again
      have "reg_run (Suc (Suc (Suc n + k))) ops cfg now t (AtCreate (Suc n) i tok campus building p) st =
          reg_run (Suc (Suc (n + k))) ops cfg now t (AtCreate n (Suc i) tok campus building p) (st\<lparr>as_db := d\<rparr>)"
        using again Some c by (simp add: step del: reg_run.simps) (simp add: step)
      with Suc [of "Suc i" "st\<lparr>as_db := d\<rparr>"] again Some c show ?thesis
        by (simp del: reg_run.simps split: option.split prod.split)
    next
      case failed
      with Some c show ?thesis by (cases e) (simp_all add: step del: reg_run.simps)
    qed
  qed
qed simp

lemma admit_run:
  "reg_run (Suc (Suc (Suc (maxAttempts + k)))) ops cfg now t (AtCount f building campus) st =
     (Finished (fst (admit_registration cfg (rc_exec t) now (rc_io t) (rc_rnd t) f campus building st)),
      snd (admit_registration cfg (rc_exec t) now (rc_io t) (rc_rnd t) f campus building st))"
  unfolding reg_run.simps(2) [of "Suc (Suc (maxAttempts + k))" ops cfg now t "AtCount f building campus" st]
    admit_registration_def
  by (simp add: reg_run_create del: create_attempts.simps reg_run.simps(2) split: sum.split option.split prod.split)

lemmas reg_run_at =
  reg_run.simps(2) [where pc = AtStart]
  reg_run.simps(2) [where pc = "AtListCampuses f" for f]
  reg_run.simps(2) [where pc = "AtValidate f" for f]
  reg_run.simps(2) [where pc = "AtGetBuilding f" for f]
  reg_run.simps(2) [where pc = "AtGetCampus f b" for f b]
  reg_run.simps(2) [where pc = "AtAllow f b c" for f b c]

lemma register_run:
  "reg_run (Suc (Suc (Suc (Suc (Suc (Suc (Suc (Suc (Suc (maxAttempts + k)))))))))) ops cfg now t AtStart st =
     (Finished (fst (handleRegister ops cfg (rc_exec t) now (rc_io t) (rc_rnd t) (rc_rq t) st)),
      snd (handleRegister ops cfg (rc_exec t) now (rc_io t) (rc_rnd t) (rc_rq t) st))"
  unfolding handleRegister_def form_of_def [symmetric]
  by (simp add: reg_run_at admit_run register_allowed_frame Let_def split_beta
      del: reg_run.simps(2) split: sum.split)

section \<open>Many handlers, interleaved\<close>

text \<open>
  The handlers in flight and the state they share.  A step is one step of any of them, at any time;
  a new request in the place of a finished one; or any other request, as long as it adds no probe
  (the administrator's own creation is not subject to the cap and is left out).
\<close>

inductive interleaved :: "'b rate_ops \<Rightarrow> config \<Rightarrow> reg_call list \<times> ('b, 'm) portal_state_scheme \<Rightarrow>
    reg_call list \<times> ('b, 'm) portal_state_scheme \<Rightarrow> bool"
  for ops cfg where
  advance: "i < length ts \<Longrightarrow> reg_step ops cfg now (ts ! i) (rc_pc (ts ! i)) st = (pc, st') \<Longrightarrow>
    interleaved ops cfg (ts, st) (ts[i := (ts ! i)\<lparr>rc_pc := pc\<rparr>], st')"
| arrive: "i < length ts \<Longrightarrow> rc_pc (ts ! i) = Finished rs \<Longrightarrow> rc_pc t = AtStart \<Longrightarrow>
    interleaved ops cfg (ts, st) (ts[i := t], st)"
| other: "length (db_probes (as_db st')) \<le> length (db_probes (as_db st)) \<Longrightarrow>
    interleaved ops cfg (ts, st) (ts, st')"

inductive_cases interleaved_cases: "interleaved ops cfg (ts, st) (ts', st')"

text \<open>A handler that has passed the check of the cap and has not created its probe yet.\<close>

definition admitted_call :: "reg_call \<Rightarrow> bool" where
  "admitted_call t \<longleftrightarrow> (\<exists>n i tok c b p. rc_pc t = AtCreate n i tok c b p)"

definition admitted_calls :: "reg_call list \<Rightarrow> nat" where
  "admitted_calls ts = length (filter admitted_call ts)"

lemma admitted_calls_bound: "admitted_calls ts \<le> length ts"
  by (simp add: admitted_calls_def)

lemma admitted_calls_update:
  "i < length ts \<Longrightarrow> admitted_calls (ts[i := t]) + of_bool (admitted_call (ts ! i)) =
     admitted_calls ts + of_bool (admitted_call t)"
proof (induction ts arbitrary: i)
  case (Cons a ts)
  then show ?case by (cases i) (auto simp: admitted_calls_def, (metis add_Suc_right)?)
qed simp

text \<open>
  A step adds a probe only where the handler leaves the admitted ones with it, and a handler
  becomes one of them only below the cap.
\<close>

lemma reg_step_count:
  assumes "reg_step ops cfg now t (rc_pc t) st = (pc, st')"
  shows "length (db_probes (as_db st')) + of_bool (admitted_call (t\<lparr>rc_pc := pc\<rparr>)) \<le>
           length (db_probes (as_db st)) + of_bool (admitted_call t) \<or>
         length (db_probes (as_db st')) < nat (MaxProbes cfg)"
proof (cases "rc_pc t")
  case (AtCreate n i tok campus building p)
  then have a: "admitted_call t" by (simp add: admitted_call_def)
  from assms AtCreate consider "as_db st' = as_db st"
    | pid r where "CreateProbe now (p\<lparr>p_ProbeID := pid\<rparr>) (rc_io t i) (as_db st) = (r, as_db st')"
        "\<not> admitted_call (t\<lparr>rc_pc := pc\<rparr>) \<or> r = Inl ErrDuplicate"
    by (cases n) (auto simp: admitted_call_def split: option.splits prod.splits sum.splits store_error.splits if_splits)
  then show ?thesis
  proof cases
    case 1
    then show ?thesis using a by simp
  next
    case 2
    show ?thesis
    proof (cases "r = Inl ErrDuplicate")
      case True
      with 2 CreateProbe_duplicate have "as_db st' = as_db st" by blast
      then show ?thesis using a by simp
    next
      case False
      with 2 CreateProbe_grows [OF 2(1)] a show ?thesis by (auto simp: adds_probe_def)
    qed
  qed
next
  case AtCount
  with assms show ?thesis
    by (auto simp: admitted_call_def CountProbes_def split: if_splits option.splits)
qed (use assms in \<open>auto simp: admitted_call_def MintTokenSlot_def register_allowed_frame Let_def split_beta
      split: if_splits sum.splits option.splits\<close>)

lemma interleaved_count:
  assumes "interleaved ops cfg (ts, st) (ts', st')"
    "length (db_probes (as_db st)) + admitted_calls ts \<le> max m (nat (MaxProbes cfg) + length ts - 1)"
  shows "length ts' = length ts \<and>
    length (db_probes (as_db st')) + admitted_calls ts' \<le> max m (nat (MaxProbes cfg) + length ts' - 1)"
  using assms(1)
proof (rule interleaved_cases)
  fix i now pc
  assume advance: "ts' = ts[i := (ts ! i)\<lparr>rc_pc := pc\<rparr>]" "i < length ts"
    "reg_step ops cfg now (ts ! i) (rc_pc (ts ! i)) st = (pc, st')"
  from reg_step_count [OF advance(3)] show ?thesis
  proof
    assume "length (db_probes (as_db st')) < nat (MaxProbes cfg)"
    with advance(1) admitted_calls_bound [of ts'] show ?thesis by (simp add: le_max_iff_disj) linarith
  qed (use assms(2) advance(1) admitted_calls_update [OF advance(2), of "(ts ! i)\<lparr>rc_pc := pc\<rparr>"] in simp)
next
  fix i rs t
  assume arrive: "i < length ts" "rc_pc (ts ! i) = Finished rs" "rc_pc t = AtStart" "ts' = ts[i := t]" "st' = st"
  then have "\<not> admitted_call t" "\<not> admitted_call (ts ! i)" by (simp_all add: admitted_call_def)
  with assms(2) arrive(4,5) admitted_calls_update [OF arrive(1), of t] show ?thesis by simp
next
  assume "ts' = ts" "length (db_probes (as_db st')) \<le> length (db_probes (as_db st))"
  with assms(2) show ?thesis by simp
qed

lemma interleaved_counts:
  assumes "(interleaved ops cfg)\<^sup>*\<^sup>* (ts, st) (ts', st')"
    "length (db_probes (as_db st)) + admitted_calls ts \<le> max m (nat (MaxProbes cfg) + length ts - 1)"
  shows "length ts' = length ts \<and>
    length (db_probes (as_db st')) + admitted_calls ts' \<le> max m (nat (MaxProbes cfg) + length ts' - 1)"
  using assms
proof (induction "(ts', st')" arbitrary: ts' st' rule: rtranclp_induct)
  case (step y)
  obtain ts1 st1 where y: "y = (ts1, st1)" by (cases y)
  note before = step(3) [OF y step.prems]
  from interleaved_count [OF step(2) [unfolded y] before [THEN conjunct2]] before show ?case by (elim conjE) simp
qed simp

text \<open>Steps of one handler in a row are an execution in which the others wait.\<close>

lemma reg_step_pc [simp]: "reg_step ops cfg now (t\<lparr>rc_pc := x\<rparr>) pc st = reg_step ops cfg now t pc st"
  by (rule reg_step.cases [of "(ops, cfg, now, t, pc, st)"]) (auto simp: split_beta split: store_error.splits sum.splits option.splits)

lemma reg_run_interleaved:
  "i < length ts \<Longrightarrow> reg_run k ops cfg now (ts ! i) (rc_pc (ts ! i)) st = (pc, st') \<Longrightarrow>
   (interleaved ops cfg)\<^sup>*\<^sup>* (ts, st) (ts[i := (ts ! i)\<lparr>rc_pc := pc\<rparr>], st')"
proof (induction k arbitrary: ts st)
  case 0
  then have "(ts ! i)\<lparr>rc_pc := pc\<rparr> = ts ! i" "st' = st" by auto
  then show ?case by simp
next
  case (Suc k)
  obtain pc1 st1 where step: "reg_step ops cfg now (ts ! i) (rc_pc (ts ! i)) st = (pc1, st1)" by fastforce
  let ?ts = "ts[i := (ts ! i)\<lparr>rc_pc := pc1\<rparr>]"
  have "reg_run m ops cfg now (t\<lparr>rc_pc := x\<rparr>) pc s = reg_run m ops cfg now t pc s" for m t x pc and s :: "('a, 'b) portal_state_scheme"
    by (induction m arbitrary: pc s) (auto simp: split_beta)
  with Suc.prems step have "reg_run k ops cfg now (?ts ! i) (rc_pc (?ts ! i)) st1 = (pc, st')" by simp
  from Suc.IH [OF _ this] Suc.prems(1) have "(interleaved ops cfg)\<^sup>*\<^sup>* (?ts, st1) (ts[i := (ts ! i)\<lparr>rc_pc := pc\<rparr>], st')"
    by simp
  with interleaved.advance [OF Suc.prems(1) step] show ?case by (rule converse_rtranclp_into_rtranclp)
qed

end
