(* ===== verification/Gateway_Concurrent.thy ===== *)
theory Gateway_Concurrent
  imports Gateway_Invariants Push_Concurrent Portal_Concurrent
begin

text \<open>
  Push and registration handlers in flight at the same time, over one state, with the other
  requests in between: which moments a push is judged by, and what every interleaving keeps.
\<close>

section \<open>The calls in flight\<close>

datatype call = Pushing push_call | Registering reg_call

fun fresh_call :: "call \<Rightarrow> bool" where
  "fresh_call (Pushing t) \<longleftrightarrow> pl_pc t = PushStart"
| "fresh_call (Registering t) \<longleftrightarrow> rc_pc t = AtStart \<and> hostOnly (RemoteAddr (rc_rq t)) \<noteq> []"

text \<open>
  A step is one step of any call, at any time; a call that arrives; or any other request, which
  is served in one go.  A call keeps its place in the list.
\<close>

inductive overlapping :: "'b gateway_env \<Rightarrow> call list \<times> 'b gateway_state \<Rightarrow> call list \<times> 'b gateway_state \<Rightarrow> bool"
  for env :: "'b gateway_env" where
  push: "i < length ts \<Longrightarrow> ts ! i = Pushing t \<Longrightarrow>
     push_step (ge_rate env) (ge_trusted env) now t (pl_pc t) st = (pc, st') \<Longrightarrow>
     overlapping env (ts, st) (ts[i := Pushing (t\<lparr>pl_pc := pc\<rparr>)], st')"
| register: "i < length ts \<Longrightarrow> ts ! i = Registering r \<Longrightarrow>
     reg_step (ge_rate env) (ge_cfg env) now r (rc_pc r) st = (pc', st') \<Longrightarrow>
     overlapping env (ts, st) (ts[i := Registering (r\<lparr>rc_pc := pc'\<rparr>)], st')"
| arrive: "fresh_call c \<Longrightarrow> overlapping env (ts, st) (ts @ [c], st)"
| other: "gateway_step env st st' \<Longrightarrow> overlapping env (ts, st) (ts, st')"

section \<open>The moments a push is judged by\<close>

definition at_call :: "nat \<Rightarrow> push_call \<Rightarrow> push_pc \<Rightarrow> call list \<times> 'b gateway_state \<Rightarrow> bool" where
  "at_call i t pc y \<longleftrightarrow> i < length (fst y) \<and> fst y ! i = Pushing (t\<lparr>pl_pc := pc\<rparr>)"

definition bearer :: "push_call \<Rightarrow> string \<Rightarrow> bool" where
  "bearer t raw \<longleftrightarrow> rq_Authorization (pl_rq t) = bearerPrefix @ raw \<and> raw \<noteq> []"

definition decoded :: "push_call \<Rightarrow> push_request \<Rightarrow> bool" where
  "decoded t req \<longleftrightarrow> ReadAll (pl_rq t) = BodyRead (rq_Body (pl_rq t)) \<and> Decode (rq_Body (pl_rq t)) = Inr req"

text \<open>Each of these says what the call read at its step in \<open>y\<close>, a state between the start \<open>x0\<close> and \<open>x\<close>.\<close>

definition looked_up where
  "looked_up env x0 i t p x \<longleftrightarrow>
     (\<exists>y raw. (overlapping env)\<^sup>*\<^sup>* x0 y \<and> at_call i t (AtLookup raw) y \<and> bearer t raw \<and>
        ProbeByTokenHash (Hash raw) (pl_io t 0) (as_db (snd y)) = Inr p \<and> p_Enabled p \<and> (overlapping env)\<^sup>*\<^sup>* y x)"

definition listed where
  "listed env x0 i t p req al x \<longleftrightarrow>
     (\<exists>y. looked_up env x0 i t p y \<and> decoded t req \<and> at_call i t (AtAllowlist p req) y \<and>
        Allowlist (pl_io t 1) (as_db (snd y)) = Inr al \<and> (overlapping env)\<^sup>*\<^sup>* y x)"

definition configured where
  "configured env x0 i t p req al cfg x \<longleftrightarrow>
     (\<exists>y custom. listed env x0 i t p req al y \<and> at_call i t (AtConfig p req al) y \<and>
        MeasurementConfig (pl_io t 2) (as_db (snd y)) = Inr (cfg, custom) \<and> (overlapping env)\<^sup>*\<^sup>* y x)"

definition judged where
  "judged env x0 i t p req x \<longleftrightarrow>
     (\<exists>y al cfg targets. configured env x0 i t p req al cfg y \<and> at_call i t (AtTargets p req al cfg) y \<and>
        DispatchTargets (pl_io t 3) (as_db (snd y)) = Inr targets \<and> Validate req al (ConfigID cfg targets) = Inr () \<and>
        (overlapping env)\<^sup>*\<^sup>* y x)"

text \<open>What a call that has come to \<open>pc\<close> has seen.\<close>

fun evidence where
  "evidence env x0 i t (AtLookup raw) x \<longleftrightarrow> bearer t raw"
| "evidence env x0 i t (AtLimit p) x \<longleftrightarrow> looked_up env x0 i t p x"
| "evidence env x0 i t (AtAllowlist p req) x \<longleftrightarrow> looked_up env x0 i t p x \<and> decoded t req"
| "evidence env x0 i t (AtConfig p req al) x \<longleftrightarrow> listed env x0 i t p req al x"
| "evidence env x0 i t (AtTargets p req al cfg) x \<longleftrightarrow> configured env x0 i t p req al cfg x"
| "evidence env x0 i t (AtPut p req) x \<longleftrightarrow> judged env x0 i t p req x"
| "evidence env x0 i t pc x \<longleftrightarrow> True"

lemma evidence_later: "evidence env x0 i t pc x \<Longrightarrow> (overlapping env)\<^sup>*\<^sup>* x x' \<Longrightarrow> evidence env x0 i t pc x'"
  by (cases pc) (simp_all add: looked_up_def listed_def configured_def judged_def, (meson rtranclp_trans)+)

lemma evidence_call [simp]: "evidence env x0 i (t\<lparr>pl_pc := pc'\<rparr>) pc x = evidence env x0 i t pc x"
  by (cases pc) (simp_all add: looked_up_def listed_def configured_def judged_def at_call_def bearer_def decoded_def)

lemma bearer_header:
  "has_prefix h bearerPrefix \<Longrightarrow> trim_prefix h bearerPrefix \<noteq> [] \<Longrightarrow> h = bearerPrefix @ trim_prefix h bearerPrefix"
  by (metis append_take_drop_id has_prefix_def trim_prefix_def)

lemma push_step_evidence:
  assumes "push_step ops tp now t (pl_pc t) st = (pc, st')" "evidence env x0 i t (pl_pc t) (ts, st)"
    "i < length ts" "ts ! i = Pushing t" "(overlapping env)\<^sup>*\<^sup>* x0 (ts, st)" "(overlapping env)\<^sup>*\<^sup>* (ts, st) x"
  shows "evidence env x0 i t pc x"
proof -
  have here: "at_call i t (pl_pc t) (ts, st)" using assms(3,4) by (simp add: at_call_def)
  show ?thesis
  proof (cases "pl_pc t")
    case PushStart
    with assms(1) bearer_header [of "rq_Authorization (pl_rq t)"] show ?thesis
      by (auto simp: bearer_def Let_def split_beta answer_def split: if_splits)
  next
    case (AtLookup raw)
    with assms(1) consider "pc = AtCharge" | rs where "pc = Answered rs"
      | p where "pc = AtLimit p" "ProbeByTokenHash (Hash raw) (pl_io t 0) (as_db st) = Inr p" "p_Enabled p"
      by (auto simp: answer_def split: sum.splits store_error.splits if_splits)
    then show ?thesis
    proof cases
      case (3 p)
      have "looked_up env x0 i t p x"
        unfolding looked_up_def
        using AtLookup assms(2,5,6) 3(2,3) here by (intro exI [of _ "(ts, st)"] exI [of _ raw]) simp
      with 3(1) show ?thesis by simp
    qed simp_all
  next
    case (AtLimit p)
    from assms(2) AtLimit have "looked_up env x0 i t p x" using evidence_later [of env x0 i t "AtLimit p", OF _ assms(6)] by simp
    with assms(1) AtLimit show ?thesis
      by (auto simp: answer_def Let_def split_beta decoded_def ReadAll_def split: if_splits body_read.splits sum.splits)
  next
    case (AtAllowlist p req)
    with assms(1) consider rs where "pc = Answered rs" | al where "pc = AtConfig p req al" "Allowlist (pl_io t 1) (as_db st) = Inr al"
      by (auto simp: answer_def split: sum.splits)
    then show ?thesis
    proof cases
      case (2 al)
      have "listed env x0 i t p req al x"
        unfolding listed_def using AtAllowlist assms(2,6) 2(2) here by (intro exI [of _ "(ts, st)"]) simp
      with 2(1) show ?thesis by simp
    qed simp
  next
    case (AtConfig p req al)
    with assms(1) consider rs where "pc = Answered rs"
      | cfg custom where "pc = AtTargets p req al cfg" "MeasurementConfig (pl_io t 2) (as_db st) = Inr (cfg, custom)"
      by (auto simp: answer_def split: sum.splits)
    then show ?thesis
    proof cases
      case (2 cfg custom)
      have "configured env x0 i t p req al cfg x"
        unfolding configured_def using AtConfig assms(2,6) 2(2) here by (intro exI [of _ "(ts, st)"] exI [of _ custom]) simp
      with 2(1) show ?thesis by simp
    qed simp
  next
    case (AtTargets p req al cfg)
    with assms(1) consider rs where "pc = Answered rs"
      | targets where "pc = AtPut p req" "DispatchTargets (pl_io t 3) (as_db st) = Inr targets" "Validate req al (ConfigID cfg targets) = Inr ()"
      by (auto simp: answer_def split: sum.splits)
    then show ?thesis
    proof cases
      case (2 targets)
      have "judged env x0 i t p req x"
        unfolding judged_def using AtTargets assms(2,6) 2(2,3) here
        by (intro exI [of _ "(ts, st)"] exI [of _ al] exI [of _ cfg] exI [of _ targets]) simp
      with 2(1) show ?thesis by simp
    qed simp
  next
    case (Answered rs)
    with assms(1) have "pc = Answered rs" by simp
    then show ?thesis by simp
  qed (use assms(1) in \<open>auto simp: answer_def Let_def split_beta split: if_splits\<close>)
qed

section \<open>What every interleaving keeps\<close>

text \<open>A push in flight has seen what its place says; a registration in flight has an address.\<close>

definition calls_inv where
  "calls_inv env x0 x \<longleftrightarrow>
     (\<forall>i < length (fst x). case fst x ! i of
        Pushing t \<Rightarrow> evidence env x0 i t (pl_pc t) x
      | Registering r \<Rightarrow> hostOnly (RemoteAddr (rc_rq r)) \<noteq> [])"

lemma calls_inv_push: "calls_inv env x0 (ts, st) \<Longrightarrow> i < length ts \<Longrightarrow> ts ! i = Pushing t \<Longrightarrow> evidence env x0 i t (pl_pc t) (ts, st)"
  by (fastforce simp: calls_inv_def)

lemma calls_inv_register: "calls_inv env x0 (ts, st) \<Longrightarrow> i < length ts \<Longrightarrow> ts ! i = Registering r \<Longrightarrow> hostOnly (RemoteAddr (rc_rq r)) \<noteq> []"
  by (fastforce simp: calls_inv_def)

lemma calls_inv_step:
  assumes "overlapping env x y" "(overlapping env)\<^sup>*\<^sup>* x0 x" "calls_inv env x0 x"
  shows "calls_inv env x0 y"
proof -
  have xy: "(overlapping env)\<^sup>*\<^sup>* x y" using assms(1) by blast
  have later: "case fst x ! k of Pushing t \<Rightarrow> evidence env x0 k t (pl_pc t) y | Registering r \<Rightarrow> hostOnly (RemoteAddr (rc_rq r)) \<noteq> []"
    if "k < length (fst x)" for k
    using assms(3) that evidence_later [of env x0 k _ _ x, OF _ xy] by (cases "fst x ! k") (auto simp: calls_inv_def)
  from assms(1) show ?thesis
  proof cases
    case (push i ts t now st pc st')
    have "evidence env x0 i t pc y"
      using push_step_evidence [OF push(5) _ push(3,4)] calls_inv_push [of env x0 ts st i t] assms(2,3) xy push(1-4) by simp
    with later push(1-3) show ?thesis by (auto simp: calls_inv_def nth_list_update)
  next
    case (register i ts r now st pc st')
    from assms(3) register(1,3,4) calls_inv_register have "hostOnly (RemoteAddr (rc_rq r)) \<noteq> []" by metis
    with later register(1-3) show ?thesis by (auto simp: calls_inv_def nth_list_update)
  next
    case (arrive c ts st)
    with later show ?thesis by (cases c) (auto simp: calls_inv_def nth_append less_Suc_eq)
  next
    case (other st st' ts)
    with later show ?thesis by (auto simp: calls_inv_def)
  qed
qed

lemma calls_inv_always: "(overlapping env)\<^sup>*\<^sup>* ([], st0) x \<Longrightarrow> calls_inv env ([], st0) x"
  by (induction rule: rtranclp_induct) (simp add: calls_inv_def, blast intro: calls_inv_step)

text \<open>The constraints of the schema and the bounds in memory.\<close>

definition state_inv :: "('b, 'm) gateway_state_scheme \<Rightarrow> bool" where
  "state_inv st \<longleftrightarrow> store_inv (as_db st) \<and> memory_inv st"

lemma kept_state_inv: "kept st st' \<Longrightarrow> state_inv st \<Longrightarrow> state_inv st'"
  using store_ops_inv by (auto simp: kept_def state_inv_def)

lemma push_step_kept:
  assumes "push_step ops tp now t pc st = (pc', st')" "\<And>p req. pc = AtPut p req \<Longrightarrow> results_ok (req_Results req)"
  shows "api_kept st st'"
  using assms
  by (cases pc) (auto simp: answer_def Let_def split_beta intro: accept_push_kept
      split: sum.splits store_error.splits body_read.splits if_splits)

lemma judged_ok: "judged env x0 i t p req x \<Longrightarrow> results_ok (req_Results req)"
  using Decode_wf Validate_iff request_results_ok
  by (fastforce simp: judged_def configured_def listed_def decoded_def)

lemma CreateProbe_state_inv:
  fixes st :: "('b, 'm) gateway_state_scheme"
  shows "state_inv st \<Longrightarrow> state_inv (st\<lparr>as_db := snd (CreateProbe now p io (as_db st))\<rparr>)"
  by (simp add: state_inv_def store_inv_def memory_inv_def api_inv_def) (blast intro: inv_from_same store_frame store_op_invs)

lemma reg_step_state_inv:
  fixes st :: "('b, 'm) gateway_state_scheme"
  assumes "reg_step ops cfg now r pc st = (pc', st')" "hostOnly (RemoteAddr (rc_rq r)) \<noteq> []" "state_inv st"
  shows "state_inv st'"
proof -
  let ?ip = "clientip_From (peer_info.truncate (rc_rq r)) (TrustedProxyCIDRs cfg)"
  have "hostOnly (RemoteAddr (peer_info.truncate (rc_rq r))) \<noteq> []" using assms(2) by (simp add: peer_info.truncate_def)
  from register_allowed_kept [OF clientip_nonempty [OF this]]
  have allowed: "state_inv (snd (register_allowed ops now ?ip st))" using kept_state_inv assms(3) by blast
  have made: "CreateProbe now p io (as_db st) = (res, d) \<Longrightarrow> state_inv (st\<lparr>as_db := d\<rparr>)" for p io res d
    using CreateProbe_state_inv [OF assms(3), of now p io] by simp
  have minted: "state_inv (snd (MintTokenSlot rnd now pid tok bk st))" for rnd pid tok bk
    using kept_state_inv [OF MintTokenSlot_kept assms(3)] .
  show ?thesis
  proof (cases pc)
    case (AtCreate n i tok campus building p)
    with assms(1,3) made show ?thesis
      by (cases n) (auto split: option.splits prod.splits sum.splits store_error.splits if_splits)
  qed (use assms(1,3) allowed minted in \<open>auto simp: Let_def split_beta split: sum.splits if_splits option.splits prod.splits\<close>)
qed

lemma overlapping_step_inv:
  assumes "overlapping env x y" "calls_inv env x0 x" "state_inv (snd x)"
  shows "state_inv (snd y)"
  using assms(1)
proof cases
  case (push i ts t now st pc st')
  have "evidence env x0 i t (pl_pc t) x" using calls_inv_push [of env x0 ts st i t] assms(2) push(1,3,4) by simp
  then have "pl_pc t = AtPut p req \<Longrightarrow> results_ok (req_Results req)" for p req using judged_ok [of env x0 i t p req x] by simp
  then have "api_kept st st'" by (rule push_step_kept [OF push(5)])
  then show ?thesis using kept_state_inv [OF api_kept_kept] assms(3) push(1,2) by fastforce
next
  case (register i ts r now st pc st')
  then show ?thesis
    using reg_step_state_inv [OF register(5)] calls_inv_register [of env x0 ts st i r] assms(2,3) by simp
next
  case (other st st' ts)
  then show ?thesis using kept_state_inv [OF gateway_step_kept [OF other(3)]] assms(3) by simp
qed (use assms(3) in simp)

lemma overlapping_state_inv:
  "(overlapping env)\<^sup>*\<^sup>* ([], st0) x \<Longrightarrow> state_inv st0 \<Longrightarrow> state_inv (snd x)"
  by (induction rule: rtranclp_induct) (simp, blast intro: overlapping_step_inv calls_inv_always)

end
