(* ===== verification/Metrics_Properties.thy ===== *)
theory Metrics_Properties
  imports Samples Metrics_Collector
begin

text \<open>
  The properties of a scrape: what it says of each probe, that it is silent when the probe
  table cannot be read, and that every sample fits its descriptor.
\<close>

lemma filter_concat_distinct:
  assumes "distinct (map f ps)" "p \<in> set ps" "\<And>q x. q \<in> set ps \<Longrightarrow> x \<in> set (g q) \<Longrightarrow> h x = f q"
  shows "filter (\<lambda>x. h x = f p) (concat (map g ps)) = g p"
  using assms
proof (induction ps)
  case (Cons q ps)
  have ns: "filter (\<lambda>x. h x = f p) (g q) = (if p = q then g q else [])"
  proof (cases "p = q")
    case True
    then show ?thesis using Cons.prems(3) [of q] by (simp add: filter_id_conv)
  next
    case False
    then have "f q \<noteq> f p" using Cons.prems(1,2) by (auto simp: rev_image_eqI)
    then show ?thesis using Cons.prems(3) [of q] False by (auto simp: filter_empty_conv)
  qed
  show ?case
  proof (cases "p \<in> set ps")
    case True
    then have "p \<noteq> q" using Cons.prems(1) by auto
    with ns Cons.IH [OF _ True] Cons.prems show ?thesis by simp
  next
    case False
    then have "p = q" using Cons.prems(2) by simp
    moreover have "filter (\<lambda>x. h x = f p) (concat (map g ps)) = []"
    proof -
      have "f r \<noteq> f p" if "r \<in> set ps" for r using Cons.prems(1) \<open>p = q\<close> that by (auto simp: rev_image_eqI)
      moreover have "h x = f r" if "r \<in> set ps" "x \<in> set (g r)" for r x using Cons.prems(3) [of r x] that by simp
      ultimately show ?thesis by (auto simp: filter_empty_conv)
    qed
    ultimately show ?thesis using ns by simp
  qed
qed simp

lemma probe_samples_id: "x \<in> set (probe_samples now threshold l p) \<Longrightarrow> take 1 (s_Labels x) = [p_ProbeID p]"
  using probe_samples_labels [of x now threshold l p]
  by (cases "s_Labels x") (auto simp: identityLabels_def)

lemma emitMeasurements_no_online:
  "x \<in> set (emitMeasurements rs ident) \<Longrightarrow> s_Name x \<noteq> NameOnline \<and> s_Name x \<noteq> NameLastSeen"
  by (auto simp: emitMeasurements_def emit_target_def Let_def Describe_def NewCollector_def metric_names
      MeasurementLabelNames_def dest!: emit_type_names)



text \<open>A scrape that cannot read the probe table sends no sample at all, so no stale number
  passes for a current one; it counts the failure once and changes nothing else.\<close>

theorem scrape_failure_silent:
  assumes "ListProbes io (as_db st) = Inl e" "as_self st = Some s"
  shows "Collect threshold now io st = ([], st\<lparr>as_self := Some (s\<lparr>CollectErrors := Suc (CollectErrors s)\<rparr>)\<rparr>)"
  using assms by (simp add: Collect_def on_self_def)

theorem scrape_failure_silent_witness:
  "fst (Collect 30 0 (\<lambda>_. True) sample_state) = []"
proof -
  have "ListProbes (\<lambda>_. True) (as_db sample_state) = Inl ErrDB" by (simp add: ListProbes_def)
  moreover have "as_self sample_state = Some NewSelf" by (simp add: sample_state_def)
  ultimately show ?thesis by (simp add: scrape_failure_silent)
qed

text \<open>C38: Every sample of a scrape carries a name that the collector described and exactly as
  many label values as that descriptor has label names, so building it never panics; and no
  two descriptors share a name.\<close>

theorem scrape_fits_descriptors:
  assumes "Collect threshold now io st = (out, st')" "x \<in> set out"
  shows "\<exists>names. (s_Name x, names) \<in> set (Describe NewCollector) \<and> length names = length (s_Labels x) \<and>
           (\<forall>names'. (s_Name x, names') \<in> set (Describe NewCollector) \<longrightarrow> names' = names)"
proof -
  obtain ps where "ListProbes io (as_db st) = Inr ps"
    using assms by (cases "ListProbes io (as_db st)") (auto simp: Collect_def)
  from Collect_ok [OF this, of threshold now] assms
  have "x \<in> set (scrape_of threshold now (as_latest st) ps)" by simp
  then have "\<exists>names. (s_Name x, names) \<in> set (Describe NewCollector) \<and> length names = length (s_Labels x)"
    by (auto simp: scrape_of_def dest: probe_samples_described)
      (auto simp: metric_def Describe_def NewCollector_def)
  moreover have "distinct (map fst (Describe NewCollector))"
    by (simp add: Describe_def NewCollector_def metric_names)
  ultimately show ?thesis by (meson eq_key_imp_eq_value)
qed

theorem scrape_fits_descriptors_witness:
  "\<exists>names. (NameRegisteredProbes, names) \<in> set (Describe NewCollector) \<and> length names = 0"
proof -
  obtain out st' where run: "Collect 30 0 no_faults sample_state = (out, st')" by fastforce
  have "ListProbes no_faults (as_db sample_state) = Inr [scanProbe sample_probe_row]"
    by (simp add: sample_state_def ListProbes_def sample_db_def rows_by_def)
  then have "metric NameRegisteredProbes (float_of_int 1) [] \<in> set out"
    using Collect_ok [of no_faults sample_state _ 30 0] run by (auto simp: scrape_of_def)
  from scrape_fits_descriptors [OF run this] show ?thesis by (auto simp: metric_def)
qed

end
