(* ===== verification/Export_Properties.thy ===== *)
theory Export_Properties
  imports Gateway_Properties Gateway_Concurrent Metrics_Properties
begin

text \<open>
  The properties of the way from a push to \<open>/metrics\<close>: what was accepted is exported, and in no
  state the program can reach is a value exported that no measurement could have.
\<close>

section \<open>What is accepted is exported\<close>

lemma ListProbes_set: "ListProbes io d = Inr ps \<Longrightarrow> set ps = scanProbe ` set (db_probes d)"
  by (auto simp: ListProbes_def rows_by_def split: if_splits)

lemma own_samples:
  assumes "probes_inv d" "ListProbes io d = Inr ps" "p \<in> set ps"
  shows "filter (\<lambda>x. take 1 (s_Labels x) = [p_ProbeID p]) (scrape_of threshold now l ps) = probe_samples now threshold l p"
proof -
  have d: "distinct (map (\<lambda>p. [p_ProbeID p]) ps)"
    using ListProbes_distinct [OF assms(1,2)] by (simp add: distinct_map inj_on_def)
  show ?thesis
    using filter_concat_distinct [OF d assms(3), of "probe_samples now threshold l" "\<lambda>x. take 1 (s_Labels x)"]
      probe_samples_id by (simp add: scrape_of_def metric_def)
qed

text \<open>The samples of a probe after its push was accepted.\<close>

lemma accepted_push_shown:
  assumes push: "handlePush ops tp now io rq st = (rs, st')" "rs_Status rs = StatusNoContent"
    and scrape: "Collect threshold now' io' s = (out, s')" "\<not> io' 0" "as_db s = as_db st'" "as_latest s = as_latest st'"
    and fresh: "time_Sub now' now \<le> threshold" and inv: "probes_inv (as_db st)"
  shows "\<exists>raw probe req. rq_Authorization rq = bearerPrefix @ raw \<and>
     ProbeByTokenHash (Hash raw) no_faults (as_db st) = Inr probe \<and> Decode (rq_Body rq) = Inr req \<and>
     filter (\<lambda>x. take 1 (s_Labels x) = [p_ProbeID probe]) out =
       [metric NameOnline (Fin 1) (identityLabels probe)] @ emitMeasurements (req_Results req) (identityLabels probe) @
       [metric NameLastSeen (float_of_int (unix_seconds now)) (identityLabels probe)]"
proof -
  from handlePush_cases [OF push(1)] push(2) obtain probe st1 req where
    auth: "authenticate ops tp now (io 0) rq st = (Inr probe, st1)" and en: "p_Enabled probe"
    and req: "Decode (rq_Body rq) = Inr req"
    and l: "as_latest st' = latest_Put (p_ProbeID probe) (req_Results req) now (as_latest st)" by auto
  from authenticate_ok [OF auth] obtain raw where raw: "rq_Authorization rq = bearerPrefix @ raw"
    "ProbeByTokenHash (Hash raw) (io 0) (as_db st) = Inr probe" by blast
  then have known: "ProbeByTokenHash (Hash raw) no_faults (as_db st) = Inr probe"
    by (auto simp: ProbeByTokenHash_def gw_results)
  have db: "as_db st' = as_db st" using handlePush_db [of ops tp now io rq st] push(1) by simp
  obtain ps where ps: "ListProbes io' (as_db st) = Inr ps" using scrape(2) by (simp add: ListProbes_def)
  with ProbeByTokenHash_sound [OF raw(2)] ListProbes_set [OF ps] have mem: "probe \<in> set ps" by simp
  have out: "out = scrape_of threshold now' (as_latest st') ps"
    using Collect_ok [of io' s ps threshold now'] ps scrape db by simp
  have "filter (\<lambda>x. take 1 (s_Labels x) = [p_ProbeID probe]) out = probe_samples now' threshold (as_latest st') probe"
    unfolding out using inv ps mem by (rule own_samples)
  also have "\<dots> = [metric NameOnline (Fin 1) (identityLabels probe)] @ emitMeasurements (req_Results req) (identityLabels probe) @
       [metric NameLastSeen (float_of_int (unix_seconds now)) (identityLabels probe)]"
    using en fresh by (simp add: probe_samples_def probe_online_def l latest_Get_Put boolValue_def)
  finally show ?thesis using raw(1) known req by blast
qed

text \<open>C39: A push that is answered 204 is what \<open>/metrics\<close> shows of that probe next: while the push is
  no older than the threshold, a scrape that can read the probe table carries under the
  probe's ID its online sample with value 1, the measurements of the pushed body and the time
  the server received it, in this order, and nothing else.\<close>

theorem accepted_push_is_exported:
  assumes push: "handlePush ops tp now io rq st = (rs, st')" "rs_Status rs = StatusNoContent"
    and scrape: "Collect threshold now' io' st' = (out, st'')" "\<not> io' 0"
    and fresh: "time_Sub now' now \<le> threshold" and inv: "probes_inv (as_db st)"
  shows "\<exists>raw probe req. rq_Authorization rq = bearerPrefix @ raw \<and>
     ProbeByTokenHash (Hash raw) no_faults (as_db st) = Inr probe \<and> Decode (rq_Body rq) = Inr req \<and>
     filter (\<lambda>x. take 1 (s_Labels x) = [p_ProbeID probe]) out =
       [metric NameOnline (Fin 1) (identityLabels probe)] @ emitMeasurements (req_Results req) (identityLabels probe) @
       [metric NameLastSeen (float_of_int (unix_seconds now)) (identityLabels probe)]"
  by (rule accepted_push_shown [OF push scrape refl refl fresh inv])

theorem accepted_push_is_exported_witness:
  "\<exists>st'. handlePush countdown_ops [] 0 (\<lambda>_. no_faults) sample_push sample_state =
       (\<lparr>rs_Status = StatusNoContent, rs_Body = None\<rparr>, st') \<and>
     metric NameOnline (Fin 1) [''p1'', ''a'', ''g'', ''b'', ''wired''] \<in> set (fst (Collect 30 20 no_faults st'))"
proof -
  obtain st' where run: "handlePush countdown_ops [] 0 (\<lambda>_. no_faults) sample_push sample_state =
     (\<lparr>rs_Status = StatusNoContent, rs_Body = None\<rparr>, st')"
    using sample_accepted by blast
  obtain out st'' where scrape: "Collect 30 20 no_faults st' = (out, st'')" by fastforce
  have inv: "probes_inv (as_db sample_state)" using sample_store_inv by (simp add: sample_state_def store_inv_def)
  have fresh: "time_Sub 20 0 \<le> 30" by (simp add: time_Sub_def)
  have ok: "rs_Status \<lparr>rs_Status = StatusNoContent, rs_Body = None\<rparr> = StatusNoContent" "\<not> no_faults 0" by simp_all
  from accepted_push_is_exported [OF run ok(1) scrape ok(2) fresh inv] obtain raw probe req where
    p: "rq_Authorization sample_push = bearerPrefix @ raw" "ProbeByTokenHash (Hash raw) no_faults (as_db sample_state) = Inr probe"
    and "Decode (rq_Body sample_push) = Inr req"
    and own: "filter (\<lambda>x. take 1 (s_Labels x) = [p_ProbeID probe]) out =
       [metric NameOnline (Fin 1) (identityLabels probe)] @ emitMeasurements (req_Results req) (identityLabels probe) @
       [metric NameLastSeen (float_of_int (unix_seconds 0)) (identityLabels probe)]"
    by (elim exE conjE) (rule that, assumption+)
  from p(1) have "raw = ''tok''" by (simp add: sample_push_def bearerPrefix_def)
  with p(2) sample_probe have "probe = scanProbe sample_probe_row" by (simp add: sample_state_def)
  then have "identityLabels probe = [''p1'', ''a'', ''g'', ''b'', ''wired'']"
    by (simp add: identityLabels_def scanProbe_def sample_probe_row_def)
  moreover have "metric NameOnline (Fin 1) (identityLabels probe) \<in> set (filter (\<lambda>x. take 1 (s_Labels x) = [p_ProbeID probe]) out)"
    unfolding own by simp
  ultimately have "metric NameOnline (Fin 1) [''p1'', ''a'', ''g'', ''b'', ''wired''] \<in> set out" by simp
  with run scrape show ?thesis by simp
qed

section \<open>Every exported value is possible\<close>

text \<open>What a sample of each name can be; the last-seen time is the server's own clock.\<close>

definition sane_sample :: "sample \<Rightarrow> bool" where
  "sane_sample x \<longleftrightarrow>
     float_le (Fin 0) (s_Value x) \<and>
     (s_Name x \<in> {NameOnline, NameICMPSuccess, NameDNSSuccess, NameHTTPSuccess} \<longrightarrow> s_Value x \<in> {Fin 0, Fin 1}) \<and>
     (s_Name x = NameICMPLossRatio \<longrightarrow> float_le (s_Value x) (Fin 1)) \<and>
     (s_Name x = NameHTTPStatusCode \<longrightarrow> (\<exists>c. 100 \<le> c \<and> c \<le> 599 \<and> s_Value x = float_of_int c))"

lemma nonneg_seconds: "nonneg v \<Longrightarrow> float_le (Fin 0) (millisecondsToSeconds v)"
  by (auto simp: nonneg_def millisecondsToSeconds_nonneg)

lemma float_of_int_nonneg: "0 \<le> i \<Longrightarrow> float_le (Fin 0) (float_of_int i)"
  by (simp add: float_of_int_def to_float_nonneg)

lemma emit_ms_sane:
  "x \<in> set (emit_ms name v labels) \<Longrightarrow> (\<And>d. v = Some d \<Longrightarrow> nonneg d) \<Longrightarrow>
   name \<in> {NameICMPRTTMin, NameICMPRTT, NameICMPRTTMax, NameICMPJitter, NameDNSDuration, NameHTTPDuration} \<Longrightarrow> sane_sample x"
  by (auto simp: emit_ms_def metric_def sane_sample_def nonneg_seconds metric_names split: option.splits)

lemma emit_bool_sane: "name \<in> {NameOnline, NameICMPSuccess, NameDNSSuccess, NameHTTPSuccess} \<Longrightarrow> sane_sample (metric name (boolValue b) labels)"
  by (auto simp: sane_sample_def metric_def boolValue_def metric_names)

lemma emitICMP_sane:
  assumes "icmp_ok r" "x \<in> set (emitICMP (Some r) labels)"
  shows "sane_sample x"
proof -
  from assms(1) obtain q where q: "icmp_LossRatio r = Fin q" "0 \<le> q" "q \<le> 1" by (auto simp: icmp_ok_def loss_ok_def)
  then have loss: "sane_sample (metric NameICMPLossRatio (icmp_LossRatio r) labels)"
    by (simp add: sane_sample_def metric_def metric_names)
  from assms(1) have ms: "nonneg d" if "d \<in> set_option (icmp_MinRTTMS r) \<union> set_option (icmp_AvgRTTMS r) \<union>
      set_option (icmp_MaxRTTMS r) \<union> set_option (icmp_JitterMS r)" for d
    using that by (fastforce simp: icmp_ok_def rtt_ok_def nonneg_def split: if_splits)
  from assms(2) loss show ?thesis
    by (auto simp: emitICMP_def intro: emit_bool_sane elim!: emit_ms_sane intro!: ms)
qed

lemma emitDNS_sane: "dns_ok r \<Longrightarrow> x \<in> set (emitDNS (Some r) labels) \<Longrightarrow> sane_sample x"
  by (auto simp: emitDNS_def dns_ok_def intro: emit_bool_sane elim!: emit_ms_sane split: if_splits)

lemma emitHTTP_sane:
  assumes "http_ok r" "x \<in> set (emitHTTP (Some r) labels)"
  shows "sane_sample x"
proof -
  have st: "sane_sample (metric NameHTTPStatusCode (float_of_int c) labels)" if "100 \<le> c" "c \<le> 599" for c
    using that float_of_int_nonneg [of c] by (auto simp: sane_sample_def metric_def metric_names)
  from assms st show ?thesis
    by (auto simp: emitHTTP_def http_ok_def intro: emit_bool_sane elim!: emit_ms_sane split: option.splits)
qed

lemma emit_type_sane:
  "measurement_ok pt (or_zero (map_of byType pt) no_measurement) \<Longrightarrow> x \<in> set (emit_type byType labels pt) \<Longrightarrow> sane_sample x"
  by (auto simp: emit_type_def measurement_ok_def Let_def probe_type_defs
      dest: emitICMP_sane emitDNS_sane emitHTTP_sane split: if_splits)

lemma emitMeasurements_sane:
  assumes "results_ok rs" "x \<in> set (emitMeasurements rs ident)"
  shows "sane_sample x"
proof -
  from assms(2) obtain t pt where t: "t \<in> set (keys rs)" and
    e: "x \<in> set (emit_type (or_zero (map_of rs t) []) (ident @ [t]) pt)" "pt \<in> set (keys (or_zero (map_of rs t) []))"
    by (auto simp: emitMeasurements_def emit_target_def Let_def)
  then obtain byType where b: "map_of rs t = Some byType"
    by (cases "map_of rs t") (auto simp: or_zero_def)
  with e(2) obtain m where m: "map_of byType pt = Some m"
    by (cases "map_of byType pt") (auto simp: or_zero_def map_of_eq_None_iff)
  from assms(1) map_of_SomeD [OF b] map_of_SomeD [OF m] have "measurement_ok pt m" by (fastforce simp: results_ok_def)
  then show ?thesis using e(1) emit_type_sane [of pt byType x "ident @ [t]"] by (simp add: or_zero_def b m)
qed

lemma probe_samples_sane:
  assumes "entries_ok l" "x \<in> set (probe_samples now threshold l p)" "s_Name x \<noteq> NameLastSeen"
  shows "sane_sample x"
proof (cases "latest_Get l (p_ProbeID p)")
  case None
  with assms(2) show ?thesis by (auto simp: probe_samples_def emit_bool_sane split: if_splits)
next
  case (Some e)
  with assms(1) have "results_ok (e_Results e)" by (simp add: entries_ok_def)
  with Some assms(2,3) show ?thesis
    by (auto simp: probe_samples_def metric_def [of NameLastSeen] emit_bool_sane emitMeasurements_sane split: if_splits)
qed

text \<open>C40: In every state the program can reach, whatever was pushed at it and however pushes and
  registrations overlapped, a scrape exports no value that is negative or not a number; a
  success or an online state is 0 or 1, a loss ratio at most 1 and a status code between 100
  and 599.\<close>

theorem exported_values_possible:
  assumes "reachable env d st0" "store_inv d" "(overlapping env)\<^sup>*\<^sup>* ([], st0) (ts, st)"
    "Collect threshold now io st = (out, st')" "x \<in> set out" "s_Name x \<noteq> NameLastSeen"
  shows "sane_sample x"
proof -
  have "state_inv st0" using reachable_sound [OF assms(1,2)] by (simp add: sound_state_def state_inv_def)
  from overlapping_state_inv [OF assms(3) this] have ok: "entries_ok (as_latest st)"
    by (simp add: state_inv_def memory_inv_def api_inv_def)
  obtain ps where "ListProbes io (as_db st) = Inr ps"
    using assms(4,5) by (cases "ListProbes io (as_db st)") (auto simp: Collect_def)
  from Collect_ok [OF this, of threshold now] assms(4,5)
  have "x \<in> set (scrape_of threshold now (as_latest st) ps)" by simp
  moreover have "sane_sample (metric n (float_of_int (int k)) [])" if "n = NameRegisteredProbes \<or> n = NameOnlineProbes" for n k
    using that float_of_int_nonneg [of "int k"] by (auto simp: sane_sample_def metric_def metric_names)
  ultimately show ?thesis
    using assms(6) probe_samples_sane [OF ok] by (auto simp: scrape_of_def)
qed

theorem exported_values_possible_witness:
  "\<exists>(env :: int gateway_env) st. reachable env sample_file st \<and>
     (let x = metric NameOnline (Fin 0) [''p1'', ''a'', ''g'', ''b'', ''wired'']
      in x \<in> set (fst (Collect 30 0 no_faults st)) \<and> sane_sample x)"
proof -
  obtain env :: "int gateway_env" and st where r: "reachable env sample_file st" "db_probes (as_db st) = [sample_probe_row]"
      "as_latest st = latest_New"
    using sample_started by blast
  have "ListProbes no_faults (as_db st) = Inr [scanProbe sample_probe_row]"
    by (simp add: ListProbes_def rows_by_def r(2))
  from Collect_ok [OF this, of 30 0]
  have out: "metric NameOnline (Fin 0) [''p1'', ''a'', ''g'', ''b'', ''wired''] \<in> set (fst (Collect 30 0 no_faults st))"
    by (simp add: scrape_of_def probe_samples_def r(3) latest_New_def latest_Get_def probe_online_def boolValue_def
        scanProbe_def sample_probe_row_def identityLabels_def)
  then have "sane_sample (metric NameOnline (Fin 0) [''p1'', ''a'', ''g'', ''b'', ''wired''])"
    by (intro exported_values_possible [OF r(1) sample_file_settled(2) rtranclp.rtrancl_refl, of 30 0 no_faults _ "snd (Collect 30 0 no_faults st)"])
      (simp_all add: metric_def metric_names)
  with r(1) out show ?thesis unfolding Let_def by blast
qed

end
