(* ===== verification/Journey_Properties.thy ===== *)
theory Journey_Properties
  imports Export_Properties
begin

text \<open>
  The way of a probe through the whole program: it is registered on the public pages, its token
  is shown, it pushes with that token, and Prometheus reads what it measured.
\<close>

section \<open>A push that meets no obstacle\<close>

lemma Allow_fresh:
  "rate_contract ops \<Longrightarrow> 1 \<le> lim_burst l \<Longrightarrow> map_of (lim_buckets l) pid = None \<Longrightarrow> fst (Allow ops now pid l)"
  by (simp add: Allow_def Let_def rate_contract_def)

lemma bearer_token [simp]: "has_prefix (bearerPrefix @ raw) bearerPrefix" "trim_prefix (bearerPrefix @ raw) bearerPrefix = raw"
  by simp_all

text \<open>
  What a push needs to be accepted as the probe \<open>pid\<close>, beside a token: the headers and a body of
  the protocol that fits the targets, an address without failures, and a fresh rate budget.
\<close>

definition push_welcome :: "draws \<Rightarrow> http_request \<Rightarrow> ip_net list \<Rightarrow> string \<Rightarrow> push_request \<Rightarrow> ('b, 'm) api_state_scheme \<Rightarrow> bool" where
  "push_welcome dw rq tp pid req st \<longleftrightarrow>
     rq_Path rq = ''/api/v1/push'' \<and> rq_Method rq = ''POST'' \<and> is_json_media_type (rq_ContentType rq) \<and>
     rq_ContentType rq \<noteq> [] \<and> rq_ContentLength rq \<le> int MaxBodyBytes \<and> ReadAll rq = BodyRead (rq_Body rq) \<and>
     Decode (rq_Body rq) = Inr req \<and> judge_push (dw_io dw) req (as_db st) = Inr (Inr ()) \<and> \<not> dw_io dw 0 0 \<and>
     (\<forall>l. as_limiter st = Some l \<longrightarrow> map_of (lim_failures l) (client_ip rq tp) = None \<and>
        map_of (lim_buckets l) pid = None \<and> 1 \<le> lim_burst l)"

lemma welcome_push_accepted:
  assumes "rate_contract ops" "push_welcome dw rq tp pid req st" "rq_Authorization rq = bearerPrefix @ tok" "tok \<noteq> []"
    "ProbeByTokenHash (Hash tok) no_faults (as_db st) = Inr probe" "p_ProbeID probe = pid" "p_Enabled probe"
  shows "\<exists>st'. handlePush ops tp (dw_now dw) (dw_io dw) rq st = (\<lparr>rs_Status = StatusNoContent, rs_Body = None\<rparr>, st')"
proof -
  have found: "ProbeByTokenHash (Hash tok) (dw_io dw 0) (as_db st) = Inr probe"
    using assms(2,5) by (simp add: ProbeByTokenHash_def gw_results push_welcome_def)
  have "with_limiter False (AuthFailureBlocked ops (dw_now dw) (client_ip rq tp)) st = (False, st)"
    using assms(2) by (auto simp: push_welcome_def with_limiter_def AuthFailureBlocked_def split: option.split)
  with found assms(3,4) have auth: "authenticate ops tp (dw_now dw) (dw_io dw 0) rq st = (Inr probe, st)"
    by (simp add: authenticate_def Let_def)
  have ok: "fst (with_limiter True (Allow ops (dw_now dw) pid) st)"
    using assms(1,2) Allow_fresh by (auto simp: push_welcome_def with_limiter_def split_beta split: option.split)
  show ?thesis
    using auth ok assms(2,6,7)
    by (simp add: handlePush_def split_beta push_welcome_def handle_body_def api_frame accept_push_def)
qed

lemma welcome_push_served:
  assumes "rate_contract ops" "push_welcome dw rq tp pid req st" "rq_Authorization rq = bearerPrefix @ tok" "tok \<noteq> []"
    "ProbeByTokenHash (Hash tok) no_faults (as_db st) = Inr probe" "p_ProbeID probe = pid" "p_Enabled probe"
  shows "\<exists>st1 f. serve_api ops tp (dw_now dw) (dw_io dw) rq st =
      Some (\<lparr>rs_Status = StatusNoContent, rs_Body = None\<rparr>, on_self f st1) \<and>
    handlePush ops tp (dw_now dw) (dw_io dw) rq st = (\<lparr>rs_Status = StatusNoContent, rs_Body = None\<rparr>, st1)"
proof -
  from welcome_push_accepted [OF assms] obtain st1 where
    p: "handlePush ops tp (dw_now dw) (dw_io dw) rq st = (\<lparr>rs_Status = StatusNoContent, rs_Body = None\<rparr>, st1)" by blast
  then show ?thesis using assms(2)
    by (auto simp: serve_api_def api_routes_def RouteMetrics_def BodyLimit_def RequireJSON_def push_welcome_def)
qed

section \<open>Through the listeners\<close>

lemma served_registration:
  assumes "serve_public env dw rq st = (PortalAnswer rs, st')" "rq_Path rq = ''/''" "rq_Method rq = ''POST''"
  shows "handleRegister (ge_rate env) (ge_cfg env) (ge_portal env) (dw_now dw) (dw_io dw) (dw_rnd dw) rq st = (rs, st')"
  using assms by (simp add: serve_public_def serve_portal_def has_prefix_def Let_def split: option.splits prod.splits)

lemma served_token_page:
  assumes "serve_public env dw rq st = (PortalAnswer rs, st')" "rq_Path rq = ''/token/'' @ slot" "rq_Method rq = ''GET''"
  shows "handleTokenShow (ge_cfg env) (ge_portal env) (dw_now dw) slot st = (rs, st')"
  using assms
  by (auto simp: serve_public_def serve_portal_def has_prefix_def trim_prefix_def token_slot_def Let_def
      split: option.splits prod.splits if_splits)

lemma served_push:
  assumes "serve_api (ge_rate env) (ge_trusted env) (dw_now dw) (dw_io dw) (http_request.truncate rq) st = Some (rs, st')"
    "rq_Path rq = ''/api/v1/push''"
  shows "serve_public env dw rq st = (ApiAnswer rs, st')"
  using assms by (simp add: serve_public_def has_prefix_def Let_def)

lemma served_metrics:
  assumes "metricsMux cfg dw rq st = Some (\<lparr>rs_Status = StatusOK, rs_Body = None\<rparr>, out, st')"
  shows "Collect (OnlineThreshold cfg) (dw_now dw) (dw_io dw 0) st = (out, st')"
  using assms
  by (auto simp: metricsMux_def CIDRAllowlist_def metricsHandler_def writeError_def split: if_splits option.splits)

section \<open>From the registration page to the metrics\<close>

text \<open>
  What whoever may read the metrics finds of a probe that pushed \<open>req\<close> at \<open>t\<close>, while that is no older
  than the threshold and the probe table can be read.
\<close>

definition metrics_show :: "'b gateway_env \<Rightarrow> string \<Rightarrow> int \<Rightarrow> push_request \<Rightarrow> 'b gateway_state \<Rightarrow> bool" where
  "metrics_show env pid t req st \<longleftrightarrow>
     (\<forall>dw rq out st'. metricsMux (ge_cfg env) dw rq st = Some (\<lparr>rs_Status = StatusOK, rs_Body = None\<rparr>, out, st') \<and>
          \<not> dw_io dw 0 0 \<and> time_Sub (dw_now dw) t \<le> OnlineThreshold (ge_cfg env) \<longrightarrow>
        (\<exists>ident. filter (\<lambda>x. take 1 (s_Labels x) = [pid]) out =
           [metric NameOnline (Fin 1) ident] @ emitMeasurements (req_Results req) ident @
           [metric NameLastSeen (float_of_int (unix_seconds t)) ident]))"

text \<open>Who holds the token of an enabled probe has its pushes accepted, and shown.\<close>

lemma token_holder_reports:
  assumes contract: "rate_contract (ge_rate env)" and inv: "probes_inv (as_db st)"
    and known: "ProbeByTokenHash (Hash tok) no_faults (as_db st) = Inr (scanProbe row)" "pr_enabled row \<noteq> 0" "tok \<noteq> []"
    and push: "push_welcome dw (http_request.truncate rq) (ge_trusted env) (pr_probe_id row) req st"
      "rq_Authorization rq = ''Bearer '' @ tok"
  shows "\<exists>st'. serve_public env dw rq st = (ApiAnswer \<lparr>rs_Status = StatusNoContent, rs_Body = None\<rparr>, st') \<and>
     metrics_show env (pr_probe_id row) (dw_now dw) req st'"
proof -
  let ?rq = "http_request.truncate rq"
  have auth: "rq_Authorization ?rq = bearerPrefix @ tok" using push(2) by (simp add: http_request.truncate_def bearerPrefix_def)
  have path: "rq_Path rq = ''/api/v1/push''" using push(1) by (simp add: push_welcome_def http_request.truncate_def)
  have row: "p_ProbeID (scanProbe row) = pr_probe_id row" "p_Enabled (scanProbe row)" using known(2) by simp_all
  from welcome_push_served [OF contract push(1) auth known(3,1) row] obtain st' f where
    served: "serve_api (ge_rate env) (ge_trusted env) (dw_now dw) (dw_io dw) ?rq st =
        Some (\<lparr>rs_Status = StatusNoContent, rs_Body = None\<rparr>, on_self f st')"
    and handled: "handlePush (ge_rate env) (ge_trusted env) (dw_now dw) (dw_io dw) ?rq st =
        (\<lparr>rs_Status = StatusNoContent, rs_Body = None\<rparr>, st')" by blast
  have req: "Decode (rq_Body ?rq) = Inr req" using push(1) by (simp add: push_welcome_def)
  have ok: "rs_Status \<lparr>rs_Status = StatusNoContent, rs_Body = None\<rparr> = StatusNoContent" by simp
  have shown: "\<exists>ident. filter (\<lambda>x. take 1 (s_Labels x) = [pr_probe_id row]) out =
         [metric NameOnline (Fin 1) ident] @ emitMeasurements (req_Results req) ident @
         [metric NameLastSeen (float_of_int (unix_seconds (dw_now dw))) ident]"
    if m: "metricsMux (ge_cfg env) dw4 rq4 (on_self f st') = Some (\<lparr>rs_Status = StatusOK, rs_Body = None\<rparr>, out, st4)"
      "\<not> dw_io dw4 0 0" "time_Sub (dw_now dw4) (dw_now dw) \<le> OnlineThreshold (ge_cfg env)" for dw4 rq4 out st4
  proof -
    from accepted_push_shown [OF handled ok served_metrics [OF m(1)] m(2) on_self_sel(1,2) m(3) inv]
    obtain raw probe req' where "rq_Authorization ?rq = bearerPrefix @ raw" "ProbeByTokenHash (Hash raw) no_faults (as_db st) = Inr probe"
      "Decode (rq_Body ?rq) = Inr req'"
      and own: "filter (\<lambda>x. take 1 (s_Labels x) = [p_ProbeID probe]) out =
         [metric NameOnline (Fin 1) (identityLabels probe)] @ emitMeasurements (req_Results req') (identityLabels probe) @
         [metric NameLastSeen (float_of_int (unix_seconds (dw_now dw))) (identityLabels probe)]"
      by (elim exE conjE) (rule that, assumption+)
    then have "probe = scanProbe row" "req' = req" using auth known(1) req by simp_all
    with own row(1) show ?thesis by metis
  qed
  show ?thesis using served_push [OF served path] shown unfolding metrics_show_def by blast
qed

text \<open>C11: In any state the program can reach: a visitor whose registration is redirected to a token page
  and who opens that page in time is shown a token and a probe ID, with which a push that
  follows the protocol is answered 204; and in the state that push leaves, while it is no older
  than the threshold, whoever may read the metrics finds under that probe ID exactly the online state,
  the measurements that were pushed and the time they arrived.\<close>

theorem registered_probe_reports:
  assumes start: "reachable env d st" "store_inv d" "rate_contract (ge_rate env)"
    and register: "serve_public env dw1 rq1 st = (PortalAnswer (Redirect (''/token/'' @ slot)), st1)"
      "rq_Path rq1 = ''/''" "rq_Method rq1 = ''POST''" "hostOnly (RemoteAddr rq1) \<noteq> []"
    and opened: "serve_public env dw2 rq2 st1 = (PortalAnswer page, st2)"
      "rq_Path rq2 = ''/token/'' @ slot" "rq_Method rq2 = ''GET''"
      "dw_now dw2 \<le> dw_now dw1 + os_ttl (ps_oneShot st)" "\<forall>pd. ge_portal env ''token.html'' pd"
  shows "\<exists>pid tok. wp_Body page = Page ''token.html'' (portal_data title_token []
       (TokenPage pid tok (trim_suffix (PublicBaseURL (ge_cfg env)) ''/'') ''/'')) \<and>
     (\<forall>dw3 rq3 req. push_welcome dw3 (http_request.truncate rq3) (ge_trusted env) pid req st2 \<and>
          rq_Authorization rq3 = ''Bearer '' @ tok \<longrightarrow>
        (\<exists>st3. serve_public env dw3 rq3 st2 = (ApiAnswer \<lparr>rs_Status = StatusNoContent, rs_Body = None\<rparr>, st3) \<and>
          metrics_show env pid (dw_now dw3) req st3))"
proof -
  from reachable_sound [OF start(1,2)] have sound: "store_inv (as_db st)" "memory_inv st" by (simp_all add: sound_state_def)
  then have inv: "probes_inv (as_db st)" "wf_map (os_slots (ps_oneShot st))"
    by (simp_all add: store_inv_def memory_inv_def slots_inv_def)
  note reg = served_registration [OF register(1-3)]
  have status: "wp_Status (Redirect (''/token/'' @ slot)) = StatusSeeOther" by (simp add: Redirect_def)
  from registration_made [OF reg status inv] obtain tok slot' row where
    same: "(Redirect (''/token/'' @ slot) :: portal_page web_response) = Redirect (''/token/'' @ slot')"
    and en: "pr_enabled row \<noteq> 0" and prefix: "has_prefix tok token_Prefix"
    and slot': "slot_of (ps_oneShot st1) slot' = Some \<lparr>os_probeID = pr_probe_id row, os_value = tok, os_back = ''/'',
       os_expires = dw_now dw1 + os_ttl (ps_oneShot st)\<rparr>"
    and known: "ProbeByTokenHash (Hash tok) no_faults (as_db st1) = Inr (scanProbe row)"
    by blast
  note slot = slot' [folded same [unfolded Redirect_def, simplified]]
  let ?tp = "TokenPage (pr_probe_id row) tok (trim_suffix (PublicBaseURL (ge_cfg env)) ''/'') ''/''"
  from token_page_shows [OF slot opened(4), of "ge_portal env" "ge_cfg env"] opened(5) served_token_page [OF opened(1-3)]
  have page: "wp_Body page = Page ''token.html'' (portal_data title_token [] ?tp)" and db2: "as_db st2 = as_db st1"
    by auto
  have "reachable env d st1" by (rule reachable.stepped [OF start(1)], rule public_request [OF register(1,4)])
  from reachable_sound [OF this start(2)] have st1_inv: "probes_inv (as_db st1)" by (simp add: sound_state_def store_inv_def)
  have ne: "tok \<noteq> []" using prefix by (auto simp: has_prefix_def token_Prefix_def)
  have st2_inv: "probes_inv (as_db st2)" using st1_inv db2 by simp
  from token_holder_reports [OF start(3) st2_inv known [folded db2] en ne] page show ?thesis by blast
qed

section \<open>One journey\<close>

lemma judge_push_same:
  "db_targets d = db_targets d0 \<Longrightarrow> db_types d = db_types d0 \<Longrightarrow>
   setting_value d measurementConfigKey = setting_value d0 measurementConfigKey \<Longrightarrow>
   judge_push io req d = judge_push io req d0"
  by (simp add: judge_push_def Allowlist_def MeasurementConfig_def DispatchTargets_def join_rows_def types_of_def Setting_def)

lemma handleTokenShow_frame:
  "as_db (snd (handleTokenShow cfg exec now slot st)) = as_db st"
  "as_limiter (snd (handleTokenShow cfg exec now slot st)) = as_limiter st"
  by (simp_all add: handleTokenShow_def split: prod.split option.split)

definition empty_file :: db where
  "empty_file = sample_file\<lparr>db_probes := []\<rparr>"

lemma empty_file_ok: "settled_db empty_file" "store_inv empty_file"
  using sample_file_settled(1,2) by (simp_all add: empty_file_def settled_db_def store_inv_defs)

lemma sample_empty_start:
  obtains env :: "int gateway_env" and st cfg where
    "reachable env empty_file st" "ge_rate env = countdown_ops" "ge_portal env = (\<lambda>_ _. True)" "ge_cfg env = cfg" "config_inv cfg"
    "ps_oneShot st = newOneShotStore oneShotTTL" "as_limiter st = Some (NewLimiter (RateLimit cfg) (RateLimitBurst cfg))"
    "ps_limiter st = Some (NewRegisterLimiter (RegisterLimit cfg) (RegisterLimitBurst cfg))"
    "db_probes (as_db st) = []" "same_catalog sample_db (as_db st)" "same_targets sample_db (as_db st)"
    "setting_value (as_db st) measurementConfigKey = None"
proof -
  obtain cfg where cfg: "Load (\<lambda>_. []) = Inr cfg" "AdminPassword cfg = []" using sample_Load by blast
  have none: "setting_value empty_file k = None" for k
    by (simp add: setting_value_def empty_file_def sample_file_def sample_db_def empty_db_def)
  then obtain hash password d' where r: "resolvePassword sample_bcrypt cfg (dw_rnd calm_draws 0) (dw_now calm_draws) (dw_io calm_draws) empty_file =
      (Some (hash, password), d')" and d': "d' = snd (SetSetting 0 adminPasswordSettingKey hash no_faults empty_file)"
    using sample_generates by (auto simp: resolvePassword_def cfg Setting_def SetSetting_def calm_draws_def)
  have key: "measurementConfigKey \<noteq> adminPasswordSettingKey"
    by (simp add: measurementConfigKey_def adminPasswordSettingKey_def)
  have frame: "db_probes d' = []" "same_catalog sample_db d'" "same_targets sample_db d'" "setting_value d' measurementConfigKey = None"
    using none [of measurementConfigKey] key
    by (simp_all add: d' SetSetting_def empty_file_def sample_file_def same_defs setting_value_def map_of_put)
  from start_settled [OF cfg(1) empty_file_ok(1) r, of countdown_ops "\<lambda>_. []" "\<lambda>_ _. True" "\<lambda>_ _. True" sample_pick]
  obtain env :: "int gateway_env" and st where st: "run_start countdown_ops sample_bcrypt (\<lambda>_. []) (\<lambda>_ _. True) (\<lambda>_ _. True) sample_pick (\<lambda>_. []) False False
      calm_draws calm_draws empty_file = (Inr (env, st, password, password \<noteq> []), d')" "as_db st = d'" "ge_cfg env = cfg"
    "ge_rate env = countdown_ops" "ge_portal env = (\<lambda>_ _. True)" "ps_oneShot st = newOneShotStore oneShotTTL"
    "as_limiter st = Some (NewLimiter (RateLimit cfg) (RateLimitBurst cfg))"
    "ps_limiter st = Some (NewRegisterLimiter (RegisterLimit cfg) (RegisterLimitBurst cfg))" by metis
  have "reachable env empty_file st" using st(1) sample_picks by (rule reachable.started)
  from this st(4,5,3) Load_inv [OF cfg(1)] st(6-8) frame [folded st(2)] show thesis by (rule that)
qed

text \<open>The registration, the token page and the push of one visitor after that start.\<close>

definition open_token :: "string \<Rightarrow> web_request" where
  "open_token slot = sample_form\<lparr>rq_Method := ''GET'', rq_Path := ''/token/'' @ slot\<rparr>"

definition first_push :: "string \<Rightarrow> web_request" where
  "first_push tok = sample_form\<lparr>rq_Path := ''/api/v1/push'', rq_Authorization := ''Bearer '' @ tok,
     rq_ContentType := ''application/json'', rq_ContentLength := 80, rq_Body := sample_body\<rparr>"

lemma sample_validates:
  assumes "same_catalog sample_db d"
  shows "validateRegistration (form_of sample_form) no_faults d = []" "db_campuses d \<noteq> []" "catalog_inv d"
proof -
  have c: "db_campuses d = db_campuses (as_db sample_portal)" "db_buildings d = db_buildings (as_db sample_portal)"
    using assms by (simp_all add: same_catalog_def sample_portal_def)
  show "validateRegistration (form_of sample_form) no_faults d = []"
    using sample_lookups(6) c by (simp add: validateRegistration_ok GetBuilding_def)
  show "db_campuses d \<noteq> []" using c by (simp add: sample_portal_def sample_db_def)
  show "catalog_inv d" using sample_store_inv c by (simp add: sample_portal_def store_inv_def catalog_inv_def)
qed

lemma sample_registers:
  fixes env :: "int gateway_env" and st :: "int gateway_state"
  assumes "ge_rate env = countdown_ops" "config_inv (ge_cfg env)" "db_probes (as_db st) = []" "same_catalog sample_db (as_db st)"
    "ps_limiter st = Some (NewRegisterLimiter (RegisterLimit (ge_cfg env)) (RegisterLimitBurst (ge_cfg env)))"
  shows "wp_Status (fst (handleRegister (ge_rate env) (ge_cfg env) (ge_portal env) 0 (\<lambda>_. no_faults) sample_rnd sample_form st)) =
     StatusSeeOther"
proof -
  note v = sample_validates [OF assms(4)]
  have three: "sample_rnd (5 + 0) probeIDRandomBytes = Some ''xxx''"
    by (simp add: sample_rnd_def probeIDRandomBytes_def eval_nat_numeral)
  have tok: "Generate (sample_rnd 0) = Some (token_Prefix @ b64url (replicate 32 CHR ''x''))"
    by (simp add: Generate_def sample_rnd_def secretBytes_def)
  have lim: "1 \<le> rg_burst (NewRegisterLimiter (RegisterLimit (ge_cfg env)) (RegisterLimitBurst (ge_cfg env)))"
    "map_of (rg_buckets (NewRegisterLimiter (RegisterLimit (ge_cfg env)) (RegisterLimitBurst (ge_cfg env)))) ip = None" for ip
    using assms(2) by (simp_all add: config_inv_def NewRegisterLimiter_def)
  have room: "length (db_probes (as_db st)) < nat (MaxProbes (ge_cfg env))"
    using assms(2,3) by (simp add: config_inv_def)
  have drawn: "\<forall>k n. sample_rnd k n \<noteq> None" by (simp add: sample_rnd_def)
  have none: "x \<notin> f ` set (db_probes (as_db st))" for x :: string and f using assms(3) by simp
  show ?thesis
    unfolding assms(1)
    by (rule valid_registration_runs [OF sample_lookups(1,2) v(2,1,3) assms(5) countdown_contract lim room drawn tok none _ three none])
      simp
qed

lemma sample_body_fits: "length sample_body \<le> MaxBodyBytes"
  by (simp add: sample_body_def sample_json_def quote_def quote_body_plain plain_char_def code_def MaxBodyBytes_def)

lemma sample_media: "is_json_media_type ''application/json''"
  by code_simp

lemma opens_token:
  assumes "randomString 32 rnd = Some slot" "slot \<noteq> []"
  shows "serve_public env dw (open_token slot) st =
     (let (page, st') = handleTokenShow (ge_cfg env) (ge_portal env) (dw_now dw) slot st in (PortalAnswer page, st'))"
proof -
  have safe: "CHR ''/'' \<notin> set slot"
    using randomString_safe [OF assms(1)] by (auto simp: list_all_iff url_safe_def is_lower_def is_upper_def is_digit_def code_def)
  with assms(2) have "token_slot (''/token/'' @ slot) = Some slot"
    by (simp add: token_slot_def has_prefix_def trim_prefix_def)
  then show ?thesis
    by (simp add: serve_public_def serve_portal_def open_token_def has_prefix_def Let_def split_beta)
qed

theorem registered_probe_reports_witness:
  "\<exists>(env :: int gateway_env) st st1 st2 st3 slot page tok.
     reachable env empty_file st \<and>
     serve_public env calm_draws sample_form st = (PortalAnswer (Redirect (''/token/'' @ slot)), st1) \<and>
     serve_public env calm_draws (open_token slot) st1 = (PortalAnswer page, st2) \<and>
     serve_public env calm_draws (first_push tok) st2 = (ApiAnswer \<lparr>rs_Status = StatusNoContent, rs_Body = None\<rparr>, st3)"
proof -
  obtain env :: "int gateway_env" and st cfg where env: "reachable env empty_file st" "ge_rate env = countdown_ops"
      "ge_portal env = (\<lambda>_ _. True)" "ge_cfg env = cfg" "config_inv cfg"
    and st: "ps_oneShot st = newOneShotStore oneShotTTL" "as_limiter st = Some (NewLimiter (RateLimit cfg) (RateLimitBurst cfg))"
      "ps_limiter st = Some (NewRegisterLimiter (RegisterLimit cfg) (RegisterLimitBurst cfg))"
      "db_probes (as_db st) = []" "same_catalog sample_db (as_db st)" "same_targets sample_db (as_db st)"
      "setting_value (as_db st) measurementConfigKey = None"
    by (rule sample_empty_start)
  obtain rs st1 where run: "handleRegister (ge_rate env) (ge_cfg env) (ge_portal env) 0 (\<lambda>_. no_faults) sample_rnd sample_form st = (rs, st1)"
    by fastforce
  have status: "wp_Status rs = StatusSeeOther"
    using sample_registers [of env st] env st run by simp
  have inv: "probes_inv (as_db st)" "wf_map (os_slots (ps_oneShot st))"
    using st(1,4) by (simp_all add: probes_inv_def newOneShotStore_def)
  from registration_made [OF run status inv] obtain slot row where
    made: "rs = Redirect (''/token/'' @ slot)"
      "as_db st1 = (as_db st)\<lparr>db_probes := db_probes (as_db st) @ [row], db_probe_seq := db_probe_seq (as_db st) + 1\<rparr>"
      "randomString 32 (sample_rnd 10) = Some slot" "as_limiter st1 = as_limiter st"
    by (elim exE conjE) (rule that, assumption+)
  have ne: "slot \<noteq> []"
    using made(3) length_b64url [of "replicate 32 CHR ''x''"] by (auto simp: randomString_def sample_rnd_def simp del: b64url.simps)
  have first: "serve_public env calm_draws sample_form st = (PortalAnswer (Redirect (''/token/'' @ slot)), st1)"
    using run made(1)
    by (simp add: serve_public_def serve_portal_def has_prefix_def calm_draws_def sample_form_def Let_def)
  obtain page st2 where tk: "handleTokenShow (ge_cfg env) (ge_portal env) 0 slot st1 = (page, st2)" by fastforce
  then have opened: "serve_public env calm_draws (open_token slot) st1 = (PortalAnswer page, st2)"
    using opens_token [OF made(3) ne, of env calm_draws st1] by (simp add: calm_draws_def)
  have st2: "as_db st2 = as_db st1" "as_limiter st2 = as_limiter st"
    using handleTokenShow_frame [of "ge_cfg env" "ge_portal env" 0 slot st1] tk made(4) by simp_all
  have ttl: "dw_now calm_draws \<le> dw_now calm_draws + os_ttl (ps_oneShot st)"
    using st(1) by (simp add: newOneShotStore_def oneShotTTL_def Second_def)
  have "judge_push (\<lambda>_. no_faults) sample_request (as_db st2) = judge_push (\<lambda>_. no_faults) sample_request sample_db"
    using st(6,7) made(2) st2(1)
    by (intro judge_push_same) (simp_all add: same_targets_def setting_value_def sample_db_def empty_db_def)
  then have fits: "push_welcome calm_draws (http_request.truncate (first_push tok)) (ge_trusted env) pid sample_request st2" for tok pid
    using sample_judged sample_decodes st2(2) st(2) env(5) sample_body_fits [unfolded MaxBodyBytes_def]
    by (simp add: push_welcome_def http_request.truncate_def first_push_def sample_form_def calm_draws_def NewLimiter_def
        ReadAll_def config_inv_def sample_media MaxBodyBytes_def)
  have host: "hostOnly (RemoteAddr sample_form) \<noteq> []"
  proof -
    have "hostOnly ''10.0.0.9:5000'' \<noteq> []" by code_simp
    then show ?thesis by (simp add: sample_form_def)
  qed
  have paths: "rq_Path sample_form = ''/''" "rq_Method sample_form = ''POST''"
    "rq_Path (open_token slot) = ''/token/'' @ slot" "rq_Method (open_token slot) = ''GET''"
    by (simp_all add: sample_form_def open_token_def)
  have parameters: "rate_contract (ge_rate env)" "\<forall>pd. ge_portal env ''token.html'' pd"
    using env(2,3) countdown_contract by simp_all
  from registered_probe_reports [OF env(1) empty_file_ok(2) parameters(1) first paths(1,2) host opened paths(3,4) ttl parameters(2)]
  obtain tok pid where push: "\<forall>dw3 rq3 req. push_welcome dw3 (http_request.truncate rq3) (ge_trusted env) pid req st2 \<and>
      rq_Authorization rq3 = ''Bearer '' @ tok \<longrightarrow>
      (\<exists>st3. serve_public env dw3 rq3 st2 = (ApiAnswer \<lparr>rs_Status = StatusNoContent, rs_Body = None\<rparr>, st3) \<and>
        metrics_show env pid (dw_now dw3) req st3)"
    by (elim exE conjE) (rule that)
  with fits [of tok pid] obtain st3 where
    "serve_public env calm_draws (first_push tok) st2 = (ApiAnswer \<lparr>rs_Status = StatusNoContent, rs_Body = None\<rparr>, st3)"
    by (fastforce simp: first_push_def)
  with env(1) first opened show ?thesis by blast
qed

end
