(* ===== verification/Store_Properties.thy ===== *)
theory Store_Properties
  imports Samples
begin

text \<open>
  The properties of the store's operations as the other parts use them: the dispatch list,
  the catalog and the probes, the measurement parameters and the config ID.
\<close>

section \<open>Targets\<close>

text \<open>C32: The list handed to the probes is, in the order of the target IDs, every enabled target
  with a non-blank address and at least one permitted type, once each, with its types sorted:
  the fold over the rows of the join loses, repeats and reorders nothing.\<close>

theorem dispatch_list_exact:
  assumes "targets_inv d" "\<not> io 0"
  shows "DispatchTargets io d = Inr (map (\<lambda>t. dispatch_of t (types_of (tr_target_id t) d))
           (filter (\<lambda>t. types_of (tr_target_id t) d \<noteq> []) (rows_by tr_target_id (filter dispatchable (db_targets d)))))"
  using assms by (rule DispatchTargets_spec)

theorem dispatch_list_exact_witness:
  "DispatchTargets no_faults sample_db = Inr [dispatch_of sample_target_row [''dns'', ''icmp'']]"
proof -
  have inv: "targets_inv sample_db" using sample_store_inv by (simp add: store_inv_def)
  have "rows_by tr_target_id (filter dispatchable (db_targets sample_db)) = [sample_target_row]"
    by (simp add: rows_by_def sample_db_def dispatchable_def sample_target_row_def sql_blank_def)
  moreover have "tr_target_id sample_target_row = ''t1''" by (simp add: sample_target_row_def)
  ultimately show ?thesis using dispatch_list_exact [OF inv, of no_faults] by (simp add: sample_types)
qed

text \<open>Every target and type a probe is told to measure is allowed by the list its pushes are
  judged by, while the targets are unchanged.\<close>

theorem dispatched_is_allowed:
  assumes "targets_inv d" "DispatchTargets io d = Inr dts" "Allowlist io' d = Inr al"
    "t \<in> set dts" "pt \<in> set (dt_ProbeTypes t)"
  shows "\<exists>m. map_of al (dt_TargetID t) = Some m \<and> type_allowed m pt"
  using DispatchTargets_allowed [OF assms] by (simp add: allows_def)

theorem dispatched_is_allowed_witness:
  "\<exists>m. map_of [(''t1'', [(''dns'', True), (''icmp'', True)])] ''t1'' = Some m \<and> type_allowed m ''icmp''"
proof -
  have inv: "targets_inv sample_db" using sample_store_inv by (simp add: store_inv_def)
  have "rows_by tr_target_id (filter dispatchable (db_targets sample_db)) = [sample_target_row]"
    by (simp add: rows_by_def sample_db_def dispatchable_def sample_target_row_def sql_blank_def)
  moreover have tid: "tr_target_id sample_target_row = ''t1''" by (simp add: sample_target_row_def)
  ultimately have "DispatchTargets no_faults sample_db = Inr [dispatch_of sample_target_row [''dns'', ''icmp'']]"
    using DispatchTargets_spec [OF inv, of no_faults] by (simp add: sample_types)
  from dispatched_is_allowed [OF inv this sample_allowlist_db, of _ "''icmp''"] show ?thesis
    by (simp add: dispatch_of_def tid)
qed

text \<open>A deleted target is unknown to the allowlist from that moment, whatever it permitted, and
  no row of its types is left behind.\<close>

theorem deleted_target_unknown:
  assumes "DeleteTarget tid io d = (Inr u, d')" "Allowlist io' d' = Inr al" "targets_inv d"
  shows "map_of al tid = None \<and> types_of tid d' = [] \<and> targets_inv d'"
proof -
  have "set (types_of tid d') = {}"
    using assms(1) by (auto simp: DeleteTarget_def split: if_splits)
  then have "types_of tid d' = []" by (simp only: set_empty)
  with DeleteTarget_unknown [OF assms(1,2)] DeleteTarget_inv [OF assms(3), of tid io] assms(1) show ?thesis by simp
qed

theorem deleted_target_unknown_witness:
  "types_of ''t1'' (snd (DeleteTarget ''t1'' no_faults sample_db)) = []"
proof -
  have inv: "targets_inv sample_db" using sample_store_inv by (simp add: store_inv_def)
  obtain d' where d: "DeleteTarget ''t1'' no_faults sample_db = (Inr (), d')"
    by (simp add: DeleteTarget_def requireAffected_def count_rows_def sample_db_def sample_target_row_def)
  obtain al where "Allowlist no_faults d' = Inr al" by (simp add: Allowlist_def)
  from deleted_target_unknown [OF d this inv] d show ?thesis by simp
qed

section \<open>Catalog and probes\<close>

text \<open>C33: Deleting a campus never leaves a probe pointing at a campus or a building that the
  catalog no longer has, not even a probe that names another campus but sits in one of its
  buildings; and a deletion that fails changes nothing.\<close>

theorem campus_deletion_leaves_no_dangling_probe:
  assumes "probes_placed d" "catalog_inv d"
  shows "probes_placed (snd (DeleteCampus cd io d)) \<and> catalog_inv (snd (DeleteCampus cd io d)) \<and>
    (\<forall>e. fst (DeleteCampus cd io d) = Inl e \<longrightarrow> snd (DeleteCampus cd io d) = d)"
  using DeleteCampus_placed [OF assms(1)] DeleteCampus_inv [OF assms(2)] DeleteCampus_error [of cd io d]
  by (metis prod.collapse)

theorem campus_deletion_leaves_no_dangling_probe_witness:
  "probes_placed (snd (DeleteCampus ''a'' no_faults sample_db))"
proof -
  have "probes_placed sample_db" by (simp add: probes_placed_def sample_db_def sample_probe_row_def)
  moreover have "catalog_inv sample_db" using sample_store_inv by (simp add: store_inv_def)
  ultimately show ?thesis using campus_deletion_leaves_no_dangling_probe by blast
qed

text \<open>After a token is rotated the new token authenticates the same probe and the old one
  authenticates nobody.\<close>

theorem rotation_revokes_old_token:
  assumes "UpdateProbeToken now pid hash io d = (Inr u, d')" "probes_inv d" "r \<in> set (db_probes d)"
    "pr_probe_id r = pid" "pr_token_hash r \<noteq> hash"
  shows "(\<exists>p. ProbeByTokenHash hash no_faults d' = Inr p \<and> p_ProbeID p = pid) \<and>
         ProbeByTokenHash (pr_token_hash r) no_faults d' = Inl ErrNotFound"
  using UpdateProbeToken_rotates [OF assms(1-4)] assms(5) by simp

theorem rotation_revokes_old_token_witness:
  "ProbeByTokenHash (Hash ''tok'') no_faults (snd (UpdateProbeToken 0 ''p1'' ''new'' no_faults sample_db)) = Inl ErrNotFound"
proof -
  obtain d' where d: "UpdateProbeToken 0 ''p1'' ''new'' no_faults sample_db = (Inr (), d')"
    by (simp add: UpdateProbeToken_def requireAffected_def count_rows_def sample_db_def sample_probe_row_def)
  have "length (Hash ''tok'') \<noteq> length ''new''" by simp
  then have "Hash ''tok'' \<noteq> ''new''" by metis
  then have "pr_token_hash sample_probe_row \<noteq> ''new''" by (simp add: sample_probe_row_def)
  moreover have "probes_inv sample_db" using sample_store_inv by (simp add: store_inv_def)
  moreover have "sample_probe_row \<in> set (db_probes sample_db)" "pr_probe_id sample_probe_row = ''p1''"
    by (simp_all add: sample_db_def sample_probe_row_def)
  ultimately have "ProbeByTokenHash (pr_token_hash sample_probe_row) no_faults d' = Inl ErrNotFound"
    using rotation_revokes_old_token [OF d] by blast
  then show ?thesis by (simp add: d) (simp add: sample_probe_row_def)
qed

section \<open>Measurement parameters\<close>

text \<open>C34: Parameters an administrator saves are what is dispatched from then on, number for
  number, and resetting returns to the protocol defaults; the JSON in between loses nothing.\<close>

theorem saved_parameters_are_dispatched:
  assumes "SetMeasurementConfig now cfg io d = (Inr u, d')" "config_typed cfg" "settings_inv d"
  shows "MeasurementConfig no_faults d' = Inr (cfg, True) \<and> config_ok cfg \<and>
         MeasurementConfig no_faults (snd (ResetMeasurementConfig no_faults d')) = Inr (DefaultMeasurementConfig, False)"
proof -
  have get: "MeasurementConfig no_faults d' = Inr (cfg, True)"
    using assms by (rule SetMeasurementConfig_reads_back)
  have inv: "settings_inv d'"
    using assms SetSetting_inv [OF assms(3), of now measurementConfigKey "config_marshal cfg" io]
    by (auto simp: SetMeasurementConfig_def split: sum.splits)
  have "ResetMeasurementConfig no_faults d' = (Inr (), snd (ResetMeasurementConfig no_faults d'))"
    by (simp add: ResetMeasurementConfig_def DeleteSetting_def)
  from ResetMeasurementConfig_default [OF this inv] get MeasurementConfig_valid [OF get] show ?thesis by simp
qed

theorem saved_parameters_are_dispatched_witness:
  "MeasurementConfig no_faults (snd (SetMeasurementConfig 0 (DefaultMeasurementConfig\<lparr>mc_IntervalMS := 20000\<rparr>) no_faults sample_db))
   = Inr (DefaultMeasurementConfig\<lparr>mc_IntervalMS := 20000\<rparr>, True)"
proof -
  let ?c = "DefaultMeasurementConfig\<lparr>mc_IntervalMS := 20000\<rparr>"
  have "config_ok ?c" and typed: "config_typed ?c"
    by (simp_all add: config_ok_def config_typed_def DefaultMeasurementConfig_def dispatch_constants ICMPRoundMS_def
        wrap64_def int64_ok_def)
  then have "config_Validate ?c = Inr ()" by (simp add: gw_results)
  then obtain d' where d: "SetMeasurementConfig 0 ?c no_faults sample_db = (Inr (), d')"
    by (simp add: SetMeasurementConfig_def SetSetting_def)
  have "settings_inv sample_db" using sample_store_inv by (simp add: store_inv_def)
  from saved_parameters_are_dispatched [OF d typed this] d show ?thesis by simp
qed

text \<open>Whatever the settings row holds (nothing, garbage, or parameters edited by hand), what
  is dispatched satisfies every rule the protocol package states for parameters.\<close>

theorem dispatched_parameters_valid:
  assumes "MeasurementConfig io d = Inr (cfg, custom)"
  shows "config_Validate cfg = Inr () \<and> config_ok cfg \<and> (\<not> custom \<longrightarrow> cfg = DefaultMeasurementConfig)"
  using MeasurementConfig_valid [OF assms] assms
  by (auto simp: gw_results MeasurementConfig_def split: if_splits option.splits sum.splits)

theorem dispatched_parameters_valid_witness:
  "config_ok (fst (DefaultMeasurementConfig, False)) \<and>
   MeasurementConfig no_faults sample_db = Inr (DefaultMeasurementConfig, False)"
  using dispatched_parameters_valid [OF sample_config] sample_config by simp



text \<open>The order in which a caller lists the targets and their types does not change the ID,
  which always is 36 bytes long, within the 64 the push handler accepts.\<close>

theorem config_id_order_insensitive:
  assumes "distinct (map dt_TargetID ts)"
    "mset (map (\<lambda>t. (dt_TargetID t, dt_Address t, mset (dt_ProbeTypes t))) ts) =
     mset (map (\<lambda>t. (dt_TargetID t, dt_Address t, mset (dt_ProbeTypes t))) ts')"
  shows "ConfigID cfg ts = ConfigID cfg ts' \<and> length (ConfigID cfg ts) = 36 \<and> length (ConfigID cfg ts) \<le> MaxConfigIDLen"
proof -
  have "ConfigID cfg ts = ConfigID cfg ts'"
    by (simp only: ConfigID_def config_payload_def canonical_targets_mset [OF assms])
  then show ?thesis by (simp add: length_ConfigID MaxConfigIDLen_def)
qed

theorem config_id_order_insensitive_witness:
  "ConfigID DefaultMeasurementConfig
     [\<lparr>dt_TargetID = ''b'', dt_Address = ''x'', dt_ProbeTypes = [''icmp'', ''dns'']\<rparr>,
      \<lparr>dt_TargetID = ''a'', dt_Address = ''y'', dt_ProbeTypes = []\<rparr>] =
   ConfigID DefaultMeasurementConfig
     [\<lparr>dt_TargetID = ''a'', dt_Address = ''y'', dt_ProbeTypes = []\<rparr>,
      \<lparr>dt_TargetID = ''b'', dt_Address = ''x'', dt_ProbeTypes = [''dns'', ''icmp'']\<rparr>]"
  by (rule config_id_order_insensitive [THEN conjunct1]) simp_all

text \<open>C36: As long as the arithmetic of the round does not leave 64 bits, accepted parameters have
  a worst-case ICMP round that ends before the next cycle begins.\<close>

theorem accepted_round_fits_cycle:
  assumes "config_Validate c = Inr ()" "config_typed c" "exact_round c < 2 ^ 63"
  shows "exact_round c < mc_IntervalMS c \<and> ICMPRoundMS c = exact_round c"
proof -
  from assms(1) have ok: "config_ok c" by (simp add: gw_results)
  then have "0 < ic_Count (mc_ICMP c)" "0 \<le> ic_IntervalMS (mc_ICMP c)" "0 \<le> ic_TimeoutMS (mc_ICMP c)"
    by (simp_all add: config_ok_def)
  with ICMPRoundMS_exact [OF assms(2) _ _ _ assms(3)] round_fits_cycle [OF assms(2) ok assms(3)] show ?thesis by simp
qed

theorem accepted_round_fits_cycle_witness:
  "exact_round DefaultMeasurementConfig < mc_IntervalMS DefaultMeasurementConfig"
proof -
  have "config_Validate DefaultMeasurementConfig = Inr ()" using default_config_ok by (simp add: gw_results)
  moreover have "exact_round DefaultMeasurementConfig < 2 ^ 63"
    by (simp add: exact_round_def DefaultMeasurementConfig_def dispatch_constants)
  ultimately show ?thesis using accepted_round_fits_cycle default_config_typed by blast
qed

end
