(* ===== verification/Operator_Properties.thy ===== *)
theory Operator_Properties
  imports Admin_Properties Store_Properties
begin

text \<open>
  The properties of what an operator does behind the login: how long a session is worth
  anything, what a removed or disabled probe leaves behind, the handover of a rotated token,
  what the parameter form can store, and what an import of buildings does.
\<close>

section \<open>Sessions\<close>

text \<open>C27: A session that was destroyed, never issued, or not used for its lifetime opens nothing
  any more, whatever requests follow in whatever order, until its ID is issued anew; while it
  lives, a use finds it and extends it by a full lifetime.\<close>

theorem ended_session_opens_nothing:
  assumes "sessions_inv s" "list_all (\<lambda>(t, a). \<not> issues_of sid a) evs"
  shows "sessions.gained sid evs (session_destroy sid s) = [] \<and>
    (session_of s sid = None \<longrightarrow> sessions.gained sid evs s = []) \<and>
    (\<forall>e t0. session_of s sid = Some e \<and> ss_expires e < t0 \<and> list_all (\<lambda>(t, a). t0 \<le> t) evs \<longrightarrow>
       sessions.gained sid evs s = []) \<and>
    (\<forall>e t. session_of s sid = Some e \<and> t \<le> ss_expires e \<and> sid \<noteq> [] \<longrightarrow>
       fst (session_get t sid s) = Some (e\<lparr>ss_expires := t + st_ttl s\<rparr>))"
proof (intro conjI allI impI)
  have wf: "wf_map (st_sessions s)" "wf_map (st_sessions (session_destroy sid s))"
    using assms(1) session_destroy_inv [OF assms(1), of sid] by (simp_all add: sessions_inv_def)
  show "sessions.gained sid evs (session_destroy sid s) = []"
    using sessions.absent_gains_nothing [OF wf(2) session_destroyed assms(2)] .
  show "sessions.gained sid evs s = []" if "session_of s sid = None"
    using sessions.absent_gains_nothing [OF wf(1) that assms(2)] .
  show "sessions.gained sid evs s = []"
    if "session_of s sid = Some e \<and> ss_expires e < t0 \<and> list_all (\<lambda>(t, a). t0 \<le> t) evs" for e t0
  proof (rule sessions.expired_gains_nothing [OF wf(1)])
    show "session_of s sid = Some e" "ss_expires e < t0" using that by simp_all
    show "list_all (\<lambda>(t, a). t0 \<le> t \<and> \<not> issues_of sid a) evs" using that assms(2) by (auto simp: list_all_iff)
  qed
  show "fst (session_get t sid s) = Some (e\<lparr>ss_expires := t + st_ttl s\<rparr>)"
    if "session_of s sid = Some e \<and> t \<le> ss_expires e \<and> sid \<noteq> []" for e t
    using that by (simp add: session_get_def session_of_def Let_def)
qed

theorem ended_session_opens_nothing_witness:
  "sessions.gained ''sid'' [(5, Redeem ''sid''), (6, Redeem ''other'')] (session_destroy ''sid'' (gs_sessions sample_gateway)) = []"
  using ended_session_opens_nothing [of "gs_sessions sample_gateway" "''sid''" "[(5, Redeem ''sid''), (6, Redeem ''other'')]"]
    sample_gateway_inv(2) by (simp add: memory_inv_def)

section \<open>Probes\<close>

text \<open>Nobody is left who could push as the probe.\<close>

definition no_enabled_probe :: "string \<Rightarrow> db \<Rightarrow> bool" where
  "no_enabled_probe pid d \<longleftrightarrow> (\<forall>r \<in> set (db_probes d). pr_probe_id r = pid \<longrightarrow> pr_enabled r = 0)"

definition bucket_of :: "('b, 'm) api_state_scheme \<Rightarrow> string \<Rightarrow> 'b option" where
  "bucket_of st pid = Option.bind (as_limiter st) (\<lambda>l. map_of (lim_buckets l) pid)"

lemma forget_probe_forgets:
  fixes st :: "('b, 'm) gateway_state_scheme"
  shows "latest_Get (as_latest (forget_probe pid st)) q = (if q = pid then None else latest_Get (as_latest st) q)"
    "bucket_of (forget_probe pid st) q = (if q = pid then None else bucket_of st q)"
    "as_db (forget_probe pid st) = as_db st"
  by (simp_all add: forget_probe_def latest_Get_Delete bucket_of_def lim_Remove_def map_of_del split: option.split)
    (cases "as_limiter st", simp_all add: map_of_del lim_Remove_def)

text \<open>C28: After an operator deletes or disables a probe the gateway holds nothing of it in memory, so
  the next scrape shows no measurement of it and a probe of the same name starts with a full
  budget; the results and budgets of every other probe are untouched.\<close>

theorem removed_probe_leaves_no_memory:
  fixes st :: "('b, 'm) gateway_state_scheme"
  assumes run: "(Redirect ''/admin'', st') \<in> {handleProbeToggle now io pid rq st, handleProbeDelete io pid rq st}"
    and off: "no_enabled_probe pid (as_db st')"
  shows "latest_Get (as_latest st') pid = None \<and> bucket_of st' pid = None \<and>
    (\<forall>q. q \<noteq> pid \<longrightarrow> latest_Get (as_latest st') q = latest_Get (as_latest st) q \<and> bucket_of st' q = bucket_of st q)"
proof -
  let ?fresh = "\<lambda>d. st' = forget_probe pid (st\<lparr>as_db := d\<rparr>)"
  have "\<exists>d. ?fresh d"
  proof (cases "(Redirect ''/admin'', st') = handleProbeDelete io pid rq st")
    case True
    then show ?thesis
      by (auto simp: handleProbeDelete_def Redirect_def NotFound_def internal_error_def http_Error_def web_status_defs
          split: prod.splits sum.splits store_error.splits)
  next
    case False
    with run have t: "handleProbeToggle now io pid rq st = (Redirect ''/admin'', st')" by auto
    then obtain p d where p: "GetProbe pid (io 0) (as_db st) = Inr p"
      "SetProbeEnabled now pid (\<not> p_Enabled p) (io 1) (as_db st) = (Inr (), d)"
      "st' = (if p_Enabled p then forget_probe pid (st\<lparr>as_db := d\<rparr>) else st\<lparr>as_db := d\<rparr>)"
      by (auto simp: handleProbeToggle_def Redirect_def NotFound_def internal_error_def http_Error_def web_status_defs Let_def
          split: prod.splits sum.splits store_error.splits)
    from GetProbe_sound [OF p(1)] obtain r where r: "r \<in> set (db_probes (as_db st))" "pr_probe_id r = pid" by auto
    have "p_Enabled p"
    proof (rule ccontr)
      assume off_before: "\<not> p_Enabled p"
      with p(2) have "db_probes d = update_rows (\<lambda>r. pr_probe_id r = pid)
          (\<lambda>r. r\<lparr>pr_enabled := boolToInt True, pr_updated_at := unix_seconds now\<rparr>) (db_probes (as_db st))"
        by (auto simp: SetProbeEnabled_def split: if_splits)
      then have "r\<lparr>pr_enabled := 1, pr_updated_at := unix_seconds now\<rparr> \<in> set (db_probes d)"
        using r by (auto simp: update_rows_set boolToInt_def)
      with off p(3) off_before r(2) show False by (auto simp: no_enabled_probe_def)
    qed
    with p(3) show ?thesis by auto
  qed
  then obtain d where "?fresh d" ..
  then show ?thesis by (simp add: forget_probe_forgets) (simp add: bucket_of_def)
qed

theorem removed_probe_leaves_no_memory_witness:
  "latest_Get (as_latest (snd (handleProbeDelete (\<lambda>_. no_faults) ''p1'' sample_click sample_gateway))) ''p1'' = None \<and>
   latest_Get (as_latest sample_gateway) ''p1'' \<noteq> None"
proof -
  have db: "as_db sample_gateway = sample_db" by (simp add: sample_gateway_def)
  obtain d where d: "DeleteProbe ''p1'' no_faults sample_db = (Inr (), d)" "db_probes d = []"
    by (simp add: DeleteProbe_def requireAffected_def count_rows_def sample_db_def sample_probe_row_def)
  then have run: "handleProbeDelete (\<lambda>_. no_faults) ''p1'' sample_click sample_gateway =
      (Redirect ''/admin'', forget_probe ''p1'' (sample_gateway\<lparr>as_db := d\<rparr>))"
    by (simp add: handleProbeDelete_def db)
  have "latest_Get (as_latest (forget_probe ''p1'' (sample_gateway\<lparr>as_db := d\<rparr>))) ''p1'' = None"
  proof (rule removed_probe_leaves_no_memory [where now = 0 and io = "\<lambda>_. no_faults" and rq = sample_click
        and st = sample_gateway, THEN conjunct1])
    show "(Redirect ''/admin'', forget_probe ''p1'' (sample_gateway\<lparr>as_db := d\<rparr>)) \<in>
        {handleProbeToggle 0 (\<lambda>_. no_faults) ''p1'' sample_click sample_gateway,
         handleProbeDelete (\<lambda>_. no_faults) ''p1'' sample_click sample_gateway}" by (simp add: run)
    show "no_enabled_probe ''p1'' (as_db (forget_probe ''p1'' (sample_gateway\<lparr>as_db := d\<rparr>)))"
      using d(2) by (simp add: no_enabled_probe_def forget_probe_forgets)
  qed
  then show ?thesis by (simp add: run) (simp add: sample_gateway_def latest_Get_def)
qed

text \<open>C29: A rotation that ends in a redirect handed the probe over to a new token: the page it
  leads to holds that token for its minute, the token authenticates as the probe at once, the
  replaced one authenticates nobody, and no other probe's row changed.\<close>

theorem operator_rotation_hands_over:
  fixes st :: "('b, 'm) gateway_state_scheme"
  assumes run: "handleProbeRotate now io rnd pid rq st = (rs, st')" and status: "wp_Status rs = StatusSeeOther"
    and inv: "probes_inv (as_db st)" "wf_map (os_slots (ps_oneShot st))"
  shows "\<exists>tok slot. rs = Redirect (''/token/'' @ slot) \<and>
    slot_of (ps_oneShot st') slot = Some \<lparr>os_probeID = pid, os_value = tok, os_back = safeBackPath (''/admin/probes/'' @ pid),
       os_expires = now + os_ttl (ps_oneShot st)\<rparr> \<and>
    (\<exists>p. ProbeByTokenHash (Hash tok) no_faults (as_db st') = Inr p \<and> p_ProbeID p = pid) \<and>
    (\<forall>r \<in> set (db_probes (as_db st)). if pr_probe_id r = pid
       then pr_token_hash r \<noteq> Hash tok \<longrightarrow> ProbeByTokenHash (pr_token_hash r) no_faults (as_db st') = Inl ErrNotFound
       else r \<in> set (db_probes (as_db st')))"
proof -
  from run status obtain p where p: "GetProbe pid (io 0) (as_db st) = Inr p"
    by (cases "GetProbe pid (io 0) (as_db st)")
      (auto simp: handleProbeRotate_def NotFound_def internal_error_def web_status_defs split: store_error.splits)
  from run status p obtain tok where tok: "Generate (rnd 0) = Some tok"
    by (cases "Generate (rnd 0)") (auto simp: handleProbeRotate_def internal_error_def web_status_defs)
  obtain r0 d where u0: "UpdateProbeToken now pid (Hash tok) (io 1) (as_db st) = (r0, d)" by fastforce
  from run status p tok u0 have u: "UpdateProbeToken now pid (Hash tok) (io 1) (as_db st) = (Inr (), d)"
    by (cases r0) (auto simp: handleProbeRotate_def internal_error_def web_status_defs)
  obtain m0 os where m0: "putPair (rnd 10) now pid tok (''/admin/probes/'' @ pid) (ps_oneShot st) = (m0, os)" by fastforce
  from run status p tok u m0 obtain slot where m: "putPair (rnd 10) now pid tok (''/admin/probes/'' @ pid) (ps_oneShot st) = (Some slot, os)"
    and out: "rs = Redirect (''/token/'' @ slot)" "st' = st\<lparr>as_db := d, ps_oneShot := os\<rparr>"
    by (cases m0) (auto simp: handleProbeRotate_def MintTokenSlot_def internal_error_def web_status_defs)
  from GetProbe_sound [OF p] obtain r where r: "r \<in> set (db_probes (as_db st))" "pr_probe_id r = pid" by auto
  have slot: "slot_of os slot = Some \<lparr>os_probeID = pid, os_value = tok, os_back = safeBackPath (''/admin/probes/'' @ pid),
       os_expires = now + os_ttl (ps_oneShot st)\<rparr>"
    using putPair_issue [OF m] slots.issue_entries [OF inv(2)] by (simp add: issue_slot_def)
  have other: "q \<in> set (db_probes d)" if "q \<in> set (db_probes (as_db st))" "pr_probe_id q \<noteq> pid" for q
    using u that by (force simp: UpdateProbeToken_def update_rows_set split: if_splits)
  note rotated = UpdateProbeToken_rotates [OF u inv(1)]
  from rotated(1) [OF r] rotated(2) other slot out show ?thesis
    by (intro exI [of _ tok] exI [of _ slot]) auto
qed

lemma sample_rotate:
  "\<exists>tok slot st'. Generate (sample_rnd 0) = Some tok \<and> handleProbeRotate 0 (\<lambda>_. no_faults) sample_rnd ''p1'' sample_click sample_gateway =
     (Redirect (''/token/'' @ slot), st')"
proof -
  have db: "as_db sample_gateway = sample_db" by (simp add: sample_gateway_def)
  have p: "GetProbe ''p1'' no_faults sample_db = Inr (scanProbe sample_probe_row)"
    by (simp add: GetProbe_def select_probe_def sample_db_def sample_probe_row_def)
  obtain tok slot where tok: "Generate (sample_rnd 0) = Some tok" and slot: "randomString 32 (sample_rnd 10) = Some slot"
    by (simp add: Generate_def sample_rnd_def randomString_def)
  have "\<exists>d. UpdateProbeToken 0 ''p1'' h no_faults sample_db = (Inr (), d)" for h
    by (simp add: UpdateProbeToken_def requireAffected_def count_rows_def sample_db_def sample_probe_row_def)
  then obtain d where "UpdateProbeToken 0 ''p1'' (Hash tok) no_faults sample_db = (Inr (), d)" by blast
  with p tok slot show ?thesis
    by (simp add: handleProbeRotate_def db MintTokenSlot_def putPair_def) blast
qed

theorem operator_rotation_hands_over_witness:
  "\<exists>tok st'. Generate (sample_rnd 0) = Some tok \<and>
     st' = snd (handleProbeRotate 0 (\<lambda>_. no_faults) sample_rnd ''p1'' sample_click sample_gateway) \<and>
     (\<exists>tok' p. ProbeByTokenHash (Hash tok') no_faults (as_db st') = Inr p \<and> p_ProbeID p = ''p1'')"
proof -
  obtain tok slot st' where tok: "Generate (sample_rnd 0) = Some tok" and run:
    "handleProbeRotate 0 (\<lambda>_. no_faults) sample_rnd ''p1'' sample_click sample_gateway = (Redirect (''/token/'' @ slot), st')"
    using sample_rotate by blast
  have "probes_inv (as_db sample_gateway)" "wf_map (os_slots (ps_oneShot sample_gateway))"
    using sample_gateway_inv by (simp_all add: store_inv_def memory_inv_def slots_inv_def)
  from operator_rotation_hands_over [OF run _ this] tok run show ?thesis
    by (fastforce simp: Redirect_def)
qed

section \<open>Settings\<close>



section \<open>Imports\<close>

text \<open>The lines of a pasted text that an import has to deal with.\<close>

definition import_candidates :: "string \<Rightarrow> string list" where
  "import_candidates txt =
     filter (\<lambda>line. line \<noteq> [] \<and> \<not> has_prefix line ''#'') (map trim_space (split_on CHR 0x0A txt))"

lemma parse_lines_length:
  "length (parse_lines i raws gc gn) =
   length (filter (\<lambda>line. line \<noteq> [] \<and> \<not> has_prefix line ''#'') (map trim_space raws))"
  by (induction raws arbitrary: i) (simp_all add: Let_def)

text \<open>C31: An import deals with every line of the text that is neither blank nor a comment exactly
  once, as added, skipped or failed; what it reports as added is the number of new rows, each
  made from a well-formed line under a code the catalog did not have; no existing row changes;
  and importing the same text again adds nothing.\<close>

theorem import_accounts_for_every_line:
  assumes run: "import_lines now campus io 0 (parseBuildingImport txt gc gn) empty_report d = (Some report, d')"
  shows "report_size report = length (import_candidates txt) \<and>
    (\<exists>rows. d' = d\<lparr>db_buildings := db_buildings d @ rows\<rparr> \<and> length rows = ir_Added report \<and>
       import_rows campus (parseBuildingImport txt gc gn) rows d) \<and>
    (\<exists>report'. import_lines now' campus (\<lambda>_. no_faults) 0 (parseBuildingImport txt gc gn) empty_report d' = (Some report', d') \<and>
       ir_Added report' = 0 \<and> report_size report' = report_size report)"
proof -
  let ?lines = "parseBuildingImport txt gc gn"
  from import_lines_rows [OF run] obtain rows where rows: "d' = d\<lparr>db_buildings := db_buildings d @ rows\<rparr>"
    "import_rows campus ?lines rows d" by blast
  note report = import_lines_report [OF run]
  have len: "length ?lines = length (import_candidates txt)"
    by (simp add: parseBuildingImport_def import_candidates_def parse_lines_length)
  from report have known: "\<forall>e \<in> set ?lines. importable e \<longrightarrow> il_code e \<in> br_code ` set (db_buildings d')" by simp
  from report have size: "report_size report = length (import_candidates txt)" and added: "length rows = ir_Added report"
    by (simp_all add: len rows(1)) (simp_all add: empty_report_def report_size_def)
  have "\<exists>report'. import_lines now' campus (\<lambda>_. no_faults) 0 ?lines empty_report d' = (Some report', d') \<and> ir_Added report' = 0"
    by (simp add: import_lines_known [OF known]) (simp add: empty_report_def)
  then obtain report' where again: "import_lines now' campus (\<lambda>_. no_faults) 0 ?lines empty_report d' = (Some report', d')"
    "ir_Added report' = 0" by blast
  from import_lines_report [OF again(1)] size have "report_size report' = report_size report"
    by (simp add: len) (simp add: empty_report_def report_size_def)
  with size added rows again show ?thesis by blast
qed

theorem import_accounts_for_every_line_witness:
  "\<exists>report d'. import_lines 0 ''a'' (\<lambda>_. no_faults) 0 (parseBuildingImport ''b,B,g,G'' [] []) empty_report sample_db = (Some report, d') \<and>
     report_size report = length (import_candidates ''b,B,g,G'') \<and> ir_Skipped report = [''b'']"
proof -
  have "parseBuildingImport ''b,B,g,G'' [] [] =
      [\<lparr>il_line = 1, il_code = ''b'', il_name = ''B'', il_groupCode = ''g'', il_groupName = ''G'', il_problem = []\<rparr>]"
  proof -
    have "trim_space ''b,B,g,G'' = ''b,B,g,G''" "trim_space ''b'' = ''b''" "trim_space ''B'' = ''B''"
      "trim_space ''g'' = ''g''" "trim_space ''G'' = ''G''"
      by (simp_all add: trim_space_def trim_left.simps trim_end_rev.simps space_width_def space_width_end_def code_def)
    then show ?thesis by (simp add: parseBuildingImport_def Let_def parse_import_line_def field_separator_def has_prefix_def)
  qed
  moreover have "MatchString codePattern ''b''" "MatchString codePattern ''g''"
    unfolding codePattern_iff by (simp_all add: code_char_def is_lower_def code_def)
  moreover have "rune_count ''B'' = 1" "rune_count ''G'' = 1" by code_simp+
  ultimately have "\<exists>report. import_lines 0 ''a'' (\<lambda>_. no_faults) 0 (parseBuildingImport ''b,B,g,G'' [] []) empty_report sample_db =
      (Some report, sample_db) \<and> ir_Skipped report = [''b'']"
    by (simp add: line_failure_def validateBuildingFields_def validateBuildingGroup_def validateName_def CreateBuilding_def line_building_def sample_db_def empty_report_def
        Let_def)
  then obtain report where run: "import_lines 0 ''a'' (\<lambda>_. no_faults) 0 (parseBuildingImport ''b,B,g,G'' [] []) empty_report sample_db =
      (Some report, sample_db)" "ir_Skipped report = [''b'']" by blast
  with import_accounts_for_every_line [OF run(1)] show ?thesis by blast
qed

end
