(* ===== verification/Overlap_Properties.thy ===== *)
theory Overlap_Properties
  imports Gateway_Concurrent Operator_Properties Metrics_Properties
begin

text \<open>
  The properties of pushes that are served at the same time as each other, as registrations and as
  what an operator does.
\<close>

section \<open>Concrete inputs\<close>

definition sample_pushing :: push_call where
  "sample_pushing = \<lparr>pl_io = (\<lambda>_. no_faults), pl_rq = sample_push, pl_pc = PushStart\<rparr>"

text \<open>The sample push comes to its last step without changing anything but its own budget.\<close>

lemma sample_reaches_put:
  "\<exists>st. push_run 6 countdown_ops [] 0 sample_pushing PushStart sample_gateway = (AtPut (scanProbe sample_probe_row) sample_request, st) \<and>
     as_db st = sample_db"
proof -
  have six: "(6::nat) = Suc (Suc (Suc (Suc (Suc (Suc 0)))))" by simp
  have pre: "has_prefix ''Bearer tok'' bearerPrefix" "trim_prefix ''Bearer tok'' bearerPrefix = ''tok''"
    by (simp_all add: has_prefix_def trim_prefix_def bearerPrefix_def)
  have en: "pr_enabled sample_probe_row \<noteq> 0" by (simp add: sample_probe_row_def)
  have free: "with_limiter False (AuthFailureBlocked countdown_ops 0 ip) sample_gateway = (False, sample_gateway)" for ip
    by (simp add: with_limiter_def sample_gateway_def AuthFailureBlocked_def NewLimiter_def)
  have body: "ReadAll sample_push = BodyRead sample_body"
    by (simp add: ReadAll_def sample_push_def sample_body_def sample_json_def quote_def quote_body_plain
        plain_char_def code_def MaxBodyBytes_def)
  have ok: "fst (with_limiter True (Allow countdown_ops 0 ''p1'') sample_gateway)"
    by (simp add: with_limiter_def sample_gateway_def Allow_def NewLimiter_def countdown_ops_def Let_def)
  have db: "as_db sample_gateway = sample_db" by (simp add: sample_gateway_def)
  obtain targets where t: "DispatchTargets no_faults sample_db = Inr targets" using sample_dispatch by blast
  have v: "Validate sample_request [(''t1'', [(''dns'', True), (''icmp'', True)])] (ConfigID DefaultMeasurementConfig targets) = Inr ()"
    using Validate_iff [OF Decode_wf [OF sample_decodes]] sample_request_ok by simp
  have pid: "pr_probe_id sample_probe_row = ''p1''" by (simp add: sample_probe_row_def)
  have rq: "pl_rq sample_pushing = sample_push" "pl_io sample_pushing = (\<lambda>_. no_faults)" "rq_Authorization sample_push = ''Bearer tok''"
    by (simp_all add: sample_pushing_def sample_push_def)
  show ?thesis
    unfolding six
    by (simp add: push_run_at rq pre free sample_probe db en pid ok body sample_decodes with_limiter_frame
        sample_allowlist_db sample_config t v Let_def split_beta del: push_run.simps(2))
qed

section \<open>One push\<close>


section \<open>Pushes among other requests\<close>

text \<open>Steps of one push in a row are an execution in which the others wait.\<close>

lemma push_run_call [simp]: "push_run k ops tp now (t\<lparr>pl_pc := x\<rparr>) pc st = push_run k ops tp now t pc st"
  by (induction k arbitrary: pc st) (auto simp: split_beta)

lemma push_run_overlapping:
  "i < length ts \<Longrightarrow> ts ! i = Pushing t \<Longrightarrow> push_run k (ge_rate env) (ge_trusted env) now t (pl_pc t) st = (pc, st') \<Longrightarrow>
   (overlapping env)\<^sup>*\<^sup>* (ts, st) (ts[i := Pushing (t\<lparr>pl_pc := pc\<rparr>)], st')"
proof (induction k arbitrary: ts t st)
  case 0
  then have "ts[i := Pushing (t\<lparr>pl_pc := pc\<rparr>)] = ts" "st' = st" by (auto simp: list_update_same_conv)
  then show ?case by simp
next
  case (Suc k)
  obtain pc1 st1 where step: "push_step (ge_rate env) (ge_trusted env) now t (pl_pc t) st = (pc1, st1)" by fastforce
  let ?t = "t\<lparr>pl_pc := pc1\<rparr>" and ?ts = "ts[i := Pushing (t\<lparr>pl_pc := pc1\<rparr>)]"
  have "push_run k (ge_rate env) (ge_trusted env) now ?t (pl_pc ?t) st1 = (pc, st')" using Suc.prems step by simp
  from Suc.IH [OF _ _ this, of ?ts] Suc.prems(1) have "(overlapping env)\<^sup>*\<^sup>* (?ts, st1) (ts[i := Pushing (t\<lparr>pl_pc := pc\<rparr>)], st')" by simp
  with overlapping.push [OF Suc.prems(1,2) step] show ?case by (rule converse_rtranclp_into_rtranclp)
qed

text \<open>C13: However pushes, registrations and all other requests interleave, a step of a push changes
  no result in memory unless it is the one that answers 204.  A push answered 204 has been
  through four moments, in this order and at its own steps: at the first its token belonged to
  an enabled probe, and at the others the allowlist, the parameters and the targets were what
  its measurements satisfy every rule against; and the step replaces that probe's entry only.\<close>

theorem concurrent_push_accepted:
  assumes "(overlapping env)\<^sup>*\<^sup>* ([], st0) (ts, st)" "i < length ts" "ts ! i = Pushing t"
    "push_step (ge_rate env) (ge_trusted env) now t (pl_pc t) st = (pc, st')"
    "as_latest st' \<noteq> as_latest st \<or> pc = Answered rs \<and> rs_Status rs = StatusNoContent \<and> pl_pc t \<noteq> Answered rs"
  shows "\<exists>raw p req al cfg custom targets y1 y2 y3 y4.
     rq_Authorization (pl_rq t) = ''Bearer '' @ raw \<and> raw \<noteq> [] \<and> Decode (rq_Body (pl_rq t)) = Inr req \<and>
     (overlapping env)\<^sup>*\<^sup>* ([], st0) y1 \<and> at_call i t (AtLookup raw) y1 \<and>
       ProbeByTokenHash (Hash raw) (pl_io t 0) (as_db (snd y1)) = Inr p \<and> p_Enabled p \<and>
     (overlapping env)\<^sup>*\<^sup>* y1 y2 \<and> at_call i t (AtAllowlist p req) y2 \<and> Allowlist (pl_io t 1) (as_db (snd y2)) = Inr al \<and>
     (overlapping env)\<^sup>*\<^sup>* y2 y3 \<and> at_call i t (AtConfig p req al) y3 \<and>
       MeasurementConfig (pl_io t 2) (as_db (snd y3)) = Inr (cfg, custom) \<and>
     (overlapping env)\<^sup>*\<^sup>* y3 y4 \<and> at_call i t (AtTargets p req al cfg) y4 \<and>
       DispatchTargets (pl_io t 3) (as_db (snd y4)) = Inr targets \<and>
     (overlapping env)\<^sup>*\<^sup>* y4 (ts, st) \<and>
     request_ok req al (ConfigID cfg targets) \<and>
     pc = Answered \<lparr>rs_Status = StatusNoContent, rs_Body = None\<rparr> \<and> as_db st' = as_db st \<and>
     as_latest st' = latest_Put (p_ProbeID p) (req_Results req) now (as_latest st)"
proof -
  from push_step_latest [OF assms(4)] assms(5) obtain p req where put: "pl_pc t = AtPut p req"
    "as_latest st' = latest_Put (p_ProbeID p) (req_Results req) now (as_latest st)"
    "pc = Answered \<lparr>rs_Status = StatusNoContent, rs_Body = None\<rparr>" by auto
  have "judged env ([], st0) i t p req (ts, st)"
    using calls_inv_push [OF calls_inv_always [OF assms(1)] assms(2,3)] put(1) by simp
  then obtain y4 al cfg targets where y4: "configured env ([], st0) i t p req al cfg y4" "at_call i t (AtTargets p req al cfg) y4"
    "DispatchTargets (pl_io t 3) (as_db (snd y4)) = Inr targets" "Validate req al (ConfigID cfg targets) = Inr ()"
    "(overlapping env)\<^sup>*\<^sup>* y4 (ts, st)"
    unfolding judged_def by blast
  from y4(1) obtain y3 custom where y3: "listed env ([], st0) i t p req al y3" "at_call i t (AtConfig p req al) y3"
    "MeasurementConfig (pl_io t 2) (as_db (snd y3)) = Inr (cfg, custom)" "(overlapping env)\<^sup>*\<^sup>* y3 y4"
    unfolding configured_def by blast
  from y3(1) obtain y2 where y2: "looked_up env ([], st0) i t p y2" "decoded t req" "at_call i t (AtAllowlist p req) y2"
    "Allowlist (pl_io t 1) (as_db (snd y2)) = Inr al" "(overlapping env)\<^sup>*\<^sup>* y2 y3"
    unfolding listed_def by blast
  from y2(1) obtain y1 raw where y1: "(overlapping env)\<^sup>*\<^sup>* ([], st0) y1" "at_call i t (AtLookup raw) y1" "bearer t raw"
    "ProbeByTokenHash (Hash raw) (pl_io t 0) (as_db (snd y1)) = Inr p" "p_Enabled p" "(overlapping env)\<^sup>*\<^sup>* y1 y2"
    unfolding looked_up_def by blast
  have dec: "Decode (rq_Body (pl_rq t)) = Inr req" using y2(2) by (simp add: decoded_def)
  have ok: "request_ok req al (ConfigID cfg targets)" using Validate_iff [OF Decode_wf [OF dec]] y4(4) by simp
  have auth: "rq_Authorization (pl_rq t) = ''Bearer '' @ raw" "raw \<noteq> []"
    using y1(3) by (simp_all add: bearer_def bearerPrefix_def)
  from auth dec y1(1,2,4,5,6) y2(3,4,5) y3(2,3,4) y4(2,3,5) ok put(2,3) push_step_db [OF assms(4)]
  show ?thesis by blast
qed

lemma sample_overlap:
  assumes "ge_rate env = countdown_ops" "ge_trusted env = []"
  obtains st st' where "(overlapping env)\<^sup>*\<^sup>* ([], sample_gateway) ([Pushing (sample_pushing\<lparr>pl_pc := AtPut (scanProbe sample_probe_row) sample_request\<rparr>)], st)"
    "as_db st = sample_db" "push_step countdown_ops [] 0 sample_pushing (AtPut (scanProbe sample_probe_row) sample_request) st =
     (Answered \<lparr>rs_Status = StatusNoContent, rs_Body = None\<rparr>, st')"
proof -
  let ?pc = "AtPut (scanProbe sample_probe_row) sample_request"
  obtain st where st: "push_run 6 countdown_ops [] 0 sample_pushing PushStart sample_gateway = (?pc, st)" "as_db st = sample_db"
    using sample_reaches_put by blast
  have start: "pl_pc sample_pushing = PushStart" by (simp add: sample_pushing_def)
  have "overlapping env ([], sample_gateway) ([Pushing sample_pushing], sample_gateway)"
    using overlapping.arrive [of "Pushing sample_pushing" env "[]" sample_gateway] start by simp
  also have "(overlapping env)\<^sup>*\<^sup>* ([Pushing sample_pushing], sample_gateway) ([Pushing (sample_pushing\<lparr>pl_pc := ?pc\<rparr>)], st)"
    using push_run_overlapping [of 0 "[Pushing sample_pushing]" sample_pushing 6 env 0 sample_gateway ?pc st] st(1) start assms by simp
  finally have "(overlapping env)\<^sup>*\<^sup>* ([], sample_gateway) ([Pushing (sample_pushing\<lparr>pl_pc := ?pc\<rparr>)], st)" .
  with st(2) that show ?thesis by (simp add: answer_def accept_push_def)
qed

theorem concurrent_push_accepted_witness:
  "\<exists>(env :: int gateway_env) st p. (overlapping env)\<^sup>*\<^sup>* ([], sample_gateway)
       ([Pushing (sample_pushing\<lparr>pl_pc := AtPut (scanProbe sample_probe_row) sample_request\<rparr>)], st) \<and>
     (\<exists>y. (overlapping env)\<^sup>*\<^sup>* ([], sample_gateway) y \<and>
        ProbeByTokenHash (Hash ''tok'') no_faults (as_db (snd y)) = Inr p \<and> p_Enabled p)"
proof -
  let ?env = "\<lparr>ge_cfg = sample_cfg, ge_admin = sample_admin, ge_portal = (\<lambda>_ _. True), ge_rate = countdown_ops, ge_trusted = []\<rparr>"
  let ?t = "sample_pushing\<lparr>pl_pc := AtPut (scanProbe sample_probe_row) sample_request\<rparr>"
  have env: "ge_rate ?env = countdown_ops" "ge_trusted ?env = []" by simp_all
  obtain st st' where s: "(overlapping ?env)\<^sup>*\<^sup>* ([], sample_gateway) ([Pushing ?t], st)"
    "push_step countdown_ops [] 0 sample_pushing (AtPut (scanProbe sample_probe_row) sample_request) st =
       (Answered \<lparr>rs_Status = StatusNoContent, rs_Body = None\<rparr>, st')"
    using sample_overlap [of ?env, OF env] by blast
  from s(2) have step: "push_step (ge_rate ?env) (ge_trusted ?env) 0 ?t (pl_pc ?t) st = (Answered \<lparr>rs_Status = StatusNoContent, rs_Body = None\<rparr>, st')"
    by simp
  have rq: "rq_Authorization (pl_rq ?t) = ''Bearer tok''" "pl_io ?t 0 = no_faults" by (simp_all add: sample_pushing_def sample_push_def)
  from concurrent_push_accepted [OF s(1), of 0 ?t 0 _ st' "\<lparr>rs_Status = StatusNoContent, rs_Body = None\<rparr>", OF _ _ step] rq
  have "\<exists>y p. (overlapping ?env)\<^sup>*\<^sup>* ([], sample_gateway) y \<and> ProbeByTokenHash (Hash ''tok'') no_faults (as_db (snd y)) = Inr p \<and> p_Enabled p"
    by auto
  with s(1) show ?thesis by blast
qed

section \<open>A push that races a deletion\<close>

text \<open>C14: When an operator deletes a probe while a push of it has been judged but not yet recorded,
  the push is still answered 204 and its results stay in memory under an ID that no probe has,
  although a deletion is meant to clear them; no scrape shows them.\<close>

theorem push_races_deletion:
  assumes "handleProbeDelete io (p_ProbeID p) rq st = (Redirect ''/admin'', st1)"
    "push_step ops tp now t (AtPut p req) st1 = (pc, st2)" "Collect threshold now' io' st2 = (out, st3)"
  shows "latest_Get (as_latest st1) (p_ProbeID p) = None \<and>
    pc = Answered \<lparr>rs_Status = StatusNoContent, rs_Body = None\<rparr> \<and>
    latest_Get (as_latest st2) (p_ProbeID p) = Some \<lparr>e_Results = req_Results req, e_ServerReceivedAt = now\<rparr> \<and>
    p_ProbeID p \<notin> pr_probe_id ` set (db_probes (as_db st2)) \<and>
    filter (\<lambda>x. take 1 (s_Labels x) = [p_ProbeID p]) out = []"
proof -
  obtain u d where d: "DeleteProbe (p_ProbeID p) (io 0) (as_db st) = (Inr u, d)" "st1 = forget_probe (p_ProbeID p) (st\<lparr>as_db := d\<rparr>)"
    using assms(1) by (auto simp: handleProbeDelete_def Redirect_def NotFound_def internal_error_def http_Error_def web_status_defs
        split: prod.splits sum.splits store_error.splits)
  have gone: "p_ProbeID p \<notin> pr_probe_id ` set (db_probes d)"
    using d(1) by (auto simp: DeleteProbe_def split: if_splits)
  have db: "as_db st2 = d" using push_step_db [OF assms(2)] by (simp add: d(2) forget_probe_forgets)
  have "filter (\<lambda>x. take 1 (s_Labels x) = [p_ProbeID p]) out = []"
  proof (cases "ListProbes io' (as_db st2)")
    case (Inl e)
    with assms(3) show ?thesis by (simp add: Collect_def)
  next
    case (Inr ps)
    have "pr_probe_id x \<noteq> p_ProbeID p" if "x \<in> set (db_probes d)" for x using gone that by (metis imageI)
    then have "p_ProbeID q \<noteq> p_ProbeID p" if "q \<in> set ps" for q
      using Inr that by (auto simp: db ListProbes_def rows_by_def split: if_splits)
    with Collect_ok [OF Inr, of threshold now'] assms(3) probe_samples_id show ?thesis
      by (auto simp: scrape_of_def metric_def filter_empty_conv)
  qed
  with assms(2) gone show ?thesis
    by (auto simp: answer_def accept_push_def d(2) forget_probe_forgets db latest_Get_Put)
qed

theorem push_races_deletion_witness:
  "\<exists>st st1 st2. push_run 6 countdown_ops [] 0 sample_pushing PushStart sample_gateway = (AtPut (scanProbe sample_probe_row) sample_request, st) \<and>
     handleProbeDelete (\<lambda>_. no_faults) ''p1'' sample_click st = (Redirect ''/admin'', st1) \<and>
     push_step countdown_ops [] 0 sample_pushing (AtPut (scanProbe sample_probe_row) sample_request) st1 =
       (Answered \<lparr>rs_Status = StatusNoContent, rs_Body = None\<rparr>, st2) \<and>
     latest_Get (as_latest st1) ''p1'' = None \<and> latest_Get (as_latest st2) ''p1'' \<noteq> None \<and> db_probes (as_db st1) = []"
proof -
  let ?p = "scanProbe sample_probe_row"
  obtain st where st: "push_run 6 countdown_ops [] 0 sample_pushing PushStart sample_gateway = (AtPut ?p sample_request, st)"
    "as_db st = sample_db" using sample_reaches_put by blast
  have row: "pr_probe_id sample_probe_row = ''p1''" by (simp add: sample_probe_row_def)
  then have pid: "p_ProbeID ?p = ''p1''" by simp
  obtain d where d: "DeleteProbe ''p1'' no_faults sample_db = (Inr (), d)" "db_probes d = []"
    by (simp add: DeleteProbe_def requireAffected_def count_rows_def sample_db_def sample_probe_row_def)
  then have run: "handleProbeDelete (\<lambda>_. no_faults) (p_ProbeID ?p) sample_click st = (Redirect ''/admin'', forget_probe ''p1'' (st\<lparr>as_db := d\<rparr>))"
    by (simp add: handleProbeDelete_def st(2) row)
  obtain pc st2 where s: "push_step countdown_ops [] 0 sample_pushing (AtPut ?p sample_request) (forget_probe ''p1'' (st\<lparr>as_db := d\<rparr>)) = (pc, st2)"
    by fastforce
  obtain out st3 where c: "Collect 30 0 no_faults st2 = (out, st3)" by fastforce
  from push_races_deletion [OF run s c] run st(1) d(2) row s
  show ?thesis by (intro exI [of _ st] exI [of _ "forget_probe ''p1'' (st\<lparr>as_db := d\<rparr>)"] exI [of _ st2])
    (simp add: forget_probe_forgets del: push_step.simps)
qed

end
