(* ===== verification/Concurrent_Properties.thy ===== *)
theory Concurrent_Properties
  imports Portal_Concurrent Portal_Properties
begin

text \<open>
  The properties of registrations that are served at the same time: what holds of the cap on
  registered probes, and what the catalog loses when a registration races a deletion.
\<close>

section \<open>Concrete inputs\<close>

definition sample_call :: reg_call where
  "sample_call = \<lparr>rc_exec = \<lambda>_ _. True, rc_io = \<lambda>_. no_faults, rc_rnd = sample_rnd, rc_rq = sample_form, rc_pc = AtStart\<rparr>"

lemma sample_reaches_create:
  assumes "1 \<le> MaxProbes cfg" "as_db st = as_db sample_portal" "ps_limiter st = None"
  shows "\<exists>tok c b p. reg_run 7 ops cfg 0 sample_call AtStart st = (AtCreate maxAttempts 5 tok c b p, st) \<and>
    b_Code b = ''b'' \<and> p_BuildingCode p = ''b'' \<and> p_CampusCode p = ''a''"
proof -
  obtain b where b: "GetBuilding ''b'' no_faults (as_db sample_portal) = Inr b" "b_CampusCode b = ''a''" "b_Code b = ''b''"
    using sample_lookups(5) by blast
  have v: "validateRegistration \<lparr>f_campusCode = ''a'', f_buildingCode = ''b'', f_networkType = ''wired'', f_description = []\<rparr>
      no_faults (as_db sample_portal) = []" using sample_lookups(6) by (simp add: sample_form_of)
  have n: "CountProbes no_faults (as_db sample_portal) = Inr 0" by (simp add: CountProbes_def sample_portal_def)
  have seven: "(7::nat) = Suc (Suc (Suc (Suc (Suc (Suc (Suc 0))))))" by simp
  show ?thesis
    unfolding seven
    using assms by (simp add: reg_run_at reg_run.simps(2) [where pc = "AtCount f bd c" for f bd c] sample_call_def sample_lookups
        sample_form_of v b n register_allowed_def Generate_def sample_rnd_def new_probe_def sample_campus_def
        del: reg_run.simps(2))
qed

section \<open>Registrations at the same time\<close>


text \<open>C16: However registrations and other requests interleave, the table never holds more probes
  than the cap and one less than the number of registrations in flight, unless it did before;
  with one at a time the cap is exact.\<close>

theorem concurrent_registrations_bounded:
  assumes "(interleaved ops cfg)\<^sup>*\<^sup>* (ts, st) (ts', st')" "\<forall>t \<in> set ts. rc_pc t = AtStart"
  shows "length (db_probes (as_db st')) \<le>
     max (length (db_probes (as_db st))) (nat (MaxProbes cfg) + length ts - 1)"
proof -
  have "admitted_calls ts = 0" using assms(2) by (auto simp: admitted_calls_def admitted_call_def filter_empty_conv)
  then have "length (db_probes (as_db st)) + admitted_calls ts \<le>
      max (length (db_probes (as_db st))) (nat (MaxProbes cfg) + length ts - 1)" by simp
  from interleaved_counts [OF assms(1) this] show ?thesis by (elim conjE) simp
qed

theorem concurrent_registrations_bounded_witness:
  "\<exists>ts' st'. (interleaved countdown_ops (sample_cfg\<lparr>MaxProbes := 1\<rparr>))\<^sup>*\<^sup>*
       ([sample_call, sample_call], sample_portal\<lparr>ps_limiter := None\<rparr>) (ts', st') \<and>
     admitted_calls ts' = 2 \<and> length (db_probes (as_db st')) \<le> 2"
proof -
  let ?cfg = "sample_cfg\<lparr>MaxProbes := 1\<rparr>" and ?st = "sample_portal\<lparr>ps_limiter := None\<rparr>"
  obtain tok c b p where run: "reg_run 7 countdown_ops ?cfg 0 sample_call AtStart ?st = (AtCreate maxAttempts 5 tok c b p, ?st)"
    using sample_reaches_create [of ?cfg ?st countdown_ops] by auto
  let ?t = "sample_call\<lparr>rc_pc := AtCreate maxAttempts 5 tok c b p\<rparr>"
  have start: "rc_pc sample_call = AtStart" by (simp add: sample_call_def)
  have "(interleaved countdown_ops ?cfg)\<^sup>*\<^sup>* ([sample_call, sample_call], ?st) ([?t, sample_call], ?st)"
    using reg_run_interleaved [of 0 "[sample_call, sample_call]" 7 countdown_ops ?cfg 0 ?st] run start by simp
  also have "(interleaved countdown_ops ?cfg)\<^sup>*\<^sup>* ([?t, sample_call], ?st) ([?t, ?t], ?st)"
    using reg_run_interleaved [of 1 "[?t, sample_call]" 7 countdown_ops ?cfg 0 ?st] run start by simp
  finally have both: "(interleaved countdown_ops ?cfg)\<^sup>*\<^sup>* ([sample_call, sample_call], ?st) ([?t, ?t], ?st)" .
  from concurrent_registrations_bounded [OF both] start
  have "length (db_probes (as_db ?st)) \<le> 2" by (simp add: sample_portal_def)
  moreover have "admitted_calls [?t, ?t] = 2" by (simp add: admitted_calls_def admitted_call_def)
  ultimately show ?thesis using both by blast
qed

text \<open>C17: A registration that has looked its building up and a deletion of that building that is
  served before the probe is created both succeed, although a building in use cannot be
  deleted: the probe that results names a building the catalog does not have.\<close>

theorem registration_races_deletion:
  "\<exists>pc d st' slot. reg_run 7 countdown_ops sample_cfg 0 sample_call AtStart (sample_portal\<lparr>ps_limiter := None\<rparr>) =
       (pc, sample_portal\<lparr>ps_limiter := None\<rparr>) \<and>
     DeleteBuilding ''b'' no_faults (as_db sample_portal) = (Inr (), d) \<and>
     reg_run 2 countdown_ops sample_cfg 0 sample_call pc (sample_portal\<lparr>ps_limiter := None, as_db := d\<rparr>) =
       (Finished (Redirect (''/token/'' @ slot)), st') \<and>
     probes_placed (as_db sample_portal) \<and> \<not> probes_placed (as_db st')"
proof -
  let ?st = "sample_portal\<lparr>ps_limiter := None\<rparr>"
  obtain tok c b p where run: "reg_run 7 countdown_ops sample_cfg 0 sample_call AtStart ?st = (AtCreate maxAttempts 5 tok c b p, ?st)"
    "p_BuildingCode p = ''b''"
    using sample_reaches_create [of sample_cfg ?st countdown_ops] by (auto simp: sample_cfg_def)
  let ?d = "(as_db sample_portal)\<lparr>db_buildings := []\<rparr>"
  have del: "DeleteBuilding ''b'' no_faults (as_db sample_portal) = (Inr (), ?d)"
    by (simp add: DeleteBuilding_def BuildingProbeCount_def count_rows_def requireAffected_def sample_portal_def sample_db_def)
  obtain pid where pid: "generateProbeID (c_Code c) (b_Code b) (sample_rnd 5) = Some pid"
    by (simp add: generateProbeID_def sample_rnd_def)
  obtain made d where made: "CreateProbe 0 (p\<lparr>p_ProbeID := pid\<rparr>) no_faults ?d = (Inr made, d)"
    by (simp add: CreateProbe_def Let_def GetProbe_def select_probe_def new_probe_row_def sample_portal_def)
  have "db_buildings d = []" "\<exists>row \<in> set (db_probes d). pr_building_code row = ''b''"
    using CreateProbe_adds [OF made] run(2) by (auto simp: adds_probe_def)
  then have dangling: "\<not> probes_placed d" by (auto simp: probes_placed_def)
  obtain slot st' where mint: "MintTokenSlot (sample_rnd 10) 0 (p_ProbeID made) tok ''/'' (?st\<lparr>as_db := d\<rparr>) = (Some slot, st')"
    "as_db st' = d"
    by (auto simp: MintTokenSlot_def putPair_def randomString_def sample_rnd_def split_beta)
  have "reg_run 2 countdown_ops sample_cfg 0 sample_call (AtCreate maxAttempts 5 tok c b p) (?st\<lparr>as_db := ?d\<rparr>) =
      (Finished (Redirect (''/token/'' @ slot)), st')"
    using pid made mint(1) by (simp add: maxAttempts_def eval_nat_numeral sample_call_def)
  moreover have "probes_placed (as_db sample_portal)" by (simp add: probes_placed_def sample_portal_def)
  ultimately show ?thesis using run(1) del dangling mint(2) by (intro exI conjI) (assumption | simp)+
qed

end
