(* ===== verification/Gateway_Run.thy ===== *)
theory Gateway_Run
  imports Gateway_Invariants
begin

text \<open>
  \<open>run\<close> and \<open>main\<close> of \<open>cmd/gateway/main.go\<close> around the servers: the two goroutines that listen, the
  channel their failures go through, the signal, and the shutdown.  \<open>Gateway\<close> has the start and
  the requests.
\<close>

section \<open>The state of a run\<close>

datatype listener = PushListener | MetricsListener

text \<open>Where \<open>run\<close> is after the start; the errors of the shutdown are collected on the way.\<close>

datatype run_error =
    StartFailed start_error
  | ListenerFailed listener string
  | ShutdownFailed "(listener \<times> string) list"

datatype run_pc =
    Selecting
  | ShuttingPush
  | ShuttingMetrics "(listener \<times> string) list"
  | Ended "run_error option"

text \<open>\<open>rn_failure\<close> is the error a listener ended with, and \<open>rn_shutdown\<close> the one its shutdown returned.\<close>

record run_state =
  rn_running :: "listener \<Rightarrow> bool"
  rn_closed :: "listener \<Rightarrow> bool"
  rn_errCh :: "(listener \<times> string) list"
  rn_signalled :: bool
  rn_failure :: "listener \<Rightarrow> string option"
  rn_shutdown :: "listener \<Rightarrow> string option"
  rn_pc :: run_pc

definition errCh_capacity :: nat where "errCh_capacity = 2"

definition run_begin :: run_state where
  "run_begin = \<lparr>rn_running = (\<lambda>_. True), rn_closed = (\<lambda>_. False), rn_errCh = [], rn_signalled = False,
     rn_failure = (\<lambda>_. None), rn_shutdown = (\<lambda>_. None), rn_pc = Selecting\<rparr>"

text \<open>\<open>errors.Join\<close>: no error when there is none to join.\<close>

definition errors_Join :: "(listener \<times> string) list \<Rightarrow> run_error option" where
  "errors_Join errs = (if errs = [] then None else Some (ShutdownFailed errs))"

definition note_error :: "listener \<Rightarrow> string option \<Rightarrow> (listener \<times> string) list \<Rightarrow> (listener \<times> string) list" where
  "note_error l e errs = (case e of None \<Rightarrow> errs | Some msg \<Rightarrow> errs @ [(l, msg)])"

section \<open>The steps\<close>

text \<open>
  A goroutine ends when its listener does, and sends the error unless the server was shut down.
  Only a server that was told to shut down says so.
\<close>

inductive listener_step :: "run_state \<Rightarrow> run_state \<Rightarrow> bool" where
  failed: "rn_running s l \<Longrightarrow> length (rn_errCh s) < errCh_capacity \<Longrightarrow>
     listener_step s (s\<lparr>rn_running := (rn_running s)(l := False), rn_errCh := rn_errCh s @ [(l, msg)],
       rn_failure := (rn_failure s)(l := Some msg)\<rparr>)"
| closed: "rn_running s l \<Longrightarrow> rn_closed s l \<Longrightarrow> listener_step s (s\<lparr>rn_running := (rn_running s)(l := False)\<rparr>)"

text \<open>
  \<open>run\<close> itself: the first error ends it at once, a signal starts the shutdown of one server after
  the other; when both are ready the choice is open.  A \<open>Shutdown\<close> closes its listener when it
  is called and returns when the requests in flight are done or the time is up, with an error
  or without.
\<close>

inductive main_step :: "run_state \<Rightarrow> run_state \<Rightarrow> bool" where
  take_error: "rn_pc s = Selecting \<Longrightarrow> rn_errCh s = (l, msg) # ch \<Longrightarrow>
     main_step s (s\<lparr>rn_errCh := ch, rn_pc := Ended (Some (ListenerFailed l msg))\<rparr>)"
| take_signal: "rn_pc s = Selecting \<Longrightarrow> rn_signalled s \<Longrightarrow>
     main_step s (s\<lparr>rn_closed := (rn_closed s)(PushListener := True), rn_pc := ShuttingPush\<rparr>)"
| push_down: "rn_pc s = ShuttingPush \<Longrightarrow>
     main_step s (s\<lparr>rn_closed := (rn_closed s)(MetricsListener := True),
       rn_shutdown := (rn_shutdown s)(PushListener := e), rn_pc := ShuttingMetrics (note_error PushListener e [])\<rparr>)"
| metrics_down: "rn_pc s = ShuttingMetrics errs \<Longrightarrow>
     main_step s (s\<lparr>rn_shutdown := (rn_shutdown s)(MetricsListener := e),
       rn_pc := Ended (errors_Join (note_error MetricsListener e errs))\<rparr>)"

inductive run_step :: "run_state \<Rightarrow> run_state \<Rightarrow> bool" where
  listener: "listener_step s s' \<Longrightarrow> run_step s s'"
| main: "main_step s s' \<Longrightarrow> run_step s s'"
| signal: "run_step s (s\<lparr>rn_signalled := True\<rparr>)"

inductive_cases listener_step_cases: "listener_step s s'"
inductive_cases main_step_cases: "main_step s s'"
inductive_cases run_step_cases: "run_step s s'"

section \<open>What holds throughout\<close>

text \<open>
  Only listeners that have ended sent something, each at most once, so no send ever waits; an
  error that was taken was sent; the shutdown follows a signal.
\<close>

fun taken :: "run_pc \<Rightarrow> listener list" where
  "taken (Ended (Some (ListenerFailed l msg))) = [l]"
| "taken _ = []"

definition sent_by :: "run_state \<Rightarrow> listener list" where
  "sent_by s = map fst (rn_errCh s) @ taken (rn_pc s)"

fun phase_ok :: "run_state \<Rightarrow> run_pc \<Rightarrow> bool" where
  "phase_ok s Selecting \<longleftrightarrow> \<not> rn_closed s PushListener \<and> \<not> rn_closed s MetricsListener"
| "phase_ok s ShuttingPush \<longleftrightarrow> rn_signalled s \<and> rn_closed s PushListener \<and> \<not> rn_closed s MetricsListener"
| "phase_ok s (ShuttingMetrics errs) \<longleftrightarrow> rn_signalled s \<and> rn_closed s PushListener \<and> rn_closed s MetricsListener \<and>
     errs = note_error PushListener (rn_shutdown s PushListener) []"
| "phase_ok s (Ended None) \<longleftrightarrow> rn_signalled s \<and> rn_closed s PushListener \<and> rn_closed s MetricsListener \<and>
     rn_shutdown s PushListener = None \<and> rn_shutdown s MetricsListener = None"
| "phase_ok s (Ended (Some (ListenerFailed l msg))) \<longleftrightarrow> \<not> rn_closed s PushListener \<and> \<not> rn_closed s MetricsListener \<and>
     rn_failure s l = Some msg"
| "phase_ok s (Ended (Some (ShutdownFailed errs))) \<longleftrightarrow>
     rn_signalled s \<and> rn_closed s PushListener \<and> rn_closed s MetricsListener \<and> errs \<noteq> [] \<and>
     errs = note_error MetricsListener (rn_shutdown s MetricsListener)
       (note_error PushListener (rn_shutdown s PushListener) [])"
| "phase_ok s (Ended (Some (StartFailed e))) \<longleftrightarrow> False"

definition run_inv :: "run_state \<Rightarrow> bool" where
  "run_inv s \<longleftrightarrow> distinct (sent_by s) \<and> (\<forall>l \<in> set (sent_by s). \<not> rn_running s l) \<and>
     (\<forall>l. \<not> rn_running s l \<and> l \<notin> set (sent_by s) \<longrightarrow> rn_closed s l) \<and>
     (\<forall>(l, msg) \<in> set (rn_errCh s). rn_failure s l = Some msg) \<and> phase_ok s (rn_pc s)"

lemma all_listeners: "(\<forall>l. P l) \<longleftrightarrow> P PushListener \<and> P MetricsListener"
  by (metis listener.exhaust)

lemma two_listeners: "distinct (ls :: listener list) \<Longrightarrow> length ls \<le> 2"
proof -
  assume "distinct ls"
  then have "length ls = card (set ls)" by (simp add: distinct_card)
  also have "\<dots> \<le> card {PushListener, MetricsListener}"
    by (rule card_mono) (auto intro: listener.exhaust)
  finally show ?thesis by simp
qed

lemma run_inv_begin: "run_inv run_begin"
  by (simp add: run_inv_def run_begin_def sent_by_def)

lemma sent_room:
  assumes "run_inv s" "rn_running s l"
  shows "length (rn_errCh s) < errCh_capacity" "l \<notin> set (sent_by s)"
proof -
  show n: "l \<notin> set (sent_by s)" using assms by (auto simp: run_inv_def)
  then have "distinct (l # map fst (rn_errCh s))" using assms by (auto simp: run_inv_def sent_by_def)
  from two_listeners [OF this] show "length (rn_errCh s) < errCh_capacity" by (simp add: errCh_capacity_def)
qed

lemma phase_ok_keeps:
  assumes "phase_ok s pc" "rn_closed s' = rn_closed s" "rn_shutdown s' = rn_shutdown s"
    "rn_signalled s \<Longrightarrow> rn_signalled s'" "\<And>l. l \<in> set (taken pc) \<Longrightarrow> rn_failure s' l = rn_failure s l"
  shows "phase_ok s' pc"
  using assms by (cases "(s, pc)" rule: phase_ok.cases) auto

lemma listener_step_inv: "listener_step s s' \<Longrightarrow> run_inv s \<Longrightarrow> run_inv s'"
proof (induction rule: listener_step.induct)
  case (failed s l msg)
  let ?s = "s\<lparr>rn_running := (rn_running s)(l := False), rn_errCh := rn_errCh s @ [(l, msg)],
      rn_failure := (rn_failure s)(l := Some msg)\<rparr>"
  from sent_room(2) [OF failed(3,1)] have fresh: "l \<notin> fst ` set (rn_errCh s)" "l \<notin> set (taken (rn_pc s))"
    by (simp_all add: sent_by_def)
  then have "l' \<noteq> l" if "(l', m) \<in> set (rn_errCh s)" for l' m using that by force
  moreover have "phase_ok ?s (rn_pc s)"
    by (rule phase_ok_keeps [of s]) (use failed(3) fresh(2) in \<open>auto simp: run_inv_def\<close>)
  ultimately show ?case using failed(3) fresh by (auto simp: run_inv_def sent_by_def)
next
  case (closed s l)
  have "phase_ok (s\<lparr>rn_running := (rn_running s)(l := False)\<rparr>) (rn_pc s)"
    by (rule phase_ok_keeps [of s]) (use closed(3) in \<open>auto simp: run_inv_def\<close>)
  with sent_room(2) [OF closed(3,1)] closed(2,3) show ?case by (auto simp: run_inv_def sent_by_def)
qed

lemma main_step_inv: "main_step s s' \<Longrightarrow> run_inv s \<Longrightarrow> run_inv s'"
  by (induction rule: main_step.induct)
    (auto simp: run_inv_def sent_by_def note_error_def errors_Join_def map_eq_Cons_conv split: option.splits)

lemma run_step_inv: "run_step s s' \<Longrightarrow> run_inv s \<Longrightarrow> run_inv s'"
proof (induction rule: run_step.induct)
  case (signal s)
  have "phase_ok (s\<lparr>rn_signalled := True\<rparr>) (rn_pc s)"
    by (rule phase_ok_keeps [of s]) (use signal in \<open>auto simp: run_inv_def\<close>)
  with signal show ?case by (simp add: run_inv_def sent_by_def)
qed (blast intro: listener_step_inv main_step_inv)+

lemma runs_inv: "run_step\<^sup>*\<^sup>* run_begin s \<Longrightarrow> run_inv s"
  by (induction rule: rtranclp_induct) (auto intro: run_inv_begin run_step_inv)

section \<open>A run ends\<close>

text \<open>How many steps of its own are left to \<open>run\<close> at most.\<close>

fun steps_left :: "run_pc \<Rightarrow> nat" where
  "steps_left Selecting = 3"
| "steps_left ShuttingPush = 2"
| "steps_left (ShuttingMetrics errs) = 1"
| "steps_left (Ended r) = 0"

lemma main_step_progress: "main_step s s' \<Longrightarrow> steps_left (rn_pc s') < steps_left (rn_pc s)"
  by (induction rule: main_step.induct) simp_all

lemma listener_step_waits: "listener_step s s' \<Longrightarrow> rn_pc s' = rn_pc s"
  by (induction rule: listener_step.induct) simp_all

lemma main_step_enabled:
  assumes "run_inv s" "steps_left (rn_pc s) \<noteq> 0" "rn_signalled s \<or> \<not> rn_running s PushListener \<or> \<not> rn_running s MetricsListener"
  shows "\<exists>s'. main_step s s'"
proof (cases "rn_pc s")
  case Selecting
  show ?thesis
  proof (cases "rn_signalled s")
    case False
    with assms(3) obtain l where "\<not> rn_running s l" by blast
    with Selecting assms(1) have "l \<in> set (map fst (rn_errCh s))"
      by (cases l) (auto simp: run_inv_def sent_by_def)
    then obtain l' msg ch where "rn_errCh s = (l', msg) # ch" by (cases "rn_errCh s") auto
    with Selecting show ?thesis by (blast intro: main_step.take_error)
  qed (use Selecting in \<open>blast intro: main_step.take_signal\<close>)
qed (use assms(2) in \<open>auto intro: main_step.push_down main_step.metrics_down\<close>)

section \<open>The whole process\<close>

text \<open>
  One execution of the program over a database file: it does not start, or it serves requests
  until \<open>run\<close> returns.  The requests still in flight during a shutdown are among those served.
\<close>

inductive executes :: "'b rate_ops \<Rightarrow> db \<Rightarrow> run_error option \<Rightarrow> db \<Rightarrow> bool" for ops :: "'b rate_ops" where
  not_started: "run_start ops bcrypt errorText adminExec portalExec pick vars mkdir_fails ping_fails dwo dw d =
     (Inl e, d') \<Longrightarrow> picks pick \<Longrightarrow> executes ops d (Some (StartFailed e)) d'"
| returned: "run_start ops bcrypt errorText adminExec portalExec pick vars mkdir_fails ping_fails dwo dw d =
     (Inr (env, st, generated), d1) \<Longrightarrow> picks pick \<Longrightarrow> (gateway_step env)\<^sup>*\<^sup>* st st' \<Longrightarrow>
     run_step\<^sup>*\<^sup>* run_begin s \<Longrightarrow> rn_pc s = Ended r \<Longrightarrow> executes ops d r (as_db st')"

text \<open>\<open>main\<close>: the exit code, and whether \<open>fatal:\<close> is printed.\<close>

definition main_exit :: "run_error option \<Rightarrow> int \<times> bool" where
  "main_exit r = (case r of None \<Rightarrow> (0, False) | Some _ \<Rightarrow> (1, True))"

lemma migrate_keeps_placed:
  assumes "picks pick" "probes_placed d" "migrate pick now io d = (r, d1)"
  shows "probes_placed d1"
proof (cases "r = Inr ()")
  case True
  with migrate_placed [of pick d now io "()" d1] assms show ?thesis by simp
next
  case False
  show ?thesis
    using assms(3)
  proof (cases rule: migrate_cases)
    case (migrations e)
    with migrations_keep_placed [OF migrations(1)] assms(2) show ?thesis by simp
  next
    case (backfill e d2)
    with migrations_keep_placed [OF backfill(1)] assms(2)
    show ?thesis by (auto simp: backfillCatalog_def Let_def split: if_splits)
  next
    case (seed d2 d3)
    have "probes_placed d2" using migrations_keep_placed [OF seed(1)] assms(2) by simp
    then have "probes_placed d3" using backfill_keeps_placed [OF assms(1) _ seed(2)] by blast
    with seed_resume(3) [OF seed(3)] show ?thesis by (simp add: same_but_targets_def probes_placed_def)
  qed (use assms(2) in simp)
qed

lemma buildHandler_keeps:
  assumes "buildHandler ops bcrypt et ex pe cfg dw d = (r, d')" "store_inv d" "probes_placed d"
  shows "store_inv d' \<and> probes_placed d'"
proof -
  have "d' = d \<or> (\<exists>r. resolvePassword bcrypt cfg (dw_rnd dw 0) (dw_now dw) (dw_io dw) d = (r, d'))"
    using assms(1) by (auto simp: buildHandler_def admin_NewServer_def split: option.splits prod.splits)
  then consider "d' = d" | h where "d' = snd (SetSetting (dw_now dw) adminPasswordSettingKey h (dw_io dw 1) d)"
    using resolvePassword_settings by blast
  then show ?thesis
  proof cases
    case 2
    then have "store_inv d'" using assms(2) unfolding store_inv_def by (blast intro: inv_from_same store_frame SetSetting_inv)
    moreover have "same_probes d d'" "same_catalog d d'" using 2 by (auto simp: store_frame)
    ultimately show ?thesis using same_placed [of d d'] assms(3) by simp
  qed (use assms in simp)
qed

lemma run_start_keeps:
  assumes "run_start ops bcrypt et ex pe pick vars mk pf dwo dw d = (r, d')" "picks pick" "store_inv d" "probes_placed d"
  shows "store_inv d' \<and> probes_placed d'"
proof (cases "\<exists>cfg. Load vars = Inr cfg \<and> \<not> mk \<and> \<not> pf")
  case False
  with assms show ?thesis by (auto simp: run_start_def store_Open_def split: sum.splits if_splits)
next
  case True
  then obtain cfg where cfg: "Load vars = Inr cfg" "\<not> mk" "\<not> pf" by blast
  obtain r1 d1 where m: "migrate pick (dw_now dwo) (dw_io dwo) d = (r1, d1)" by fastforce
  obtain r2 d2 where b: "buildHandler ops bcrypt et ex pe cfg dw d1 = (r2, d2)" by fastforce
  have one: "store_inv d1" "probes_placed d1"
    using migrate_inv [OF assms(2,3), of "dw_now dwo" "dw_io dwo"] migrate_keeps_placed [OF assms(2,4) m] m by simp_all
  have "store_inv d2 \<and> probes_placed d2" using buildHandler_keeps [OF b] one by blast
  with one assms(1) cfg m b show ?thesis
    by (cases r1; cases r2) (auto simp: run_start_def store_Open_def)
qed

lemma run_start_state:
  assumes "run_start ops bcrypt et ex pe pick vars mk pf dwo dw d = (Inr (env, st, g), d')"
  shows "as_db st = d'"
  using assms by (auto simp: run_start_def dest: buildHandler_db(1) split: sum.splits prod.splits option.splits if_splits)

lemma executes_keeps: "executes ops d r d' \<Longrightarrow> store_inv d \<Longrightarrow> probes_placed d \<Longrightarrow> store_inv d' \<and> probes_placed d'"
proof (induction rule: executes.induct)
  case not_started
  then show ?case using run_start_keeps by blast
next
  case (returned bcrypt errorText adminExec portalExec pick vars mkdir_fails ping_fails dwo dw d env st generated d1 st' s r)
  have "store_inv (as_db st) \<and> probes_placed (as_db st)"
    using run_start_keeps [OF returned(1,2,6,7)] run_start_state [OF returned(1)] by simp
  with gateway_steps_ops [OF returned(3)] store_ops_inv store_ops_placed show ?case by blast
qed

lemma run_ends:
  assumes "run_inv s" "rn_signalled s \<or> \<not> rn_running s PushListener \<or> \<not> rn_running s MetricsListener"
  shows "\<exists>s' r. main_step\<^sup>*\<^sup>* s s' \<and> rn_pc s' = Ended r"
  using assms
proof (induction "steps_left (rn_pc s)" arbitrary: s rule: less_induct)
  case less
  show ?case
  proof (cases "steps_left (rn_pc s) = 0")
    case True
    then have "\<exists>r. rn_pc s = Ended r" by (cases "rn_pc s") auto
    then show ?thesis by blast
  next
    case False
    from main_step_enabled [OF less(2) False less(3)] obtain s1 where step: "main_step s s1" by blast
    have "rn_signalled s1 \<or> \<not> rn_running s1 PushListener \<or> \<not> rn_running s1 MetricsListener"
      using step less(3) by (auto elim: main_step_cases)
    from less(1) [OF main_step_progress [OF step] main_step_inv [OF step less(2)] this] step show ?thesis
      by (meson converse_rtranclp_into_rtranclp)
  qed
qed

end
