(* ===== verification/Run_Properties.thy ===== *)
theory Run_Properties
  imports Gateway_Run Gateway_Properties
begin

text \<open>
  The properties of the process around the servers: how a run ends, that it does, and what the
  database has been through when it is started again and again.
\<close>

section \<open>The end of a run\<close>

text \<open>C23: \<open>run\<close> returns no error only after a signal and a shutdown of both servers without errors;
  it returns the error of a listener only when that listener ended with that error before any
  shutdown; and the errors of a shutdown are all that the two servers returned, in their
  order.  The process exits with 0 exactly in the first case.\<close>

theorem run_result_faithful:
  assumes "run_step\<^sup>*\<^sup>* run_begin s" "rn_pc s = Ended r"
  shows "(main_exit r = (0, False) \<longleftrightarrow> r = None) \<and>
    (case r of
       None \<Rightarrow> rn_signalled s \<and> (\<forall>l. rn_closed s l \<and> rn_shutdown s l = None)
     | Some (ListenerFailed l msg) \<Rightarrow> \<not> rn_running s l \<and> rn_failure s l = Some msg \<and> (\<forall>l. \<not> rn_closed s l)
     | Some (ShutdownFailed errs) \<Rightarrow> rn_signalled s \<and> (\<forall>l. rn_closed s l) \<and> errs \<noteq> [] \<and>
         errs = List.map_filter (\<lambda>l. map_option (Pair l) (rn_shutdown s l)) [PushListener, MetricsListener]
     | Some (StartFailed e) \<Rightarrow> False)"
proof -
  from runs_inv [OF assms(1)] have inv: "run_inv s" .
  show ?thesis
  proof (cases r)
    case None
    with inv assms(2) show ?thesis by (auto simp: run_inv_def main_exit_def all_listeners)
  next
    case (Some e)
    with inv assms(2) show ?thesis
      by (cases e) (auto simp: run_inv_def sent_by_def main_exit_def all_listeners note_error_def map_filter_simps
          split: option.split)
  qed
qed

lemma sample_shutdown:
  "\<exists>s. run_step\<^sup>*\<^sup>* run_begin s \<and> rn_pc s = Ended None"
proof -
  let ?s1 = "run_begin\<lparr>rn_signalled := True\<rparr>"
  let ?s2 = "?s1\<lparr>rn_closed := (rn_closed ?s1)(PushListener := True), rn_pc := ShuttingPush\<rparr>"
  let ?s3 = "?s2\<lparr>rn_closed := (rn_closed ?s2)(MetricsListener := True), rn_shutdown := (rn_shutdown ?s2)(PushListener := None),
      rn_pc := ShuttingMetrics (note_error PushListener None [])\<rparr>"
  let ?s4 = "?s3\<lparr>rn_shutdown := (rn_shutdown ?s3)(MetricsListener := None), rn_pc := Ended (errors_Join (note_error MetricsListener None (note_error PushListener None [])))\<rparr>"
  have a: "run_step run_begin ?s1" by (rule run_step.signal)
  have b: "run_step ?s1 ?s2" by (rule run_step.main, rule main_step.take_signal) (simp_all add: run_begin_def)
  have c: "run_step ?s2 ?s3" by (rule run_step.main, rule main_step.push_down) simp
  have d: "run_step ?s3 ?s4" by (rule run_step.main, rule main_step.metrics_down) simp
  have "run_step\<^sup>*\<^sup>* run_begin ?s4"
    by (rule rtranclp.rtrancl_into_rtrancl, rule rtranclp.rtrancl_into_rtrancl, rule rtranclp.rtrancl_into_rtrancl,
        rule r_into_rtranclp) (fact a b c d)+
  moreover have "rn_pc ?s4 = Ended None" by (simp add: note_error_def errors_Join_def)
  ultimately show ?thesis by blast
qed

theorem run_result_faithful_witness:
  "\<exists>s. run_step\<^sup>*\<^sup>* run_begin s \<and> rn_pc s = Ended None \<and> rn_signalled s \<and> (\<forall>l. rn_closed s l)"
proof -
  obtain s where s: "run_step\<^sup>*\<^sup>* run_begin s" "rn_pc s = Ended None" using sample_shutdown by blast
  from run_result_faithful [OF this] s show ?thesis by auto
qed

text \<open>C24: Once a signal has arrived or a listener has ended, \<open>run\<close> can always go on until it returns,
  after at most three steps of its own, whatever the goroutines do in between; and no goroutine
  ever waits for room in the channel.\<close>

theorem run_returns:
  assumes "run_step\<^sup>*\<^sup>* run_begin s"
    "rn_signalled s \<or> \<not> rn_running s PushListener \<or> \<not> rn_running s MetricsListener"
  shows "(\<exists>s' r. main_step\<^sup>*\<^sup>* s s' \<and> rn_pc s' = Ended r) \<and> steps_left (rn_pc s) \<le> 3 \<and>
    (\<forall>s'. main_step s s' \<longrightarrow> steps_left (rn_pc s') < steps_left (rn_pc s)) \<and>
    (\<forall>s'. listener_step s s' \<longrightarrow> rn_pc s' = rn_pc s) \<and>
    (\<forall>l. rn_running s l \<longrightarrow> length (rn_errCh s) < errCh_capacity)"
proof -
  from runs_inv [OF assms(1)] have inv: "run_inv s" .
  have "steps_left (rn_pc s) \<le> 3" by (cases "rn_pc s") simp_all
  with run_ends [OF inv assms(2)] main_step_progress listener_step_waits sent_room(1) [OF inv] show ?thesis by blast
qed

theorem run_returns_witness:
  "\<exists>s' r. main_step\<^sup>*\<^sup>* (run_begin\<lparr>rn_signalled := True\<rparr>) s' \<and> rn_pc s' = Ended r"
proof -
  have "run_step\<^sup>*\<^sup>* run_begin (run_begin\<lparr>rn_signalled := True\<rparr>)" using run_step.signal by blast
  from run_returns [OF this] show ?thesis by simp
qed

section \<open>One execution after the other\<close>

text \<open>C25: However often the program is executed over its database file, and however each execution
  ends (a start that fails at any point, a listener that fails, a signal), and whatever requests
  are served one after the other in between, the file always satisfies the constraints of the schema and has every probe in a campus and a building of its
  catalog, if it did before the first execution, as an empty file does.\<close>

theorem database_survives_executions:
  assumes "(\<lambda>d d'. \<exists>r. executes ops d r d')\<^sup>*\<^sup>* d d'" "store_inv d" "probes_placed d"
  shows "store_inv d' \<and> probes_placed d'"
  using assms
proof (induction rule: rtranclp_induct)
  case (step d1 d2)
  then show ?case using executes_keeps by blast
qed simp

lemma sample_execution: "\<exists>d'. executes countdown_ops sample_file None d' \<and> db_probes d' = [sample_probe_row]"
proof -
  obtain env :: "int gateway_env" and st password d' where start:
    "run_start countdown_ops sample_bcrypt (\<lambda>_. []) (\<lambda>_ _. True) (\<lambda>_ _. True) sample_pick (\<lambda>_. []) False False
       calm_draws calm_draws sample_file = (Inr (env, st, password, password \<noteq> []), d')"
    and st: "as_db st = d'" "db_probes d' = [sample_probe_row]"
    using sample_start by metis
  obtain s where s: "run_step\<^sup>*\<^sup>* run_begin s" "rn_pc s = Ended None" using sample_shutdown by blast
  from executes.returned [OF start sample_picks rtranclp.rtrancl_refl s] st show ?thesis by auto
qed

theorem database_survives_executions_witness:
  "\<exists>d'. executes countdown_ops sample_file None d' \<and> db_probes d' \<noteq> [] \<and> store_inv d' \<and> probes_placed d'"
proof -
  obtain d' where e: "executes countdown_ops sample_file None d'" "db_probes d' = [sample_probe_row]" using sample_execution by blast
  then have "(\<lambda>d d'. \<exists>r. executes countdown_ops d r d')\<^sup>*\<^sup>* sample_file d'" by blast
  from database_survives_executions [OF this sample_file_settled(2,3)] e show ?thesis by auto
qed

end
