(* ===== verification/Web_Format.thy ===== *)
theory Web_Format
  imports Web_Base Metrics_Collector Go_Duration
begin

text \<open>
  \<open>FormatTime\<close> and \<open>FormatAge\<close> of \<open>internal/webui/webui.go\<close>, with the parts of \<open>time\<close> they
  use: the civil date of an instant, \<open>Duration.Round\<close> and \<open>Duration.String\<close>.
\<close>

section \<open>Civil dates\<close>

definition leap_year :: "int \<Rightarrow> bool" where
  "leap_year y \<longleftrightarrow> 4 dvd y \<and> (\<not> 100 dvd y \<or> 400 dvd y)"

text \<open>The days from 1970-01-01 to the first day of a year, by the Gregorian calendar.\<close>

definition days_before_year :: "int \<Rightarrow> int" where
  "days_before_year y = 365 * (y - 1970) + ((y - 1) div 4 - 492) - ((y - 1) div 100 - 19) + ((y - 1) div 400 - 4)"

lemma div_pred_int:
  fixes k y :: int
  assumes "0 < k"
  shows "y div k = (y - 1) div k + (if k dvd y then 1 else 0)"
proof (cases "k dvd y")
  case True
  then obtain q where "y = k * q" ..
  moreover have "(k * q - 1) div k = q - 1"
    using assms by (intro int_div_pos_eq [of _ _ _ "k - 1"]) (simp_all add: algebra_simps)
  ultimately show ?thesis using assms by simp
next
  case False
  then have "y mod k \<noteq> 0" by (simp add: dvd_eq_mod_eq_0)
  with assms have "0 < y mod k" "y mod k < k" using pos_mod_bound [of k y] pos_mod_sign [of k y] by linarith+
  moreover have "y - 1 = k * (y div k) + (y mod k - 1)" by simp
  ultimately have "(y - 1) div k = y div k" by (intro int_div_pos_eq [of _ _ _ "y mod k - 1"]) simp_all
  with False show ?thesis by simp
qed

lemma days_before_year_Suc:
  "days_before_year (y + 1) = days_before_year y + (if leap_year y then 366 else 365)"
proof -
  have leap: "100 dvd y \<Longrightarrow> 4 dvd y" "400 dvd y \<Longrightarrow> 100 dvd y" by (erule dvd_trans [rotated], simp)+
  note d = div_pred_int [of 4 y] div_pred_int [of 100 y] div_pred_int [of 400 y]
  have days: "days_before_year (y + 1) - days_before_year y =
      365 + (y div 4 - (y - 1) div 4) - (y div 100 - (y - 1) div 100) + (y div 400 - (y - 1) div 400)"
    by (simp add: days_before_year_def)
  consider "400 dvd y" "100 dvd y" "4 dvd y" | "\<not> 400 dvd y" "100 dvd y" "4 dvd y" | "\<not> 400 dvd y" "\<not> 100 dvd y" "4 dvd y"
    | "\<not> 400 dvd y" "\<not> 100 dvd y" "\<not> 4 dvd y"
    using leap by blast
  then show ?thesis using days d unfolding leap_year_def by cases simp_all
qed

text \<open>The last year that has begun on a day; the search starts at a year that cannot be later.\<close>

fun year_back :: "nat \<Rightarrow> int \<Rightarrow> int \<Rightarrow> int" where
  "year_back 0 y days = y"
| "year_back (Suc n) y days = (if days < days_before_year y then year_back n (y - 1) days else y)"

definition year_of :: "int \<Rightarrow> int" where
  "year_of days = (let y = 1970 + days div 365 in year_back (nat (y - 1970)) y days)"

definition month_lengths :: "int \<Rightarrow> int list" where
  "month_lengths y = [31, if leap_year y then 29 else 28, 31, 30, 31, 30, 31, 31, 30, 31, 30, 31]"

fun month_day :: "int \<Rightarrow> int list \<Rightarrow> int \<Rightarrow> int \<times> int" where
  "month_day m [] day = (m, day + 1)"
| "month_day m (l # ls) day = (if day < l then (m, day + 1) else month_day (m + 1) ls (day - l))"

definition civil_date :: "int \<Rightarrow> int \<times> int \<times> int" where
  "civil_date days = (let y = year_of days in (y, month_day 1 (month_lengths y) (days - days_before_year y)))"

text \<open>A number in at least \<open>w\<close> digits.\<close>

definition padded :: "nat \<Rightarrow> int \<Rightarrow> string" where
  "padded w n = (let s = itoa n in replicate (w - length s) CHR ''0'' @ s)"

text \<open>The layout \<open>2006-01-02 15:04:05 UTC\<close>, of a time from 1970 on.\<close>

definition format_utc :: "int \<Rightarrow> string" where
  "format_utc secs =
     (let (y, m, d) = civil_date (secs div 86400); s = secs mod 86400 in
      padded 4 y @ ''-'' @ padded 2 m @ ''-'' @ padded 2 d @ '' '' @
      padded 2 (s div 3600) @ '':'' @ padded 2 (s div 60 mod 60) @ '':'' @ padded 2 (s mod 60) @ '' UTC'')"

definition em_dash :: string where "em_dash = text_bytes [226, 128, 148]"

definition FormatTime :: "gotime \<Rightarrow> string" where
  "FormatTime tm =
     (case tm of
        None \<Rightarrow> em_dash
      | Some t \<Rightarrow> (if unix_seconds t \<le> 0 then em_dash else format_utc (unix_seconds t)))"

section \<open>Ages\<close>

definition maxDuration :: int where "maxDuration = 2 ^ 63 - 1"

text \<open>\<open>Duration.Round\<close> to a second: half away from zero, saturating where 64 bits overflow.\<close>

definition round_second :: "int \<Rightarrow> int" where
  "round_second d =
     (if d < 0 then
        (let r = (- d) mod Second in
         if 2 * r < Second then d + r
         else (let d1 = wrap64 (d - Second + r) in if d1 < d then d1 else - (2 ^ 63)))
      else
        (let r = d mod Second in
         if 2 * r < Second then d - r
         else (let d1 = wrap64 (d + Second - r) in if d1 > d then d1 else maxDuration)))"

text \<open>The digits of a fraction of \<open>prec\<close> places without trailing zeros, after a point if any are left.\<close>

definition fraction_digits :: "nat \<Rightarrow> int \<Rightarrow> string" where
  "fraction_digits prec f =
     (let ds = rev (dropWhile (\<lambda>c. c = CHR ''0'') (rev (padded prec f))) in if ds = [] then [] else CHR ''.'' # ds)"

text \<open>\<open>Duration.String\<close> of a duration that is zero or at least a second, as those that are left are.\<close>

definition duration_String :: "int \<Rightarrow> string" where
  "duration_String d =
     (if d = 0 then ''0s''
      else
        (let secs = d div Second; tail = itoa (secs mod 60) @ fraction_digits 9 (d mod Second) @ ''s'';
             mins = secs div 60; hours = mins div 60 in
         if mins = 0 then tail
         else if hours = 0 then itoa (mins mod 60) @ ''m'' @ tail
         else itoa hours @ ''h'' @ itoa (mins mod 60) @ ''m'' @ tail))"

definition never_text :: string where "never_text = text_bytes [228, 187, 142, 230, 156, 170]"
definition ago_text :: string where "ago_text = text_bytes [32, 229, 137, 141]"

definition FormatAge :: "gotime \<Rightarrow> int \<Rightarrow> string" where
  "FormatAge tm now =
     (case tm of
        None \<Rightarrow> never_text
      | Some t \<Rightarrow>
          (if unix_seconds t \<le> 0 then never_text
           else (let d = round_second (time_Sub now t) in duration_String (if d < 0 then 0 else d) @ ago_text)))"

section \<open>What is shown is right\<close>

lemma year_back_bounds:
  "days < days_before_year (y + 1) \<Longrightarrow> days_before_year (y - int n) \<le> days \<Longrightarrow>
   days_before_year (year_back n y days) \<le> days \<and> days < days_before_year (year_back n y days + 1)"
proof (induction n arbitrary: y)
  case (Suc n)
  then show ?case using Suc.IH [of "y - 1"] by (simp add: algebra_simps)
qed simp

lemma days_before_year_mono: "1970 \<le> y \<Longrightarrow> 365 * (y - 1970) \<le> days_before_year y"
proof (induction y rule: int_ge_induct)
  case base
  then show ?case by (simp add: days_before_year_def)
next
  case (step y)
  then show ?case by (simp add: days_before_year_Suc)
qed

lemma year_of_bounds:
  assumes "0 \<le> days"
  shows "days_before_year (year_of days) \<le> days \<and> days < days_before_year (year_of days + 1)"
proof -
  let ?y = "1970 + days div 365"
  have "days < 365 * (?y + 1 - 1970)" by presburger
  also have "\<dots> \<le> days_before_year (?y + 1)" using assms by (intro days_before_year_mono) (simp add: pos_imp_zdiv_nonneg_iff)
  finally have up: "days < days_before_year (?y + 1)" .
  have "?y - int (nat (?y - 1970)) = 1970" using assms by (simp add: pos_imp_zdiv_nonneg_iff)
  moreover have "days_before_year 1970 = 0" by (simp add: days_before_year_def)
  ultimately show ?thesis using year_back_bounds [OF up, of "nat (?y - 1970)"] assms by (simp add: year_of_def Let_def)
qed

lemma month_day_bounds:
  "0 \<le> day \<Longrightarrow> day < sum_list ls \<Longrightarrow> month_day m ls day = (m', d) \<Longrightarrow>
   m \<le> m' \<and> nat (m' - m) < length ls \<and> 1 \<le> d \<and> d \<le> ls ! nat (m' - m) \<and> day = sum_list (take (nat (m' - m)) ls) + d - 1"
proof (induction m ls day rule: month_day.induct)
  case (2 m l ls day)
  show ?case
  proof (cases "day < l")
    case True
    with 2 show ?thesis by auto
  next
    case False
    with 2 have "m + 1 \<le> m' \<and> nat (m' - (m + 1)) < length ls \<and> 1 \<le> d \<and> d \<le> ls ! nat (m' - (m + 1)) \<and>
        day - l = sum_list (take (nat (m' - (m + 1))) ls) + d - 1" by simp
    moreover from this have "nat (m' - m) = Suc (nat (m' - (m + 1)))" by linarith
    ultimately show ?thesis by simp
  qed
qed simp

lemma year_length: "sum_list (month_lengths y) = days_before_year (y + 1) - days_before_year y"
  by (simp add: days_before_year_Suc month_lengths_def)

text \<open>The date of a day is the one from which that many days have passed.\<close>

lemma civil_date_correct:
  assumes "0 \<le> days" "civil_date days = (y, m, d)"
  shows "1 \<le> m \<and> m \<le> 12 \<and> 1 \<le> d \<and> d \<le> month_lengths y ! nat (m - 1) \<and>
    days = days_before_year y + sum_list (take (nat (m - 1)) (month_lengths y)) + d - 1"
proof -
  from assms(2) have y: "y = year_of days" and md: "month_day 1 (month_lengths y) (days - days_before_year y) = (m, d)"
    by (auto simp: civil_date_def Let_def)
  from year_of_bounds [OF assms(1)] y year_length [of y]
  have "0 \<le> days - days_before_year y" "days - days_before_year y < sum_list (month_lengths y)" by simp_all
  from month_day_bounds [OF this md] have "1 \<le> m \<and> nat (m - 1) < length (month_lengths y) \<and> 1 \<le> d \<and>
      d \<le> month_lengths y ! nat (m - 1) \<and> days - days_before_year y = sum_list (take (nat (m - 1)) (month_lengths y)) + d - 1" .
  moreover have "length (month_lengths y) = 12" by (simp add: month_lengths_def)
  ultimately show ?thesis by auto
qed

text \<open>A probe whose clock runs ahead was heard of just now.\<close>

lemma FormatAge_future:
  "0 < unix_seconds t \<Longrightarrow> now \<le> t \<Longrightarrow> FormatAge (Some t) now = ''0s'' @ ago_text"
proof -
  assume "0 < unix_seconds t" "now \<le> t"
  moreover have "round_second d \<le> 0" if "- (2 ^ 63) \<le> d" "d \<le> 0" for d
    using that zmod_le_nonneg_dividend [of "- d" Second] by (auto simp: round_second_def Let_def Second_def)
  moreover have "- (2 ^ 63) \<le> time_Sub now t" "time_Sub now t \<le> 0" using \<open>now \<le> t\<close> by (simp_all add: time_Sub_def)
  ultimately have "round_second (time_Sub now t) \<le> 0" by blast
  with \<open>0 < unix_seconds t\<close> show ?thesis by (simp add: FormatAge_def duration_String_def Let_def)
qed


end
