(* ===== verification/Spec2Isabelle.thy ===== *)
theory Spec2Isabelle
  imports Push_Properties Portal_Properties Journey_Properties Overlap_Properties Concurrent_Properties Gateway_Properties Run_Properties Admin_Properties Operator_Properties Store_Properties Metrics_Properties Export_Properties Web_Format
begin

text \<open>
  A verification development for the netprobe gateway: a server that probes on a campus push
  their measurements to, that hands them the list of targets to measure, exports the latest
  results to Prometheus, and is managed through a public registration page and an
  administrator's pages.

  \<^bold>\<open>The program and the theories\<close>

  The program is one process over one SQLite database.  \<open>cmd/gateway/main.go\<close> loads the
  configuration, opens and migrates the database and builds three servers that share a store,
  the latest results in memory, a limiter and the one-shot token slots.  The theories follow
  this structure; a definition has the name of the Go function, method or type it models, with
  a prefix (\<open>lim_\<close>, \<open>latest_\<close>, \<open>session_\<close>, \<open>clientip_\<close>, \<open>admin_\<close>, \<open>portal_\<close>) where that name is
  taken, and a record has the fields of its struct behind a short prefix.

  \<^item> \<open>Gateway_Prelude\<close>: results, association lists as Go maps, the collections of the development.
  \<^item> \<open>Go_Bytes\<close>, \<open>Go_Strconv\<close>, \<open>Go_Float\<close>, \<open>Go_Hash\<close>, \<open>Go_JSON\<close>, \<open>Go_JSON_Values\<close>, \<open>Go_JSON_Roundtrip\<close>,
    \<open>Go_Mime\<close>, \<open>Go_Regexp\<close>, \<open>Go_URL\<close>, \<open>Go_Duration\<close>, \<open>Net_IP\<close>: what the program uses of Go's library:
    byte strings and runes, numbers, IEEE doubles with rounding, SHA-1 and SHA-256, the JSON
    scanner and decoder, media types, the regular expressions, query strings, durations and
    addresses.  All of it computes.
  \<^item> \<open>Protocol_Types\<close>, \<open>Protocol_Decode\<close>, \<open>Protocol_Validate\<close>, \<open>Protocol_Dispatch\<close>,
    \<open>Protocol_Config_JSON\<close>: \<open>internal/protocol\<close>, the request, its decoding and validation, the
    measurement parameters and the identity of a configuration.
  \<^item> \<open>Store_Base\<close>, \<open>Store_Probes\<close>, \<open>Store_Targets\<close>, \<open>Store_Catalog\<close>, \<open>Store_Settings\<close>, \<open>Store_Load\<close>,
    \<open>Store_Migrate\<close>, \<open>Store_Ops\<close>: \<open>internal/store\<close>.  The database is a record of its tables as lists of rows; a
    query is the function of the rows its SQL denotes, with the constraints of the schema.
    \<open>Store_Load\<close> reads the embedded migrations, and \<open>Store_Migrate\<close> applies them.
    \<open>Store_Ops\<close> is the step relation of everything that can change a database.
  \<^item> \<open>Latest_Store\<close>, \<open>Token\<close>, \<open>Client_IP\<close>, \<open>Config_Load\<close>: the packages of those names.
  \<^item> \<open>Api_Recorder\<close>, \<open>Api_Base\<close>, \<open>Api_Limiter\<close>, \<open>Api_Push\<close>: \<open>internal/api\<close>, its middleware, limits and
    handlers.  \<open>Push_Concurrent\<close> has the push handler again, one step for each of its calls.
  \<^item> \<open>Metrics_Collector\<close>: \<open>internal/metrics\<close>, a scrape as the list of samples it sends.
  \<^item> \<open>Web_Base\<close>, \<open>Web_Format\<close>: forms, cookies, answers and \<open>internal/webui\<close>.
  \<^item> \<open>Portal_OneShot\<close>, \<open>Portal_Limiter\<close>, \<open>Portal_Text\<close>, \<open>Portal_Register\<close>: \<open>internal/portal\<close>.
    \<open>Portal_Concurrent\<close> has the registration handler again, one step for each of its calls, and any
    number of handlers interleaved.
  \<^item> \<open>Admin_Session\<close>, \<open>Admin_Text\<close>, \<open>Admin_Base\<close>, \<open>Admin_Probes\<close>, \<open>Admin_Targets\<close>, \<open>Admin_Catalog\<close>,
    \<open>Admin_Buildings\<close>, \<open>Admin_Settings\<close>, \<open>Admin_Routes\<close>: \<open>internal/admin\<close>, with every route behind its
    guards.
  \<^item> \<open>Gateway\<close>, \<open>Gateway_Invariants\<close>: the wiring, the start of the program, its steps (one request
    at one of the two listeners each) and what every step keeps.  \<open>Gateway_Concurrent\<close> has any
    number of push and registration handlers in flight over one state, with the other requests
    in between.  \<open>Gateway_Run\<close> has the rest of \<open>run\<close> and \<open>main\<close>: the two goroutines that listen,
    the channel of their errors, the signal, the shutdown, and executions of the program one
    after the other over one database file.
  \<^item> \<open>Samples\<close> and the theories named \<open>_Properties\<close>: concrete inputs, and the properties with an
    instance of each that has hypotheses.

  \<^bold>\<open>The interfaces\<close>

  \<open>Keyed_Store\<close> states what a lookup returns after an insertion or a deletion; the latest
  results and the settings table are instances.  \<open>Expiring_Store\<close> states what a store of
  expiring secrets promises, and proves for any interleaving of uses what a secret can still
  obtain; the token slots (which in addition are used up) and the admin sessions are instances.

  \<^bold>\<open>How effects are modelled\<close>

  State is passed explicitly.  A handler takes the state of the servers and returns an answer
  and the new state.  What a request cannot know in advance is an argument: the clock, the
  random bytes of each draw (or the failure of the draw), and for each store call a function
  that says which of its database calls fail.  The theorems hold for all of them, so they cover
  every failing or interrupted database operation.  Errors are values: the left side of a sum,
  or no value for an option.  A transaction is applied as a whole or not at all.  64-bit integers
  are integers with the wrap-around written out where the code computes with them, and doubles
  are rationals rounded after every operation, with the special values apart.

  Loops are recursive functions that terminate.  Two need a bound beside their input:
  \<open>year_back\<close> is given the number of years since 1970, which it cannot exceed, and the address
  parser the number of fields of an address that are left.  \<open>create_attempts\<close> counts the five
  attempts of the code down and is characterised by \<open>creation_attempts_end\<close>.

  \<^bold>\<open>What the theorems show\<close>

  \<^item> Pushing (\<open>Push_Properties\<close>): what a 204 implies and that any other answer changes nothing;
    the request validator is equivalent to a specification without order or early exits and
    does not depend on the iteration order of maps; a probe that echoes the configuration it
    was served is never told it is stale; how authentication fails, and the limits on guessing.
  \<^item> Registration (\<open>Portal_Properties\<close>): a submission that is redirected created exactly one
    enabled probe of the catalog, whose token is shown by the page it leads to, at most once and
    only in its time; a valid submission succeeds while the database answers.
  \<^item> Registrations at the same time (\<open>Concurrent_Properties\<close>): the steps of a handler come to the
    handler, the cap is exceeded by at most one less than the registrations in flight, and a
    registration that races the deletion of its building leaves a probe without one.
  \<^item> Pushes at the same time (\<open>Overlap_Properties\<close>): the steps of a push come to the handler; in any
    interleaving a push answered 204 was authenticated and judged by what the database held at
    its own steps; one that is recorded after its probe was deleted leaves its results behind.
  \<^item> From end to end (\<open>Journey_Properties\<close>): who registers and opens the token page holds a token
    with which a push is accepted and shown by the metrics.
  \<^item> The process (\<open>Run_Properties\<close>): what \<open>run\<close> returns and when, that it returns, and that the
    database stays sound through any number of executions, however each of them ends.
  \<^item> The whole program (\<open>Gateway_Properties\<close>): the constraints and bounds that hold in every
    reachable state; a generated password survives restarts; an interrupted start is made up
    for by the next; the retry loop ends; the guard against trusting every proxy can be passed.
  \<^item> Management (\<open>Admin_Properties\<close>, \<open>Operator_Properties\<close>): nothing changes without a session and
    its CSRF token; ended sessions are worthless; what a removal, a rotation, the parameter form
    and an import do.
  \<^item> Data (\<open>Store_Properties\<close>): the dispatch list is exact and allowed, deletions leave nothing
    dangling, parameters survive their JSON, the hashed configuration determines the
    configuration, and accepted parameters fit their cycle.
  \<^item> Metrics (\<open>Metrics_Properties\<close>, \<open>Export_Properties\<close>): a scrape reports each probe from its own
    state alone and fits the declared descriptors; an accepted push is what the next scrape
    shows, and no reachable state exports an impossible value, however handlers overlap.

  \<^bold>\<open>Parameters\<close>

  Code outside the repository is a parameter: the token bucket of \<open>golang.org/x/time/rate\<close>
  (\<open>rate_ops\<close>, with \<open>rate_contract\<close> where a theorem needs that an exhausted bucket is empty),
  \<open>bcrypt\<close> (\<open>bcrypt_ops\<close>, with \<open>bcrypt_contract\<close>: a hash matches the password it was made from), the
  text of a database error, whether an HTML template executes, and the row SQLite chooses for
  the bare columns of a \<open>GROUP BY\<close> (\<open>pick\<close>, with \<open>picks\<close>: it is one of the group).  SHA-256 is
  computed; no theorem assumes that it is free of collisions.

  \<^bold>\<open>Not modelled\<close>

  \<^item> Logging, the text format of \<open>/metrics\<close> (\<open>promhttp\<close> writes it), the execution of the HTML
    templates, and the static files.
  \<^item> Sockets and the limits set on the two \<open>http.Server\<close>s.  That a listener ends, that a signal
    arrives and how a \<open>Shutdown\<close> ends are steps that may happen at any time; requests in flight
    during a shutdown are requests like others.
  \<^item> Concurrency below one request.  Every shared map is guarded by a lock that its operations
    hold throughout, so each operation is atomic.  A handler that makes several store calls is one
    step, but for pushes and registrations (\<open>Push_Concurrent\<close>, \<open>Portal_Concurrent\<close>,
    \<open>Gateway_Concurrent\<close>), so for the other handlers what happens between two of their calls is
    not covered; nor is a race inside one store operation that makes several calls to the
    database.
  \<^item> One request reads the clock once, but for the interleaved handlers, whose steps have each
    their own instant.
  \<^item> Percent-escapes in paths, the redirects of \<open>http.ServeMux\<close> and the answers it gives by
    itself: \<open>MuxAnswer\<close> stands for those.
  \<^item> What \<open>net/http\<close> does before a handler runs: reading the request and its header limits.
\<close>

end
